(* ===== verification/Prelude.thy ===== *)
theory Prelude
  imports Main "HOL-Library.State_Monad" "HOL-Library.Multiset"
begin

text \<open>
  Shared vocabulary of the development.

  \<^item> Go functions with effects are state-monad computations over an abstract world \<open>'w\<close>:
    \<open>('w, 'a) state\<close> of \<^theory_text>\<open>HOL-Library.State_Monad\<close>. The world holds everything outside the
    process (database, broker, Redis, HTTP peers, clock, random source), and every package
    that is not part of the repository is a parameter, a computation over that world.
  \<^item> \<open>wp m Q w\<close>: the computation \<open>m\<close>, started in world \<open>w\<close>, ends in a result and a world that
    satisfy \<open>Q\<close>. The contracts of the interfaces are stated with it and the collection
    \<open>wp_simps\<close> computes it through the control flow of a handler.
  \<^item> Go's \<open>int\<close>, \<open>int64\<close> and \<open>time.Duration\<close> are integers with the 64-bit wrap-around written
    out (\<open>i64\<close>). Instants (\<open>time.Time\<close>) are nanoseconds since the Unix epoch.
\<close>

named_theorems wp_simps "equations that push wp through a computation"
named_theorems gostd_simps "evaluation of the string and error primitives"

section \<open>Computations\<close>

type_synonym go_time = int
type_synonym duration = int

definition wp :: "('w, 'a) state \<Rightarrow> ('a \<Rightarrow> 'w \<Rightarrow> bool) \<Rightarrow> 'w \<Rightarrow> bool" where
  "wp m Q w = (case run_state m w of (a, w') \<Rightarrow> Q a w')"

definition keeps :: "('w \<Rightarrow> 'x) \<Rightarrow> ('w, 'a) state \<Rightarrow> bool" where
  "keeps obs m \<longleftrightarrow> (\<forall>w. obs (snd (run_state m w)) = obs w)"

text \<open>\<open>m\<close> leaves \<open>obs\<close> alone and its result satisfies \<open>good\<close>.\<close>

definition tame :: "('w \<Rightarrow> 'x) \<Rightarrow> ('a \<Rightarrow> bool) \<Rightarrow> ('w, 'a) state \<Rightarrow> bool" where
  "tame obs good m \<longleftrightarrow> (\<forall>w. wp m (\<lambda>r w'. obs w' = obs w \<and> good r) w)"

fun for_each :: "('x \<Rightarrow> ('w, unit) state) \<Rightarrow> 'x list \<Rightarrow> ('w, unit) state" where
  "for_each f [] = State_Monad.return ()"
| "for_each f (x # xs) = do { f x; for_each f xs }"

text \<open>The clock (\<open>time.Now\<close>), \<open>uuid.NewString\<close> and \<open>rand.Intn\<close>, which depend on the world.\<close>

record 'w runtime =
  time_Now :: "('w, go_time) state"
  uuid_NewString :: "('w, string) state"
  rand_Intn :: "int \<Rightarrow> ('w, int) state"

section \<open>64-bit integers\<close>

definition i64 :: "int \<Rightarrow> int" where
  "i64 x = (x + 2 ^ 63) mod 2 ^ 64 - 2 ^ 63"

definition is_i64 :: "int \<Rightarrow> bool" where
  "is_i64 x \<longleftrightarrow> - (2 ^ 63) \<le> x \<and> x < 2 ^ 63"

text \<open>\<open>Time.Sub\<close> saturates at the bounds of \<open>Duration\<close>.\<close>

definition Time_Sub :: "go_time \<Rightarrow> go_time \<Rightarrow> duration" where
  "Time_Sub t u = max (- (2 ^ 63)) (min (2 ^ 63 - 1) (t - u))"

section \<open>Lemmas on computations\<close>

lemma wp_return [wp_simps, simp]: "wp (State_Monad.return a) Q w = Q a w"
  by (simp add: wp_def)

lemma wp_bind [wp_simps, simp]:
  "wp (State_Monad.bind m f) Q w = wp m (\<lambda>a. wp (f a) Q) w"
  by (simp add: wp_def split: prod.splits)

lemma wp_bindI: "wp m (\<lambda>a. wp (f a) Q) w \<Longrightarrow> wp (State_Monad.bind m f) Q w"
  by simp

lemma wp_if [wp_simps]:
  "wp (if b then m else n) Q w = (if b then wp m Q w else wp n Q w)"
  by simp

lemma wp_run: "wp m Q w \<longleftrightarrow> (\<forall>a w'. run_state m w = (a, w') \<longrightarrow> Q a w')"
  by (auto simp: wp_def split: prod.splits)

lemma wpD: "wp m Q w \<Longrightarrow> run_state m w = (a, w') \<Longrightarrow> Q a w'"
  by (simp add: wp_def)

lemma wpI: "(\<And>a w'. run_state m w = (a, w') \<Longrightarrow> Q a w') \<Longrightarrow> wp m Q w"
  by (simp add: wp_run)

lemma wp_mono: "wp m P w \<Longrightarrow> (\<And>a w'. P a w' \<Longrightarrow> Q a w') \<Longrightarrow> wp m Q w"
  by (auto simp: wp_def split: prod.splits)

lemma wp_conj: "wp m P w \<Longrightarrow> wp m Q w \<Longrightarrow> wp m (\<lambda>a w'. P a w' \<and> Q a w') w"
  by (auto simp: wp_def split: prod.splits)

lemma wp_conj_eq: "wp m (\<lambda>a w'. P a w' \<and> Q a w') w \<longleftrightarrow> wp m P w \<and> wp m Q w"
  by (auto simp: wp_def split: prod.splits)

lemma keeps_wp: "keeps obs m \<longleftrightarrow> (\<forall>w. wp m (\<lambda>_ w'. obs w' = obs w) w)"
  by (simp add: keeps_def wp_def split: prod.splits) (metis prod.collapse snd_conv)

lemma keepsD: "keeps obs m \<Longrightarrow> run_state m w = (a, w') \<Longrightarrow> obs w' = obs w"
  by (metis keeps_def snd_conv)

lemma keeps_wpI: "keeps obs m \<Longrightarrow> (\<And>a w'. obs w' = obs w \<Longrightarrow> Q a w') \<Longrightarrow> wp m Q w"
  by (auto intro: wpI dest: keepsD)

lemma keeps_return [intro, simp]: "keeps obs (State_Monad.return a)"
  by (simp add: keeps_def)

lemma keeps_bind [intro]:
  "keeps obs m \<Longrightarrow> (\<And>a. keeps obs (f a)) \<Longrightarrow> keeps obs (State_Monad.bind m f)"
  by (simp add: keeps_def split: prod.splits) (metis prod.collapse snd_conv)

lemma keeps_for_each [intro]: "(\<And>x. keeps obs (f x)) \<Longrightarrow> keeps obs (for_each f xs)"
  by (induction xs) auto

lemma tameD: "tame obs good m \<Longrightarrow> run_state m w = (r, w') \<Longrightarrow> obs w' = obs w \<and> good r"
  unfolding tame_def by (blast dest: wpD)

lemma tame_keeps: "tame obs good m \<Longrightarrow> keeps obs m"
  by (auto simp: tame_def keeps_wp elim: wp_mono)

lemma keeps_tame: "keeps obs m \<Longrightarrow> tame obs (\<lambda>_. True) m"
  by (simp add: tame_def keeps_wp)

lemma tame_return [simp]: "tame obs good (State_Monad.return a) = good a"
  by (simp add: tame_def)

lemma tame_bind:
  assumes "tame obs P m" and "\<And>a. P a \<Longrightarrow> tame obs Q (f a)"
  shows "tame obs Q (State_Monad.bind m f)"
  unfolding tame_def wp_bind
proof
  fix w
  have "wp m (\<lambda>r w'. obs w' = obs w \<and> P r) w" using assms(1) by (simp add: tame_def)
  then show "wp m (\<lambda>a. wp (f a) (\<lambda>r w'. obs w' = obs w \<and> Q r)) w"
  proof (rule wp_mono)
    fix a v assume a: "obs v = obs w \<and> P a"
    then have "wp (f a) (\<lambda>r w'. obs w' = obs v \<and> Q r) v"
      using assms(2) [of a] unfolding tame_def by blast
    with a show "wp (f a) (\<lambda>r w'. obs w' = obs w \<and> Q r) v" by simp
  qed
qed

section \<open>Lemmas on 64-bit integers\<close>

lemma i64_id [simp]: "is_i64 x \<Longrightarrow> i64 x = x"
  by (simp add: i64_def is_i64_def)

lemma i64_range [simp]: "is_i64 (i64 x)"
proof -
  have "0 \<le> (x + 2 ^ 63) mod (2 ^ 64 :: int)" and "(x + 2 ^ 63) mod (2 ^ 64 :: int) < 2 ^ 64"
    by simp_all
  then show ?thesis by (simp add: i64_def is_i64_def)
qed

lemma is_i64_small: "0 \<le> x \<Longrightarrow> x \<le> y \<Longrightarrow> is_i64 y \<Longrightarrow> is_i64 x"
  by (simp add: is_i64_def)

end
