(* ===== verification/Go_Strings.thy ===== *)
theory Go_Strings
  imports Prelude "HOL-Library.Sublist"
begin

text \<open>
  The parts of Go's \<open>strings\<close>, \<open>strconv\<close> and \<open>unicode/utf8\<close> packages the program calls. A Go
  string is a sequence of bytes, here a \<open>string\<close> (a list of 8-bit characters), with text in
  UTF-8.

  \<^item> \<open>TrimSpace\<close> removes the UTF-8 encodings of the Unicode White\_Space runes at both ends.
  \<^item> \<open>ToUpper\<close> and \<open>ToLower\<close> are exact on ASCII and on the four non-ASCII runes whose simple case
    mapping is an ASCII letter (U+017F, U+0131; U+212A, U+0130). They copy the other non-ASCII
    runes, which Go maps to non-ASCII runes again: the program only compares the results with
    ASCII constants, and no such comparison can tell the difference.
  \<^item> \<open>rune_count\<close> is \<open>len([]rune(s))\<close>: Go's UTF-8 decoder, where each byte of an invalid
    sequence counts as one rune.
  \<^item> \<open>Quote\<close> is the \<open>%q\<close> verb: exact on ASCII and on invalid bytes; a valid multi-byte rune is
    copied (Go escapes those that are not printable).
\<close>

section \<open>Trimming\<close>

definition space_encodings :: "string list" where
  "space_encodings =
     [[CHR 0x09], [CHR 0x0A], [CHR 0x0B], [CHR 0x0C], [CHR 0x0D], [CHR 0x20],
      [CHR 0xC2, CHR 0x85], [CHR 0xC2, CHR 0xA0], [CHR 0xE1, CHR 0x9A, CHR 0x80],
      [CHR 0xE2, CHR 0x80, CHR 0x80], [CHR 0xE2, CHR 0x80, CHR 0x81],
      [CHR 0xE2, CHR 0x80, CHR 0x82], [CHR 0xE2, CHR 0x80, CHR 0x83],
      [CHR 0xE2, CHR 0x80, CHR 0x84], [CHR 0xE2, CHR 0x80, CHR 0x85],
      [CHR 0xE2, CHR 0x80, CHR 0x86], [CHR 0xE2, CHR 0x80, CHR 0x87],
      [CHR 0xE2, CHR 0x80, CHR 0x88], [CHR 0xE2, CHR 0x80, CHR 0x89],
      [CHR 0xE2, CHR 0x80, CHR 0x8A], [CHR 0xE2, CHR 0x80, CHR 0xA8],
      [CHR 0xE2, CHR 0x80, CHR 0xA9], [CHR 0xE2, CHR 0x80, CHR 0xAF],
      [CHR 0xE2, CHR 0x81, CHR 0x9F], [CHR 0xE3, CHR 0x80, CHR 0x80]]"

fun strip_prefix :: "string \<Rightarrow> string \<Rightarrow> string option" where
  "strip_prefix [] s = Some s"
| "strip_prefix (x # xs) [] = None"
| "strip_prefix (x # xs) (y # ys) = (if x = y then strip_prefix xs ys else None)"

fun strip_any :: "string list \<Rightarrow> string \<Rightarrow> string option" where
  "strip_any [] s = None"
| "strip_any (e # es) s = (case strip_prefix e s of None \<Rightarrow> strip_any es s | Some r \<Rightarrow> Some r)"

fun trim_by_fuel :: "nat \<Rightarrow> string list \<Rightarrow> string \<Rightarrow> string" where
  "trim_by_fuel 0 es s = s"
| "trim_by_fuel (Suc n) es s =
     (case strip_any es s of None \<Rightarrow> s | Some r \<Rightarrow> trim_by_fuel n es r)"

text \<open>Every encoding has at least one byte, so \<open>length s\<close> rounds remove all of them
  (\<open>trim_by_stuck\<close> below).\<close>

definition trim_by :: "string list \<Rightarrow> string \<Rightarrow> string" where
  "trim_by es s = trim_by_fuel (length s) es s"

definition TrimSpace :: "string \<Rightarrow> string" where
  "TrimSpace s = rev (trim_by (map rev space_encodings) (rev (trim_by space_encodings s)))"

section \<open>Case mapping\<close>

definition upper_byte :: "char \<Rightarrow> char" where
  "upper_byte c = (let n = (of_char c :: nat) in if 97 \<le> n \<and> n \<le> 122 then char_of (n - 32) else c)"

definition lower_byte :: "char \<Rightarrow> char" where
  "lower_byte c = (let n = (of_char c :: nat) in if 65 \<le> n \<and> n \<le> 90 then char_of (n + 32) else c)"

fun ToUpper :: "string \<Rightarrow> string" where
  "ToUpper [] = []"
| "ToUpper [a] = [upper_byte a]"
| "ToUpper (a # b # s) =
     (if a = CHR 0xC5 \<and> b = CHR 0xBF then CHR ''S'' # ToUpper s
      else if a = CHR 0xC4 \<and> b = CHR 0xB1 then CHR ''I'' # ToUpper s
      else upper_byte a # ToUpper (b # s))"

fun ToLower :: "string \<Rightarrow> string" where
  "ToLower [] = []"
| "ToLower [a] = [lower_byte a]"
| "ToLower (a # b # s) =
     (if a = CHR 0xC4 \<and> b = CHR 0xB0 then CHR ''i'' # ToLower s
      else if a = CHR 0xE2 \<and> b = CHR 0x84 \<and> s \<noteq> [] \<and> hd s = CHR 0xAA
      then CHR ''k'' # ToLower (tl s)
      else lower_byte a # ToLower (b # s))"

section \<open>UTF-8 decoding\<close>

definition in_range :: "nat \<Rightarrow> nat \<Rightarrow> char \<Rightarrow> bool" where
  "in_range lo hi c \<longleftrightarrow> lo \<le> of_char c \<and> of_char c \<le> hi"

text \<open>The width of the first rune of a non-empty string; 1 for a byte that starts no valid
  sequence.\<close>

definition rune_width :: "string \<Rightarrow> nat" where
  "rune_width s =
     (case s of
        a # b # c # d # _ \<Rightarrow>
          if in_range 0xC2 0xDF a \<and> in_range 0x80 0xBF b then 2
          else if (in_range 0xE0 0xE0 a \<and> in_range 0xA0 0xBF b
                   \<or> in_range 0xE1 0xEC a \<and> in_range 0x80 0xBF b
                   \<or> in_range 0xED 0xED a \<and> in_range 0x80 0x9F b
                   \<or> in_range 0xEE 0xEF a \<and> in_range 0x80 0xBF b) \<and> in_range 0x80 0xBF c then 3
          else if (in_range 0xF0 0xF0 a \<and> in_range 0x90 0xBF b
                   \<or> in_range 0xF1 0xF3 a \<and> in_range 0x80 0xBF b
                   \<or> in_range 0xF4 0xF4 a \<and> in_range 0x80 0x8F b)
                  \<and> in_range 0x80 0xBF c \<and> in_range 0x80 0xBF d then 4
          else 1
      | [a, b, c] \<Rightarrow>
          if in_range 0xC2 0xDF a \<and> in_range 0x80 0xBF b then 2
          else if (in_range 0xE0 0xE0 a \<and> in_range 0xA0 0xBF b
                   \<or> in_range 0xE1 0xEC a \<and> in_range 0x80 0xBF b
                   \<or> in_range 0xED 0xED a \<and> in_range 0x80 0x9F b
                   \<or> in_range 0xEE 0xEF a \<and> in_range 0x80 0xBF b) \<and> in_range 0x80 0xBF c then 3
          else 1
      | [a, b] \<Rightarrow> if in_range 0xC2 0xDF a \<and> in_range 0x80 0xBF b then 2 else 1
      | _ \<Rightarrow> 1)"

lemma rune_width_pos: "0 < rune_width s"
  by (simp add: rune_width_def split: list.splits)

function rune_count :: "string \<Rightarrow> nat" where
  "rune_count s = (if s = [] then 0 else Suc (rune_count (drop (rune_width s) s)))"
  by pat_completeness auto
termination
  by (relation "measure length") (auto simp: rune_width_pos)

declare rune_count.simps [simp del]

section \<open>Numbers, quoting, searching, joining\<close>

fun nat_digits :: "nat \<Rightarrow> string" where
  "nat_digits n =
     (if n < 10 then [char_of (48 + n)] else nat_digits (n div 10) @ [char_of (48 + n mod 10)])"

declare nat_digits.simps [simp del]

definition Itoa :: "int \<Rightarrow> string" where
  "Itoa i = (if i < 0 then CHR ''-'' # nat_digits (nat (- i)) else nat_digits (nat i))"

definition hex_digit :: "nat \<Rightarrow> char" where
  "hex_digit n = (if n < 10 then char_of (48 + n) else char_of (87 + n))"

definition quote_byte :: "char \<Rightarrow> string" where
  "quote_byte c =
     (let n = (of_char c :: nat) in
      if n = 7 then [CHR 0x5C, CHR ''a''] else if n = 8 then [CHR 0x5C, CHR ''b'']
      else if n = 9 then [CHR 0x5C, CHR ''t''] else if n = 10 then [CHR 0x5C, CHR ''n'']
      else if n = 11 then [CHR 0x5C, CHR ''v''] else if n = 12 then [CHR 0x5C, CHR ''f'']
      else if n = 13 then [CHR 0x5C, CHR ''r''] else if n = 34 then [CHR 0x5C, CHR 0x22]
      else if n = 92 then [CHR 0x5C, CHR 0x5C]
      else if 32 \<le> n \<and> n < 127 then [c]
      else [CHR 0x5C, CHR ''x'', hex_digit (n div 16), hex_digit (n mod 16)])"

function quote_runes :: "string \<Rightarrow> string" where
  "quote_runes s =
     (if s = [] then []
      else (if rune_width s = 1 then quote_byte (hd s) else take (rune_width s) s)
           @ quote_runes (drop (rune_width s) s))"
  by pat_completeness auto
termination
  by (relation "measure length") (auto simp: rune_width_pos)

declare quote_runes.simps [simp del]

definition Quote :: "string \<Rightarrow> string" where
  "Quote s = CHR 0x22 # quote_runes s @ [CHR 0x22]"

fun HasPrefix :: "string \<Rightarrow> string \<Rightarrow> bool" where
  "HasPrefix s p = (strip_prefix p s \<noteq> None)"

fun Contains :: "string \<Rightarrow> string \<Rightarrow> bool" where
  "Contains [] p = (p = [])"
| "Contains (c # s) p = (HasPrefix (c # s) p \<or> Contains s p)"

fun Join :: "string list \<Rightarrow> string \<Rightarrow> string" where
  "Join [] sep = []"
| "Join [x] sep = x"
| "Join (x # y # xs) sep = x @ sep @ Join (y # xs) sep"

section \<open>Lemmas on trimming\<close>

lemma strip_prefix_iff: "strip_prefix p s = Some r \<longleftrightarrow> s = p @ r"
  by (induction p s rule: strip_prefix.induct) auto

lemma strip_prefix_None: "strip_prefix p s = None \<longleftrightarrow> \<not> prefix p s"
  by (induction p s rule: strip_prefix.induct) auto

lemma strip_any_SomeD: "strip_any es s = Some r \<Longrightarrow> \<exists>e \<in> set es. s = e @ r"
  by (induction es) (auto simp: strip_prefix_iff split: option.splits)

lemma strip_any_None: "strip_any es s = None \<longleftrightarrow> (\<forall>e \<in> set es. \<not> prefix e s)"
  by (induction es) (auto simp flip: strip_prefix_None split: option.splits)

lemma trim_by_fuel_stuck:
  "[] \<notin> set es \<Longrightarrow> length s \<le> n \<Longrightarrow> strip_any es (trim_by_fuel n es s) = None"
proof (induction n arbitrary: s)
  case 0
  then show ?case by (auto simp: strip_any_None)
next
  case (Suc n)
  show ?case
  proof (cases "strip_any es s")
    case (Some r)
    then obtain e where "e \<in> set es" and s: "s = e @ r"
      by (blast dest: strip_any_SomeD)
    with Suc.prems have "length r \<le> n" by (cases e) auto
    with Suc Some show ?thesis by simp
  qed simp
qed

lemma trim_by_stuck: "[] \<notin> set es \<Longrightarrow> strip_any es (trim_by es s) = None"
  by (simp add: trim_by_def trim_by_fuel_stuck)

lemma trim_by_fuel_suffix: "suffix (trim_by_fuel n es s) s"
proof (induction n arbitrary: s)
  case (Suc n)
  then show ?case
    by (auto split: option.splits dest!: strip_any_SomeD intro: suffix_appendI)
qed simp

lemma trim_by_suffix: "suffix (trim_by es s) s"
  by (simp add: trim_by_def trim_by_fuel_suffix)

lemma trim_by_id: "strip_any es s = None \<Longrightarrow> trim_by es s = s"
  by (cases "length s") (simp_all add: trim_by_def)

lemma trim_by_Nil [simp]: "trim_by es [] = []"
  by (simp add: trim_by_def)

lemma no_empty_encoding [simp]: "[] \<notin> set space_encodings"
  by (simp add: space_encodings_def)

lemma TrimSpace_Nil [simp]: "TrimSpace [] = []"
  by (simp add: TrimSpace_def)

lemma TrimSpace_no_leading: "strip_any space_encodings (TrimSpace s) = None"
proof -
  let ?t = "trim_by space_encodings s"
  have "suffix (trim_by (map rev space_encodings) (rev ?t)) (rev ?t)"
    by (rule trim_by_suffix)
  then have "prefix (TrimSpace s) ?t"
    by (simp add: TrimSpace_def suffix_to_prefix)
  moreover have "strip_any space_encodings ?t = None"
    by (simp add: trim_by_stuck)
  ultimately show ?thesis
    by (auto simp: strip_any_None intro: prefix_order.trans)
qed

lemma TrimSpace_no_trailing: "strip_any (map rev space_encodings) (rev (TrimSpace s)) = None"
proof -
  have "[] \<notin> set (map rev space_encodings)" by auto
  then show ?thesis by (simp add: TrimSpace_def trim_by_stuck)
qed

lemma TrimSpace_idem [simp]: "TrimSpace (TrimSpace s) = TrimSpace s"
proof -
  have "trim_by space_encodings (TrimSpace s) = TrimSpace s"
    by (rule trim_by_id [OF TrimSpace_no_leading])
  moreover have "trim_by (map rev space_encodings) (rev (TrimSpace s)) = rev (TrimSpace s)"
    by (rule trim_by_id [OF TrimSpace_no_trailing])
  ultimately show ?thesis by (simp add: TrimSpace_def)
qed

text \<open>A string that starts and ends with a graphic ASCII character is not trimmed.\<close>

lemma space_encodings_ends:
  "e \<in> set space_encodings \<Longrightarrow> \<not> in_range 0x21 0x7E (hd e) \<and> \<not> in_range 0x21 0x7E (last e)"
  by (auto simp: space_encodings_def in_range_def)

lemma TrimSpace_graph:
  assumes "s \<noteq> []" and "in_range 0x21 0x7E (hd s)" and "in_range 0x21 0x7E (last s)"
  shows "TrimSpace s = s"
proof -
  have ne: "e \<noteq> []" if "e \<in> set space_encodings" for e
    using that no_empty_encoding by blast
  have "strip_any space_encodings s = None"
    unfolding strip_any_None
  proof (intro ballI notI)
    fix e assume e: "e \<in> set space_encodings" "prefix e s"
    then have "hd e = hd s" using ne [of e] by (auto simp: prefix_def)
    with e assms(2) space_encodings_ends [of e] show False by simp
  qed
  then have front: "trim_by space_encodings s = s" by (rule trim_by_id)
  have "strip_any (map rev space_encodings) (rev s) = None"
    unfolding strip_any_None
  proof (intro ballI notI)
    fix e assume e: "e \<in> set (map rev space_encodings)" "prefix e (rev s)"
    then obtain d where d: "e = rev d" "d \<in> set space_encodings" by auto
    have "hd e = last s" using e d ne [of d] assms(1) by (auto simp: prefix_def) (metis hd_append hd_rev rev_is_Nil_conv)
    moreover have "hd e = last d" using d ne [of d] by (simp add: hd_rev)
    ultimately show False using d assms(3) space_encodings_ends [of d] by simp
  qed
  then have "trim_by (map rev space_encodings) (rev s) = rev s" by (rule trim_by_id)
  with front show ?thesis by (simp add: TrimSpace_def)
qed

lemma TrimSpace_length: "length (TrimSpace s) \<le> length s"
proof -
  have "length (trim_by es t) \<le> length t" for es t
    using trim_by_suffix [of es t] by (simp add: suffix_length_le)
  then show ?thesis
    unfolding TrimSpace_def by (metis (full_types) length_rev order_trans)
qed

section \<open>Lemmas on numbers\<close>

lemma of_char_digit: "k < 10 \<Longrightarrow> of_char (char_of (48 + k :: nat)) = (48 + k :: nat)"
  by (simp add: take_bit_nat_eq_self)

lemma char_of_digit_inject [simp]:
  "m < 10 \<Longrightarrow> n < 10 \<Longrightarrow> char_of (48 + m) = char_of (48 + n) \<longleftrightarrow> m = (n :: nat)"
  by (metis add_left_cancel of_char_digit)

lemma nat_digits_not_Nil [simp]: "nat_digits n \<noteq> []"
  by (subst nat_digits.simps) simp

lemma nat_digits_inject: "nat_digits m = nat_digits n \<Longrightarrow> m = n"
proof (induction m arbitrary: n rule: nat_digits.induct)
  case (1 m)
  note eq = "1.prems"
  show ?case
  proof (cases "m < 10"; cases "n < 10")
    assume "m < 10" "n < 10"
    with eq show ?thesis by (simp add: nat_digits.simps [of m] nat_digits.simps [of n])
  next
    assume "m < 10" "\<not> n < 10"
    with eq show ?thesis
      by (metis append_is_Nil_conv append_butlast_last_id butlast.simps(2) butlast_snoc
          nat_digits.simps nat_digits_not_Nil)
  next
    assume "\<not> m < 10" "n < 10"
    with eq show ?thesis
      by (metis append_is_Nil_conv append_butlast_last_id butlast.simps(2) butlast_snoc
          nat_digits.simps nat_digits_not_Nil)
  next
    assume m: "\<not> m < 10" and n: "\<not> n < 10"
    with eq have "nat_digits (m div 10) = nat_digits (n div 10)" and "m mod 10 = n mod 10"
      by (simp_all add: nat_digits.simps [of m] nat_digits.simps [of n])
    with "1.IH" m show ?thesis by (metis div_mult_mod_eq)
  qed
qed

lemma nat_digits_only_digits: "c \<in> set (nat_digits n) \<Longrightarrow> (48 :: nat) \<le> of_char c \<and> of_char c < (58 :: nat)"
proof (induction n rule: nat_digits.induct)
  case (1 n)
  show ?case
  proof (cases "n < 10")
    case True
    with "1.prems" show ?thesis
      by (subst (asm) nat_digits.simps) (simp add: of_char_digit)
  next
    case False
    with "1.prems" have "c \<in> set (nat_digits (n div 10)) \<or> c = char_of (48 + n mod 10)"
      by (subst (asm) nat_digits.simps) auto
    moreover have "of_char (char_of (48 + n mod 10)) = 48 + n mod 10"
      by (rule of_char_digit) simp
    ultimately show ?thesis
      using "1.IH" False by fastforce
  qed
qed

lemma nat_digits_no_minus: "CHR ''-'' \<notin> set (nat_digits n)"
  by (auto dest: nat_digits_only_digits)

lemma nat_digits_no_colon: "CHR '':'' \<notin> set (nat_digits n)"
  by (auto dest: nat_digits_only_digits)

lemma Itoa_no_colon: "CHR '':'' \<notin> set (Itoa i)"
  by (simp add: Itoa_def nat_digits_no_colon)

lemma Itoa_inject: "Itoa i = Itoa j \<Longrightarrow> i = j"
proof -
  assume eq: "Itoa i = Itoa j"
  have h: "CHR ''-'' # s \<noteq> nat_digits n" for s n
    using nat_digits_no_minus [of n] by (metis list.set_intros(1))
  show "i = j"
    using eq h by (auto simp: Itoa_def split: if_splits dest!: nat_digits_inject)
      (metis h)+
qed

section \<open>Lemmas on runes\<close>

lemma rune_count_Nil [simp]: "rune_count [] = 0"
  by (simp add: rune_count.simps)

lemma rune_count_le_length: "rune_count s \<le> length s"
proof (induction s rule: rune_count.induct)
  case (1 s)
  show ?case
  proof (cases "s = []")
    case False
    with 1 have "rune_count (drop (rune_width s) s) \<le> length s - rune_width s" by simp
    moreover have "0 < rune_width s" by (rule rune_width_pos)
    ultimately show ?thesis
      using False by (subst rune_count.simps) (cases s; auto)
  qed simp
qed

lemma rune_width_ascii: "of_char c < (128 :: nat) \<Longrightarrow> rune_width (c # s) = 1"
  by (auto simp: rune_width_def in_range_def split: list.splits)

lemma rune_count_ascii:
  "\<forall>c \<in> set s. of_char c < (128 :: nat) \<Longrightarrow> rune_count s = length s"
  by (induction s) (simp_all add: rune_count.simps rune_width_ascii)

end
