(* ===== verification/Go_Errors.thy ===== *)
theory Go_Errors
  imports Go_Strings
begin

text \<open>
  Go errors. An \<open>error\<close> value is a node of a chain that \<open>errors.Is\<close> and \<open>errors.As\<close> walk with
  \<open>Unwrap\<close>: a package-level sentinel, a leaf made by \<open>errors.New\<close> or a \<open>fmt.Errorf\<close> without
  \<open>%w\<close>, a \<open>fmt.Errorf\<close> with one \<open>%w\<close> (the text before and after it), a
  \<^verbatim>\<open>*provider.ProviderError\<close>, a \<^verbatim>\<open>*fiber.Error\<close>, or an error of a package outside the
  repository, of which only the text, the answer of \<open>Timeout()\<close> (when it is a \<open>net.Error\<close>) and
  the wrapped error can be seen. \<open>nil\<close> is \<open>None\<close> of \<open>go_error option\<close>, and a function that
  returns \<open>(T, error)\<close> returns \<open>go_error + T\<close>.
\<close>

datatype sentinel =
    ErrNotFound | ErrConflict | ErrValidation | ErrRateLimited
  | GormErrRecordNotFound | GormErrDuplicatedKey
  | ContextCanceled | ContextDeadlineExceeded

datatype go_error =
    Sentinel sentinel
  | ErrorString string
  | Wrap string go_error string
  | ProviderError (pe_StatusCode: int) (pe_Message: string) (pe_Transient: bool)
      (pe_Cause: "go_error option")
  | FiberError int string
  | ExternalError string "bool option" "go_error option"

fun sentinel_text :: "sentinel \<Rightarrow> string" where
  "sentinel_text ErrNotFound = ''not found''"
| "sentinel_text ErrConflict = ''conflict''"
| "sentinel_text ErrValidation = ''validation error''"
| "sentinel_text ErrRateLimited = ''rate limited''"
| "sentinel_text GormErrRecordNotFound = ''record not found''"
| "sentinel_text GormErrDuplicatedKey = ''duplicated key not allowed''"
| "sentinel_text ContextCanceled = ''context canceled''"
| "sentinel_text ContextDeadlineExceeded = ''context deadline exceeded''"

text \<open>\<open>ProviderError.Error\<close>, given the text of the cause.\<close>

definition provider_error_text :: "int \<Rightarrow> string \<Rightarrow> string option \<Rightarrow> string" where
  "provider_error_text statusCode message cause =
     (let parts = [''provider error''];
          parts = (if 0 < statusCode then parts @ [''status='' @ Itoa statusCode] else parts);
          msg = TrimSpace message;
          parts = (if msg \<noteq> [] then parts @ [msg] else parts);
          parts = (case cause of None \<Rightarrow> parts | Some c \<Rightarrow> parts @ [c])
      in Join parts '': '')"

fun Error :: "go_error \<Rightarrow> string" where
  "Error (Sentinel s) = sentinel_text s"
| "Error (ErrorString t) = t"
| "Error (Wrap pre e post) = pre @ Error e @ post"
| "Error (ProviderError sc m tr None) = provider_error_text sc m None"
| "Error (ProviderError sc m tr (Some c)) = provider_error_text sc m (Some (Error c))"
| "Error (FiberError code m) = m"
| "Error (ExternalError t tm c) = t"

fun errors_Is :: "go_error \<Rightarrow> sentinel \<Rightarrow> bool" where
  "errors_Is (Sentinel s) t = (s = t)"
| "errors_Is (ErrorString m) t = False"
| "errors_Is (Wrap pre e post) t = errors_Is e t"
| "errors_Is (ProviderError sc m tr None) t = False"
| "errors_Is (ProviderError sc m tr (Some c)) t = errors_Is c t"
| "errors_Is (FiberError code m) t = False"
| "errors_Is (ExternalError m tm None) t = False"
| "errors_Is (ExternalError m tm (Some c)) t = errors_Is c t"

text \<open>\<open>errors.As\<close> with a target of type \<^verbatim>\<open>*ProviderError\<close>.\<close>

fun errors_As_ProviderError :: "go_error \<Rightarrow> go_error option" where
  "errors_As_ProviderError (Wrap pre e post) = errors_As_ProviderError e"
| "errors_As_ProviderError (ProviderError sc m tr c) = Some (ProviderError sc m tr c)"
| "errors_As_ProviderError (ExternalError m tm (Some c)) = errors_As_ProviderError c"
| "errors_As_ProviderError e = None"

text \<open>\<open>errors.As\<close> with a target of type \<open>net.Error\<close>, and the answer of \<open>Timeout()\<close> of what it
  finds; \<open>context.DeadlineExceeded\<close> is a \<open>net.Error\<close> too.\<close>

fun errors_As_NetError_Timeout :: "go_error \<Rightarrow> bool option" where
  "errors_As_NetError_Timeout (Sentinel s) = (if s = ContextDeadlineExceeded then Some True else None)"
| "errors_As_NetError_Timeout (ErrorString m) = None"
| "errors_As_NetError_Timeout (Wrap pre e post) = errors_As_NetError_Timeout e"
| "errors_As_NetError_Timeout (ProviderError sc m tr None) = None"
| "errors_As_NetError_Timeout (ProviderError sc m tr (Some c)) = errors_As_NetError_Timeout c"
| "errors_As_NetError_Timeout (FiberError code m) = None"
| "errors_As_NetError_Timeout (ExternalError m (Some b) c) = Some b"
| "errors_As_NetError_Timeout (ExternalError m None None) = None"
| "errors_As_NetError_Timeout (ExternalError m None (Some c)) = errors_As_NetError_Timeout c"

lemma errors_As_ProviderError_is:
  "errors_As_ProviderError e = Some p \<Longrightarrow> \<exists>sc m tr c. p = ProviderError sc m tr c"
  by (induction e rule: errors_As_ProviderError.induct) auto

lemma errors_As_ProviderError_Is:
  "errors_As_ProviderError e = Some p \<Longrightarrow> errors_Is e s = errors_Is p s"
  by (induction e rule: errors_As_ProviderError.induct) auto

text \<open>A chain ends in at most one sentinel.\<close>

lemma errors_Is_unique: "errors_Is e s \<Longrightarrow> errors_Is e t \<Longrightarrow> s = t"
  by (induction e s rule: errors_Is.induct) auto

text \<open>A \<^verbatim>\<open>*fiber.Error\<close> in the chain.\<close>

fun has_fiber :: "go_error \<Rightarrow> bool" where
  "has_fiber (Wrap pre e post) = has_fiber e"
| "has_fiber (FiberError code m) = True"
| "has_fiber (ProviderError sc m tr (Some c)) = has_fiber c"
| "has_fiber (ExternalError m tm (Some c)) = has_fiber c"
| "has_fiber e = False"

lemma errors_Is_no_fiber: "errors_Is e s \<Longrightarrow> \<not> has_fiber e"
  by (induction e s rule: errors_Is.induct) auto

text \<open>Errors of the clients never wrap the sentinels of \<open>internal/domain\<close> or an error of the HTTP
  framework.\<close>

definition foreign_error :: "go_error \<Rightarrow> bool" where
  "foreign_error e \<longleftrightarrow> \<not> errors_Is e ErrNotFound \<and> \<not> errors_Is e ErrConflict
     \<and> \<not> errors_Is e ErrValidation \<and> \<not> errors_Is e ErrRateLimited \<and> \<not> has_fiber e"

lemma foreign_error_simps [simp]:
  "foreign_error (ErrorString t)"
  "foreign_error (Wrap pre e post) = foreign_error e"
  "foreign_error (Sentinel s) \<longleftrightarrow> s \<notin> {ErrNotFound, ErrConflict, ErrValidation, ErrRateLimited}"
  by (auto simp: foreign_error_def)

text \<open>The same for the results of fallible calls.\<close>

definition foreign_option :: "go_error option \<Rightarrow> bool" where
  "foreign_option r = (case r of None \<Rightarrow> True | Some e \<Rightarrow> foreign_error e)"

definition foreign_left :: "go_error + 'a \<Rightarrow> bool" where
  "foreign_left r = (case r of Inl e \<Rightarrow> foreign_error e | Inr _ \<Rightarrow> True)"

lemma foreign_option_simps [simp]: "foreign_option None" "foreign_option (Some e) = foreign_error e"
  by (simp_all add: foreign_option_def)

lemma foreign_left_simps [simp]: "foreign_left (Inl e) = foreign_error e" "foreign_left (Inr a)"
  by (simp_all add: foreign_left_def)

end
