(* ===== verification/Domain.thy ===== *)
theory Domain
  imports Go_Errors
begin

text \<open>
  Package \<open>internal/domain\<close>: the notification, batch and attempt entities, the parsers of the
  enumerations and the validation of a notification. \<open>Status\<close>, \<open>Channel\<close>, \<open>Priority\<close> and
  \<open>BatchStatus\<close> are Go string types, so values outside the declared constants exist and \<open>IsValid\<close>
  is a real check; they are strings here too. A pointer field is an \<open>option\<close>.
\<close>

section \<open>Status, channel, priority\<close>

type_synonym status = string
type_synonym channel = string
type_synonym priority = string
type_synonym batch_status = string

abbreviation StatusAccepted :: status where "StatusAccepted \<equiv> ''ACCEPTED''"
abbreviation StatusQueued :: status where "StatusQueued \<equiv> ''QUEUED''"
abbreviation StatusSending :: status where "StatusSending \<equiv> ''SENDING''"
abbreviation StatusSent :: status where "StatusSent \<equiv> ''SENT''"
abbreviation StatusFailed :: status where "StatusFailed \<equiv> ''FAILED''"
abbreviation StatusCanceled :: status where "StatusCanceled \<equiv> ''CANCELED''"

abbreviation ChannelSMS :: channel where "ChannelSMS \<equiv> ''SMS''"
abbreviation ChannelEmail :: channel where "ChannelEmail \<equiv> ''EMAIL''"
abbreviation ChannelPush :: channel where "ChannelPush \<equiv> ''PUSH''"

abbreviation PriorityHigh :: priority where "PriorityHigh \<equiv> ''HIGH''"
abbreviation PriorityNormal :: priority where "PriorityNormal \<equiv> ''NORMAL''"
abbreviation PriorityLow :: priority where "PriorityLow \<equiv> ''LOW''"

abbreviation BatchStatusProcessing :: batch_status where "BatchStatusProcessing \<equiv> ''PROCESSING''"
abbreviation BatchStatusCompleted :: batch_status where "BatchStatusCompleted \<equiv> ''COMPLETED''"
abbreviation BatchStatusPartialFailure :: batch_status where
  "BatchStatusPartialFailure \<equiv> ''PARTIAL_FAILURE''"

definition Status_IsValid :: "status \<Rightarrow> bool" where
  "Status_IsValid s =
     (s \<in> {StatusAccepted, StatusQueued, StatusSending, StatusSent, StatusFailed, StatusCanceled})"

definition Channel_IsValid :: "channel \<Rightarrow> bool" where
  "Channel_IsValid c = (c \<in> {ChannelSMS, ChannelEmail, ChannelPush})"

definition Priority_IsValid :: "priority \<Rightarrow> bool" where
  "Priority_IsValid p = (p \<in> {PriorityHigh, PriorityNormal, PriorityLow})"

definition BatchStatus_IsValid :: "batch_status \<Rightarrow> bool" where
  "BatchStatus_IsValid s =
     (s \<in> {BatchStatusProcessing, BatchStatusCompleted, BatchStatusPartialFailure})"

text \<open>\<^verbatim>\<open>fmt.Errorf("%w: ...", ErrValidation)\<close>.\<close>

definition validation_error :: "string \<Rightarrow> go_error" where
  "validation_error m = Wrap [] (Sentinel ErrValidation) ('': '' @ m)"

definition ParseStatusFromString :: "string \<Rightarrow> go_error + status" where
  "ParseStatusFromString s =
     (let st = ToUpper (TrimSpace s) in
      if \<not> Status_IsValid st then Inl (validation_error (''invalid status '' @ Quote s)) else Inr st)"

definition ParseChannelFromString :: "string \<Rightarrow> go_error + channel" where
  "ParseChannelFromString s =
     (let ch = ToUpper (TrimSpace s) in
      if \<not> Channel_IsValid ch then Inl (validation_error (''invalid channel '' @ Quote s)) else Inr ch)"

definition ParsePriorityFromString :: "string \<Rightarrow> go_error + priority" where
  "ParsePriorityFromString s =
     (let pr = ToUpper (TrimSpace s) in
      if \<not> Priority_IsValid pr then Inl (validation_error (''invalid priority '' @ Quote s)) else Inr pr)"

section \<open>Entities\<close>

definition MaxSMSContent :: nat where "MaxSMSContent = 160"
definition MaxPushContent :: nat where "MaxPushContent = 240"
definition MaxEmailContent :: nat where "MaxEmailContent = 10000"

record notification =
  ID :: string
  CorrelationID :: string
  IdempotencyKey :: "string option"
  BatchID :: "string option"
  Channel :: channel
  Priority :: priority
  Recipient :: string
  Content :: string
  Status :: status
  ProviderMessageID :: "string option"
  AttemptCount :: int
  MaxRetries :: int
  ScheduledAt :: "go_time option"
  NextRetryAt :: "go_time option"
  CreatedAt :: go_time
  UpdatedAt :: go_time

record batch =
  b_ID :: string
  b_TotalCount :: int
  b_Status :: batch_status
  b_CreatedAt :: go_time
  b_UpdatedAt :: go_time

record notification_attempt =
  a_ID :: string
  a_NotificationID :: string
  a_AttemptNumber :: int
  a_StatusCode :: "int option"
  a_ResponseBody :: "string option"
  a_Error :: "string option"
  a_CreatedAt :: go_time

text \<open>The zero \<open>time.Time\<close> (1 January of year 1, UTC) in nanoseconds from the Unix epoch.\<close>

definition zero_time :: go_time where
  "zero_time = - 62135596800 * 10 ^ 9"

definition Validate :: "notification \<Rightarrow> go_error option" where
  "Validate n =
     (if Recipient n = [] then Some (validation_error ''recipient is required'')
      else if Content n = [] then Some (validation_error ''content is required'')
      else if \<not> Channel_IsValid (Channel n)
      then Some (validation_error (''invalid channel '' @ Quote (Channel n)))
      else if \<not> Priority_IsValid (Priority n)
      then Some (validation_error (''invalid priority '' @ Quote (Priority n)))
      else let contentLen = rune_count (Content n) in
        if Channel n = ChannelSMS then
          (if MaxSMSContent < contentLen
           then Some (validation_error (''SMS content exceeds '' @ Itoa (int MaxSMSContent)
                  @ '' characters (got '' @ Itoa (int contentLen) @ '')''))
           else None)
        else if Channel n = ChannelPush then
          (if MaxPushContent < contentLen
           then Some (validation_error (''push content exceeds '' @ Itoa (int MaxPushContent)
                  @ '' characters (got '' @ Itoa (int contentLen) @ '')''))
           else None)
        else if Channel n = ChannelEmail then
          (if MaxEmailContent < contentLen
           then Some (validation_error (''email content exceeds '' @ Itoa (int MaxEmailContent)
                  @ '' characters (got '' @ Itoa (int contentLen) @ '')''))
           else None)
        else None)"

section \<open>Lemmas\<close>

lemma validation_error_Is [simp]: "errors_Is (validation_error m) s \<longleftrightarrow> s = ErrValidation"
  by (auto simp: validation_error_def)

lemmas isvalid_defs =
  Status_IsValid_def Channel_IsValid_def Priority_IsValid_def BatchStatus_IsValid_def

lemmas parse_defs =
  ParseStatusFromString_def ParseChannelFromString_def ParsePriorityFromString_def

definition content_limit :: "channel \<Rightarrow> nat" where
  "content_limit c =
     (if c = ChannelSMS then MaxSMSContent
      else if c = ChannelPush then MaxPushContent else MaxEmailContent)"

definition well_formed :: "notification \<Rightarrow> bool" where
  "well_formed n \<longleftrightarrow> Recipient n \<noteq> [] \<and> Content n \<noteq> [] \<and> Channel_IsValid (Channel n)
     \<and> Priority_IsValid (Priority n) \<and> rune_count (Content n) \<le> content_limit (Channel n)"

lemma Validate_None: "Validate n = None \<longleftrightarrow> well_formed n"
  by (auto simp: Validate_def well_formed_def content_limit_def Channel_IsValid_def Let_def)

lemma Validate_Some: "Validate n = Some e \<Longrightarrow> errors_Is e ErrValidation"
  by (auto simp: Validate_def Let_def split: if_splits)

text \<open>
  C40: validation of a notification accepts exactly the notifications with a recipient, a
  content, a known channel and priority, and a content of at most 160 (SMS), 240 (push) or
  10000 (email) runes; every rejection is a validation error.
\<close>

theorem Validate_correct:
  "(case Validate n of
      None \<Rightarrow> Recipient n \<noteq> [] \<and> Content n \<noteq> [] \<and> Channel_IsValid (Channel n)
        \<and> Priority_IsValid (Priority n)
        \<and> rune_count (Content n) \<le> (if Channel n = ChannelSMS then 160
             else if Channel n = ChannelPush then 240 else 10000)
    | Some e \<Rightarrow> errors_Is e ErrValidation
        \<and> (Recipient n = [] \<or> Content n = [] \<or> Channel n \<in> - {ChannelSMS, ChannelEmail, ChannelPush}
           \<or> Priority n \<in> - {PriorityHigh, PriorityNormal, PriorityLow}
           \<or> (if Channel n = ChannelSMS then 160
               else if Channel n = ChannelPush then 240 else 10000) < rune_count (Content n)))"
proof (cases "Validate n")
  case None
  then have "well_formed n" using Validate_None [of n] by simp
  with None show ?thesis
    by (auto simp: well_formed_def content_limit_def MaxSMSContent_def MaxPushContent_def
        MaxEmailContent_def split: if_splits)
next
  case (Some e)
  then have "\<not> well_formed n" using Validate_None [of n] by simp
  with Some Validate_Some [OF Some] show ?thesis
    by (auto simp: well_formed_def content_limit_def MaxSMSContent_def MaxPushContent_def
        MaxEmailContent_def isvalid_defs split: if_splits)
qed

end
