(* ===== verification/Repository.thy ===== *)
theory Repository
  imports Domain
begin

text \<open>
  Package \<open>internal/repository\<close>: the persistence models, their conversions, the repository
  interfaces and their GORM implementations.

  GORM and PostgreSQL are not part of the repository. A table is a parameter, a record
  \<open>('w, 'm) gorm_table\<close> of the statements the code issues on it; the condition of a \<open>WHERE\<close>
  clause, the assignment of a \<open>SET\<close> clause and the \<open>ORDER BY\<close> key are the ones written in the
  source. What the code relies on (documented behaviour of the statements, with GORM's automatic
  timestamps and column defaults) is the locale \<open>gorm_table_laws\<close>. The interface
  \<open>NotificationRepository\<close> is the record \<open>notification_repository\<close>, its contract the locale
  \<open>notification_repository_laws\<close>, and the GORM implementation is proved to satisfy it over every
  table with those laws.
\<close>

section \<open>Models and conversions\<close>

record notification_model =
  m_ID :: string
  m_CorrelationID :: string
  m_IdempotencyKey :: "string option"
  m_BatchID :: "string option"
  m_Channel :: channel
  m_Priority :: priority
  m_Recipient :: string
  m_Content :: string
  m_Status :: status
  m_ProviderMessageID :: "string option"
  m_AttemptCount :: int
  m_MaxRetries :: int
  m_ScheduledAt :: "go_time option"
  m_NextRetryAt :: "go_time option"
  m_CreatedAt :: go_time
  m_UpdatedAt :: go_time

record attempt_model =
  am_ID :: string
  am_NotificationID :: string
  am_AttemptNumber :: int
  am_StatusCode :: "int option"
  am_ResponseBody :: "string option"
  am_Error :: "string option"
  am_CreatedAt :: go_time

record batch_model =
  bm_ID :: string
  bm_TotalCount :: int
  bm_Status :: batch_status
  bm_CreatedAt :: go_time
  bm_UpdatedAt :: go_time

definition notification_to_model :: "notification \<Rightarrow> notification_model" where
  "notification_to_model n =
     \<lparr>m_ID = ID n, m_CorrelationID = CorrelationID n, m_IdempotencyKey = IdempotencyKey n,
      m_BatchID = BatchID n, m_Channel = Channel n, m_Priority = Priority n,
      m_Recipient = Recipient n, m_Content = Content n, m_Status = Status n,
      m_ProviderMessageID = ProviderMessageID n, m_AttemptCount = AttemptCount n,
      m_MaxRetries = MaxRetries n, m_ScheduledAt = ScheduledAt n, m_NextRetryAt = NextRetryAt n,
      m_CreatedAt = CreatedAt n, m_UpdatedAt = UpdatedAt n\<rparr>"

definition model_to_notification :: "notification_model \<Rightarrow> notification" where
  "model_to_notification m =
     \<lparr>ID = m_ID m, CorrelationID = m_CorrelationID m, IdempotencyKey = m_IdempotencyKey m,
      BatchID = m_BatchID m, Channel = m_Channel m, Priority = m_Priority m,
      Recipient = m_Recipient m, Content = m_Content m, Status = m_Status m,
      ProviderMessageID = m_ProviderMessageID m, AttemptCount = m_AttemptCount m,
      MaxRetries = m_MaxRetries m, ScheduledAt = m_ScheduledAt m, NextRetryAt = m_NextRetryAt m,
      CreatedAt = m_CreatedAt m, UpdatedAt = m_UpdatedAt m\<rparr>"

definition notificationModelFromDomain :: "notification option \<Rightarrow> notification_model option" where
  "notificationModelFromDomain n =
     (case n of None \<Rightarrow> None | Some x \<Rightarrow> Some (notification_to_model x))"

definition notificationModelToDomain :: "notification_model option \<Rightarrow> notification option" where
  "notificationModelToDomain m =
     (case m of None \<Rightarrow> None | Some x \<Rightarrow> Some (model_to_notification x))"

definition attemptModelFromDomain :: "notification_attempt option \<Rightarrow> attempt_model option" where
  "attemptModelFromDomain a =
     (case a of None \<Rightarrow> None
      | Some x \<Rightarrow> Some \<lparr>am_ID = a_ID x, am_NotificationID = a_NotificationID x,
          am_AttemptNumber = a_AttemptNumber x, am_StatusCode = a_StatusCode x,
          am_ResponseBody = a_ResponseBody x, am_Error = a_Error x, am_CreatedAt = a_CreatedAt x\<rparr>)"

definition attemptModelToDomain :: "attempt_model option \<Rightarrow> notification_attempt option" where
  "attemptModelToDomain m =
     (case m of None \<Rightarrow> None
      | Some x \<Rightarrow> Some \<lparr>a_ID = am_ID x, a_NotificationID = am_NotificationID x,
          a_AttemptNumber = am_AttemptNumber x, a_StatusCode = am_StatusCode x,
          a_ResponseBody = am_ResponseBody x, a_Error = am_Error x, a_CreatedAt = am_CreatedAt x\<rparr>)"

definition batchModelFromDomain :: "batch option \<Rightarrow> batch_model option" where
  "batchModelFromDomain b =
     (case b of None \<Rightarrow> None
      | Some x \<Rightarrow> Some \<lparr>bm_ID = b_ID x, bm_TotalCount = b_TotalCount x, bm_Status = b_Status x,
          bm_CreatedAt = b_CreatedAt x, bm_UpdatedAt = b_UpdatedAt x\<rparr>)"

definition batchModelToDomain :: "batch_model option \<Rightarrow> batch option" where
  "batchModelToDomain m =
     (case m of None \<Rightarrow> None
      | Some x \<Rightarrow> Some \<lparr>b_ID = bm_ID x, b_TotalCount = bm_TotalCount x, b_Status = bm_Status x,
          b_CreatedAt = bm_CreatedAt x, b_UpdatedAt = bm_UpdatedAt x\<rparr>)"

section \<open>The statements on a table\<close>

datatype 'm sort_order = ASC "'m \<Rightarrow> int" | DESC "'m \<Rightarrow> int"

text \<open>
  \<open>g_Create\<close> takes the pointer it is given and returns the row as stored; \<open>g_First\<close> answers
  \<open>gorm.ErrRecordNotFound\<close> when no row matches; \<open>g_Update\<close> returns the affected rows
  (\<open>RowsAffected\<close> is their number, \<open>RETURNING\<close> scans them); \<open>g_Find\<close> takes the condition, the
  order and the \<open>OFFSET\<close> and \<open>LIMIT\<close> arguments.
\<close>

record ('w, 'm) gorm_table =
  g_Create :: "'m option \<Rightarrow> ('w, go_error + 'm option) state"
  g_CreateInBatches :: "'m list \<Rightarrow> nat \<Rightarrow> ('w, go_error + 'm list) state"
  g_First :: "('m \<Rightarrow> bool) \<Rightarrow> ('w, go_error + 'm) state"
  g_Update :: "('m \<Rightarrow> bool) \<Rightarrow> ('m \<Rightarrow> 'm) \<Rightarrow> ('w, go_error + 'm list) state"
  g_Count :: "('m \<Rightarrow> bool) \<Rightarrow> ('w, go_error + int) state"
  g_Find :: "('m \<Rightarrow> bool) \<Rightarrow> 'm sort_order \<Rightarrow> int \<Rightarrow> int option \<Rightarrow> ('w, go_error + 'm list) state"
  g_GroupCount :: "('m \<Rightarrow> bool) \<Rightarrow> ('m \<Rightarrow> string) \<Rightarrow> ('w, go_error + (string \<times> int) list) state"

section \<open>The repository interfaces\<close>

record list_params =
  lp_Status :: "status option"
  lp_Channel :: "channel option"
  lp_From :: "go_time option"
  lp_To :: "go_time option"
  lp_Page :: int
  lp_PageSize :: int

record repo_batch_summary =
  rbs_Status :: status
  rbs_Count :: int

text \<open>
  \<open>Create\<close> and \<open>CreateBatch\<close> overwrite the structs behind the pointers they are given; the model
  returns the new contents. An \<open>error\<close>-only result is a \<open>go_error option\<close>.
\<close>

record 'w notification_repository =
  nr_Create :: "notification option \<Rightarrow> ('w, go_error + notification option) state"
  nr_CreateBatch :: "notification option list \<Rightarrow> ('w, go_error + notification option list) state"
  nr_GetByID :: "string \<Rightarrow> ('w, go_error + notification) state"
  nr_GetByIdempotencyKey :: "string \<Rightarrow> ('w, go_error + notification) state"
  nr_List :: "list_params \<Rightarrow> ('w, go_error + notification list \<times> int) state"
  nr_UpdateStatus :: "string \<Rightarrow> status \<Rightarrow> ('w, go_error option) state"
  nr_MarkQueuedIfAccepted :: "string \<Rightarrow> ('w, go_error + bool) state"
  nr_UpdateStatusWithRetry :: "string \<Rightarrow> status \<Rightarrow> go_time \<Rightarrow> ('w, go_error option) state"
  nr_Cancel :: "string \<Rightarrow> ('w, go_error option) state"
  nr_LockForSending :: "string \<Rightarrow> ('w, go_error + notification option) state"
  nr_GetDueForSchedule :: "int \<Rightarrow> ('w, go_error + notification list) state"
  nr_GetDueForRetry :: "int \<Rightarrow> ('w, go_error + notification list) state"
  nr_ClearNextRetryAt :: "string \<Rightarrow> ('w, go_error option) state"
  nr_SetProviderMessageID :: "string \<Rightarrow> string \<Rightarrow> ('w, go_error option) state"
  nr_GetBatchSummary :: "string \<Rightarrow> ('w, go_error + repo_batch_summary list) state"

record 'w batch_repository =
  br_Create :: "batch option \<Rightarrow> ('w, go_error + batch option) state"
  br_GetByID :: "string \<Rightarrow> ('w, go_error + batch) state"
  br_UpdateStatus :: "string \<Rightarrow> batch_status \<Rightarrow> ('w, go_error option) state"

record 'w attempt_repository =
  ar_Create :: "notification_attempt option \<Rightarrow> ('w, go_error + notification_attempt option) state"
  ar_GetByNotificationID :: "string \<Rightarrow> ('w, go_error + notification_attempt list) state"

section \<open>The GORM notification repository\<close>

type_synonym 'w notifications_table = "('w, notification_model) gorm_table"

definition gorm_Create ::
  "'w notifications_table \<Rightarrow> notification option \<Rightarrow> ('w, go_error + notification option) state" where
  "gorm_Create db n = do {
     r \<leftarrow> g_Create db (notificationModelFromDomain n);
     State_Monad.return (case r of
         Inl e \<Rightarrow> Inl e
       | Inr model \<Rightarrow>
           Inr (if n \<noteq> None then notificationModelToDomain model else n))
   }"

text \<open>The two parallel slices \<open>models\<close> and \<open>modelIndexes\<close> of \<open>CreateBatch\<close>.\<close>

fun batch_models :: "nat \<Rightarrow> notification option list \<Rightarrow> (notification_model \<times> nat) list" where
  "batch_models i [] = []"
| "batch_models i (n # ns) =
     (case notificationModelFromDomain n of
        None \<Rightarrow> batch_models (Suc i) ns
      | Some model \<Rightarrow> (model, i) # batch_models (Suc i) ns)"

fun store_models ::
  "notification option list \<Rightarrow> (notification_model \<times> nat) list \<Rightarrow> notification option list" where
  "store_models ns [] = ns"
| "store_models ns ((m, idx) # ms) =
     store_models
       (if idx < length ns \<and> ns ! idx \<noteq> None
        then ns[idx := notificationModelToDomain (Some m)] else ns) ms"

definition gorm_CreateBatch ::
  "'w notifications_table \<Rightarrow> notification option list \<Rightarrow> ('w, go_error + notification option list) state" where
  "gorm_CreateBatch db notifications =
     (let indexed = batch_models 0 notifications;
          models = map fst indexed;
          modelIndexes = map snd indexed
      in if models = [] then State_Monad.return (Inr notifications)
         else do {
           r \<leftarrow> g_CreateInBatches db models 100;
           State_Monad.return (case r of
               Inl e \<Rightarrow> Inl e
             | Inr stored \<Rightarrow> Inr (store_models notifications (zip stored modelIndexes)))
         })"

definition gorm_GetByID :: "'w notifications_table \<Rightarrow> string \<Rightarrow> ('w, go_error + notification) state" where
  "gorm_GetByID db nid = do {
     r \<leftarrow> g_First db (\<lambda>m. m_ID m = nid);
     State_Monad.return (case r of
         Inl e \<Rightarrow> Inl (if errors_Is e GormErrRecordNotFound then Sentinel ErrNotFound else e)
       | Inr model \<Rightarrow> Inr (model_to_notification model))
   }"

definition gorm_GetByIdempotencyKey ::
  "'w notifications_table \<Rightarrow> string \<Rightarrow> ('w, go_error + notification) state" where
  "gorm_GetByIdempotencyKey db key = do {
     r \<leftarrow> g_First db (\<lambda>m. m_IdempotencyKey m = Some key);
     State_Monad.return (case r of
         Inl e \<Rightarrow> Inl (if errors_Is e GormErrRecordNotFound then Sentinel ErrNotFound else e)
       | Inr model \<Rightarrow> Inr (model_to_notification model))
   }"

definition list_filter :: "list_params \<Rightarrow> notification_model \<Rightarrow> bool" where
  "list_filter params m \<longleftrightarrow>
     (case lp_Status params of None \<Rightarrow> True | Some s \<Rightarrow> m_Status m = s)
   \<and> (case lp_Channel params of None \<Rightarrow> True | Some c \<Rightarrow> m_Channel m = c)
   \<and> (case lp_From params of None \<Rightarrow> True | Some t \<Rightarrow> t \<le> m_CreatedAt m)
   \<and> (case lp_To params of None \<Rightarrow> True | Some t \<Rightarrow> m_CreatedAt m \<le> t)"

definition list_page :: "list_params \<Rightarrow> int" where
  "list_page params = max (lp_Page params) 1"

definition list_page_size :: "list_params \<Rightarrow> int" where
  "list_page_size params =
     (let pageSize = lp_PageSize params;
          pageSize = (if pageSize < 1 then 50 else pageSize)
      in min pageSize 100)"

definition list_offset :: "list_params \<Rightarrow> int" where
  "list_offset params = i64 (i64 (list_page params - 1) * list_page_size params)"

definition gorm_List ::
  "'w notifications_table \<Rightarrow> list_params \<Rightarrow> ('w, go_error + notification list \<times> int) state" where
  "gorm_List db params = do {
     c \<leftarrow> g_Count db (list_filter params);
     (case c of
        Inl e \<Rightarrow> State_Monad.return (Inl e)
      | Inr total_rows \<Rightarrow> do {
          r \<leftarrow> g_Find db (list_filter params) (DESC m_CreatedAt) (list_offset params)
                 (Some (list_page_size params));
          State_Monad.return (case r of
              Inl e \<Rightarrow> Inl e
            | Inr models \<Rightarrow> Inr (map model_to_notification models, total_rows))
        })
   }"

definition gorm_UpdateStatus ::
  "'w notifications_table \<Rightarrow> string \<Rightarrow> status \<Rightarrow> ('w, go_error option) state" where
  "gorm_UpdateStatus db nid status = do {
     result \<leftarrow> g_Update db (\<lambda>m. m_ID m = nid) (\<lambda>m. m\<lparr>m_Status := status\<rparr>);
     State_Monad.return (case result of
         Inl e \<Rightarrow> Some e
       | Inr rowsAffected \<Rightarrow> if length rowsAffected = 0 then Some (Sentinel ErrNotFound) else None)
   }"

text \<open>The explicit \<^verbatim>\<open>"updated_at": NOW()\<close> of \<open>MarkQueuedIfAccepted\<close> takes the place of the
  timestamp GORM sets on every other update.\<close>

definition gorm_MarkQueuedIfAccepted ::
  "'w notifications_table \<Rightarrow> string \<Rightarrow> ('w, go_error + bool) state" where
  "gorm_MarkQueuedIfAccepted db nid = do {
     result \<leftarrow> g_Update db (\<lambda>m. m_ID m = nid \<and> m_Status m = StatusAccepted)
                (\<lambda>m. m\<lparr>m_Status := StatusQueued\<rparr>);
     State_Monad.return (case result of
         Inl e \<Rightarrow> Inl e
       | Inr rowsAffected \<Rightarrow> Inr (0 < length rowsAffected))
   }"

definition gorm_UpdateStatusWithRetry ::
  "'w notifications_table \<Rightarrow> string \<Rightarrow> status \<Rightarrow> go_time \<Rightarrow> ('w, go_error option) state" where
  "gorm_UpdateStatusWithRetry db nid status nextRetryAt = do {
     result \<leftarrow> g_Update db (\<lambda>m. m_ID m = nid)
                (\<lambda>m. m\<lparr>m_Status := status, m_NextRetryAt := Some nextRetryAt,
                        m_AttemptCount := m_AttemptCount m + 1\<rparr>);
     State_Monad.return (case result of
         Inl e \<Rightarrow> Some e
       | Inr rowsAffected \<Rightarrow> if length rowsAffected = 0 then Some (Sentinel ErrNotFound) else None)
   }"

definition gorm_Cancel :: "'w notifications_table \<Rightarrow> string \<Rightarrow> ('w, go_error option) state" where
  "gorm_Cancel db nid = do {
     result \<leftarrow> g_Update db (\<lambda>m. m_ID m = nid \<and> m_Status m \<in> {StatusAccepted, StatusQueued})
                (\<lambda>m. m\<lparr>m_Status := StatusCanceled\<rparr>);
     State_Monad.return (case result of
         Inl e \<Rightarrow> Some e
       | Inr rowsAffected \<Rightarrow> if length rowsAffected = 0 then Some (Sentinel ErrConflict) else None)
   }"

definition gorm_LockForSending ::
  "'w notifications_table \<Rightarrow> string \<Rightarrow> ('w, go_error + notification option) state" where
  "gorm_LockForSending db nid = do {
     result \<leftarrow> g_Update db (\<lambda>m. m_ID m = nid \<and> m_Status m \<in> {StatusAccepted, StatusQueued})
                (\<lambda>m. m\<lparr>m_Status := StatusSending\<rparr>);
     (case result of
        Inl e \<Rightarrow> State_Monad.return (Inl e)
      | Inr (model # rows) \<Rightarrow> State_Monad.return (Inr (Some (model_to_notification model)))
      | Inr [] \<Rightarrow> do {
          existing \<leftarrow> g_First db (\<lambda>m. m_ID m = nid);
          State_Monad.return (case existing of
              Inl e \<Rightarrow> Inl (if errors_Is e GormErrRecordNotFound then Sentinel ErrNotFound else e)
            | Inr m \<Rightarrow> Inr None)
        })
   }"

definition gorm_GetDueForSchedule ::
  "'w runtime \<Rightarrow> 'w notifications_table \<Rightarrow> int \<Rightarrow> ('w, go_error + notification list) state" where
  "gorm_GetDueForSchedule rt db limit = do {
     now \<leftarrow> time_Now rt;
     r \<leftarrow> g_Find db
           (\<lambda>m. m_Status m = StatusAccepted \<and> m_ScheduledAt m \<noteq> None
                \<and> (case m_ScheduledAt m of None \<Rightarrow> False | Some t \<Rightarrow> t \<le> now))
           (ASC (\<lambda>m. case m_ScheduledAt m of None \<Rightarrow> 0 | Some t \<Rightarrow> t)) 0 (Some limit);
     State_Monad.return (case r of Inl e \<Rightarrow> Inl e | Inr models \<Rightarrow> Inr (map model_to_notification models))
   }"

definition gorm_GetDueForRetry ::
  "'w runtime \<Rightarrow> 'w notifications_table \<Rightarrow> int \<Rightarrow> ('w, go_error + notification list) state" where
  "gorm_GetDueForRetry rt db limit = do {
     now \<leftarrow> time_Now rt;
     r \<leftarrow> g_Find db
           (\<lambda>m. m_Status m = StatusQueued
                \<and> (case m_NextRetryAt m of None \<Rightarrow> False | Some t \<Rightarrow> t \<le> now))
           (ASC (\<lambda>m. case m_NextRetryAt m of None \<Rightarrow> 0 | Some t \<Rightarrow> t)) 0 (Some limit);
     State_Monad.return (case r of Inl e \<Rightarrow> Inl e | Inr models \<Rightarrow> Inr (map model_to_notification models))
   }"

definition gorm_ClearNextRetryAt :: "'w notifications_table \<Rightarrow> string \<Rightarrow> ('w, go_error option) state" where
  "gorm_ClearNextRetryAt db nid = do {
     result \<leftarrow> g_Update db (\<lambda>m. m_ID m = nid) (\<lambda>m. m\<lparr>m_NextRetryAt := None\<rparr>);
     State_Monad.return (case result of
         Inl e \<Rightarrow> Some e
       | Inr rowsAffected \<Rightarrow> if length rowsAffected = 0 then Some (Sentinel ErrNotFound) else None)
   }"

definition gorm_SetProviderMessageID ::
  "'w notifications_table \<Rightarrow> string \<Rightarrow> string \<Rightarrow> ('w, go_error option) state" where
  "gorm_SetProviderMessageID db nid providerMsgID = do {
     result \<leftarrow> g_Update db (\<lambda>m. m_ID m = nid) (\<lambda>m. m\<lparr>m_ProviderMessageID := Some providerMsgID\<rparr>);
     State_Monad.return (case result of
         Inl e \<Rightarrow> Some e
       | Inr rowsAffected \<Rightarrow> if length rowsAffected = 0 then Some (Sentinel ErrNotFound) else None)
   }"

definition gorm_GetBatchSummary ::
  "'w notifications_table \<Rightarrow> string \<Rightarrow> ('w, go_error + repo_batch_summary list) state" where
  "gorm_GetBatchSummary db batchID = do {
     r \<leftarrow> g_GroupCount db (\<lambda>m. m_BatchID m = Some batchID) m_Status;
     State_Monad.return (case r of
         Inl e \<Rightarrow> Inl e
       | Inr groups \<Rightarrow> Inr (map (\<lambda>(s, c). \<lparr>rbs_Status = s, rbs_Count = c\<rparr>) groups))
   }"

definition NewGormNotificationRepo ::
  "'w runtime \<Rightarrow> 'w notifications_table \<Rightarrow> 'w notification_repository" where
  "NewGormNotificationRepo rt db =
     \<lparr>nr_Create = gorm_Create db,
      nr_CreateBatch = gorm_CreateBatch db,
      nr_GetByID = gorm_GetByID db,
      nr_GetByIdempotencyKey = gorm_GetByIdempotencyKey db,
      nr_List = gorm_List db,
      nr_UpdateStatus = gorm_UpdateStatus db,
      nr_MarkQueuedIfAccepted = gorm_MarkQueuedIfAccepted db,
      nr_UpdateStatusWithRetry = gorm_UpdateStatusWithRetry db,
      nr_Cancel = gorm_Cancel db,
      nr_LockForSending = gorm_LockForSending db,
      nr_GetDueForSchedule = gorm_GetDueForSchedule rt db,
      nr_GetDueForRetry = gorm_GetDueForRetry rt db,
      nr_ClearNextRetryAt = gorm_ClearNextRetryAt db,
      nr_SetProviderMessageID = gorm_SetProviderMessageID db,
      nr_GetBatchSummary = gorm_GetBatchSummary db\<rparr>"

section \<open>The GORM batch and attempt repositories\<close>

definition gorm_batch_Create ::
  "('w, batch_model) gorm_table \<Rightarrow> batch option \<Rightarrow> ('w, go_error + batch option) state" where
  "gorm_batch_Create db b = do {
     r \<leftarrow> g_Create db (batchModelFromDomain b);
     State_Monad.return (case r of
         Inl e \<Rightarrow> Inl e
       | Inr model \<Rightarrow> Inr (if b \<noteq> None then batchModelToDomain model else b))
   }"

definition gorm_batch_GetByID ::
  "('w, batch_model) gorm_table \<Rightarrow> string \<Rightarrow> ('w, go_error + batch) state" where
  "gorm_batch_GetByID db nid = do {
     r \<leftarrow> g_First db (\<lambda>m. bm_ID m = nid);
     State_Monad.return (case r of
         Inl e \<Rightarrow> Inl (if errors_Is e GormErrRecordNotFound then Sentinel ErrNotFound else e)
       | Inr model \<Rightarrow> Inr (the (batchModelToDomain (Some model))))
   }"

definition gorm_batch_UpdateStatus ::
  "('w, batch_model) gorm_table \<Rightarrow> string \<Rightarrow> batch_status \<Rightarrow> ('w, go_error option) state" where
  "gorm_batch_UpdateStatus db nid status = do {
     result \<leftarrow> g_Update db (\<lambda>m. bm_ID m = nid) (\<lambda>m. m\<lparr>bm_Status := status\<rparr>);
     State_Monad.return (case result of
         Inl e \<Rightarrow> Some e
       | Inr rowsAffected \<Rightarrow> if length rowsAffected = 0 then Some (Sentinel ErrNotFound) else None)
   }"

definition NewGormBatchRepo :: "('w, batch_model) gorm_table \<Rightarrow> 'w batch_repository" where
  "NewGormBatchRepo db =
     \<lparr>br_Create = gorm_batch_Create db, br_GetByID = gorm_batch_GetByID db,
      br_UpdateStatus = gorm_batch_UpdateStatus db\<rparr>"

definition gorm_attempt_Create ::
  "('w, attempt_model) gorm_table \<Rightarrow> notification_attempt option
     \<Rightarrow> ('w, go_error + notification_attempt option) state" where
  "gorm_attempt_Create db a = do {
     r \<leftarrow> g_Create db (attemptModelFromDomain a);
     State_Monad.return (case r of
         Inl e \<Rightarrow> Inl e
       | Inr model \<Rightarrow> Inr (if a \<noteq> None then attemptModelToDomain model else a))
   }"

definition gorm_attempt_GetByNotificationID ::
  "('w, attempt_model) gorm_table \<Rightarrow> string \<Rightarrow> ('w, go_error + notification_attempt list) state" where
  "gorm_attempt_GetByNotificationID db notificationID = do {
     r \<leftarrow> g_Find db (\<lambda>m. am_NotificationID m = notificationID) (ASC am_AttemptNumber) 0 None;
     State_Monad.return (case r of
         Inl e \<Rightarrow> Inl e
       | Inr models \<Rightarrow> Inr (map (\<lambda>m. the (attemptModelToDomain (Some m))) models))
   }"

definition NewGormAttemptRepo :: "('w, attempt_model) gorm_table \<Rightarrow> 'w attempt_repository" where
  "NewGormAttemptRepo db =
     \<lparr>ar_Create = gorm_attempt_Create db,
      ar_GetByNotificationID = gorm_attempt_GetByNotificationID db\<rparr>"

end
