(* ===== verification/Repository_Laws.thy ===== *)
theory Repository_Laws
  imports Repository
begin

text \<open>
  The contracts of the persistence layer: what the code relies on of a GORM table
  (\<open>gorm_table_laws\<close>), what the interface \<open>NotificationRepository\<close> promises to the services
  (\<open>notification_repository_laws\<close>), and the proof that the GORM implementation keeps that promise
  over every table with those laws.

  A table is observed as a map from primary key to row. A failing statement may or may not have
  taken effect (the connection can be lost after the commit), so an error leaves both
  possibilities open.
\<close>

section \<open>Tables as maps\<close>

definition row_keys :: "(string \<rightharpoonup> 'm) \<Rightarrow> ('m \<Rightarrow> bool) \<Rightarrow> string set" where
  "row_keys T p = {k. \<exists>m. T k = Some m \<and> p m}"

definition update_rows :: "('m \<Rightarrow> bool) \<Rightarrow> ('m \<Rightarrow> 'm) \<Rightarrow> (string \<rightharpoonup> 'm) \<Rightarrow> (string \<rightharpoonup> 'm)" where
  "update_rows p f T = (\<lambda>k. map_option (\<lambda>m. if p m then f m else m) (T k))"

definition listing :: "(string \<rightharpoonup> 'm) \<Rightarrow> string set \<Rightarrow> 'm list \<Rightarrow> bool" where
  "listing T K ms \<longleftrightarrow> (\<exists>ks. distinct ks \<and> set ks = K \<and> ms = map (\<lambda>k. the (T k)) ks)"

fun sort_le :: "'m sort_order \<Rightarrow> 'm \<Rightarrow> 'm \<Rightarrow> bool" where
  "sort_le (ASC f) a b = (f a \<le> f b)"
| "sort_le (DESC f) a b = (f b \<le> f a)"

definition page_of :: "int \<Rightarrow> int option \<Rightarrow> 'm list \<Rightarrow> 'm list" where
  "page_of offset limit ms =
     (let rest = drop (nat offset) ms in
      case limit of None \<Rightarrow> rest | Some l \<Rightarrow> if l < 0 then rest else take (nat l) rest)"

text \<open>How GORM and the PostgreSQL driver report the violation of a unique index.\<close>

definition duplicate_error :: "go_error \<Rightarrow> bool" where
  "duplicate_error e \<longleftrightarrow> errors_Is e GormErrDuplicatedKey
     \<or> Contains (ToLower (Error e)) ''duplicate key''
     \<or> Contains (ToLower (Error e)) ''unique constraint''"

definition conflicts :: "('m \<Rightarrow> string) \<Rightarrow> ('m \<Rightarrow> string option) \<Rightarrow> (string \<rightharpoonup> 'm) \<Rightarrow> 'm \<Rightarrow> bool" where
  "conflicts key uniq T m \<longleftrightarrow> T (key m) \<noteq> None
     \<or> (\<exists>u k m'. uniq m = Some u \<and> T k = Some m' \<and> uniq m' = Some u)"

definition inserted :: "('m \<Rightarrow> string) \<Rightarrow> ('m \<Rightarrow> 'm \<Rightarrow> bool) \<Rightarrow> (string \<rightharpoonup> 'm) \<Rightarrow> 'm \<Rightarrow> 'm \<Rightarrow> (string \<rightharpoonup> 'm) \<Rightarrow> bool" where
  "inserted key stamped T m m' T' \<longleftrightarrow> T (key m) = None \<and> stamped m m' \<and> T' = T(key m \<mapsto> m')"

fun inserted_all ::
  "('m \<Rightarrow> string) \<Rightarrow> ('m \<Rightarrow> 'm \<Rightarrow> bool) \<Rightarrow> (string \<rightharpoonup> 'm) \<Rightarrow> 'm list \<Rightarrow> 'm list \<Rightarrow> (string \<rightharpoonup> 'm) \<Rightarrow> bool" where
  "inserted_all key stamped T [] [] T' = (T' = T)"
| "inserted_all key stamped T (m # ms) (m' # ms') T' =
     (\<exists>T1. inserted key stamped T m m' T1 \<and> inserted_all key stamped T1 ms ms' T')"
| "inserted_all key stamped T ms ms' T' = False"

section \<open>The laws of a table\<close>

text \<open>
  \<open>tbl w\<close> is the committed content of the table in world \<open>w\<close>; \<open>key\<close> the primary key, \<open>uniq\<close> the
  column of a partial unique index; \<open>touch\<close> what GORM adds to every update (\<open>updated_at\<close>),
  \<open>stamped\<close> what it adds to a new row (timestamps, column defaults). An update that leaves key and
  unique column alone is applied to the matching rows in one atomic statement.
\<close>

locale gorm_table_laws =
  fixes db :: "('w, 'm) gorm_table"
    and tbl :: "'w \<Rightarrow> (string \<rightharpoonup> 'm)"
    and key :: "'m \<Rightarrow> string"
    and uniq :: "'m \<Rightarrow> string option"
    and touch :: "go_time \<Rightarrow> 'm \<Rightarrow> 'm"
    and stamped :: "'m \<Rightarrow> 'm \<Rightarrow> bool"
  assumes keyed: "tbl w k = Some m \<Longrightarrow> key m = k"
    and finite_tbl: "finite (dom (tbl w))"
    and unique_index:
      "tbl w k = Some m \<Longrightarrow> tbl w k' = Some m' \<Longrightarrow> uniq m = Some u \<Longrightarrow> uniq m' = Some u \<Longrightarrow> k = k'"
    and create_law: "wp (g_Create db (Some m)) (\<lambda>r w'.
        case r of
          Inl e \<Rightarrow> foreign_error e
            \<and> (if duplicate_error e then conflicts key uniq (tbl w) m \<and> tbl w' = tbl w
               else tbl w' = tbl w \<or> (\<exists>m'. inserted key stamped (tbl w) m m' (tbl w')))
        | Inr None \<Rightarrow> False
        | Inr (Some m') \<Rightarrow> inserted key stamped (tbl w) m m' (tbl w')) w"
    and create_in_batches_law: "0 < chunk \<Longrightarrow> wp (g_CreateInBatches db ms chunk) (\<lambda>r w'.
        case r of
          Inl e \<Rightarrow> foreign_error e
            \<and> (\<exists>j ms'. inserted_all key stamped (tbl w) (take j ms) ms' (tbl w'))
        | Inr ms' \<Rightarrow> inserted_all key stamped (tbl w) ms ms' (tbl w')) w"
    and first_law: "wp (g_First db p) (\<lambda>r w'. tbl w' = tbl w \<and>
        (case r of
           Inl e \<Rightarrow> foreign_error e
             \<and> (errors_Is e GormErrRecordNotFound \<longrightarrow> row_keys (tbl w) p = {})
         | Inr m \<Rightarrow> \<exists>k. tbl w k = Some m \<and> p m)) w"
    and update_law: "(\<And>m. key (f m) = key m) \<Longrightarrow> (\<And>m. uniq (f m) = uniq m) \<Longrightarrow>
        wp (g_Update db p f) (\<lambda>r w'.
          case r of
            Inl e \<Rightarrow> foreign_error e
              \<and> (tbl w' = tbl w \<or> (\<exists>s. tbl w' = update_rows p (touch s \<circ> f) (tbl w)))
          | Inr ms \<Rightarrow> (\<exists>s. tbl w' = update_rows p (touch s \<circ> f) (tbl w))
              \<and> listing (tbl w') (row_keys (tbl w) p) ms) w"
    and count_law: "wp (g_Count db p) (\<lambda>r w'. tbl w' = tbl w \<and>
        (case r of Inl e \<Rightarrow> foreign_error e | Inr c \<Rightarrow> c = int (card (row_keys (tbl w) p)))) w"
    and find_law: "wp (g_Find db p ord offset limit) (\<lambda>r w'. tbl w' = tbl w \<and>
        (case r of
           Inl e \<Rightarrow> foreign_error e
         | Inr ms \<Rightarrow> \<exists>all. listing (tbl w) (row_keys (tbl w) p) all
             \<and> sorted_wrt (sort_le ord) all \<and> ms = page_of offset limit all)) w"
    and group_count_law: "wp (g_GroupCount db p col) (\<lambda>r w'. tbl w' = tbl w \<and>
        (case r of
           Inl e \<Rightarrow> foreign_error e
         | Inr gs \<Rightarrow> distinct (map fst gs)
             \<and> set gs = {(v, c). row_keys (tbl w) (\<lambda>m. p m \<and> col m = v) \<noteq> {}
                 \<and> c = int (card (row_keys (tbl w) (\<lambda>m. p m \<and> col m = v)))})) w"

section \<open>The contract of NotificationRepository\<close>

definition n_stamped :: "notification \<Rightarrow> notification \<Rightarrow> bool" where
  "n_stamped n n' \<longleftrightarrow> (\<exists>c u. n' = n\<lparr>CreatedAt := c, UpdatedAt := u\<rparr>)"

abbreviation n_inserted where "n_inserted \<equiv> inserted ID n_stamped"
abbreviation n_inserted_all where "n_inserted_all \<equiv> inserted_all ID n_stamped"
abbreviation n_conflicts where "n_conflicts \<equiv> conflicts ID IdempotencyKey"

text \<open>The row \<open>nid\<close> exists and \<open>f\<close> was applied to it, with a new \<open>updated_at\<close>; the other rows
  are as before.\<close>

definition updated_row ::
  "(string \<rightharpoonup> notification) \<Rightarrow> (string \<rightharpoonup> notification) \<Rightarrow> string \<Rightarrow> (notification \<Rightarrow> notification) \<Rightarrow> bool" where
  "updated_row R R' nid f \<longleftrightarrow> (\<exists>n s. R nid = Some n \<and> R' = R(nid \<mapsto> (f n)\<lparr>UpdatedAt := s\<rparr>))"

definition set_spec ::
  "(string \<rightharpoonup> notification) \<Rightarrow> (string \<rightharpoonup> notification) \<Rightarrow> string \<Rightarrow> (notification \<Rightarrow> notification)
     \<Rightarrow> go_error option \<Rightarrow> bool" where
  "set_spec R R' nid f r \<longleftrightarrow>
     (case r of
        None \<Rightarrow> updated_row R R' nid f
      | Some e \<Rightarrow> if errors_Is e ErrNotFound then R nid = None \<and> R' = R
          else foreign_error e \<and> (R' = R \<or> updated_row R R' nid f))"

definition claimable :: "notification \<Rightarrow> bool" where
  "claimable n \<longleftrightarrow> Status n \<in> {StatusAccepted, StatusQueued}"

definition schedule_due :: "go_time \<Rightarrow> notification \<Rightarrow> bool" where
  "schedule_due now n \<longleftrightarrow> Status n = StatusAccepted
     \<and> (case ScheduledAt n of None \<Rightarrow> False | Some t \<Rightarrow> t \<le> now)"

definition retry_due :: "go_time \<Rightarrow> notification \<Rightarrow> bool" where
  "retry_due now n \<longleftrightarrow> Status n = StatusQueued
     \<and> (case NextRetryAt n of None \<Rightarrow> False | Some t \<Rightarrow> t \<le> now)"

definition n_list_filter :: "list_params \<Rightarrow> notification \<Rightarrow> bool" where
  "n_list_filter params n = list_filter params (notification_to_model n)"

locale notification_repository_laws =
  fixes repo :: "'w notification_repository"
    and rows :: "'w \<Rightarrow> (string \<rightharpoonup> notification)"
  assumes rows_keyed: "rows w k = Some n \<Longrightarrow> ID n = k"
    and rows_finite: "finite (dom (rows w))"
    and rows_unique: "rows w k = Some n \<Longrightarrow> rows w k' = Some n' \<Longrightarrow>
        IdempotencyKey n = Some u \<Longrightarrow> IdempotencyKey n' = Some u \<Longrightarrow> k = k'"
    and Create_law: "MaxRetries n \<noteq> 0 \<Longrightarrow> wp (nr_Create repo (Some n)) (\<lambda>r w'.
        case r of
          Inl e \<Rightarrow> foreign_error e
            \<and> (if duplicate_error e then n_conflicts (rows w) n \<and> rows w' = rows w
               else rows w' = rows w \<or> (\<exists>n'. n_inserted (rows w) n n' (rows w')))
        | Inr None \<Rightarrow> False
        | Inr (Some n') \<Rightarrow> n_inserted (rows w) n n' (rows w')) w"
    and CreateBatch_law: "(\<And>n. n \<in> set ns \<Longrightarrow> MaxRetries n \<noteq> 0) \<Longrightarrow>
        wp (nr_CreateBatch repo (map Some ns)) (\<lambda>r w'.
        case r of
          Inl e \<Rightarrow> foreign_error e
            \<and> (\<exists>j ns'. n_inserted_all (rows w) (take j ns) ns' (rows w'))
        | Inr rs \<Rightarrow> \<exists>ns'. rs = map Some ns' \<and> n_inserted_all (rows w) ns ns' (rows w')) w"
    and GetByID_law: "wp (nr_GetByID repo nid) (\<lambda>r w'. rows w' = rows w \<and>
        (case r of
           Inl e \<Rightarrow> if errors_Is e ErrNotFound then rows w nid = None else foreign_error e
         | Inr n \<Rightarrow> rows w nid = Some n)) w"
    and GetByIdempotencyKey_law: "wp (nr_GetByIdempotencyKey repo ikey) (\<lambda>r w'. rows w' = rows w \<and>
        (case r of
           Inl e \<Rightarrow> if errors_Is e ErrNotFound
             then (\<forall>k n. rows w k = Some n \<longrightarrow> IdempotencyKey n \<noteq> Some ikey) else foreign_error e
         | Inr n \<Rightarrow> rows w (ID n) = Some n \<and> IdempotencyKey n = Some ikey)) w"
    and List_law: "wp (nr_List repo params) (\<lambda>r w'. rows w' = rows w \<and>
        (case r of
           Inl e \<Rightarrow> foreign_error e
         | Inr (ns, cnt) \<Rightarrow> cnt = int (card (row_keys (rows w) (n_list_filter params)))
             \<and> (\<exists>all. listing (rows w) (row_keys (rows w) (n_list_filter params)) all
                \<and> sorted_wrt (\<lambda>a b. CreatedAt b \<le> CreatedAt a) all
                \<and> ns = page_of (list_offset params) (Some (list_page_size params)) all))) w"
    and UpdateStatus_law: "wp (nr_UpdateStatus repo nid st)
        (\<lambda>r w'. set_spec (rows w) (rows w') nid (\<lambda>n. n\<lparr>Status := st\<rparr>) r) w"
    and MarkQueuedIfAccepted_law: "wp (nr_MarkQueuedIfAccepted repo nid) (\<lambda>r w'.
        let accepted = (\<exists>n. rows w nid = Some n \<and> Status n = StatusAccepted);
            marked = updated_row (rows w) (rows w') nid (\<lambda>n. n\<lparr>Status := StatusQueued\<rparr>)
        in case r of
             Inl e \<Rightarrow> foreign_error e \<and> (rows w' = rows w \<or> accepted \<and> marked)
           | Inr b \<Rightarrow> b = accepted \<and> (if b then marked else rows w' = rows w)) w"
    and UpdateStatusWithRetry_law: "wp (nr_UpdateStatusWithRetry repo nid st at)
        (\<lambda>r w'. set_spec (rows w) (rows w') nid
           (\<lambda>n. n\<lparr>Status := st, NextRetryAt := Some at, AttemptCount := AttemptCount n + 1\<rparr>) r) w"
    and Cancel_law: "wp (nr_Cancel repo nid) (\<lambda>r w'.
        let open_row = (\<exists>n. rows w nid = Some n \<and> claimable n);
            canceled = updated_row (rows w) (rows w') nid (\<lambda>n. n\<lparr>Status := StatusCanceled\<rparr>)
        in case r of
             None \<Rightarrow> open_row \<and> canceled
           | Some e \<Rightarrow> if errors_Is e ErrConflict then \<not> open_row \<and> rows w' = rows w
               else foreign_error e \<and> (rows w' = rows w \<or> open_row \<and> canceled)) w"
    and LockForSending_law: "wp (nr_LockForSending repo nid) (\<lambda>r w'.
        let open_row = (\<exists>n. rows w nid = Some n \<and> claimable n);
            locked = updated_row (rows w) (rows w') nid (\<lambda>n. n\<lparr>Status := StatusSending\<rparr>)
        in case r of
             Inr (Some n') \<Rightarrow> open_row \<and> locked \<and> rows w' nid = Some n'
           | Inr None \<Rightarrow> \<not> open_row \<and> rows w nid \<noteq> None \<and> rows w' = rows w
           | Inl e \<Rightarrow> if errors_Is e ErrNotFound then rows w nid = None \<and> rows w' = rows w
               else foreign_error e \<and> (rows w' = rows w \<or> open_row \<and> locked)) w"
    and GetDueForSchedule_law: "wp (nr_GetDueForSchedule repo limit) (\<lambda>r w'. rows w' = rows w \<and>
        (case r of
           Inl e \<Rightarrow> foreign_error e
         | Inr ns \<Rightarrow> \<exists>now all. listing (rows w) (row_keys (rows w) (schedule_due now)) all
             \<and> sorted_wrt (\<lambda>a b. the (ScheduledAt a) \<le> the (ScheduledAt b)) all
             \<and> ns = page_of 0 (Some limit) all)) w"
    and GetDueForRetry_law: "wp (nr_GetDueForRetry repo limit) (\<lambda>r w'. rows w' = rows w \<and>
        (case r of
           Inl e \<Rightarrow> foreign_error e
         | Inr ns \<Rightarrow> \<exists>now all. listing (rows w) (row_keys (rows w) (retry_due now)) all
             \<and> sorted_wrt (\<lambda>a b. the (NextRetryAt a) \<le> the (NextRetryAt b)) all
             \<and> ns = page_of 0 (Some limit) all)) w"
    and ClearNextRetryAt_law: "wp (nr_ClearNextRetryAt repo nid)
        (\<lambda>r w'. set_spec (rows w) (rows w') nid (\<lambda>n. n\<lparr>NextRetryAt := None\<rparr>) r) w"
    and SetProviderMessageID_law: "wp (nr_SetProviderMessageID repo nid pmid)
        (\<lambda>r w'. set_spec (rows w) (rows w') nid (\<lambda>n. n\<lparr>ProviderMessageID := Some pmid\<rparr>) r) w"
    and GetBatchSummary_law: "wp (nr_GetBatchSummary repo bid) (\<lambda>r w'. rows w' = rows w \<and>
        (case r of
           Inl e \<Rightarrow> foreign_error e
         | Inr gs \<Rightarrow> distinct (map rbs_Status gs)
             \<and> (\<forall>s c. \<lparr>rbs_Status = s, rbs_Count = c\<rparr> \<in> set gs \<longleftrightarrow>
                  row_keys (rows w) (\<lambda>n. BatchID n = Some bid \<and> Status n = s) \<noteq> {}
                  \<and> c = int (card (row_keys (rows w) (\<lambda>n. BatchID n = Some bid \<and> Status n = s)))))) w"

section \<open>The GORM implementation satisfies the contract\<close>

definition touch_notification :: "go_time \<Rightarrow> notification_model \<Rightarrow> notification_model" where
  "touch_notification s m = m\<lparr>m_UpdatedAt := s\<rparr>"

text \<open>A stored row has the timestamps GORM set and, for a zero \<open>MaxRetries\<close>, the column default
  of the model's tag (5).\<close>

definition stamped_notification :: "notification_model \<Rightarrow> notification_model \<Rightarrow> bool" where
  "stamped_notification m m' \<longleftrightarrow> (\<exists>c u. m' = m\<lparr>m_CreatedAt := c, m_UpdatedAt := u,
     m_MaxRetries := (if m_MaxRetries m = 0 then 5 else m_MaxRetries m)\<rparr>)"

definition domain_rows :: "(string \<rightharpoonup> notification_model) \<Rightarrow> (string \<rightharpoonup> notification)" where
  "domain_rows T = (\<lambda>k. map_option model_to_notification (T k))"

lemma model_roundtrip [simp]: "model_to_notification (notification_to_model n) = n"
  by (simp add: model_to_notification_def notification_to_model_def)

lemma domain_roundtrip [simp]: "notification_to_model (model_to_notification m) = m"
  by (simp add: model_to_notification_def notification_to_model_def)

lemma model_to_notification_sel [simp]:
  "ID (model_to_notification m) = m_ID m"
  "IdempotencyKey (model_to_notification m) = m_IdempotencyKey m"
  "BatchID (model_to_notification m) = m_BatchID m"
  "Status (model_to_notification m) = m_Status m"
  "ScheduledAt (model_to_notification m) = m_ScheduledAt m"
  "NextRetryAt (model_to_notification m) = m_NextRetryAt m"
  "CreatedAt (model_to_notification m) = m_CreatedAt m"
  by (simp_all add: model_to_notification_def)

lemma notification_to_model_sel [simp]:
  "m_ID (notification_to_model n) = ID n"
  "m_IdempotencyKey (notification_to_model n) = IdempotencyKey n"
  "m_MaxRetries (notification_to_model n) = MaxRetries n"
  by (simp_all add: notification_to_model_def)

lemma model_to_notification_upd:
  "model_to_notification (m\<lparr>m_Status := st\<rparr>) = (model_to_notification m)\<lparr>Status := st\<rparr>"
  "model_to_notification (m\<lparr>m_UpdatedAt := s\<rparr>) = (model_to_notification m)\<lparr>UpdatedAt := s\<rparr>"
  "model_to_notification (m\<lparr>m_NextRetryAt := x\<rparr>) = (model_to_notification m)\<lparr>NextRetryAt := x\<rparr>"
  "model_to_notification (m\<lparr>m_ProviderMessageID := x'\<rparr>)
     = (model_to_notification m)\<lparr>ProviderMessageID := x'\<rparr>"
  "model_to_notification (m\<lparr>m_Status := st, m_NextRetryAt := x, m_AttemptCount := a\<rparr>)
     = (model_to_notification m)\<lparr>Status := st, NextRetryAt := x, AttemptCount := a\<rparr>"
  by (simp_all add: model_to_notification_def)

lemma domain_rows_apply: "domain_rows T k = map_option model_to_notification (T k)"
  by (simp add: domain_rows_def)

lemma domain_rows_upd: "domain_rows (T(k \<mapsto> m)) = (domain_rows T)(k \<mapsto> model_to_notification m)"
  by (auto simp: fun_eq_iff domain_rows_apply)

lemma row_keys_domain: "row_keys (domain_rows T) p = row_keys T (\<lambda>m. p (model_to_notification m))"
  by (auto simp: row_keys_def domain_rows_apply)

lemma row_keys_subset: "row_keys T p \<subseteq> dom T"
  by (auto simp: row_keys_def)

lemma listing_domain:
  "listing T (row_keys T p) ms \<Longrightarrow> listing (domain_rows T) (row_keys T p) (map model_to_notification ms)"
proof -
  assume "listing T (row_keys T p) ms"
  then obtain ks where ks: "distinct ks" "set ks = row_keys T p" "ms = map (\<lambda>k. the (T k)) ks"
    by (auto simp: listing_def)
  have "map model_to_notification ms = map (\<lambda>k. the (domain_rows T k)) ks"
    using ks row_keys_subset [of T p] by (auto simp: domain_rows_def)
  with ks show ?thesis by (auto simp: listing_def)
qed

lemma listing_empty: "listing T {} ms \<longleftrightarrow> ms = []"
  by (auto simp: listing_def)

lemma page_of_map: "page_of x l (map f ms) = map f (page_of x l ms)"
  by (simp add: page_of_def Let_def drop_map take_map split: option.split)

lemma stamped_n_stamped:
  assumes "stamped_notification (notification_to_model n) m'" and "MaxRetries n \<noteq> 0"
  shows "n_stamped n (model_to_notification m')"
  using assms
  by (cases n) (auto simp: n_stamped_def stamped_notification_def model_to_notification_def
      notification_to_model_def)

lemma inserted_domain:
  assumes "inserted m_ID stamped_notification T (notification_to_model n) m' T'"
    and "MaxRetries n \<noteq> 0"
  shows "n_inserted (domain_rows T) n (model_to_notification m') (domain_rows T')"
  using assms by (auto simp: inserted_def domain_rows_upd domain_rows_apply stamped_n_stamped)

lemma inserted_all_domain:
  "inserted_all m_ID stamped_notification T (map notification_to_model ns) ms' T' \<Longrightarrow>
     (\<And>n. n \<in> set ns \<Longrightarrow> MaxRetries n \<noteq> 0) \<Longrightarrow>
     n_inserted_all (domain_rows T) ns (map model_to_notification ms') (domain_rows T')"
proof (induction ns arbitrary: T ms')
  case Nil
  then show ?case by (cases ms') auto
next
  case (Cons n ns)
  then obtain m ms T1 where "ms' = m # ms"
    and i: "inserted m_ID stamped_notification T (notification_to_model n) m T1"
    and r: "inserted_all m_ID stamped_notification T1 (map notification_to_model ns) ms T'"
    by (cases ms') auto
  with Cons show ?case
    by (auto intro!: exI [of _ "domain_rows T1"] inserted_domain)
qed

lemma inserted_all_length: "inserted_all key st T ms ms' T' \<Longrightarrow> length ms' = length ms"
  by (induction key st T ms ms' T' rule: inserted_all.induct) auto

lemma batch_models_Some:
  "batch_models i (map Some ns) = zip (map notification_to_model ns) [i..<i + length ns]"
  by (induction ns arbitrary: i)
     (simp_all add: notificationModelFromDomain_def upt_conv_Cons del: upt_Suc)

lemma store_models_Some:
  "length ms = length ns \<Longrightarrow>
     store_models (pre @ map Some ns) (zip ms [length pre..<length pre + length ns])
       = pre @ map (Some \<circ> model_to_notification) ms"
proof (induction ns arbitrary: pre ms)
  case Nil
  then show ?case by simp
next
  case (Cons n ns)
  then obtain m ms1 where ms: "ms = m # ms1" "length ms1 = length ns"
    by (cases ms) auto
  have "store_models ((pre @ [Some (model_to_notification m)]) @ map Some ns)
          (zip ms1 [length (pre @ [Some (model_to_notification m)])..<
             length (pre @ [Some (model_to_notification m)]) + length ns])
        = (pre @ [Some (model_to_notification m)]) @ map (Some \<circ> model_to_notification) ms1"
    using ms by (intro Cons.IH) simp
  with ms show ?case
    by (simp add: upt_conv_Cons notificationModelToDomain_def nth_append comp_def del: upt_Suc)
qed

context gorm_table_laws
begin

lemma update_by_id:
  assumes "\<And>m. key (f m) = key m" and "\<And>m. uniq (f m) = uniq m"
  shows "wp (g_Update db (\<lambda>m. key m = nid \<and> q m) f) (\<lambda>r w'.
     let hit = (\<exists>m. tbl w nid = Some m \<and> q m);
         changed = (\<exists>m s. tbl w nid = Some m \<and> q m \<and> tbl w' = (tbl w)(nid \<mapsto> touch s (f m)))
     in case r of
          Inl e \<Rightarrow> foreign_error e \<and> (tbl w' = tbl w \<or> changed)
        | Inr ms \<Rightarrow> if hit then changed \<and> ms = [the (tbl w' nid)] else ms = [] \<and> tbl w' = tbl w) w"
proof -
  let ?p = "\<lambda>m. key m = nid \<and> q m"
  have upd: "update_rows ?p g (tbl w) =
      (case tbl w nid of Some m \<Rightarrow> if q m then (tbl w)(nid \<mapsto> g m) else tbl w | None \<Rightarrow> tbl w)" for g
    by (rule ext) (auto simp: update_rows_def map_option_case dest: keyed split: option.split,
        metis keyed option.distinct(1))
  have keys: "row_keys (tbl w) ?p = (if \<exists>m. tbl w nid = Some m \<and> q m then {nid} else {})"
    by (auto simp: row_keys_def dest: keyed)
  have single: "listing T {nid} ms \<longleftrightarrow> ms = [the (T nid)]" for T and ms :: "'m list"
  proof
    assume "listing T {nid} ms"
    then obtain ks where ks: "distinct ks" "set ks = {nid}" "ms = map (\<lambda>k. the (T k)) ks"
      by (auto simp: listing_def)
    then have "ks = [nid]"
      by (metis distinct.simps(2) empty_iff empty_set insert_absorb insert_iff list.exhaust
          list.set_intros(1) list.simps(15) singletonD)
    with ks show "ms = [the (T nid)]" by simp
  qed (auto simp: listing_def intro!: exI [of _ "[nid]"])
  show ?thesis
    by (rule wp_mono [OF update_law [of f ?p w]])
       (auto simp: assms upd keys single listing_empty Let_def split: sum.splits option.splits if_splits)
qed

end

locale gorm_notifications =
  gorm_table_laws db tbl m_ID m_IdempotencyKey touch_notification stamped_notification
  for db :: "'w notifications_table" and tbl +
  fixes rt :: "'w runtime"
  assumes clock_keeps_tbl: "keeps tbl (time_Now rt)"
begin

lemmas update_by_id' = update_by_id [where q = "\<lambda>_. True", simplified]

lemma updated_row_domain:
  assumes "tbl w nid = Some m" and "tbl w' = (tbl w)(nid \<mapsto> touch_notification s (f m))"
    and "model_to_notification (f m) = g (model_to_notification m)"
  shows "updated_row (domain_rows (tbl w)) (domain_rows (tbl w')) nid g"
  using assms
  by (auto simp: updated_row_def domain_rows_upd domain_rows_apply touch_notification_def
      model_to_notification_upd)

lemma set_spec_update:
  assumes "\<And>m. m_ID (f m) = m_ID m" and "\<And>m. m_IdempotencyKey (f m) = m_IdempotencyKey m"
    and "\<And>m. model_to_notification (f m) = g (model_to_notification m)"
  shows "wp (g_Update db (\<lambda>m. m_ID m = nid) f) (\<lambda>r w'.
     set_spec (domain_rows (tbl w)) (domain_rows (tbl w')) nid g
       (case r of Inl e \<Rightarrow> Some e
        | Inr ms \<Rightarrow> if length ms = 0 then Some (Sentinel ErrNotFound) else None)) w"
  by (rule wp_mono [OF update_by_id' [of f nid w]])
     (auto simp: assms set_spec_def foreign_error_def domain_rows_apply Let_def
       split: sum.splits option.splits if_splits intro: updated_row_domain [where f = f])

lemma find_domain:
  assumes "\<And>m. p m = q (model_to_notification m)"
    and "\<And>a b. p a \<Longrightarrow> p b \<Longrightarrow> sort_le ord a b = le (model_to_notification a) (model_to_notification b)"
  shows "wp (g_Find db p ord off lim) (\<lambda>r w'. tbl w' = tbl w \<and>
     (case r of Inl e \<Rightarrow> foreign_error e
      | Inr ms \<Rightarrow> \<exists>all. listing (domain_rows (tbl w)) (row_keys (domain_rows (tbl w)) q) all
          \<and> sorted_wrt le all \<and> map model_to_notification ms = page_of off lim all)) w"
proof (rule wp_mono [OF find_law [of p ord off lim w]])
  fix r w'
  assume r: "tbl w' = tbl w \<and> (case r of Inl e \<Rightarrow> foreign_error e
    | Inr ms \<Rightarrow> \<exists>all. listing (tbl w) (row_keys (tbl w) p) all \<and> sorted_wrt (sort_le ord) all
        \<and> ms = page_of off lim all)"
  have keys: "row_keys (domain_rows (tbl w)) q = row_keys (tbl w) p"
    by (simp add: row_keys_domain flip: assms(1))
  have "\<exists>all. listing (domain_rows (tbl w)) (row_keys (tbl w) p) all \<and> sorted_wrt le all
      \<and> map model_to_notification (page_of off lim ms) = page_of off lim all"
    if l: "listing (tbl w) (row_keys (tbl w) p) ms" and s: "sorted_wrt (sort_le ord) ms" for ms
  proof -
    have "p m" if "m \<in> set ms" for m
      using that l by (auto simp: listing_def row_keys_def)
    then have "sorted_wrt le (map model_to_notification ms)"
      using s by (auto simp: sorted_wrt_map assms(2) elim!: sorted_wrt_mono_rel [rotated])
    with l show ?thesis
      by (intro exI [of _ "map model_to_notification ms"]) (simp add: listing_domain page_of_map)
  qed
  with r show "tbl w' = tbl w \<and> (case r of Inl e \<Rightarrow> foreign_error e
    | Inr ms \<Rightarrow> \<exists>all. listing (domain_rows (tbl w)) (row_keys (domain_rows (tbl w)) q) all
        \<and> sorted_wrt le all \<and> map model_to_notification ms = page_of off lim all)"
    unfolding keys by (auto split: sum.splits)
qed

lemma no_row: "row_keys (tbl w) (\<lambda>m. m_ID m = nid) = {} \<longleftrightarrow> tbl w nid = None"
  using keyed [of w] by (auto simp: row_keys_def)

lemma gorm_Create_law:
  assumes "MaxRetries n \<noteq> 0"
  shows "wp (gorm_Create db (Some n)) (\<lambda>r w'.
        case r of
          Inl e \<Rightarrow> foreign_error e
            \<and> (if duplicate_error e
               then n_conflicts (domain_rows (tbl w)) n \<and> domain_rows (tbl w') = domain_rows (tbl w)
               else domain_rows (tbl w') = domain_rows (tbl w)
                 \<or> (\<exists>n'. n_inserted (domain_rows (tbl w)) n n' (domain_rows (tbl w'))))
        | Inr None \<Rightarrow> False
        | Inr (Some n') \<Rightarrow> n_inserted (domain_rows (tbl w)) n n' (domain_rows (tbl w'))) w"
proof -
  have conf: "n_conflicts (domain_rows T) n"
    if "conflicts m_ID m_IdempotencyKey T (notification_to_model n)" for T
    using that by (auto simp: conflicts_def domain_rows_apply) (metis model_to_notification_sel(2))
  have "notificationModelFromDomain (Some n) = Some (notification_to_model n)"
    by (simp add: notificationModelFromDomain_def)
  then show ?thesis
    by (simp add: gorm_Create_def, intro wp_mono [OF create_law [of "notification_to_model n" w]])
       (use assms in \<open>auto simp: notificationModelToDomain_def
          intro: conf inserted_domain split: sum.splits option.splits if_splits\<close>)
qed

lemma gorm_CreateBatch_law:
  assumes "\<And>n. n \<in> set ns \<Longrightarrow> MaxRetries n \<noteq> 0"
  shows "wp (gorm_CreateBatch db (map Some ns)) (\<lambda>r w'.
        case r of
          Inl e \<Rightarrow> foreign_error e
            \<and> (\<exists>j ns'. n_inserted_all (domain_rows (tbl w)) (take j ns) ns' (domain_rows (tbl w')))
        | Inr rs \<Rightarrow> \<exists>ns'. rs = map Some ns'
            \<and> n_inserted_all (domain_rows (tbl w)) ns ns' (domain_rows (tbl w'))) w"
proof -
  have bm: "batch_models 0 (map Some ns) = zip (map notification_to_model ns) [0..<length ns]"
    using batch_models_Some [of 0 ns] by simp
  have sm: "store_models (map Some ns) (zip ms' [0..<length ns]) = map (Some \<circ> model_to_notification) ms'"
    if "length ms' = length ns" for ms'
    using store_models_Some [OF that, of "[]"] by simp
  show ?thesis
  proof (cases "ns = []")
    case True
    then show ?thesis by (simp add: gorm_CreateBatch_def)
  next
    case False
    have ok: "\<exists>ns'. store_models (map Some ns) (zip ms' [0..<length ns]) = map Some ns'
        \<and> n_inserted_all (domain_rows T) ns ns' (domain_rows T')"
      if "inserted_all m_ID stamped_notification T (map notification_to_model ns) ms' T'" for T T' ms'
      using that assms inserted_all_length [OF that]
      by (intro exI [of _ "map model_to_notification ms'"]) (auto simp: sm intro: inserted_all_domain)
    have err: "\<exists>j ns'. n_inserted_all (domain_rows T) (take j ns) ns' (domain_rows T')"
      if "inserted_all m_ID stamped_notification T (take j (map notification_to_model ns)) ms' T'" for T T' ms' j
      using that assms inserted_all_domain [of T "take j ns" ms' T']
      by (fastforce simp: take_map dest: in_set_takeD)
    show ?thesis
      unfolding gorm_CreateBatch_def bm
      using False
      by (simp, intro wp_mono [OF create_in_batches_law [of 100 "map notification_to_model ns" w]])
         (auto dest: ok err split: sum.splits)
  qed
qed

lemma gorm_GetByID_law:
  "wp (gorm_GetByID db nid) (\<lambda>r w'. domain_rows (tbl w') = domain_rows (tbl w) \<and>
      (case r of
         Inl e \<Rightarrow> if errors_Is e ErrNotFound then domain_rows (tbl w) nid = None else foreign_error e
       | Inr n \<Rightarrow> domain_rows (tbl w) nid = Some n)) w"
  unfolding gorm_GetByID_def
  by (simp, rule wp_mono [OF first_law [of _ w]])
     (auto simp: domain_rows_apply foreign_error_def no_row dest: keyed split: sum.splits)

lemma gorm_GetByIdempotencyKey_law:
  "wp (gorm_GetByIdempotencyKey db ikey) (\<lambda>r w'. domain_rows (tbl w') = domain_rows (tbl w) \<and>
      (case r of
         Inl e \<Rightarrow> if errors_Is e ErrNotFound
           then (\<forall>k n. domain_rows (tbl w) k = Some n \<longrightarrow> IdempotencyKey n \<noteq> Some ikey)
           else foreign_error e
       | Inr n \<Rightarrow> domain_rows (tbl w) (ID n) = Some n \<and> IdempotencyKey n = Some ikey)) w"
  unfolding gorm_GetByIdempotencyKey_def
  by (simp, rule wp_mono [OF first_law [of _ w]])
     (auto simp: domain_rows_apply foreign_error_def row_keys_def dest: keyed split: sum.splits)

lemma gorm_List_law:
  "wp (gorm_List db params) (\<lambda>r w'. domain_rows (tbl w') = domain_rows (tbl w) \<and>
      (case r of
         Inl e \<Rightarrow> foreign_error e
       | Inr (ns, cnt) \<Rightarrow>
           cnt = int (card (row_keys (domain_rows (tbl w)) (n_list_filter params)))
           \<and> (\<exists>all. listing (domain_rows (tbl w)) (row_keys (domain_rows (tbl w)) (n_list_filter params)) all
              \<and> sorted_wrt (\<lambda>a b. CreatedAt b \<le> CreatedAt a) all
              \<and> ns = page_of (list_offset params) (Some (list_page_size params)) all))) w"
proof -
  have keys: "row_keys (domain_rows T) (n_list_filter params) = row_keys T (list_filter params)" for T
    by (simp add: row_keys_domain n_list_filter_def)
  have find: "wp (g_Find db (list_filter params) (DESC m_CreatedAt) off lim) (\<lambda>r w'. tbl w' = tbl w \<and>
     (case r of Inl e \<Rightarrow> foreign_error e
      | Inr ms \<Rightarrow> \<exists>all. listing (domain_rows (tbl w)) (row_keys (domain_rows (tbl w)) (n_list_filter params)) all
          \<and> sorted_wrt (\<lambda>a b. CreatedAt b \<le> CreatedAt a) all
          \<and> map model_to_notification ms = page_of off lim all)) w" for off lim w
    by (rule find_domain) (simp_all add: n_list_filter_def)
  show ?thesis
    unfolding gorm_List_def
    by (simp, rule wp_mono [OF count_law [of _ w]])
       (auto simp: keys split: sum.split intro!: wp_mono [OF find [unfolded keys]])
qed

lemma gorm_MarkQueuedIfAccepted_law:
  "wp (gorm_MarkQueuedIfAccepted db nid) (\<lambda>r w'.
      let R = domain_rows (tbl w); R' = domain_rows (tbl w');
          accepted = (\<exists>n. R nid = Some n \<and> Status n = StatusAccepted);
          marked = updated_row R R' nid (\<lambda>n. n\<lparr>Status := StatusQueued\<rparr>)
      in case r of
           Inl e \<Rightarrow> foreign_error e \<and> (R' = R \<or> accepted \<and> marked)
         | Inr b \<Rightarrow> b = accepted \<and> (if b then marked else R' = R)) w"
  unfolding gorm_MarkQueuedIfAccepted_def
  by (simp, rule wp_mono [OF update_by_id [of "\<lambda>m. m\<lparr>m_Status := StatusQueued\<rparr>" nid _ w]])
     (auto simp: domain_rows_apply Let_def model_to_notification_upd split: sum.splits if_splits
       intro: updated_row_domain)

lemma open_row_domain:
  "(\<exists>n. domain_rows T nid = Some n \<and> claimable n)
     \<longleftrightarrow> (\<exists>m. T nid = Some m \<and> m_Status m \<in> {StatusAccepted, StatusQueued})"
  by (auto simp: domain_rows_apply claimable_def)

lemma gorm_Cancel_law:
  "wp (gorm_Cancel db nid) (\<lambda>r w'.
      let R = domain_rows (tbl w); R' = domain_rows (tbl w');
          open_row = (\<exists>n. R nid = Some n \<and> claimable n);
          canceled = updated_row R R' nid (\<lambda>n. n\<lparr>Status := StatusCanceled\<rparr>)
      in case r of
           None \<Rightarrow> open_row \<and> canceled
         | Some e \<Rightarrow> if errors_Is e ErrConflict then \<not> open_row \<and> R' = R
             else foreign_error e \<and> (R' = R \<or> open_row \<and> canceled)) w"
  unfolding gorm_Cancel_def
  by (simp, rule wp_mono [OF update_by_id [of "\<lambda>m. m\<lparr>m_Status := StatusCanceled\<rparr>" nid _ w]])
     (auto simp: open_row_domain Let_def model_to_notification_upd foreign_error_def
       split: sum.splits if_splits intro: updated_row_domain)

lemma gorm_LockForSending_law:
  "wp (gorm_LockForSending db nid) (\<lambda>r w'.
      let R = domain_rows (tbl w); R' = domain_rows (tbl w');
          open_row = (\<exists>n. R nid = Some n \<and> claimable n);
          locked = updated_row R R' nid (\<lambda>n. n\<lparr>Status := StatusSending\<rparr>)
      in case r of
           Inr (Some n') \<Rightarrow> open_row \<and> locked \<and> R' nid = Some n'
         | Inr None \<Rightarrow> \<not> open_row \<and> R nid \<noteq> None \<and> R' = R
         | Inl e \<Rightarrow> if errors_Is e ErrNotFound then R nid = None \<and> R' = R
             else foreign_error e \<and> (R' = R \<or> open_row \<and> locked)) w"
proof -
  let ?f = "\<lambda>m. m\<lparr>m_Status := StatusSending\<rparr>"
  let ?q = "\<lambda>m. m_Status m \<in> {StatusAccepted, StatusQueued}"
  have locked: "updated_row (domain_rows (tbl v)) (domain_rows (tbl v')) nid (\<lambda>n. n\<lparr>Status := StatusSending\<rparr>)"
    if "tbl v nid = Some m" "tbl v' = (tbl v)(nid \<mapsto> touch_notification s (?f m))" for v v' m s
    using that by (rule updated_row_domain) (simp add: model_to_notification_upd)
  have second: "wp (g_First db (\<lambda>m. m_ID m = nid)) (\<lambda>r w'. tbl w' = tbl v \<and>
      (case r of Inl e \<Rightarrow> foreign_error e \<and> (errors_Is e GormErrRecordNotFound \<longrightarrow> tbl v nid = None)
       | Inr m \<Rightarrow> tbl v nid \<noteq> None)) v" for v
    by (rule wp_mono [OF first_law [of _ v]]) (auto simp: no_row dest: keyed split: sum.splits)
  show ?thesis
    unfolding gorm_LockForSending_def wp_bind
    by (rule wp_mono [OF update_by_id [of ?f nid ?q w]])
       (auto simp: claimable_def Let_def foreign_error_def domain_rows_apply [of _ nid]
         split: sum.splits list.splits if_splits intro: locked intro!: wp_mono [OF second])
qed

lemma gorm_due_law:
  assumes "\<And>m now. P now m = q now (model_to_notification m)"
    and "\<And>now a b. P now a \<Longrightarrow> P now b \<Longrightarrow>
           sort_le ord a b = le (model_to_notification a) (model_to_notification b)"
  shows "wp (do { now \<leftarrow> time_Now rt; r \<leftarrow> g_Find db (P now) ord 0 (Some limit);
                  State_Monad.return (case r of Inl e \<Rightarrow> Inl e | Inr ms \<Rightarrow> Inr (map model_to_notification ms)) })
    (\<lambda>r w'. domain_rows (tbl w') = domain_rows (tbl w) \<and>
      (case r of
         Inl e \<Rightarrow> foreign_error e
       | Inr ns \<Rightarrow> \<exists>now all. listing (domain_rows (tbl w)) (row_keys (domain_rows (tbl w)) (q now)) all
           \<and> sorted_wrt le all \<and> ns = page_of 0 (Some limit) all)) w"
proof -
  have f: "wp (g_Find db (P now) ord 0 (Some limit)) (\<lambda>r w'. tbl w' = tbl v \<and>
     (case r of Inl e \<Rightarrow> foreign_error e
      | Inr ms \<Rightarrow> \<exists>all. listing (domain_rows (tbl v)) (row_keys (domain_rows (tbl v)) (q now)) all
          \<and> sorted_wrt le all \<and> map model_to_notification ms = page_of 0 (Some limit) all)) v" for now v
    by (rule find_domain) (use assms in auto)
  show ?thesis
    unfolding wp_bind wp_return
    by (rule keeps_wpI [OF clock_keeps_tbl], rule wp_mono [OF f]) (auto split: sum.splits)
qed

lemma gorm_GetBatchSummary_law:
  "wp (gorm_GetBatchSummary db bid) (\<lambda>r w'. domain_rows (tbl w') = domain_rows (tbl w) \<and>
      (case r of
         Inl e \<Rightarrow> foreign_error e
       | Inr gs \<Rightarrow> distinct (map rbs_Status gs)
           \<and> (\<forall>s c. \<lparr>rbs_Status = s, rbs_Count = c\<rparr> \<in> set gs \<longleftrightarrow>
                row_keys (domain_rows (tbl w)) (\<lambda>n. BatchID n = Some bid \<and> Status n = s) \<noteq> {}
                \<and> c = int (card (row_keys (domain_rows (tbl w))
                     (\<lambda>n. BatchID n = Some bid \<and> Status n = s)))))) w"
proof -
  let ?g = "\<lambda>(s, c). \<lparr>rbs_Status = s, rbs_Count = c\<rparr>"
  have fst_map: "map rbs_Status (map ?g gs) = map fst gs" for gs :: "(string \<times> int) list"
    by (induction gs) auto
  show ?thesis
    unfolding gorm_GetBatchSummary_def
    by (simp, rule wp_mono [OF group_count_law [of _ m_Status w]])
       (auto simp: row_keys_domain fst_map simp del: map_map split: sum.splits)
qed

end

sublocale gorm_notifications \<subseteq> gorm_repo:
  notification_repository_laws "NewGormNotificationRepo rt db" "\<lambda>w. domain_rows (tbl w)"
proof (unfold_locales, goal_cases)
  case (1 w k n)
  then show ?case by (auto simp: domain_rows_apply dest: keyed)
next
  case (2 w)
  have "dom (domain_rows (tbl w)) = dom (tbl w)" by (auto simp: domain_rows_apply)
  then show ?case by (simp add: finite_tbl)
next
  case (3 w k n k' n' u)
  then show ?case by (auto simp: domain_rows_apply intro: unique_index)
next
  case (4 n w)
  then show ?case by (simp add: NewGormNotificationRepo_def gorm_Create_law)
next
  case (5 ns w)
  then show ?case by (simp add: NewGormNotificationRepo_def gorm_CreateBatch_law)
next
  case (6 nid w)
  show ?case using gorm_GetByID_law by (simp add: NewGormNotificationRepo_def)
next
  case (7 ikey w)
  show ?case using gorm_GetByIdempotencyKey_law by (simp add: NewGormNotificationRepo_def)
next
  case (8 params w)
  show ?case using gorm_List_law by (simp add: NewGormNotificationRepo_def)
next
  case (9 nid st w)
  show ?case
    unfolding NewGormNotificationRepo_def gorm_UpdateStatus_def notification_repository.simps wp_bind wp_return
    by (rule set_spec_update) (simp_all add: model_to_notification_upd)
next
  case (10 nid w)
  show ?case using gorm_MarkQueuedIfAccepted_law by (simp add: NewGormNotificationRepo_def Let_def)
next
  case (11 nid st at w)
  show ?case
    unfolding NewGormNotificationRepo_def gorm_UpdateStatusWithRetry_def notification_repository.simps
      wp_bind wp_return
    by (rule set_spec_update) (simp_all add: model_to_notification_def)
next
  case (12 nid w)
  show ?case using gorm_Cancel_law by (simp add: NewGormNotificationRepo_def Let_def)
next
  case (13 nid w)
  show ?case using gorm_LockForSending_law by (simp add: NewGormNotificationRepo_def Let_def)
next
  case (14 limit w)
  show ?case
    unfolding NewGormNotificationRepo_def gorm_GetDueForSchedule_def notification_repository.simps
    by (rule gorm_due_law) (auto simp: schedule_due_def split: option.splits)
next
  case (15 limit w)
  show ?case
    unfolding NewGormNotificationRepo_def gorm_GetDueForRetry_def notification_repository.simps
    by (rule gorm_due_law) (auto simp: retry_due_def split: option.splits)
next
  case (16 nid w)
  show ?case
    unfolding NewGormNotificationRepo_def gorm_ClearNextRetryAt_def notification_repository.simps wp_bind wp_return
    by (rule set_spec_update) (simp_all add: model_to_notification_upd)
next
  case (17 nid pmid w)
  show ?case
    unfolding NewGormNotificationRepo_def gorm_SetProviderMessageID_def notification_repository.simps wp_bind wp_return
    by (rule set_spec_update) (simp_all add: model_to_notification_upd)
next
  case (18 bid w)
  show ?case using gorm_GetBatchSummary_law by (simp add: NewGormNotificationRepo_def)
qed

section \<open>Properties of the GORM repository\<close>

text \<open>
  Of two successive attempts to claim the same notification for sending at most one succeeds,
  and the one that succeeds gets the row in SENDING.
\<close>

theorem LockForSending_exclusive:
  assumes "gorm_notifications db tbl rt"
  shows "wp (do { a \<leftarrow> gorm_LockForSending db nid; b \<leftarrow> gorm_LockForSending db nid; State_Monad.return (a, b) })
    (\<lambda>(a, b) w'. case a of
        Inr (Some x) \<Rightarrow> Status x = StatusSending \<and> ID x = nid \<and> (case b of Inr (Some y) \<Rightarrow> False | _ \<Rightarrow> True)
      | _ \<Rightarrow> True) w"
proof -
  note lock = gorm_notifications.gorm_LockForSending_law [OF assms]
  have keyed: "m_ID m = k" if "tbl v k = Some m" for v k m
    using gorm_table_laws.keyed [OF gorm_notifications.axioms(1) [OF assms] that] .
  have again: "wp (gorm_LockForSending db nid) (\<lambda>b _. case b of Inr (Some y) \<Rightarrow> False | _ \<Rightarrow> True) v"
    if "domain_rows (tbl v) nid = Some x" "Status x = StatusSending" for v x
    by (rule wp_mono [OF lock]) (use that in \<open>auto simp: Let_def claimable_def split: sum.splits option.splits\<close>)
  show ?thesis
  proof (rule wp_bindI, rule wp_mono [OF lock], goal_cases)
    case (1 a v)
    show ?case
    proof (cases "\<exists>x. a = Inr (Some x)")
      case True
      then obtain x where x: "a = Inr (Some x)" ..
      note l = 1 [unfolded x Let_def sum.case option.case]
      then have row: "domain_rows (tbl v) nid = Some x" by blast
      have st: "Status x = StatusSending"
        using l by (auto simp: updated_row_def)
      have "ID x = nid" using row keyed by (auto simp: domain_rows_apply)
      then show ?thesis
        unfolding x by (rule_tac wp_bindI, rule_tac wp_mono [OF again [OF row st]]) (use st in auto)
    next
      case False
      then show ?thesis by (auto intro!: wpI split: sum.splits option.splits)
    qed
  qed
qed

lemma list_page_size_range: "1 \<le> list_page_size params \<and> list_page_size params \<le> 100"
  by (simp add: list_page_size_def Let_def)

lemma list_offset_exact:
  assumes "lp_Page params \<le> 2 ^ 56"
  shows "list_offset params = (list_page params - 1) * list_page_size params"
proof -
  let ?p = "list_page params - 1" and ?s = "list_page_size params"
  have p: "0 \<le> ?p" "?p \<le> 2 ^ 56" using assms by (auto simp: list_page_def)
  have s: "0 \<le> ?s" "?s \<le> 100" using list_page_size_range [of params] by auto
  have "0 \<le> ?p * ?s" using p s by simp
  moreover have "?p * ?s \<le> 2 ^ 56 * 100" using p s by (intro mult_mono) auto
  ultimately have "is_i64 (?p * ?s)" by (simp add: is_i64_def)
  moreover have "is_i64 ?p" using p by (simp add: is_i64_def)
  ultimately show ?thesis by (simp add: list_offset_def)
qed

lemma set_page_of: "set (page_of x l ms) \<subseteq> set ms"
  by (auto simp: page_of_def Let_def split: option.splits if_splits dest: in_set_dropD in_set_takeD)

lemma page_of_drop_take:
  "0 \<le> l \<Longrightarrow> page_of x (Some l) ms = take (nat l) (drop (nat x) ms)"
  by (simp add: page_of_def)

lemma length_page:
  "0 \<le> l \<Longrightarrow> 0 \<le> x \<Longrightarrow> int (length (take (nat l) (drop (nat x) ms))) = min l (max 0 (int (length ms) - x))"
  by simp

lemma sorted_wrt_page: "sorted_wrt le ms \<Longrightarrow> sorted_wrt le (take k (drop j ms))"
  by (metis append_take_drop_id sorted_wrt_append)

lemma listing_facts:
  assumes "listing T K ms" and "K \<subseteq> dom T" and keyed: "\<And>k m. T k = Some m \<Longrightarrow> key m = k"
  shows "distinct (map key ms)" and "length ms = card K" and "\<And>m. m \<in> set ms \<Longrightarrow> T (key m) = Some m \<and> key m \<in> K"
proof -
  from assms(1) obtain ks where ks: "distinct ks" "set ks = K" "ms = map (\<lambda>k. the (T k)) ks"
    by (auto simp: listing_def)
  have row: "T k = Some (the (T k)) \<and> key (the (T k)) = k" if "k \<in> set ks" for k
    using that ks assms(2) keyed [of k] by (cases "T k") auto
  then have "map key ms = ks" using ks(3) by (auto intro!: map_idI)
  with ks row show "distinct (map key ms)" "\<And>m. m \<in> set ms \<Longrightarrow> T (key m) = Some m \<and> key m \<in> K"
    by auto
  show "length ms = card K" using ks distinct_card [of ks] by simp
qed

text \<open>
  A page of \<open>List\<close> holds at most 100 distinct stored notifications, each matching the filter,
  newest first; the total is the number of all matching rows; and for page numbers up to
  \<open>2 ^ 56\<close> the page is as long as the page size and the number of rows before it allow. The
  table is not changed.
\<close>

theorem List_page:
  assumes "gorm_notifications db tbl rt"
  shows "wp (gorm_List db params) (\<lambda>r w'. domain_rows (tbl w') = domain_rows (tbl w) \<and> (case r of
       Inl e \<Rightarrow> foreign_error e
     | Inr (ns, cnt) \<Rightarrow>
         int (length ns) \<le> list_page_size params \<and> list_page_size params \<le> 100
         \<and> distinct (map ID ns) \<and> sorted_wrt (\<lambda>a b. CreatedAt b \<le> CreatedAt a) ns
         \<and> (\<forall>n\<in>set ns. domain_rows (tbl w) (ID n) = Some n \<and> list_filter params (notification_to_model n))
         \<and> cnt = int (card {k. \<exists>n. domain_rows (tbl w) k = Some n \<and> list_filter params (notification_to_model n)})
         \<and> (lp_Page params \<le> 2 ^ 56 \<longrightarrow> int (length ns) =
              min (list_page_size params) (max 0 (cnt - (list_page params - 1) * list_page_size params))))) w"
proof (rule wp_mono [OF gorm_notifications.gorm_List_law [OF assms]], goal_cases)
  case (1 r w')
  let ?R = "domain_rows (tbl w)" and ?s = "list_page_size params"
  let ?K = "row_keys ?R (n_list_filter params)"
  have s: "1 \<le> ?s" "?s \<le> 100" using list_page_size_range [of params] by auto
  have keyed: "ID n = k" if "?R k = Some n" for k n
    using that gorm_table_laws.keyed [OF gorm_notifications.axioms(1) [OF assms]]
    by (auto simp: domain_rows_apply)
  have K: "?K = {k. \<exists>n. ?R k = Some n \<and> list_filter params (notification_to_model n)}"
    by (simp add: row_keys_def n_list_filter_def)
  have sub: "?K \<subseteq> dom ?R" by (auto simp: row_keys_def)
  show ?case
  proof (cases r)
    case (Inl e)
    with 1 show ?thesis by simp
  next
    case (Inr p)
    with 1 obtain ns cnt all where p: "p = (ns, cnt)" and cnt: "cnt = int (card ?K)"
      and all: "listing ?R ?K all" "sorted_wrt (\<lambda>a b. CreatedAt b \<le> CreatedAt a) all"
      and ns: "ns = page_of (list_offset params) (Some ?s) all"
      and w': "domain_rows (tbl w') = ?R"
      by (cases p) auto
    note f = listing_facts [where key = ID, OF all(1) sub keyed]
    have ns': "ns = take (nat ?s) (drop (nat (list_offset params)) all)"
      using ns s by (simp add: page_of_drop_take)
    have d: "distinct (map ID ns)" using f(1) by (simp add: ns' drop_map [symmetric] take_map [symmetric])
    have srt: "sorted_wrt (\<lambda>a b. CreatedAt b \<le> CreatedAt a) ns"
      unfolding ns' by (rule sorted_wrt_page [OF all(2)])
    have mem: "\<forall>n\<in>set ns. ?R (ID n) = Some n \<and> list_filter params (notification_to_model n)"
      using f(3) set_page_of [of _ _ all] by (fastforce simp: ns row_keys_def n_list_filter_def)
    have len: "int (length ns) = min ?s (max 0 (cnt - (list_page params - 1) * ?s))"
      if "lp_Page params \<le> 2 ^ 56"
    proof -
      have o: "list_offset params = (list_page params - 1) * ?s" "0 \<le> list_offset params"
        using list_offset_exact [OF that] s by (simp_all add: list_page_def)
      show ?thesis
        using length_page [of ?s "list_offset params" all] o s f(2) cnt by (simp add: ns')
    qed
    show ?thesis
      using d srt mem len cnt w' s by (simp add: Inr p K ns')
  qed
qed

context gorm_notifications
begin

lemmas repo_contract = gorm_repo.notification_repository_laws_axioms

end

text \<open>
  C6: the GORM repository refines the contract of \<open>NotificationRepository\<close> that the services rely on:
  over every table with the laws of GORM, all fifteen operations keep their promises, with the
  stored models read as domain notifications.
\<close>

theorem gorm_refines_contract:
  assumes "gorm_notifications db tbl rt"
  shows "notification_repository_laws (NewGormNotificationRepo rt db) (\<lambda>w. domain_rows (tbl w))"
  using assms by (rule gorm_notifications.repo_contract)

end
