(* ===== verification/Go_JSON.thy ===== *)
theory Go_JSON
  imports Go_Strings
begin

text \<open>
  The parts of Go's \<open>encoding/json\<close> the queue uses: the encoding of strings (with the escapes for
  HTML that \<open>Marshal\<close> makes), a parser of JSON texts, and the decoding of strings, in which every
  invalid byte of the encoding becomes the replacement character U+FFFD.
\<close>

section \<open>Encoding\<close>

abbreviation dquote :: char where "dquote \<equiv> CHR 0x22"
abbreviation backslash :: char where "backslash \<equiv> CHR 0x5C"

definition replacement :: string where
  "replacement = [CHR 0xEF, CHR 0xBF, CHR 0xBD]"

definition escape_byte :: "char \<Rightarrow> string" where
  "escape_byte c =
     (let n = (of_char c :: nat) in
      if n = 0x22 \<or> n = 0x5C then [backslash, c]
      else if n = 8 then [backslash, CHR ''b''] else if n = 12 then [backslash, CHR ''f'']
      else if n = 10 then [backslash, CHR ''n''] else if n = 13 then [backslash, CHR ''r'']
      else if n = 9 then [backslash, CHR ''t'']
      else if n < 32 \<or> n \<in> {0x26, 0x3C, 0x3E}
      then [backslash, CHR ''u'', CHR ''0'', CHR ''0'', hex_digit (n div 16), hex_digit (n mod 16)]
      else [c])"

text \<open>The first rune of a non-empty string, as it is written. U+2028 and U+2029 are escaped.\<close>

definition json_rune :: "string \<Rightarrow> string" where
  "json_rune s =
     (if of_char (hd s) < (128 :: nat) then escape_byte (hd s)
      else if rune_width s = 1 then backslash # ''ufffd''
      else if take 3 s = [CHR 0xE2, CHR 0x80, CHR 0xA8] then backslash # ''u2028''
      else if take 3 s = [CHR 0xE2, CHR 0x80, CHR 0xA9] then backslash # ''u2029''
      else take (rune_width s) s)"

function json_runes :: "string \<Rightarrow> string" where
  "json_runes s = (if s = [] then [] else json_rune s @ json_runes (drop (rune_width s) s))"
  by pat_completeness auto
termination
  by (relation "measure length") (auto simp: rune_width_pos)

declare json_runes.simps [simp del]

definition json_string :: "string \<Rightarrow> string" where
  "json_string s = dquote # json_runes s @ [dquote]"

section \<open>Decoding of strings\<close>

definition hex_value :: "char \<Rightarrow> nat option" where
  "hex_value c =
     (let n = (of_char c :: nat) in
      if 48 \<le> n \<and> n \<le> 57 then Some (n - 48)
      else if 97 \<le> n \<and> n \<le> 102 then Some (n - 87)
      else if 65 \<le> n \<and> n \<le> 70 then Some (n - 55)
      else None)"

text \<open>Four hexadecimal digits, and what follows them.\<close>

definition getu4 :: "string \<Rightarrow> (nat \<times> string) option" where
  "getu4 s =
     (case s of
        a # b # c # d # t \<Rightarrow>
          (case (hex_value a, hex_value b, hex_value c, hex_value d) of
             (Some i, Some j, Some k, Some l) \<Rightarrow> Some (((i * 16 + j) * 16 + k) * 16 + l, t)
           | _ \<Rightarrow> None)
      | _ \<Rightarrow> None)"

definition EncodeRune :: "nat \<Rightarrow> string" where
  "EncodeRune r =
     (if r < 0x80 then [char_of r]
      else if r < 0x800 then [char_of (0xC0 + r div 64), char_of (0x80 + r mod 64)]
      else if 0xD800 \<le> r \<and> r \<le> 0xDFFF \<or> 0x10FFFF < r then replacement
      else if r < 0x10000
      then [char_of (0xE0 + r div 4096), char_of (0x80 + r div 64 mod 64), char_of (0x80 + r mod 64)]
      else [char_of (0xF0 + r div 262144), char_of (0x80 + r div 4096 mod 64),
            char_of (0x80 + r div 64 mod 64), char_of (0x80 + r mod 64)])"

text \<open>An escape \<open>u\<close> with its digits read: a high surrogate followed by a low one is one rune, any
  other surrogate the replacement character.\<close>

definition unicode_escape :: "nat \<Rightarrow> string \<Rightarrow> string \<times> string" where
  "unicode_escape r t =
     (if \<not> (0xD800 \<le> r \<and> r \<le> 0xDFFF) then (EncodeRune r, t)
      else case t of
        b # u # v \<Rightarrow>
          (case getu4 v of
             Some (r1, v') \<Rightarrow>
               if b = backslash \<and> u = CHR ''u'' \<and> r \<le> 0xDBFF \<and> 0xDC00 \<le> r1 \<and> r1 \<le> 0xDFFF
               then (EncodeRune (0x10000 + (r - 0xD800) * 1024 + (r1 - 0xDC00)), v')
               else (replacement, t)
           | None \<Rightarrow> (replacement, t))
      | _ \<Rightarrow> (replacement, t))"

definition simple_escape :: "char \<Rightarrow> char option" where
  "simple_escape e =
     map_of [(dquote, dquote), (backslash, backslash), (CHR ''/'', CHR ''/''), (CHR ''b'', CHR 0x08),
       (CHR ''f'', CHR 0x0C), (CHR ''n'', CHR 0x0A), (CHR ''r'', CHR 0x0D), (CHR ''t'', CHR 0x09)] e"

text \<open>One unit of a string that is not its end: the bytes it stands for, and what follows.\<close>

definition unquote_step :: "string \<Rightarrow> (string \<times> string) option" where
  "unquote_step s =
     (case s of
        [] \<Rightarrow> None
      | c # t \<Rightarrow>
          if c = backslash
          then (case t of
                  [] \<Rightarrow> None
                | e # u \<Rightarrow>
                    if e = CHR ''u''
                    then (case getu4 u of None \<Rightarrow> None | Some (r, v) \<Rightarrow> Some (unicode_escape r v))
                    else (case simple_escape e of None \<Rightarrow> None | Some b \<Rightarrow> Some ([b], u)))
          else if of_char c < (32 :: nat) then None
          else if of_char c < (128 :: nat) then Some ([c], t)
          else if rune_width s = 1 then Some (replacement, t)
          else Some (take (rune_width s) s, drop (rune_width s) s))"

lemma getu4_length: "getu4 s = Some (r, t) \<Longrightarrow> length t < length s"
  by (auto simp: getu4_def split: list.splits option.splits)

lemma unicode_escape_length: "length (snd (unicode_escape r t)) \<le> length t"
  by (auto simp: unicode_escape_def split: list.splits option.splits dest: getu4_length)

lemma unquote_step_length:
  assumes "unquote_step s = Some (b, r)"
  shows "length r < length s"
proof (cases s)
  case (Cons c t)
  have escaped: "length r < Suc (Suc (length u))" if "getu4 u = Some (n, v)" "unicode_escape n v = (b, r)" for u n v
    using getu4_length [OF that(1)] unicode_escape_length [of n v] that(2) by simp
  show ?thesis
    using assms rune_width_pos [of s] unfolding unquote_step_def Cons
    by (auto intro: escaped split: list.splits if_splits option.splits)
qed (use assms in \<open>simp add: unquote_step_def\<close>)

text \<open>The contents of a string from behind its opening to behind its closing quote.\<close>

function unquote :: "string \<Rightarrow> (string \<times> string) option" where
  "unquote s =
     (if s \<noteq> [] \<and> hd s = dquote then Some ([], tl s)
      else case unquote_step s of
        None \<Rightarrow> None
      | Some (b, r) \<Rightarrow> (case unquote r of None \<Rightarrow> None | Some (x, t) \<Rightarrow> Some (b @ x, t)))"
  by pat_completeness auto
termination
  by (relation "measure length") (auto dest: unquote_step_length)

declare unquote.simps [simp del]

section \<open>What a string becomes\<close>

text \<open>Each byte that starts no valid sequence is replaced.\<close>

function sanitize :: "string \<Rightarrow> string" where
  "sanitize s =
     (if s = [] then []
      else (if of_char (hd s) < (128 :: nat) \<or> rune_width s \<noteq> 1 then take (rune_width s) s else replacement)
        @ sanitize (drop (rune_width s) s))"
  by pat_completeness auto
termination
  by (relation "measure length") (auto simp: rune_width_pos)

declare sanitize.simps [simp del]

function valid_utf8 :: "string \<Rightarrow> bool" where
  "valid_utf8 s \<longleftrightarrow>
     (if s = [] then True
      else (of_char (hd s) < (128 :: nat) \<or> rune_width s \<noteq> 1) \<and> valid_utf8 (drop (rune_width s) s))"
  by pat_completeness auto
termination
  by (relation "measure length") (auto simp: rune_width_pos)

declare valid_utf8.simps [simp del]

lemma sanitize_valid: "valid_utf8 s \<Longrightarrow> sanitize s = s"
proof (induction s rule: sanitize.induct)
  case (1 s)
  have "sanitize [] = []" by (simp add: sanitize.simps)
  with 1 show ?case by (cases "s = []") (simp_all add: sanitize.simps [of s] valid_utf8.simps [of s])
qed

lemma sanitize_ascii: "list_all (\<lambda>c. of_char c < (128 :: nat)) s \<Longrightarrow> sanitize s = s"
  by (induction s) (simp_all add: sanitize.simps rune_width_ascii)

lemma hex_value_digit: "k < 16 \<Longrightarrow> hex_value (hex_digit k) = Some k"
  by (auto simp: hex_value_def hex_digit_def Let_def)

lemma hex_value_0: "hex_value (CHR ''0'') = Some 0"
  by (simp add: hex_value_def)

lemma getu4_byte: "n < 128 \<Longrightarrow>
    getu4 (CHR ''0'' # CHR ''0'' # hex_digit (n div 16) # hex_digit (n mod 16) # t) = Some (n, t)"
  by (simp add: getu4_def hex_value_digit hex_value_0)

lemma of_char_eq: "(of_char c :: nat) = n \<Longrightarrow> c = char_of n"
  by (metis char_of_char)

lemma control_chars:
  "char_of (8 :: nat) = CHR 0x08" "char_of (9 :: nat) = CHR 0x09" "char_of (10 :: nat) = CHR 0x0A"
  "char_of (12 :: nat) = CHR 0x0C" "char_of (13 :: nat) = CHR 0x0D" "char_of (34 :: nat) = dquote"
  "char_of (92 :: nat) = backslash"
  by code_simp+

lemma unquote_ascii:
  assumes "of_char c < (128 :: nat)"
  shows "unquote_step (escape_byte c @ t) = Some ([c], t)" and "hd (escape_byte c @ t) \<noteq> dquote" and "escape_byte c \<noteq> []"
proof -
  have "unicode_escape (of_char c) t = ([c], t)" using assms by (simp add: unicode_escape_def EncodeRune_def)
  then show "unquote_step (escape_byte c @ t) = Some ([c], t)"
    using assms getu4_byte [OF assms]
    by (auto simp: escape_byte_def unquote_step_def simple_escape_def Let_def control_chars dest!: of_char_eq)
  show "hd (escape_byte c @ t) \<noteq> dquote" by (auto simp: escape_byte_def Let_def)
  show "escape_byte c \<noteq> []" by (auto simp: escape_byte_def Let_def)
qed

definition wide2 :: "char \<Rightarrow> char \<Rightarrow> bool" where
  "wide2 a b \<longleftrightarrow> in_range 0xC2 0xDF a \<and> in_range 0x80 0xBF b"

definition wide3 :: "char \<Rightarrow> char \<Rightarrow> char \<Rightarrow> bool" where
  "wide3 a b c \<longleftrightarrow> (in_range 0xE0 0xE0 a \<and> in_range 0xA0 0xBF b \<or> in_range 0xE1 0xEC a \<and> in_range 0x80 0xBF b
     \<or> in_range 0xED 0xED a \<and> in_range 0x80 0x9F b \<or> in_range 0xEE 0xEF a \<and> in_range 0x80 0xBF b) \<and> in_range 0x80 0xBF c"

definition wide4 :: "char \<Rightarrow> char \<Rightarrow> char \<Rightarrow> char \<Rightarrow> bool" where
  "wide4 a b c d \<longleftrightarrow> (in_range 0xF0 0xF0 a \<and> in_range 0x90 0xBF b \<or> in_range 0xF1 0xF3 a \<and> in_range 0x80 0xBF b
     \<or> in_range 0xF4 0xF4 a \<and> in_range 0x80 0x8F b) \<and> in_range 0x80 0xBF c \<and> in_range 0x80 0xBF d"

lemma rune_width_eqs:
  "rune_width (a # b # c # d # r) = (if wide2 a b then 2 else if wide3 a b c then 3 else if wide4 a b c d then 4 else 1)"
  "rune_width [a, b, c] = (if wide2 a b then 2 else if wide3 a b c then 3 else 1)"
  "rune_width [a, b] = (if wide2 a b then 2 else 1)" "rune_width [a] = 1" "rune_width [] = 1"
  by (simp_all add: rune_width_def wide2_def wide3_def wide4_def)

lemma wide_disjoint: "wide3 a b c \<Longrightarrow> \<not> wide2 a x" "wide4 a b c d \<Longrightarrow> \<not> wide2 a x \<and> \<not> wide3 a x y"
  by (auto simp: wide2_def wide3_def wide4_def in_range_def)

lemma rune_width_wide:
  "wide2 a b \<Longrightarrow> rune_width (a # b # r) = 2" "wide3 a b c \<Longrightarrow> rune_width (a # b # c # r) = 3"
  "wide4 a b c d \<Longrightarrow> rune_width (a # b # c # d # r) = 4"
  using wide_disjoint by (cases r; cases "tl r"; auto simp: rune_width_eqs)+

lemma rune_cases:
  assumes "rune_width s \<noteq> 1"
  obtains (2) a b r where "s = a # b # r" "wide2 a b" | (3) a b c r where "s = a # b # c # r" "wide3 a b c"
  | (4) a b c d r where "s = a # b # c # d # r" "wide4 a b c d"
proof -
  consider "length s < 2" | a b where "s = [a, b]" | a b c where "s = [a, b, c]" | a b c d r where "s = a # b # c # d # r"
    by (cases s; cases "tl s"; cases "tl (tl s)"; cases "tl (tl (tl s))") auto
  then show thesis
  proof cases
    case 1
    then have "rune_width s = 1" by (cases s) (auto simp: rune_width_eqs)
    with assms show thesis by simp
  qed (use assms that in \<open>auto simp: rune_width_eqs split: if_splits\<close>)
qed

lemma rune_width_take: "rune_width s \<noteq> 1 \<Longrightarrow> rune_width (take (rune_width s) s @ t) = rune_width s"
  by (erule rune_cases) (simp_all add: rune_width_wide)

lemma escaped_runes:
  "unquote_step (backslash # ''ufffd'' @ t) = Some (replacement, t)"
  "unquote_step (backslash # ''u2028'' @ t) = Some ([CHR 0xE2, CHR 0x80, CHR 0xA8], t)"
  "unquote_step (backslash # ''u2029'' @ t) = Some ([CHR 0xE2, CHR 0x80, CHR 0xA9], t)"
proof -
  have chars: "char_of (239 :: nat) = CHR 0xEF" "char_of (191 :: nat) = CHR 0xBF" "char_of (189 :: nat) = CHR 0xBD"
    "char_of (226 :: nat) = CHR 0xE2" "char_of (128 :: nat) = CHR 0x80" "char_of (168 :: nat) = CHR 0xA8"
    "char_of (169 :: nat) = CHR 0xA9"
    by code_simp+
  have "EncodeRune 65533 = replacement" "EncodeRune 8232 = [CHR 0xE2, CHR 0x80, CHR 0xA8]"
    "EncodeRune 8233 = [CHR 0xE2, CHR 0x80, CHR 0xA9]"
    by (simp_all add: EncodeRune_def replacement_def chars)
  then show "unquote_step (backslash # ''ufffd'' @ t) = Some (replacement, t)"
    "unquote_step (backslash # ''u2028'' @ t) = Some ([CHR 0xE2, CHR 0x80, CHR 0xA8], t)"
    "unquote_step (backslash # ''u2029'' @ t) = Some ([CHR 0xE2, CHR 0x80, CHR 0xA9], t)"
    by (simp_all add: unquote_step_def getu4_def hex_value_def unicode_escape_def)
qed

lemma unquote_wide:
  assumes "rune_width s \<noteq> 1" and "\<not> of_char (hd s) < (128 :: nat)"
  shows "unquote_step (take (rune_width s) s @ t) = Some (take (rune_width s) s, t)"
    and "hd (take (rune_width s) s @ t) = hd s"
proof -
  obtain a r where s: "s = a # r" using assms(1) by (cases s) (auto simp: rune_width_eqs)
  obtain n where n: "rune_width s = Suc n" using rune_width_pos [of s] by (cases "rune_width s") auto
  have len: "length (take (rune_width s) s) = rune_width s" using assms(1) by (cases rule: rune_cases) (simp_all add: rune_width_wide)
  have "a \<noteq> backslash" using assms(2) s by auto
  then show "unquote_step (take (rune_width s) s @ t) = Some (take (rune_width s) s, t)"
    using rune_width_take [OF assms(1), of t] assms len s n by (auto simp: unquote_step_def)
  show "hd (take (rune_width s) s @ t) = hd s" using s n by simp
qed

lemma rune_width_separator: "take 3 s = [CHR 0xE2, CHR 0x80, x] \<Longrightarrow> wide3 (CHR 0xE2) (CHR 0x80) x \<Longrightarrow> rune_width s = 3"
  by (cases s; cases "tl s"; cases "tl (tl s)") (auto simp: rune_width_wide)

lemma json_rune_decoded:
  assumes "s \<noteq> []"
  shows "unquote_step (json_rune s @ t) =
      Some (if of_char (hd s) < (128 :: nat) \<or> rune_width s \<noteq> 1 then take (rune_width s) s else replacement, t)"
    and "json_rune s \<noteq> []" and "hd (json_rune s @ t) \<noteq> dquote"
proof -
  obtain a r where s: "s = a # r" using assms by (cases s) auto
  have wide: "wide3 (CHR 0xE2) (CHR 0x80) (CHR 0xA8)" "wide3 (CHR 0xE2) (CHR 0x80) (CHR 0xA9)" by code_simp+
  show "unquote_step (json_rune s @ t) =
      Some (if of_char (hd s) < (128 :: nat) \<or> rune_width s \<noteq> 1 then take (rune_width s) s else replacement, t)"
    using unquote_ascii(1) [of a t] rune_width_ascii [of a r] escaped_runes [of t] unquote_wide(1) [of s t]
      rune_width_separator [OF _ wide(1)] rune_width_separator [OF _ wide(2)]
    by (auto simp: json_rune_def s)
  show "json_rune s \<noteq> []"
    using unquote_ascii(3) [of a] rune_width_pos [of s] by (auto simp: json_rune_def s)
  show "hd (json_rune s @ t) \<noteq> dquote"
    using unquote_ascii(2) [of a t] unquote_wide(2) [of s t] by (auto simp: json_rune_def s)
qed

lemma unquote_runes: "unquote (json_runes s @ dquote # t) = Some (sanitize s, t)"
proof (induction s rule: json_runes.induct)
  case (1 s)
  show ?case
  proof (cases "s = []")
    case True
    then show ?thesis by (simp add: json_runes.simps sanitize.simps unquote.simps)
  next
    case False
    note step = json_rune_decoded(1,3) [OF False, of "json_runes (drop (rune_width s) s) @ dquote # t"] json_rune_decoded(2) [OF False]
    show ?thesis
      using 1 [OF False] step False
      by (subst json_runes.simps, subst unquote.simps, subst sanitize.simps) simp
  qed
qed

section \<open>Parsing\<close>

datatype json = JNull | JBool bool | JNumber string | JString string | JArray "json list" | JObject "(string \<times> json) list"

definition is_json_space :: "char \<Rightarrow> bool" where
  "is_json_space c \<longleftrightarrow> c \<in> {CHR 0x20, CHR 0x09, CHR 0x0D, CHR 0x0A}"

definition skip_space :: "string \<Rightarrow> string" where
  "skip_space s = dropWhile is_json_space s"

definition is_digit :: "char \<Rightarrow> bool" where
  "is_digit c \<longleftrightarrow> in_range 48 57 c"

text \<open>Digits, at least one; the parts of a number; each yields what follows.\<close>

fun digits :: "string \<Rightarrow> string option" where
  "digits [] = None"
| "digits (c # s) = (if is_digit c then Some (dropWhile is_digit s) else None)"

fun exponent :: "string \<Rightarrow> string option" where
  "exponent [] = Some []"
| "exponent (c # s) =
     (if c \<in> {CHR ''e'', CHR ''E''}
      then (case s of
              [] \<Rightarrow> None
            | x # t \<Rightarrow> if x \<in> {CHR ''+'', CHR ''-''} then digits t else digits s)
      else Some (c # s))"

fun fraction :: "string \<Rightarrow> string option" where
  "fraction [] = Some []"
| "fraction (c # s) = (if c = CHR ''.'' then Option.bind (digits s) exponent else exponent (c # s))"

fun unsigned_number :: "string \<Rightarrow> string option" where
  "unsigned_number [] = None"
| "unsigned_number (c # s) =
     (if c = CHR ''0'' then fraction s else if is_digit c then fraction (dropWhile is_digit s) else None)"

definition number :: "string \<Rightarrow> string option" where
  "number s = (if s \<noteq> [] \<and> hd s = CHR ''-'' then unsigned_number (tl s) else unsigned_number s)"

definition scalar :: "string \<Rightarrow> (json \<times> string) option" where
  "scalar s =
     (case strip_prefix ''null'' s of Some r \<Rightarrow> Some (JNull, r) | None \<Rightarrow>
     (case strip_prefix ''true'' s of Some r \<Rightarrow> Some (JBool True, r) | None \<Rightarrow>
     (case strip_prefix ''false'' s of Some r \<Rightarrow> Some (JBool False, r) | None \<Rightarrow>
     (case number s of Some r \<Rightarrow> Some (JNumber (take (length s - length r) s), r) | None \<Rightarrow> None))))"

text \<open>The first argument bounds the number of nested calls (\<open>parse_fuel\<close> below), the second the
  depth of nesting that is left.\<close>

fun parse_value :: "nat \<Rightarrow> nat \<Rightarrow> string \<Rightarrow> (json \<times> string) option"
  and parse_members :: "nat \<Rightarrow> nat \<Rightarrow> string \<Rightarrow> ((string \<times> json) list \<times> string) option"
  and parse_elements :: "nat \<Rightarrow> nat \<Rightarrow> string \<Rightarrow> (json list \<times> string) option" where
  "parse_value 0 d s = None"
| "parse_value (Suc n) d s =
     (case skip_space s of
        [] \<Rightarrow> None
      | c # t \<Rightarrow>
          if c = dquote then map_option (\<lambda>(x, r). (JString x, r)) (unquote t)
          else if c = CHR 0x7B
          then if d = 0 then None
               else (case skip_space t of
                       [] \<Rightarrow> None
                     | e # u \<Rightarrow>
                         if e = CHR 0x7D then Some (JObject [], u)
                         else map_option (\<lambda>(ms, r). (JObject ms, r)) (parse_members n (d - 1) (e # u)))
          else if c = CHR 0x5B
          then if d = 0 then None
               else (case skip_space t of
                       [] \<Rightarrow> None
                     | e # u \<Rightarrow>
                         if e = CHR 0x5D then Some (JArray [], u)
                         else map_option (\<lambda>(vs, r). (JArray vs, r)) (parse_elements n (d - 1) (e # u)))
          else scalar (c # t))"
| "parse_members 0 d s = None"
| "parse_members (Suc n) d s =
     (case skip_space s of
        [] \<Rightarrow> None
      | c # t \<Rightarrow>
          if c \<noteq> dquote then None
          else (case unquote t of
                  None \<Rightarrow> None
                | Some (key, u) \<Rightarrow>
                    (case skip_space u of
                       [] \<Rightarrow> None
                     | e # v \<Rightarrow>
                         if e \<noteq> CHR 0x3A then None
                         else (case parse_value n d v of
                                 None \<Rightarrow> None
                               | Some (x, r) \<Rightarrow>
                                   (case skip_space r of
                                      [] \<Rightarrow> None
                                    | f # r' \<Rightarrow>
                                        if f = CHR 0x7D then Some ([(key, x)], r')
                                        else if f = CHR 0x2C
                                        then map_option (\<lambda>(ms, q). ((key, x) # ms, q)) (parse_members n d r')
                                        else None)))))"
| "parse_elements 0 d s = None"
| "parse_elements (Suc n) d s =
     (case parse_value n d s of
        None \<Rightarrow> None
      | Some (x, r) \<Rightarrow>
          (case skip_space r of
             [] \<Rightarrow> None
           | f # r' \<Rightarrow>
               if f = CHR 0x5D then Some ([x], r')
               else if f = CHR 0x2C then map_option (\<lambda>(vs, q). (x # vs, q)) (parse_elements n d r')
               else None))"

definition maxNestingDepth :: nat where "maxNestingDepth = 10000"

definition parse_json :: "string \<Rightarrow> json option" where
  "parse_json s =
     (case parse_value (2 * length s + 1) maxNestingDepth s of
        None \<Rightarrow> None
      | Some (x, r) \<Rightarrow> if skip_space r = [] then Some x else None)"

section \<open>Enough calls\<close>

lemma skip_space_length: "length (skip_space s) \<le> length s"
  by (simp add: skip_space_def length_dropWhile_le)

lemma skip_space_Cons: "skip_space s = c # t \<Longrightarrow> length t < length s"
  using skip_space_length [of s] by simp

lemma unquote_length: "unquote s = Some (x, r) \<Longrightarrow> length r < length s"
proof (induction s arbitrary: x rule: unquote.induct)
  case (1 s)
  show ?case
  proof (cases "s \<noteq> [] \<and> hd s = dquote")
    case True
    then show ?thesis using "1.prems" by (subst (asm) unquote.simps) auto
  next
    case False
    then obtain b t y where "unquote_step s = Some (b, t)" "unquote t = Some (y, r)"
      using "1.prems" by (subst (asm) unquote.simps) (auto split: option.splits)
    then show ?thesis using "1.IH" [OF False] unquote_step_length by fastforce
  qed
qed

lemma digits_length: "digits s = Some r \<Longrightarrow> length r < length s"
  by (cases s) (auto simp: less_Suc_eq_le length_dropWhile_le split: if_splits)

lemma exponent_length: "exponent s = Some r \<Longrightarrow> length r \<le> length s"
proof (cases s)
  case (Cons c t)
  moreover have "digits t = Some r \<Longrightarrow> length r < length t" "digits (tl t) = Some r \<Longrightarrow> length r < length (tl t)"
    by (erule digits_length)+
  ultimately show "exponent s = Some r \<Longrightarrow> length r \<le> length s"
    by (auto simp del: digits.simps split: if_splits list.splits)
qed simp

lemma fraction_length: "fraction s = Some r \<Longrightarrow> length r \<le> length s"
  by (cases s) (fastforce simp del: exponent.simps(2) simp: bind_eq_Some_conv dest!: digits_length exponent_length split: if_splits)+

lemma number_length: "number s = Some r \<Longrightarrow> length r < length s"
proof -
  have "length r < length s" if "unsigned_number s = Some r" for s
    using that length_dropWhile_le [of is_digit "tl s"]
    by (cases s) (auto dest!: fraction_length split: if_splits)
  then show "number s = Some r \<Longrightarrow> length r < length s"
    by (cases s) (fastforce simp: number_def simp del: unsigned_number.simps split: if_splits)+
qed

lemma scalar_length: "scalar s = Some (x, r) \<Longrightarrow> length r < length s"
  by (auto simp: scalar_def strip_prefix_iff dest!: number_length split: option.splits)

lemma parse_length:
  "parse_value n d s = Some (x, r) \<Longrightarrow> length r < length s"
  "parse_members n d s = Some (ms, r) \<Longrightarrow> length r < length s"
  "parse_elements n d s = Some (vs, r) \<Longrightarrow> length r < length s"
proof (induction n d s and n d s and n d s arbitrary: x r and ms r and vs r rule: parse_value_parse_members_parse_elements.induct)
qed (fastforce dest!: skip_space_Cons unquote_length scalar_length split: list.splits if_splits option.splits)+

declare parse_value.simps [simp del] parse_members.simps [simp del] parse_elements.simps [simp del]

lemma parse_fuel_step:
  "(\<forall>s d. 2 * length s + 1 \<le> n \<longrightarrow> parse_value (Suc n) d s = parse_value n d s)
   \<and> (\<forall>s d. 2 * length s + 1 \<le> n \<longrightarrow> parse_members (Suc n) d s = parse_members n d s)
   \<and> (\<forall>s d. 2 * length s + 2 \<le> n \<longrightarrow> parse_elements (Suc n) d s = parse_elements n d s)"
proof (induction n)
  case (Suc n)
  then have IH: "2 * length s + 1 \<le> n \<Longrightarrow> parse_value (Suc n) d s = parse_value n d s"
    "2 * length s + 1 \<le> n \<Longrightarrow> parse_members (Suc n) d s = parse_members n d s"
    "2 * length s + 2 \<le> n \<Longrightarrow> parse_elements (Suc n) d s = parse_elements n d s" for s d
    by blast+
  have "parse_value (Suc (Suc n)) d s = parse_value (Suc n) d s" if "2 * length s + 1 \<le> Suc n" for s d
  proof -
    have members: "parse_members (Suc n) e u = parse_members n e u" "parse_elements (Suc n) e u = parse_elements n e u"
      if "skip_space s = c # t" "skip_space t = u" for c t u e
      using skip_space_Cons [OF that(1)] skip_space_length [of t] that(2) \<open>2 * length s + 1 \<le> Suc n\<close> by (auto intro!: IH)
    show ?thesis
      unfolding parse_value.simps(2) [of "Suc n" d s] parse_value.simps(2) [of n d s]
      by (auto simp: members split: list.split)
  qed
  moreover have "parse_elements (Suc (Suc n)) d s = parse_elements (Suc n) d s" if "2 * length s + 2 \<le> Suc n" for s d
  proof -
    have "parse_value (Suc n) d s = parse_value n d s" using that by (auto intro!: IH)
    moreover have "parse_elements (Suc n) d u = parse_elements n d u"
      if "parse_value n d s = Some (x, r)" "skip_space r = f # u" for x r f u
      using parse_length(1) [OF that(1)] skip_space_Cons [OF that(2)] \<open>2 * length s + 2 \<le> Suc n\<close> by (auto intro!: IH)
    ultimately show ?thesis
      unfolding parse_elements.simps(2) [of "Suc n" d s] parse_elements.simps(2) [of n d s]
      by (auto split: list.split option.split)
  qed
  moreover have "parse_members (Suc (Suc n)) d s = parse_members (Suc n) d s" if "2 * length s + 1 \<le> Suc n" for s d
  proof -
    have "length v < length s" if "skip_space s = c # t" "unquote t = Some (key, u)" "skip_space u = e # v" for c t key u e v
      using skip_space_Cons [OF that(1)] unquote_length [OF that(2)] skip_space_Cons [OF that(3)] by simp
    then have inner: "parse_value (Suc n) d v = parse_value n d v"
      "parse_value n d v = Some (x, r) \<Longrightarrow> skip_space r = f # w \<Longrightarrow> parse_members (Suc n) d w = parse_members n d w"
      if "skip_space s = c # t" "unquote t = Some (key, u)" "skip_space u = e # v" for c t key u e v x r f w
      using that \<open>2 * length s + 1 \<le> Suc n\<close> parse_length(1) [of n d v x r] skip_space_Cons [of r f w] by (fastforce intro!: IH)+
    show ?thesis
      unfolding parse_members.simps(2) [of "Suc n" d s] parse_members.simps(2) [of n d s]
      by (auto simp: inner split: list.split option.split)
  qed
  ultimately show ?case by blast
qed simp

text \<open>More calls than \<open>parse_json\<close> allows make no difference.\<close>

lemma parse_fuel:
  assumes "2 * length s + 1 \<le> n"
  shows "parse_value n d s = parse_value (2 * length s + 1) d s"
  using assms
proof (induction n rule: dec_induct)
  case (step n)
  then show ?case using parse_fuel_step [of n] by metis
qed simp

section \<open>Objects of strings\<close>

definition json_field :: "string \<Rightarrow> string \<Rightarrow> string" where
  "json_field k v = json_string k @ CHR 0x3A # json_string v"

definition json_object :: "(string \<times> string) list \<Rightarrow> string" where
  "json_object fs = CHR 0x7B # Join (map (\<lambda>(k, v). json_field k v) fs) '','' @ [CHR 0x7D]"

lemma skip_space_id: "\<not> is_json_space c \<Longrightarrow> skip_space (c # s) = c # s"
  by (simp add: skip_space_def)

lemma parse_field:
  "\<not> is_json_space f \<Longrightarrow> parse_members (Suc (Suc n)) d (json_field k v @ f # r) =
     (if f = CHR 0x7D then Some ([(sanitize k, JString (sanitize v))], r)
      else if f = CHR 0x2C
      then map_option (\<lambda>(ms, q). ((sanitize k, JString (sanitize v)) # ms, q)) (parse_members (Suc n) d r)
      else None)"
  by (simp add: parse_members.simps(2) [of "Suc n"] parse_value.simps json_field_def json_string_def unquote_runes
      skip_space_id is_json_space_def)

lemma parse_fields:
  "fs \<noteq> [] \<Longrightarrow> length fs < n \<Longrightarrow>
     parse_members n d (Join (map (\<lambda>(k, v). json_field k v) fs) '','' @ CHR 0x7D # r)
       = Some (map (\<lambda>(k, v). (sanitize k, JString (sanitize v))) fs, r)"
proof (induction fs arbitrary: n rule: list_nonempty_induct)
  case (single x)
  then obtain m where "n = Suc (Suc m)" by (cases n; cases "n - 1") auto
  then show ?case by (cases x) (simp add: parse_field is_json_space_def)
next
  case (cons x xs)
  then obtain m where n: "n = Suc (Suc m)" by (cases n; cases "n - 1") auto
  obtain y ys where "xs = y # ys" using cons.hyps by (cases xs) auto
  then have "Join (map (\<lambda>(k, v). json_field k v) (x # xs)) '','' =
      (case x of (k, v) \<Rightarrow> json_field k v) @ CHR 0x2C # Join (map (\<lambda>(k, v). json_field k v) xs) '',''" by simp
  then show ?case
    using cons.IH [of "Suc m"] cons.prems n by (cases x) (simp add: parse_field is_json_space_def)
qed

lemma length_fields: "length fs \<le> length (Join (map (\<lambda>(k, v). json_field k v) fs) '','')"
proof (induction fs)
  case (Cons x fs)
  then show ?case by (cases fs; cases x) (auto simp: json_field_def json_string_def)
qed simp

lemma parse_json_object:
  "fs \<noteq> [] \<Longrightarrow> parse_json (json_object fs) = Some (JObject (map (\<lambda>(k, v). (sanitize k, JString (sanitize v))) fs))"
proof -
  assume fs: "fs \<noteq> []"
  let ?body = "Join (map (\<lambda>(k, v). json_field k v) fs) '','' @ [CHR 0x7D]"
  obtain k v gs where g: "fs = (k, v) # gs" using fs by (cases fs) auto
  have first: "\<exists>u. ?body = dquote # u" unfolding g by (cases gs) (auto simp: json_field_def json_string_def)
  then have skip: "skip_space ?body = ?body" by (auto simp: skip_space_id is_json_space_def)
  obtain u where u: "?body = dquote # u" using first by blast
  have "parse_members n d ?body = Some (map (\<lambda>(k, v). (sanitize k, JString (sanitize v))) fs, [])" if "length fs < n" for n d
    using parse_fields [OF fs that, of d "[]"] by simp
  then have "parse_members (2 * length (json_object fs)) (maxNestingDepth - 1) (dquote # u)
      = Some (map (\<lambda>(k, v). (sanitize k, JString (sanitize v))) fs, [])"
    using length_fields [of fs] unfolding u by (simp add: json_object_def)
  then show ?thesis
    using skip unfolding parse_json_def json_object_def u
    by (simp add: parse_value.simps skip_space_id is_json_space_def maxNestingDepth_def skip_space_def)
qed

section \<open>Evaluation\<close>

text \<open>Letters are recognised by their bits, so that an encoding is computed without counting.\<close>

fun ascii_byte :: "char \<Rightarrow> bool" where
  "ascii_byte (Char b0 b1 b2 b3 b4 b5 b6 b7) = (\<not> b7)"

fun letter_block :: "char \<Rightarrow> bool" where
  "letter_block (Char b0 b1 b2 b3 b4 b5 b6 b7) = (b6 \<and> \<not> b7)"

lemma ascii_byte_iff: "ascii_byte c \<longleftrightarrow> of_char c < (128 :: nat)"
  by (cases c) (auto simp: of_char_Char)

lemma letter_block_iff: "letter_block c \<longleftrightarrow> 64 \<le> (of_char c :: nat) \<and> of_char c < (128 :: nat)"
  by (cases c) (auto simp: of_char_Char)

lemma escape_byte_letter: "letter_block c \<Longrightarrow> c \<noteq> backslash \<Longrightarrow> escape_byte c = [c]"
  by (auto simp: letter_block_iff escape_byte_def Let_def control_chars dest!: of_char_eq)

lemma json_runes_code [code]:
  "json_runes s =
     (case s of
        [] \<Rightarrow> []
      | c # t \<Rightarrow>
          if letter_block c \<and> c \<noteq> backslash then c # json_runes t
          else if ascii_byte c then escape_byte c @ json_runes t
          else json_rune s @ json_runes (drop (rune_width s) s))"
  by (cases s)
     (auto simp: json_runes.simps [of "c # t" for c t] json_runes.simps [of "[]"] json_rune_def escape_byte_letter
        rune_width_ascii letter_block_iff ascii_byte_iff)

end
