(* ===== verification/Queue.thy ===== *)
theory Queue
  imports Domain Go_JSON "HOL-Library.Word"
begin

text \<open>
  Package \<open>internal/queue\<close>, the parts that do not touch a connection: the broker payload
  (\<open>message.go\<close>) and its JSON form, queue names and priorities (\<open>queue.go\<close>), the \<open>Publisher\<close> interface, and the
  consumer's handling of one delivery (\<open>consumer.go\<close>). The acknowledgement
  calls of a delivery (\<open>amqp091-go\<close>) are parameters.
\<close>

section \<open>Messages\<close>

record notification_message =
  msg_NotificationID :: string
  msg_CorrelationID :: string
  msg_Channel :: channel
  msg_Priority :: priority

definition message_Validate :: "notification_message \<Rightarrow> go_error option" where
  "message_Validate m =
     (if TrimSpace (msg_NotificationID m) = [] then Some (ErrorString ''notificationId is required'')
      else if \<not> Channel_IsValid (msg_Channel m)
      then Some (ErrorString (''invalid channel '' @ Quote (msg_Channel m)))
      else if \<not> Priority_IsValid (msg_Priority m)
      then Some (ErrorString (''invalid priority '' @ Quote (msg_Priority m)))
      else None)"

text \<open>
  \<open>json.Marshal\<close> and \<open>json.Unmarshal\<close> at this type, by the tags of its fields. The field of a key is
  found up to case (no name contains a letter to which a rune outside ASCII folds), the last of several
  values counts, \<open>null\<close> and unknown keys are skipped, and a value of another type is an error. The texts
  of the errors, which are only logged, are not those of the library.
\<close>

definition message_fields :: "notification_message \<Rightarrow> (string \<times> string) list" where
  "message_fields m =
     [(''notificationId'', msg_NotificationID m)]
     @ (if msg_CorrelationID m = [] then [] else [(''correlationId'', msg_CorrelationID m)])
     @ [(''channel'', msg_Channel m), (''priority'', msg_Priority m)]"

definition message_Marshal :: "notification_message \<Rightarrow> go_error + string" where
  "message_Marshal m = Inr (json_object (message_fields m))"

definition fold_name :: "string \<Rightarrow> string" where
  "fold_name k = map upper_byte k"

definition set_field :: "string \<Rightarrow> string \<Rightarrow> notification_message \<Rightarrow> notification_message option" where
  "set_field k v m =
     (if fold_name k = ''NOTIFICATIONID'' then Some (m\<lparr>msg_NotificationID := v\<rparr>)
      else if fold_name k = ''CORRELATIONID'' then Some (m\<lparr>msg_CorrelationID := v\<rparr>)
      else if fold_name k = ''CHANNEL'' then Some (m\<lparr>msg_Channel := v\<rparr>)
      else if fold_name k = ''PRIORITY'' then Some (m\<lparr>msg_Priority := v\<rparr>)
      else None)"

text \<open>The message so far and whether a value had the wrong type.\<close>

fun decode_member :: "string \<times> json \<Rightarrow> notification_message \<times> bool \<Rightarrow> notification_message \<times> bool" where
  "decode_member (k, v) (m, wrong) =
     (case set_field k (case v of JString x \<Rightarrow> x | _ \<Rightarrow> []) m of
        None \<Rightarrow> (m, wrong)
      | Some m' \<Rightarrow> (case v of JString x \<Rightarrow> (m', wrong) | JNull \<Rightarrow> (m, wrong) | _ \<Rightarrow> (m, True)))"

definition zero_message :: notification_message where
  "zero_message = \<lparr>msg_NotificationID = [], msg_CorrelationID = [], msg_Channel = [], msg_Priority = []\<rparr>"

definition message_Unmarshal :: "string \<Rightarrow> go_error + notification_message" where
  "message_Unmarshal body =
     (case parse_json body of
        None \<Rightarrow> Inl (ErrorString ''invalid JSON'')
      | Some JNull \<Rightarrow> Inr zero_message
      | Some (JObject ms) \<Rightarrow>
          (case fold decode_member ms (zero_message, False) of
             (m, wrong) \<Rightarrow> if wrong then Inl (ErrorString ''json: cannot unmarshal field'') else Inr m)
      | Some _ \<Rightarrow> Inl (ErrorString ''json: cannot unmarshal value''))"

record 'w publisher =
  pub_Publish :: "string \<Rightarrow> notification_message \<Rightarrow> ('w, go_error option) state"
  pub_Close :: "('w, go_error option) state"

text \<open>\<open>Consume\<close> blocks until its context is cancelled or an error ends it, so it may not return.\<close>

record 'w consumer =
  con_Consume :: "string \<Rightarrow> (notification_message \<Rightarrow> ('w, go_error option) state)
                    \<Rightarrow> 'w \<Rightarrow> (go_error option \<times> 'w) option"
  con_Close :: "('w, go_error option) state"

section \<open>Queue names and priorities\<close>

definition supportedChannels :: "channel list" where
  "supportedChannels = [ChannelSMS, ChannelEmail, ChannelPush]"

definition queueMaxPriority :: "32 word" where
  "queueMaxPriority = 3"

definition QueueName :: "channel \<Rightarrow> string" where
  "QueueName channel = ToLower channel"

definition DLQName :: "channel \<Rightarrow> string" where
  "DLQName channel = ''dlq.'' @ QueueName channel"

definition WorkQueueNames :: "string list" where
  "WorkQueueNames = map QueueName supportedChannels"

definition DLQNames :: "string list" where
  "DLQNames = map DLQName supportedChannels"

definition PriorityValue :: "priority \<Rightarrow> 8 word" where
  "PriorityValue priority =
     (if priority = PriorityHigh then 3
      else if priority = PriorityNormal then 2
      else if priority = PriorityLow then 1 else 0)"

section \<open>Handling one delivery\<close>

record delivery =
  d_Body :: string
  d_RoutingKey :: string

record 'w acknowledger =
  d_Ack :: "bool \<Rightarrow> ('w, go_error option) state"
  d_Nack :: "bool \<Rightarrow> bool \<Rightarrow> ('w, go_error option) state"
  d_Reject :: "bool \<Rightarrow> ('w, go_error option) state"

definition handleDelivery ::
  "'w acknowledger \<Rightarrow> delivery
     \<Rightarrow> (notification_message \<Rightarrow> ('w, go_error option) state) \<Rightarrow> ('w, go_error option) state" where
  "handleDelivery ack d handler =
     (case message_Unmarshal (d_Body d) of
        Inl err \<Rightarrow> do {
          rejectErr \<leftarrow> d_Reject ack False;
          State_Monad.return (case rejectErr of
              Some e \<Rightarrow> Some (Wrap ''failed to reject invalid message: '' e [])
            | None \<Rightarrow> None)
        }
      | Inr msg \<Rightarrow>
          (case message_Validate msg of
             Some err \<Rightarrow> do {
               rejectErr \<leftarrow> d_Reject ack False;
               State_Monad.return (case rejectErr of
                   Some e \<Rightarrow> Some (Wrap ''failed to reject invalid payload: '' e [])
                 | None \<Rightarrow> None)
             }
           | None \<Rightarrow> do {
               handlerErr \<leftarrow> handler msg;
               (case handlerErr of
                  Some err \<Rightarrow> do {
                    nackErr \<leftarrow> d_Nack ack False True;
                    State_Monad.return (case nackErr of
                        Some e \<Rightarrow> Some (Wrap ''handler failed and nack failed: '' e [])
                      | None \<Rightarrow> None)
                  }
                | None \<Rightarrow> do {
                    ackErr \<leftarrow> d_Ack ack False;
                    State_Monad.return (case ackErr of
                        Some e \<Rightarrow> Some (Wrap ''failed to ack delivery: '' e [])
                      | None \<Rightarrow> None)
                  })
             }))"

section \<open>Contract of the acknowledgement calls\<close>

text \<open>\<open>settled w\<close> is the list of acknowledgement calls made so far; a call changes nothing else
  the client can see, and calls are recorded in order.\<close>

datatype settlement = Acked bool | Nacked bool bool | Rejected bool

locale acknowledger_laws =
  fixes ack :: "'w acknowledger" and settled :: "'w \<Rightarrow> settlement list"
  assumes Ack_law: "wp (d_Ack ack multiple) (\<lambda>r w'. settled w' = settled w @ [Acked multiple]) w"
    and Nack_law: "wp (d_Nack ack multiple requeue) (\<lambda>r w'. settled w' = settled w @ [Nacked multiple requeue]) w"
    and Reject_law: "wp (d_Reject ack requeue) (\<lambda>r w'. settled w' = settled w @ [Rejected requeue]) w"
begin

lemma handleDelivery_invalid:
  assumes "case message_Unmarshal (d_Body d) of Inl _ \<Rightarrow> True | Inr msg \<Rightarrow> message_Validate msg \<noteq> None"
  shows "wp (handleDelivery ack d handler)
           (\<lambda>r w'. settled w' = settled w @ [Rejected False]) w"
  using assms
  by (auto simp: handleDelivery_def split: sum.splits option.splits
      intro: wp_mono [OF Reject_law])

lemma handleDelivery_valid:
  assumes "message_Unmarshal (d_Body d) = Inr msg" and "message_Validate msg = None"
    and "run_state (handler msg) w = (answer, w1)"
  shows "wp (handleDelivery ack d handler)
           (\<lambda>r w'. settled w' = settled w1 @ [if answer = None then Acked False else Nacked False True]) w"
  using assms
  by (cases answer)
     (auto simp: handleDelivery_def wp_def [of "handler msg"]
      intro: wp_mono [OF Ack_law] wp_mono [OF Nack_law])

end

section \<open>Lemmas\<close>

lemma Channel_IsValid_cases:
  "Channel_IsValid c \<Longrightarrow> c = ChannelSMS \<or> c = ChannelEmail \<or> c = ChannelPush"
  by (simp add: Channel_IsValid_def)

lemma set_supportedChannels: "set supportedChannels = Collect Channel_IsValid"
  by (auto simp: supportedChannels_def Channel_IsValid_def)

lemma QueueName_simps [simp]:
  "QueueName ChannelSMS = ''sms''" "QueueName ChannelEmail = ''email''"
  "QueueName ChannelPush = ''push''"
  by code_simp+

text \<open>
  Each valid channel has its own work queue and its own dead-letter queue, no dead-letter
  queue is a work queue, and the six names are exactly the ones the topology lists.
\<close>

theorem queue_names_correct:
  "distinct (WorkQueueNames @ DLQNames)
   \<and> set WorkQueueNames = QueueName ` Collect Channel_IsValid
   \<and> set DLQNames = DLQName ` Collect Channel_IsValid
   \<and> length WorkQueueNames = 3 \<and> length DLQNames = 3"
  by (simp add: WorkQueueNames_def DLQNames_def DLQName_def supportedChannels_def
      flip: set_supportedChannels)

text \<open>
  The AMQP priorities order high above normal above low above anything invalid, and none
  exceeds the maximum the queues are declared with.
\<close>

theorem PriorityValue_correct:
  "PriorityValue PriorityLow < PriorityValue PriorityNormal
   \<and> PriorityValue PriorityNormal < PriorityValue PriorityHigh
   \<and> (0 < PriorityValue p \<longleftrightarrow> Priority_IsValid p)
   \<and> unat (PriorityValue p) \<le> unat queueMaxPriority"
  by (auto simp: PriorityValue_def Priority_IsValid_def queueMaxPriority_def)

text \<open>A message survives its encoding, up to the replacement of invalid bytes.\<close>

lemma message_roundtrip_sanitized:
  "message_Unmarshal (projr (message_Marshal m)) = Inr \<lparr>msg_NotificationID = sanitize (msg_NotificationID m),
     msg_CorrelationID = sanitize (msg_CorrelationID m), msg_Channel = sanitize (msg_Channel m),
     msg_Priority = sanitize (msg_Priority m)\<rparr>"
proof -
  have keys: "sanitize ''notificationId'' = ''notificationId''" "sanitize ''correlationId'' = ''correlationId''"
    "sanitize ''channel'' = ''channel''" "sanitize ''priority'' = ''priority''"
    by (rule sanitize_ascii; simp)+
  have names: "fold_name ''notificationId'' = ''NOTIFICATIONID''" "fold_name ''correlationId'' = ''CORRELATIONID''"
    "fold_name ''channel'' = ''CHANNEL''" "fold_name ''priority'' = ''PRIORITY''"
    by code_simp+
  have "message_fields m \<noteq> []" by (simp add: message_fields_def)
  then show ?thesis
    by (simp add: message_Unmarshal_def message_Marshal_def parse_json_object)
       (simp add: message_fields_def keys names set_field_def zero_message_def sanitize.simps [of "[]"])
qed

lemma valid_names_ascii:
  "Channel_IsValid c \<Longrightarrow> sanitize c = c" "Priority_IsValid p \<Longrightarrow> sanitize p = p"
  by (rule sanitize_ascii, auto simp: Channel_IsValid_def Priority_IsValid_def)+

lemma message_roundtrip_valid:
  assumes "message_Validate m = None" and "message_Marshal m = Inr payload"
  shows "message_Unmarshal payload = Inr (m\<lparr>msg_NotificationID := sanitize (msg_NotificationID m),
     msg_CorrelationID := sanitize (msg_CorrelationID m)\<rparr>)"
  using assms message_roundtrip_sanitized [of m]
  by (auto simp: message_Validate_def valid_names_ascii split: if_splits)

text \<open>
  C24: every delivery is settled exactly once. A body that is not a message, or a message that is not
  valid, is rejected without requeueing and the handler is not called; otherwise the handler is
  called once, and the delivery is acknowledged when it succeeds and returned to the queue when it
  fails.
\<close>

theorem handleDelivery_settles_once:
  assumes "acknowledger_laws ack settled"
  shows "wp (handleDelivery ack d handler) (\<lambda>r w'.
     case message_Unmarshal (d_Body d) of
       Inl _ \<Rightarrow> settled w' = settled w @ [Rejected False]
     | Inr msg \<Rightarrow>
         if message_Validate msg \<noteq> None then settled w' = settled w @ [Rejected False]
         else (case run_state (handler msg) w of (answer, w1) \<Rightarrow>
           settled w' = settled w1 @ [if answer = None then Acked False else Nacked False True])) w"
proof (cases "message_Unmarshal (d_Body d)")
  case (Inl e)
  then show ?thesis
    using acknowledger_laws.handleDelivery_invalid [OF assms, of d] by simp
next
  case msg: (Inr msg)
  obtain answer w1 where run: "run_state (handler msg) w = (answer, w1)" by fastforce
  show ?thesis
  proof (cases "message_Validate msg")
    case None
    with msg run acknowledger_laws.handleDelivery_valid [OF assms, of d msg handler w answer w1]
    show ?thesis by simp
  next
    case (Some e)
    then show ?thesis
      using acknowledger_laws.handleDelivery_invalid [OF assms, of d] msg by simp
  qed
qed

end
