(* ===== verification/Notification_Service.thy ===== *)
theory Notification_Service
  imports Repository_Laws Queue
begin

text \<open>
  \<open>internal/service/notification_service.go\<close>: accepting single notifications and batches, and the
  read and cancel operations. The service holds its collaborators as interface values, records of
  computations here. Log calls have no effect on the state and are left out. A context argument
  is part of the world: it only decides when a call of a collaborator fails.
\<close>

section \<open>The service\<close>

definition defaultMaxRetries :: int where "defaultMaxRetries = 5"
definition maxBatchSize :: nat where "maxBatchSize = 1000"

record 'w notification_service =
  s_notifications :: "'w notification_repository"
  s_batches :: "'w batch_repository"
  s_publisher :: "'w publisher"

definition NewNotificationService ::
  "'w notification_repository \<Rightarrow> 'w batch_repository \<Rightarrow> 'w publisher \<Rightarrow> go_error + 'w notification_service" where
  "NewNotificationService notifications batches publisher =
     Inr \<lparr>s_notifications = notifications, s_batches = batches, s_publisher = publisher\<rparr>"

record status_count =
  sc_Status :: status
  sc_Count :: int

record batch_summary =
  bs_BatchID :: string
  bs_TotalCount :: int
  bs_Status :: batch_status
  bs_Counts :: "status_count list"

definition normalizeOptionalString :: "string option \<Rightarrow> string option" where
  "normalizeOptionalString v =
     (case v of
        None \<Rightarrow> None
      | Some s \<Rightarrow> let trimmed = TrimSpace s in if trimmed = [] then None else Some trimmed)"

definition shouldEnqueueImmediately :: "go_time option \<Rightarrow> go_time \<Rightarrow> bool" where
  "shouldEnqueueImmediately scheduledAt now =
     (case scheduledAt of None \<Rightarrow> True | Some t \<Rightarrow> \<not> now < t)"

text \<open>
  \<open>prepareNotificationForCreate\<close> overwrites the struct behind its pointer; the model returns the
  new contents. Both callers discard the struct when it returns an error.
\<close>

definition prepareNotificationForCreate ::
  "'w runtime \<Rightarrow> notification option \<Rightarrow> string option \<Rightarrow> ('w, go_error + notification) state" where
  "prepareNotificationForCreate rt n batchID =
     (case n of
        None \<Rightarrow> State_Monad.return (Inl (validation_error ''notification is required''))
      | Some n \<Rightarrow> do {
          let n = n\<lparr>Recipient := TrimSpace (Recipient n), Content := TrimSpace (Content n),
                   CorrelationID := TrimSpace (CorrelationID n)\<rparr>;
          correlationID \<leftarrow> (if CorrelationID n = [] then uuid_NewString rt
                            else State_Monad.return (CorrelationID n));
          let n = n\<lparr>CorrelationID := correlationID, ID := TrimSpace (ID n)\<rparr>;
          newID \<leftarrow> (if ID n = [] then uuid_NewString rt else State_Monad.return (ID n));
          let n = n\<lparr>ID := newID, IdempotencyKey := normalizeOptionalString (IdempotencyKey n)\<rparr>;
          let n = (case batchID of None \<Rightarrow> n | Some b \<Rightarrow> n\<lparr>BatchID := Some b\<rparr>);
          let n = n\<lparr>Status := StatusAccepted, AttemptCount := 0\<rparr>;
          let n = (if MaxRetries n \<le> 0 then n\<lparr>MaxRetries := defaultMaxRetries\<rparr> else n);
          let n = n\<lparr>ProviderMessageID := None, NextRetryAt := None\<rparr>;
          State_Monad.return (case Validate n of Some err \<Rightarrow> Inl err | None \<Rightarrow> Inr n)
        })"

definition isUniqueViolationError :: "go_error option \<Rightarrow> bool" where
  "isUniqueViolationError err =
     (case err of
        None \<Rightarrow> False
      | Some e \<Rightarrow>
          if errors_Is e GormErrDuplicatedKey then True
          else let msg = ToLower (Error e) in
            Contains msg ''duplicate key'' \<or> Contains msg ''unique constraint'')"

text \<open>The three results \<open>(existing, resolved, err)\<close>: an error, or the existing notification when
  the conflict was resolved.\<close>

definition resolveIdempotencyConflict ::
  "'w notification_service \<Rightarrow> go_error \<Rightarrow> string option \<Rightarrow> ('w, go_error + notification option) state" where
  "resolveIdempotencyConflict s createErr idempotencyKey =
     (case idempotencyKey of
        None \<Rightarrow> State_Monad.return (Inr None)
      | Some key \<Rightarrow>
          if TrimSpace key = [] then State_Monad.return (Inr None)
          else if \<not> isUniqueViolationError (Some createErr) then State_Monad.return (Inr None)
          else do {
            r \<leftarrow> nr_GetByIdempotencyKey (s_notifications s) (TrimSpace key);
            State_Monad.return (case r of
                Inl err \<Rightarrow> Inl (Wrap ''failed to load existing notification after idempotency conflict: '' err [])
              | Inr existing \<Rightarrow> Inr (Some existing))
          })"

definition message_of :: "notification \<Rightarrow> notification_message" where
  "message_of n = \<lparr>msg_NotificationID = ID n, msg_CorrelationID = CorrelationID n,
                   msg_Channel = Channel n, msg_Priority = Priority n\<rparr>"

text \<open>What \<open>Create\<close> does with a stored notification.\<close>

definition enqueue_created ::
  "'w notification_service \<Rightarrow> 'w runtime \<Rightarrow> notification \<Rightarrow> ('w, go_error + notification) state" where
  "enqueue_created s rt notification = do {
     now \<leftarrow> time_Now rt;
     (if \<not> shouldEnqueueImmediately (ScheduledAt notification) now
      then State_Monad.return (Inr notification)
      else do {
        published \<leftarrow> pub_Publish (s_publisher s) (QueueName (Channel notification)) (message_of notification);
        (case published of
           Some err \<Rightarrow> do {
             updated \<leftarrow> nr_UpdateStatus (s_notifications s) (ID notification) StatusFailed;
             State_Monad.return (case updated of
                 Some updateErr \<Rightarrow>
                   Inl (Wrap ''failed to publish notification: '' err
                          ('' (failed to mark as failed: '' @ Error updateErr @ '')''))
               | None \<Rightarrow> Inl (Wrap ''failed to publish notification: '' err []))
           }
         | None \<Rightarrow> do {
             updated \<leftarrow> nr_UpdateStatus (s_notifications s) (ID notification) StatusQueued;
             State_Monad.return (case updated of
                 Some err \<Rightarrow> Inl (Wrap ''failed to update notification status to queued: '' err [])
               | None \<Rightarrow> Inr (notification\<lparr>Status := StatusQueued\<rparr>))
           })
      })
   }"

definition service_Create ::
  "'w notification_service \<Rightarrow> 'w runtime \<Rightarrow> notification option \<Rightarrow> ('w, go_error + notification) state" where
  "service_Create s rt n = do {
     prepared \<leftarrow> prepareNotificationForCreate rt n None;
     (case prepared of
        Inl err \<Rightarrow> State_Monad.return (Inl err)
      | Inr notification \<Rightarrow> do {
          r \<leftarrow> nr_Create (s_notifications s) (Some notification);
          (case r of
             Inl err \<Rightarrow> do {
               resolution \<leftarrow> resolveIdempotencyConflict s err (IdempotencyKey notification);
               State_Monad.return (case resolution of
                   Inl resolveErr \<Rightarrow> Inl resolveErr
                 | Inr (Some existing) \<Rightarrow> Inr existing
                 | Inr None \<Rightarrow> Inl err)
             }
           | Inr stored \<Rightarrow> enqueue_created s rt (case stored of Some n' \<Rightarrow> n' | None \<Rightarrow> notification))
        })
   }"

section \<open>Batches\<close>

text \<open>The loop that copies and prepares the notifications stops at the first error.\<close>

fun prepare_batch ::
  "'w runtime \<Rightarrow> string \<Rightarrow> notification list \<Rightarrow> ('w, go_error + notification list) state" where
  "prepare_batch rt batchID [] = State_Monad.return (Inr [])"
| "prepare_batch rt batchID (n # ns) = do {
     r \<leftarrow> prepareNotificationForCreate rt (Some n) (Some batchID);
     (case r of
        Inl err \<Rightarrow> State_Monad.return (Inl err)
      | Inr n' \<Rightarrow> do {
          rest \<leftarrow> prepare_batch rt batchID ns;
          State_Monad.return (case rest of Inl err \<Rightarrow> Inl err | Inr ns' \<Rightarrow> Inr (n' # ns'))
        })
   }"

text \<open>One round of the publishing loop: whether the notification counts as failed, and the
  struct with its new status.\<close>

definition enqueue_one ::
  "'w notification_service \<Rightarrow> go_time \<Rightarrow> notification \<Rightarrow> ('w, bool \<times> notification) state" where
  "enqueue_one s now current =
     (if \<not> shouldEnqueueImmediately (ScheduledAt current) now
      then State_Monad.return (False, current)
      else do {
        published \<leftarrow> pub_Publish (s_publisher s) (QueueName (Channel current)) (message_of current);
        (case published of
           Some err \<Rightarrow> do {
             _ \<leftarrow> nr_UpdateStatus (s_notifications s) (ID current) StatusFailed;
             State_Monad.return (True, current\<lparr>Status := StatusFailed\<rparr>)
           }
         | None \<Rightarrow> do {
             updated \<leftarrow> nr_UpdateStatus (s_notifications s) (ID current) StatusQueued;
             State_Monad.return (case updated of
                 Some err \<Rightarrow> (True, current)
               | None \<Rightarrow> (False, current\<lparr>Status := StatusQueued\<rparr>))
           })
      })"

fun enqueue_all ::
  "'w notification_service \<Rightarrow> go_time \<Rightarrow> notification list \<Rightarrow> ('w, nat \<times> notification list) state" where
  "enqueue_all s now [] = State_Monad.return (0, [])"
| "enqueue_all s now (n # ns) = do {
     (bad, n') \<leftarrow> enqueue_one s now n;
     (failed, ns') \<leftarrow> enqueue_all s now ns;
     State_Monad.return ((if bad then Suc failed else failed), n' # ns')
   }"

definition service_CreateBatch ::
  "'w notification_service \<Rightarrow> 'w runtime \<Rightarrow> notification list
     \<Rightarrow> ('w, batch option \<times> notification list \<times> go_error option) state" where
  "service_CreateBatch s rt notifications =
     (if length notifications = 0
      then State_Monad.return
        (None, [], Some (validation_error ''batch must include at least one notification''))
      else if maxBatchSize < length notifications
      then State_Monad.return
        (None, [], Some (validation_error (''batch size exceeds '' @ Itoa (int maxBatchSize))))
      else do {
        batchID \<leftarrow> uuid_NewString rt;
        prepared \<leftarrow> prepare_batch rt batchID notifications;
        (case prepared of
           Inl err \<Rightarrow> State_Monad.return (None, [], Some err)
         | Inr created \<Rightarrow> do {
             let batch = \<lparr>b_ID = batchID, b_TotalCount = int (length notifications),
                          b_Status = BatchStatusProcessing, b_CreatedAt = zero_time,
                          b_UpdatedAt = zero_time\<rparr>;
             bc \<leftarrow> br_Create (s_batches s) (Some batch);
             (case bc of
                Inl err \<Rightarrow> State_Monad.return (None, [], Some err)
              | Inr stored_batch \<Rightarrow> do {
                  let batch = (case stored_batch of Some b \<Rightarrow> b | None \<Rightarrow> batch);
                  nc \<leftarrow> nr_CreateBatch (s_notifications s) (map Some created);
                  (case nc of
                     Inl err \<Rightarrow> do {
                       _ \<leftarrow> br_UpdateStatus (s_batches s) (b_ID batch) BatchStatusPartialFailure;
                       State_Monad.return (None, [], Some err)
                     }
                   | Inr stored \<Rightarrow> do {
                       let created = map2 (\<lambda>old new. case new of Some n \<Rightarrow> n | None \<Rightarrow> old) created stored;
                       now \<leftarrow> time_Now rt;
                       (failed, created) \<leftarrow> enqueue_all s now created;
                       let batch = batch\<lparr>b_Status := (if 0 < failed then BatchStatusPartialFailure
                                                     else BatchStatusCompleted)\<rparr>;
                       bu \<leftarrow> br_UpdateStatus (s_batches s) (b_ID batch) (b_Status batch);
                       State_Monad.return (case bu of
                           Some err \<Rightarrow> (None, [], Some err)
                         | None \<Rightarrow>
                             if 0 < failed
                             then (Some batch, created,
                                   Some (ErrorString (''batch queued with partial failure: ''
                                     @ Itoa (int failed) @ ''/'' @ Itoa (int (length created)) @ '' failed'')))
                             else (Some batch, created, None))
                     })
                })
           })
      })"

section \<open>Reads, cancellation\<close>

definition service_GetByID ::
  "'w notification_service \<Rightarrow> string \<Rightarrow> ('w, go_error + notification) state" where
  "service_GetByID s nid =
     (if TrimSpace nid = [] then State_Monad.return (Inl (validation_error ''notification id is required''))
      else nr_GetByID (s_notifications s) (TrimSpace nid))"

definition service_GetBatchSummary ::
  "'w notification_service \<Rightarrow> string \<Rightarrow> ('w, go_error + batch_summary) state" where
  "service_GetBatchSummary s batchID =
     (if TrimSpace batchID = [] then State_Monad.return (Inl (validation_error ''batch id is required''))
      else do {
        b \<leftarrow> br_GetByID (s_batches s) (TrimSpace batchID);
        (case b of
           Inl err \<Rightarrow> State_Monad.return (Inl err)
         | Inr batch \<Rightarrow> do {
             r \<leftarrow> nr_GetBatchSummary (s_notifications s) batchID;
             State_Monad.return (case r of
                 Inl err \<Rightarrow> Inl err
               | Inr statuses \<Rightarrow>
                   Inr \<lparr>bs_BatchID = b_ID batch, bs_TotalCount = b_TotalCount batch,
                        bs_Status = b_Status batch,
                        bs_Counts = map (\<lambda>x. \<lparr>sc_Status = rbs_Status x, sc_Count = rbs_Count x\<rparr>) statuses\<rparr>)
           })
      })"

definition service_Cancel ::
  "'w notification_service \<Rightarrow> string \<Rightarrow> ('w, go_error option) state" where
  "service_Cancel s nid =
     (if TrimSpace nid = [] then State_Monad.return (Some (validation_error ''notification id is required''))
      else nr_Cancel (s_notifications s) (TrimSpace nid))"

definition service_List ::
  "'w notification_service \<Rightarrow> list_params \<Rightarrow> ('w, go_error + notification list \<times> int) state" where
  "service_List s params = nr_List (s_notifications s) params"

end
