(* ===== verification/Provider.thy ===== *)
theory Provider
  imports Domain
begin

text \<open>
  Package \<open>internal/provider\<close>: the classification of delivery errors (\<open>errors.go\<close>) and the
  webhook client (\<open>webhook.go\<close>). The resty HTTP client is a parameter: one POST is a computation
  over the world that yields a transport error or a response (possibly \<open>nil\<close>). The client's
  timeout and retry settings, which the constructors change, are fields of the client record.
\<close>

section \<open>Error classification\<close>

definition IsTransient :: "go_error option \<Rightarrow> bool" where
  "IsTransient err =
     (case err of
        None \<Rightarrow> False
      | Some e \<Rightarrow>
          if errors_Is e ContextDeadlineExceeded then True
          else if errors_Is e ContextCanceled then False
          else (case errors_As_ProviderError e of
                  Some providerErr \<Rightarrow> pe_Transient providerErr
                | None \<Rightarrow>
                    (case errors_As_NetError_Timeout e of
                       Some timeout \<Rightarrow> timeout
                     | None \<Rightarrow> False)))"

section \<open>Responses\<close>

record provider_response =
  pr_StatusCode :: int
  pr_Body :: string
  pr_MessageID :: string

record 'w provider =
  p_Send :: "notification \<Rightarrow> ('w, provider_response option \<times> go_error option) state"

record webhook_request =
  wr_To :: string
  wr_Channel :: string
  wr_Content :: string

text \<open>An \<open>http.Header\<close> maps canonical keys to value lists.\<close>

record http_response =
  hr_StatusCode :: int
  hr_Body :: string
  hr_Header :: "string \<Rightarrow> string list"

fun canonical_bytes :: "bool \<Rightarrow> string \<Rightarrow> string" where
  "canonical_bytes upper [] = []"
| "canonical_bytes upper (c # s) =
     (if upper then upper_byte c else lower_byte c) # canonical_bytes (c = CHR ''-'') s"

definition Header_Get :: "(string \<Rightarrow> string list) \<Rightarrow> string \<Rightarrow> string" where
  "Header_Get h k = (case h (canonical_bytes True k) of [] \<Rightarrow> [] | v # _ \<Rightarrow> v)"

section \<open>The webhook provider\<close>

definition defaultWebhookTimeout :: duration where
  "defaultWebhookTimeout = 10 * 10 ^ 9"

record 'w resty_client =
  rc_Timeout :: duration
  rc_RetryCount :: int
  rc_Post :: "string \<Rightarrow> webhook_request \<Rightarrow> ('w, go_error + http_response option) state"

record 'w webhook_site_provider =
  ws_client :: "'w resty_client option"
  ws_endpoint :: string

definition NewWebhookSiteProviderWithClient ::
  "(string \<Rightarrow> go_error option) \<Rightarrow> string \<Rightarrow> 'w resty_client option \<Rightarrow> go_error + 'w webhook_site_provider" where
  "NewWebhookSiteProviderWithClient ParseRequestURI endpoint client =
     (let trimmedEndpoint = TrimSpace endpoint in
      if trimmedEndpoint = [] then Inl (ErrorString ''webhook endpoint is required'')
      else case ParseRequestURI trimmedEndpoint of
        Some err \<Rightarrow> Inl (Wrap ''invalid webhook endpoint: '' err [])
      | None \<Rightarrow>
          (case client of
             None \<Rightarrow> Inl (ErrorString ''resty client is required'')
           | Some c \<Rightarrow>
               let c = (if rc_Timeout c = 0 then c\<lparr>rc_Timeout := defaultWebhookTimeout\<rparr> else c);
                   c = c\<lparr>rc_RetryCount := 0\<rparr>
               in Inr \<lparr>ws_client = Some c, ws_endpoint = trimmedEndpoint\<rparr>))"

definition NewWebhookSiteProvider ::
  "(string \<Rightarrow> go_error option) \<Rightarrow> 'w resty_client \<Rightarrow> string \<Rightarrow> go_error + 'w webhook_site_provider" where
  "NewWebhookSiteProvider ParseRequestURI resty_New endpoint =
     (let client = resty_New\<lparr>rc_Timeout := defaultWebhookTimeout\<rparr>;
          client = client\<lparr>rc_RetryCount := 0\<rparr>
      in NewWebhookSiteProviderWithClient ParseRequestURI endpoint (Some client))"

definition isTransientHTTPStatus :: "int \<Rightarrow> bool" where
  "isTransientHTTPStatus statusCode \<longleftrightarrow> statusCode = 429 \<or> (500 \<le> statusCode \<and> statusCode \<le> 599)"

definition providerErrorMessage :: "int \<Rightarrow> string \<Rightarrow> string" where
  "providerErrorMessage statusCode body =
     (let base = ''provider returned status '' @ Itoa statusCode in
      if body = [] then base else base @ '': '' @ body)"

fun first_header :: "http_response \<Rightarrow> string list \<Rightarrow> string" where
  "first_header response [] = []"
| "first_header response (k # ks) =
     (let value = TrimSpace (Header_Get (hr_Header response) k) in
      if value \<noteq> [] then value else first_header response ks)"

definition providerMessageID :: "http_response option \<Rightarrow> string" where
  "providerMessageID response =
     (case response of
        None \<Rightarrow> []
      | Some r \<Rightarrow> first_header r [''X-Request-ID'', ''X-Request-Id'', ''X-Correlation-ID'', ''X-Correlation-Id''])"

definition webhook_Send ::
  "'w webhook_site_provider option \<Rightarrow> notification
     \<Rightarrow> ('w, provider_response option \<times> go_error option) state" where
  "webhook_Send p notification =
     (case Option.bind p ws_client of
        None \<Rightarrow> State_Monad.return (None, Some (ErrorString ''provider is not initialized''))
      | Some client \<Rightarrow>
          (case Validate notification of
             Some err \<Rightarrow> State_Monad.return (None, Some (Wrap ''invalid notification: '' err []))
           | None \<Rightarrow> do {
               r \<leftarrow> rc_Post client (ws_endpoint (the p))
                      \<lparr>wr_To = Recipient notification, wr_Channel = ToLower (Channel notification),
                       wr_Content = Content notification\<rparr>;
               State_Monad.return (case r of
                 Inl err \<Rightarrow>
                   (None, Some (ProviderError 0 ''provider request failed''
                      (\<not> errors_Is err ContextCanceled) (Some err)))
               | Inr None \<Rightarrow>
                   (None, Some (ProviderError 0 ''provider returned empty response'' True None))
               | Inr (Some response) \<Rightarrow>
                   (let statusCode = hr_StatusCode response;
                        responseBody = TrimSpace (hr_Body response)
                    in if 200 \<le> statusCode \<and> statusCode < 300
                       then (Some \<lparr>pr_StatusCode = statusCode, pr_Body = responseBody,
                                pr_MessageID = providerMessageID (Some response)\<rparr>, None)
                       else (None, Some (ProviderError statusCode
                                (providerErrorMessage statusCode responseBody)
                                (isTransientHTTPStatus statusCode) None))))
             }))"

text \<open>The webhook provider behind the \<open>Provider\<close> interface.\<close>

definition webhook_provider :: "'w webhook_site_provider \<Rightarrow> 'w provider" where
  "webhook_provider p = \<lparr>p_Send = webhook_Send (Some p)\<rparr>"

section \<open>Classification of the outcomes of Send\<close>

text \<open>What one POST can yield, and the verdict the caller has to reach on it.\<close>

definition should_retry :: "go_error + http_response option \<Rightarrow> bool" where
  "should_retry r =
     (case r of
        Inl err \<Rightarrow> errors_Is err ContextDeadlineExceeded \<or> \<not> errors_Is err ContextCanceled
      | Inr None \<Rightarrow> True
      | Inr (Some resp) \<Rightarrow> hr_StatusCode resp = 429 \<or> 500 \<le> hr_StatusCode resp \<and> hr_StatusCode resp \<le> 599)"

lemma IsTransient_ProviderError_leaf [simp]:
  "IsTransient (Some (ProviderError sc m tr None)) = tr"
  by (simp add: IsTransient_def)

lemma IsTransient_ProviderError_cause [simp]:
  "IsTransient (Some (ProviderError sc m tr (Some c))) =
     (errors_Is c ContextDeadlineExceeded \<or> \<not> errors_Is c ContextCanceled \<and> tr)"
  by (simp add: IsTransient_def)

lemma IsTransient_validation [simp]:
  "IsTransient (Some (Wrap pre (validation_error m) post)) = False"
  by (simp add: IsTransient_def validation_error_def)

lemma IsTransient_Wrap: "IsTransient (Some (Wrap pre e post)) = IsTransient (Some e)"
  by (simp add: IsTransient_def split: option.splits)

text \<open>
  C27: for a valid notification the webhook provider reports success exactly for a 2xx response,
  and its error is classified as transient exactly for a transport failure that is not a
  cancellation (a deadline included), an empty response, 429 and 5xx.
\<close>

theorem Send_classification:
  assumes "Validate n = None" and "ws_client p = Some client"
    and "run_state (rc_Post client (ws_endpoint p)
           \<lparr>wr_To = Recipient n, wr_Channel = ToLower (Channel n), wr_Content = Content n\<rparr>) w = (r, w1)"
  shows "\<exists>resp err. run_state (webhook_Send (Some p) n) w = ((resp, err), w1)
     \<and> (err = None \<longleftrightarrow> (\<exists>x. r = Inr (Some x) \<and> 200 \<le> hr_StatusCode x \<and> hr_StatusCode x < 300))
     \<and> (resp = None \<longleftrightarrow> err \<noteq> None)
     \<and> (IsTransient err \<longleftrightarrow> err \<noteq> None \<and> should_retry r)"
  using assms
  by (cases r) (auto simp: webhook_Send_def should_retry_def isTransientHTTPStatus_def Let_def
      IsTransient_def [of None] split: option.splits)

end
