(* ===== verification/Rate_Limiter.thy ===== *)
theory Rate_Limiter
  imports Domain
begin

text \<open>
  \<open>internal/ratelimit/limiter.go\<close> (the interface) and \<open>internal/infra/redis/ratelimiter.go\<close> (the
  Redis implementation). The Redis client is a parameter: one \<open>TxPipelined\<close> of \<open>INCR key\<close> and
  \<open>EXPIRE key window\<close> yields an error or the counter after the increment.
\<close>

record 'w rate_limiter =
  rl_Allow :: "string \<Rightarrow> ('w, go_error + bool) state"
  rl_Wait :: "string \<Rightarrow> ('w, go_error option) state"

definition defaultLimitPerSec :: int where "defaultLimitPerSec = 100"
definition backoffStep :: duration where "backoffStep = 10 * 10 ^ 6"
definition backoffMax :: duration where "backoffMax = 50 * 10 ^ 6"
definition windowSeconds :: int where "windowSeconds = 1"

text \<open>\<open>TxPipelined\<close> yields \<open>Inr None\<close> when no \<open>INCR\<close> command was recorded (\<open>incrCmd == nil\<close>).\<close>

type_synonym 'w redis_client = "string \<Rightarrow> duration \<Rightarrow> ('w, go_error + int option) state"

record 'w redis_rate_limiter =
  r_client :: "'w redis_client option"
  r_limitPerSec :: int
  r_now :: "('w, go_time) state"
  r_sleep :: "duration \<Rightarrow> ('w, go_error option) state"

definition newRedisRateLimiter ::
  "('w, go_time) state \<Rightarrow> (duration \<Rightarrow> ('w, go_error option) state) \<Rightarrow>
   'w redis_client option \<Rightarrow> int \<Rightarrow> ('w, go_time) state option
     \<Rightarrow> (duration \<Rightarrow> ('w, go_error option) state) option \<Rightarrow> go_error + 'w redis_rate_limiter" where
  "newRedisRateLimiter timeNow sleepWithContext client limitPerSec nowFn sleepFn =
     (case client of
        None \<Rightarrow> Inl (ErrorString ''redis client is required'')
      | Some c \<Rightarrow>
          Inr \<lparr>r_client = client,
               r_limitPerSec = (if limitPerSec \<le> 0 then defaultLimitPerSec else limitPerSec),
               r_now = (case nowFn of None \<Rightarrow> timeNow | Some f \<Rightarrow> f),
               r_sleep = (case sleepFn of None \<Rightarrow> sleepWithContext | Some f \<Rightarrow> f)\<rparr>)"

definition NewRedisRateLimiter ::
  "('w, go_time) state \<Rightarrow> (duration \<Rightarrow> ('w, go_error option) state) \<Rightarrow>
   'w redis_client option \<Rightarrow> int \<Rightarrow> go_error + 'w redis_rate_limiter" where
  "NewRedisRateLimiter timeNow sleepWithContext client limitPerSec =
     newRedisRateLimiter timeNow sleepWithContext client limitPerSec (Some timeNow) (Some sleepWithContext)"

text \<open>\<^verbatim>\<open>fmt.Sprintf("ratelimit:%s:%d", channel, now.Unix())\<close>.\<close>

definition window_key :: "string \<Rightarrow> go_time \<Rightarrow> string" where
  "window_key channel now = ''ratelimit:'' @ channel @ '':'' @ Itoa (now div 10 ^ 9)"

definition limiter_Allow ::
  "'w redis_rate_limiter option \<Rightarrow> string \<Rightarrow> ('w, go_error + bool) state" where
  "limiter_Allow r channel =
     (case Option.bind r r_client of
        None \<Rightarrow> State_Monad.return (Inl (ErrorString ''rate limiter is not initialized''))
      | Some client \<Rightarrow>
          (let normalizedChannel = ToLower (TrimSpace channel) in
           if normalizedChannel = []
           then State_Monad.return (Inl (ErrorString ''channel is required''))
           else do {
             now \<leftarrow> r_now (the r);
             let key = window_key normalizedChannel now;
             let window = windowSeconds * 10 ^ 9;
             res \<leftarrow> client key window;
             State_Monad.return (case res of
                 Inl err \<Rightarrow> Inl (Wrap ''failed to evaluate rate limit: '' err [])
               | Inr None \<Rightarrow> Inl (ErrorString ''failed to evaluate rate limit: missing INCR result'')
               | Inr (Some val) \<Rightarrow> Inr (val \<le> r_limitPerSec (the r)))
           }))"

text \<open>
  The loop of \<open>Wait\<close>; it runs until a call is allowed, a call fails, or the sleep is interrupted
  by the context, so it may not return (\<open>None\<close>).
\<close>

definition next_backoff :: "duration \<Rightarrow> duration" where
  "next_backoff backoff =
     (let backoff = i64 (backoff + backoffStep) in if backoffMax < backoff then backoffMax else backoff)"

partial_function (option) wait_loop ::
  "'w redis_rate_limiter \<Rightarrow> string \<Rightarrow> duration \<Rightarrow> 'w \<Rightarrow> (go_error option \<times> 'w) option" where
  "wait_loop r channel backoff w =
     (case run_state (limiter_Allow (Some r) channel) w of
        (Inl err, w1) \<Rightarrow> Some (Some err, w1)
      | (Inr allowed, w1) \<Rightarrow>
          if allowed then Some (None, w1)
          else (case run_state (r_sleep r backoff) w1 of
                  (Some err, w2) \<Rightarrow> Some (Some err, w2)
                | (None, w2) \<Rightarrow> wait_loop r channel (next_backoff backoff) w2))"

declare wait_loop.simps [code]

definition limiter_Wait ::
  "'w redis_rate_limiter \<Rightarrow> string \<Rightarrow> 'w \<Rightarrow> (go_error option \<times> 'w) option" where
  "limiter_Wait r channel w = wait_loop r channel backoffStep w"

text \<open>The limiter behind the interface. A \<open>Wait\<close> that does not return is reported as an exceeded
  deadline.\<close>

definition redis_limiter :: "'w redis_rate_limiter \<Rightarrow> 'w rate_limiter" where
  "redis_limiter r =
     \<lparr>rl_Allow = limiter_Allow (Some r),
      rl_Wait = (\<lambda>channel. State (\<lambda>w. case limiter_Wait r channel w of
         Some y \<Rightarrow> y | None \<Rightarrow> (Some (Sentinel ContextDeadlineExceeded), w)))\<rparr>"

text \<open>\<open>fired d\<close> is the \<open>select\<close> between the context and a timer of \<open>d\<close>: \<open>Some\<close> of \<open>ctx.Err()\<close> when the
  context was done first.\<close>

definition sleepWithContext ::
  "(duration \<Rightarrow> ('w, go_error option) state) \<Rightarrow> duration \<Rightarrow> ('w, go_error option) state" where
  "sleepWithContext fired d = do {
     ended \<leftarrow> fired d;
     State_Monad.return (case ended of Some ctxErr \<Rightarrow> Some ctxErr | None \<Rightarrow> None)
   }"

section \<open>The window\<close>

text \<open>
  Two calls share a counter exactly when they are for the same channel in the same second.
\<close>

lemma window_key_inject:
  "window_key c t = window_key c' t' \<longleftrightarrow> c = c' \<and> t div 10 ^ 9 = t' div 10 ^ 9"
proof
  assume "window_key c t = window_key c' t'"
  then have e: "c @ '':'' @ Itoa (t div 10 ^ 9) = c' @ '':'' @ Itoa (t' div 10 ^ 9)"
    by (simp add: window_key_def)
  have "takeWhile (\<lambda>y. y \<noteq> CHR '':'') (rev (a @ '':'' @ Itoa x)) = rev (Itoa x)" for a x
  proof -
    have "takeWhile (\<lambda>y. y \<noteq> CHR '':'') (rev (Itoa x)) = rev (Itoa x)"
      using Itoa_no_colon [of x] by (auto simp: takeWhile_eq_all_conv)
    then show ?thesis by (simp add: takeWhile_tail)
  qed
  then have "Itoa (t div 10 ^ 9) = Itoa (t' div 10 ^ 9)"
    using e by (metis rev_rev_ident)
  then show "c = c' \<and> t div 10 ^ 9 = t' div 10 ^ 9"
    using e by (auto dest: Itoa_inject)
qed (simp add: window_key_def)

section \<open>What the limiter relies on\<close>

text \<open>
  \<open>counter\<close> and \<open>expiry\<close> are Redis's value and deadline of each key, \<open>time\<close> the wall clock, which
  only moves forward. The transaction takes effect at some instant between its call and its
  return: a key past its deadline counts from zero again, and the new deadline is one window later.
\<close>

definition incr_at ::
  "(string \<Rightarrow> int) \<Rightarrow> (string \<Rightarrow> go_time) \<Rightarrow> (string \<Rightarrow> int) \<Rightarrow> (string \<Rightarrow> go_time) \<Rightarrow> go_time \<Rightarrow> string \<Rightarrow> duration \<Rightarrow> bool" where
  "incr_at c e c' e' t key window \<longleftrightarrow>
     c' = c(key := (if t < e key then c key else 0) + 1) \<and> e' = e(key := t + window)"

locale limiter_env =
  fixes r :: "'w redis_rate_limiter"
    and client :: "'w redis_client"
    and counter :: "'w \<Rightarrow> string \<Rightarrow> int"
    and expiry :: "'w \<Rightarrow> string \<Rightarrow> go_time"
    and time :: "'w \<Rightarrow> go_time"
  assumes client: "r_client r = Some client"
    and counter_nonneg: "0 \<le> counter w k"
    and now_law: "wp (r_now r) (\<lambda>n w'. time w \<le> n \<and> n \<le> time w' \<and> counter w' = counter w \<and> expiry w' = expiry w) w"
    and client_law: "wp (client key window) (\<lambda>res w'. time w \<le> time w' \<and>
        (case res of
           Inr (Some v) \<Rightarrow> (\<exists>t. time w \<le> t \<and> t \<le> time w'
             \<and> incr_at (counter w) (expiry w) (counter w') (expiry w') t key window) \<and> v = counter w' key
         | _ \<Rightarrow> counter w' = counter w \<and> expiry w' = expiry w
             \<or> (\<exists>t. time w \<le> t \<and> t \<le> time w'
                  \<and> incr_at (counter w) (expiry w) (counter w') (expiry w') t key window))) w"

text \<open>\<open>k\<close> calls of \<open>Allow\<close> one after the other.\<close>

fun allow_many :: "'w redis_rate_limiter \<Rightarrow> string \<Rightarrow> nat \<Rightarrow> ('w, (go_error + bool) list) state" where
  "allow_many r channel 0 = State_Monad.return []"
| "allow_many r channel (Suc k) = do {
     a \<leftarrow> limiter_Allow (Some r) channel;
     rest \<leftarrow> allow_many r channel k;
     State_Monad.return (a # rest)
   }"

abbreviation allowed_count :: "(go_error + bool) list \<Rightarrow> int" where
  "allowed_count rs \<equiv> int (length (filter (\<lambda>a. a = Inr True) rs))"

context limiter_env
begin

text \<open>One call that starts and ends inside second \<open>S\<close>: it leaves the counter of that second either
  alone or increased and alive until the second is over.\<close>

lemma Allow_wp:
  assumes ch: "ToLower (TrimSpace ch) \<noteq> []" and key: "key = ''ratelimit:'' @ ToLower (TrimSpace ch) @ '':'' @ Itoa S"
    and S: "S * 10 ^ 9 \<le> time w"
  shows "wp (limiter_Allow (Some r) ch) (\<lambda>a w'. time w \<le> time w' \<and> (time w' < (S + 1) * 10 ^ 9 \<longrightarrow>
     (a = Inr True \<longrightarrow> counter w' key \<le> r_limitPerSec r)
     \<and> (counter w' = counter w \<and> expiry w' = expiry w \<and> a \<noteq> Inr True
        \<or> (S + 1) * 10 ^ 9 \<le> expiry w' key \<and> 1 \<le> counter w' key
          \<and> ((S + 1) * 10 ^ 9 \<le> expiry w key \<longrightarrow> counter w' key = counter w key + 1)))) w"
proof -
  have window: "window_key (ToLower (TrimSpace ch)) n = key" if "S * 10 ^ 9 \<le> n" "n < (S + 1) * 10 ^ 9" for n
  proof -
    have "n div 10 ^ 9 = S"
      by (rule int_div_pos_eq [of _ _ _ "n - 10 ^ 9 * S"]) (use that in simp_all)
    then show ?thesis by (simp add: window_key_def key)
  qed
  let ?k = "\<lambda>n. window_key (ToLower (TrimSpace ch)) n"
  have run: "limiter_Allow (Some r) ch = do {
      now \<leftarrow> r_now r; res \<leftarrow> client (?k now) (10 ^ 9);
      State_Monad.return (case res of
          Inl err \<Rightarrow> Inl (Wrap ''failed to evaluate rate limit: '' err [])
        | Inr None \<Rightarrow> Inl (ErrorString ''failed to evaluate rate limit: missing INCR result'')
        | Inr (Some val) \<Rightarrow> Inr (val \<le> r_limitPerSec r)) }"
    using ch by (simp add: limiter_Allow_def client windowSeconds_def cong: sum.case_cong option.case_cong)
  have touched: "(S + 1) * 10 ^ 9 \<le> e' key \<and> 1 \<le> c' key \<and> ((S + 1) * 10 ^ 9 \<le> e key \<longrightarrow> c' key = c key + 1)"
    if "incr_at c e c' e' t key (10 ^ 9)" "S * 10 ^ 9 \<le> t" "t < (S + 1) * 10 ^ 9" "0 \<le> c key" for c e c' e' t
    using that by (auto simp: incr_at_def)
  show ?thesis
    unfolding run
  proof (rule wp_bindI, rule wp_mono [OF now_law], rule wp_bindI, rule wp_mono [OF client_law], unfold wp_return, goal_cases)
    case (1 now v res w')
    have mono: "time w \<le> time w'" using 1 by linarith
    show ?case
    proof (rule conjI [OF mono], rule impI)
      assume inside: "time w' < (S + 1) * 10 ^ 9"
      have now: "?k now = key" by (rule window) (use 1 S inside in linarith)+
      let ?applied = "\<exists>t. time v \<le> t \<and> t \<le> time w'
          \<and> incr_at (counter v) (expiry v) (counter w') (expiry w') t (?k now) (10 ^ 9)"
      let ?T = "(S + 1) * 10 ^ 9 \<le> expiry w' key \<and> 1 \<le> counter w' key
        \<and> ((S + 1) * 10 ^ 9 \<le> expiry w key \<longrightarrow> counter w' key = counter w key + 1)"
      have applied: ?T if ?applied
      proof -
        from that obtain t where "time v \<le> t" "t \<le> time w'"
          "incr_at (counter v) (expiry v) (counter w') (expiry w') t key (10 ^ 9)" unfolding now by blast
        with touched [of "counter v" "expiry v" "counter w'" "expiry w'" t] counter_nonneg [of v key] 1 S inside
        show ?T by auto
      qed
      have "?applied \<and> res = Inr (Some (counter w' (?k now)))
          \<or> (\<forall>x. res \<noteq> Inr (Some x)) \<and> (?applied \<or> counter w' = counter w \<and> expiry w' = expiry w)"
        using 1 by (auto split: sum.splits option.splits)
      then show "((case res of Inl err \<Rightarrow> Inl (Wrap ''failed to evaluate rate limit: '' err [])
             | Inr None \<Rightarrow> Inl (ErrorString ''failed to evaluate rate limit: missing INCR result'')
             | Inr (Some val) \<Rightarrow> Inr (val \<le> r_limitPerSec r)) = Inr True \<longrightarrow> counter w' key \<le> r_limitPerSec r)
        \<and> (counter w' = counter w \<and> expiry w' = expiry w
            \<and> (case res of Inl err \<Rightarrow> Inl (Wrap ''failed to evaluate rate limit: '' err [])
             | Inr None \<Rightarrow> Inl (ErrorString ''failed to evaluate rate limit: missing INCR result'')
             | Inr (Some val) \<Rightarrow> Inr (val \<le> r_limitPerSec r)) \<noteq> Inr True \<or> ?T)"
        using applied now by (auto split: sum.splits option.splits)
    qed
  qed
qed

lemma allow_many_wp:
  assumes ch: "ToLower (TrimSpace ch) \<noteq> []" and key: "key = ''ratelimit:'' @ ToLower (TrimSpace ch) @ '':'' @ Itoa S"
    and S: "S * 10 ^ 9 \<le> time w" and limit: "0 \<le> r_limitPerSec r"
  shows "wp (allow_many r ch k) (\<lambda>rs w'. time w \<le> time w' \<and> (time w' < (S + 1) * 10 ^ 9 \<longrightarrow>
     allowed_count rs \<le> max 0 (r_limitPerSec r - (if (S + 1) * 10 ^ 9 \<le> expiry w key then counter w key else 0)))) w"
  using S
proof (induction k arbitrary: w)
  case 0
  then show ?case by simp
next
  case (Suc k)
  show ?case
    unfolding allow_many.simps
  proof (rule wp_bindI, rule wp_mono [OF Allow_wp [OF ch key Suc.prems]], goal_cases)
    case (1 a v)
    have "S * 10 ^ 9 \<le> time v" using 1 Suc.prems by linarith
    note IH = Suc.IH [OF this]
    show ?case
    proof (rule wp_bindI, rule wp_mono [OF IH], unfold wp_return, goal_cases)
      case (1 rs w')
      note step = \<open>time w \<le> time v \<and> _\<close>
      show ?case
      proof (intro conjI impI)
        show "time w \<le> time w'" using 1 step by linarith
        assume inside: "time w' < (S + 1) * 10 ^ 9"
        then have "time v < (S + 1) * 10 ^ 9" using 1 by linarith
        with step 1 inside limit counter_nonneg [of w key] show "allowed_count (a # rs)
            \<le> max 0 (r_limitPerSec r - (if (S + 1) * 10 ^ 9 \<le> expiry w key then counter w key else 0))"
          by (auto split: if_splits)
      qed
    qed
  qed
qed

end

text \<open>
  C20: however many calls of \<open>Allow\<close> are made for a channel within one second of the wall clock, at
  most \<open>limitPerSec\<close> of them are allowed, whatever the counters held before and whichever calls
  fail.
\<close>

theorem Allow_respects_limit:
  assumes "limiter_env r client counter expiry time" and "ToLower (TrimSpace channel) \<noteq> []"
    and "0 \<le> r_limitPerSec r"
  shows "wp (allow_many r channel k) (\<lambda>rs w'.
     time w' div 10 ^ 9 = time w div 10 ^ 9 \<longrightarrow> allowed_count rs \<le> r_limitPerSec r) w"
proof -
  let ?S = "time w div 10 ^ 9"
  have "?S * 10 ^ 9 \<le> time w" by simp
  note many = limiter_env.allow_many_wp [OF assms(1,2) refl this assms(3)]
  have inside: "t < (?S + 1) * 10 ^ 9" if "t div 10 ^ 9 = ?S" for t :: int
  proof -
    have "t div 10 ^ 9 * 10 ^ 9 + t mod 10 ^ 9 = t" "t mod 10 ^ 9 < 10 ^ 9"
      by (rule div_mult_mod_eq) simp
    then show ?thesis unfolding that by (simp add: distrib_right)
  qed
  have nonneg: "0 \<le> counter v x" for v x
    using assms(1) by (simp add: limiter_env_def)
  show ?thesis
  proof (rule wp_mono [OF many], rule impI)
    fix rs w'
    let ?key = "''ratelimit:'' @ ToLower (TrimSpace channel) @ '':'' @ Itoa ?S"
    let ?c = "if (?S + 1) * 10 ^ 9 \<le> expiry w ?key then counter w ?key else 0"
    assume "time w \<le> time w' \<and> (time w' < (?S + 1) * 10 ^ 9 \<longrightarrow> allowed_count rs \<le> max 0 (r_limitPerSec r - ?c))"
      and "time w' div 10 ^ 9 = ?S"
    then have "allowed_count rs \<le> max 0 (r_limitPerSec r - ?c)"
      using inside by blast
    moreover have "0 \<le> ?c" by (simp only: nonneg split: if_split) simp
    ultimately show "allowed_count rs \<le> r_limitPerSec r" using assms(3) by linarith
  qed
qed

section \<open>Waiting\<close>

text \<open>\<open>refused_rounds k\<close> follows \<open>k\<close> rounds of the loop of \<open>Wait\<close> that were refused and slept
  undisturbed; \<open>wait_exit\<close> is the round that ends the loop.\<close>

fun refused_rounds ::
  "'w redis_rate_limiter \<Rightarrow> string \<Rightarrow> nat \<Rightarrow> duration \<Rightarrow> 'w \<Rightarrow> (duration \<times> 'w) option" where
  "refused_rounds r ch 0 b w = Some (b, w)"
| "refused_rounds r ch (Suc k) b w =
     (case run_state (limiter_Allow (Some r) ch) w of
        (Inr allowed, w1) \<Rightarrow>
          if allowed then None
          else (case run_state (r_sleep r b) w1 of
                  (None, w2) \<Rightarrow> refused_rounds r ch k (next_backoff b) w2
                | (Some _, _) \<Rightarrow> None)
      | (Inl _, _) \<Rightarrow> None)"

definition wait_exit :: "'w redis_rate_limiter \<Rightarrow> string \<Rightarrow> duration \<Rightarrow> 'w \<Rightarrow> go_error option \<times> 'w \<Rightarrow> bool" where
  "wait_exit r ch b w y \<longleftrightarrow>
     (\<exists>e w1. run_state (limiter_Allow (Some r) ch) w = (Inl e, w1) \<and> y = (Some e, w1))
   \<or> (\<exists>w1. run_state (limiter_Allow (Some r) ch) w = (Inr True, w1) \<and> y = (None, w1))
   \<or> (\<exists>w1 e w2. run_state (limiter_Allow (Some r) ch) w = (Inr False, w1)
        \<and> run_state (r_sleep r b) w1 = (Some e, w2) \<and> y = (Some e, w2))"

lemma wait_loop_exit: "wait_exit r ch b w y \<Longrightarrow> wait_loop r ch b w = Some y"
  by (auto simp: wait_exit_def wait_loop.simps [of r ch b w])

lemma wait_loop_rounds:
  "refused_rounds r ch k b w = Some (b', v) \<Longrightarrow> wait_loop r ch b w = wait_loop r ch b' v"
proof (induction r ch k b w rule: refused_rounds.induct)
  case (2 r ch k b w)
  then obtain w1 w2 where w: "run_state (limiter_Allow (Some r) ch) w = (Inr False, w1)"
    "run_state (r_sleep r b) w1 = (None, w2)" "refused_rounds r ch k (next_backoff b) w2 = Some (b', v)"
    by (auto split: prod.splits sum.splits option.splits if_splits)
  then have "wait_loop r ch (next_backoff b) w2 = wait_loop r ch b' v" by (intro 2(1)) auto
  with w show ?case by (subst wait_loop.simps) simp
qed simp

lemma wait_loop_Some:
  "wait_loop r ch b w = Some y \<Longrightarrow> \<exists>k b' v. refused_rounds r ch k b w = Some (b', v) \<and> wait_exit r ch b' v y"
proof (rule wait_loop.raw_induct [where P = "\<lambda>r ch b w y.
    \<exists>k b' v. refused_rounds r ch k b w = Some (b', v) \<and> wait_exit r ch b' v y"], goal_cases)
  case (1 loop r ch b w y)
  note IH = 1(2) and body = 1(3)
  obtain a w1 where a: "run_state (limiter_Allow (Some r) ch) w = (a, w1)" by fastforce
  show ?case
  proof (cases "a = Inr False \<and> fst (run_state (r_sleep r b) w1) = None")
    case False
    with body a have "wait_exit r ch b w y"
      by (auto simp: wait_exit_def split: sum.splits prod.splits option.splits if_splits)
    then have "refused_rounds r ch 0 b w = Some (b, w) \<and> wait_exit r ch b w y" by simp
    then show ?thesis by blast
  next
    case True
    then obtain w2 where w2: "run_state (r_sleep r b) w1 = (None, w2)" by (metis prod.collapse)
    with True a body have "loop r ch (next_backoff b) w2 = Some y" by simp
    from IH [OF this] obtain k b' v
      where "refused_rounds r ch k (next_backoff b) w2 = Some (b', v)" "wait_exit r ch b' v y" by blast
    with True a w2 have "refused_rounds r ch (Suc k) b w = Some (b', v) \<and> wait_exit r ch b' v y" by simp
    then show ?thesis by blast
  qed
next
  case 2
  then show ?case .
qed

lemma next_backoff_eq: "0 \<le> b \<Longrightarrow> b \<le> backoffMax \<Longrightarrow> next_backoff b = min backoffMax (b + backoffStep)"
  by (simp add: next_backoff_def backoffMax_def backoffStep_def is_i64_def)

lemma backoff_after:
  "refused_rounds r ch k b w = Some (b', v) \<Longrightarrow> 0 \<le> b \<Longrightarrow> b \<le> backoffMax \<Longrightarrow>
     b' = min backoffMax (b + int k * backoffStep)"
proof (induction r ch k b w rule: refused_rounds.induct)
  case (2 r ch k b w)
  then show ?case
    by (auto simp: next_backoff_eq backoffMax_def backoffStep_def min_def algebra_simps
        split: prod.splits sum.splits option.splits if_splits)
qed simp

text \<open>
  C21: \<open>Wait\<close> returns exactly when some round ends it: after \<open>k\<close> refused rounds, sleeping 10, 20, 30,
  40, 50, 50, ... milliseconds, a call of \<open>Allow\<close> allows (and only then the result is nil) or fails,
  or the sleep is interrupted; the error is the one of that call. Otherwise it does not return.
\<close>

theorem Wait_returns_iff:
  "limiter_Wait r ch w = Some y \<longleftrightarrow>
     (\<exists>k v. refused_rounds r ch k (10 * 10 ^ 6) w = Some (min (50 * 10 ^ 6) ((int k + 1) * (10 * 10 ^ 6)), v)
        \<and> wait_exit r ch (min (50 * 10 ^ 6) ((int k + 1) * (10 * 10 ^ 6))) v y)"
proof
  assume "limiter_Wait r ch w = Some y"
  then obtain k b' v where k: "refused_rounds r ch k backoffStep w = Some (b', v)" "wait_exit r ch b' v y"
    by (auto simp: limiter_Wait_def dest: wait_loop_Some)
  have "b' = min (50 * 10 ^ 6) ((int k + 1) * (10 * 10 ^ 6))"
    using backoff_after [OF k(1)] by (simp add: backoffStep_def backoffMax_def algebra_simps)
  with k show "\<exists>k v. refused_rounds r ch k (10 * 10 ^ 6) w = Some (min (50 * 10 ^ 6) ((int k + 1) * (10 * 10 ^ 6)), v)
      \<and> wait_exit r ch (min (50 * 10 ^ 6) ((int k + 1) * (10 * 10 ^ 6))) v y"
    unfolding backoffStep_def by blast
next
  assume "\<exists>k v. refused_rounds r ch k (10 * 10 ^ 6) w = Some (min (50 * 10 ^ 6) ((int k + 1) * (10 * 10 ^ 6)), v)
      \<and> wait_exit r ch (min (50 * 10 ^ 6) ((int k + 1) * (10 * 10 ^ 6))) v y"
  then show "limiter_Wait r ch w = Some y"
    unfolding limiter_Wait_def backoffStep_def by (metis wait_loop_exit wait_loop_rounds)
qed

section \<open>The frame of the limiter\<close>

lemma limiter_Allow_frame:
  assumes "keeps obs (r_now r)" and "\<And>c k d. r_client r = Some c \<Longrightarrow> keeps obs (c k d)"
  shows "keeps obs (limiter_Allow (Some r) ch)"
  using assms by (auto simp: limiter_Allow_def Let_def intro!: keeps_bind split: option.split)

lemma refused_rounds_frame:
  assumes "keeps obs (limiter_Allow (Some r) ch)" and "\<And>d. keeps obs (r_sleep r d)"
  shows "refused_rounds r ch k b w = Some (b', v) \<Longrightarrow> obs v = obs w"
proof (induction k arbitrary: b w)
  case (Suc k)
  then obtain w1 w2 where w: "run_state (limiter_Allow (Some r) ch) w = (Inr False, w1)"
    "run_state (r_sleep r b) w1 = (None, w2)" "refused_rounds r ch k (next_backoff b) w2 = Some (b', v)"
    by (auto split: prod.splits sum.splits option.splits if_splits)
  with Suc.IH [OF w(3)] keepsD [OF assms(1) w(1)] keepsD [OF assms(2) w(2)] show ?case by simp
qed simp

lemma redis_limiter_Wait_frame:
  assumes "keeps obs (limiter_Allow (Some r) ch)" and "\<And>d. keeps obs (r_sleep r d)"
  shows "keeps obs (rl_Wait (redis_limiter r) ch)"
proof -
  have "obs v = obs w" if "limiter_Wait r ch w = Some (e, v)" for w e v
    using wait_loop_Some [OF that [unfolded limiter_Wait_def]]
    by (auto simp: wait_exit_def dest!: refused_rounds_frame [OF assms] keepsD [OF assms(1)] keepsD [OF assms(2)])
  then show ?thesis
    by (auto simp: keeps_def redis_limiter_def split: option.split)
qed

end
