(* ===== verification/Observability.thy ===== *)
theory Observability
  imports Domain
begin

text \<open>
  Package \<open>internal/observability\<close>: the metric operations (\<open>metrics.go\<close>) with the labels they
  choose and the construction of the vectors, the logger and the correlation id in a context
  (\<open>logger.go\<close>). The Prometheus and zap libraries are parameters: of the vectors, a record of the
  operations the code calls on them; a nil
  \<^verbatim>\<open>*Metrics\<close> is \<open>None\<close>. Durations are observed in nanoseconds here, in seconds by the code.
\<close>

record 'w prometheus =
  pm_CounterInc :: "string \<Rightarrow> string list \<Rightarrow> ('w, unit) state"
  pm_GaugeInc :: "string \<Rightarrow> string list \<Rightarrow> ('w, unit) state"
  pm_GaugeDec :: "string \<Rightarrow> string list \<Rightarrow> ('w, unit) state"
  pm_Observe :: "string \<Rightarrow> string list \<Rightarrow> duration \<Rightarrow> ('w, unit) state"

type_synonym 'w metrics = "'w prometheus option"

definition normalizeChannel :: "string \<Rightarrow> string" where
  "normalizeChannel channel =
     (let normalized = ToLower (TrimSpace channel) in
      if normalized = [] then ''unknown'' else normalized)"

definition IncNotificationSent :: "'w metrics \<Rightarrow> string \<Rightarrow> ('w, unit) state" where
  "IncNotificationSent m channel =
     (case m of None \<Rightarrow> State_Monad.return ()
      | Some p \<Rightarrow> pm_CounterInc p ''notifications_sent_total'' [normalizeChannel channel])"

definition IncNotificationFailed :: "'w metrics \<Rightarrow> string \<Rightarrow> string \<Rightarrow> ('w, unit) state" where
  "IncNotificationFailed m channel reason =
     (case m of None \<Rightarrow> State_Monad.return ()
      | Some p \<Rightarrow>
          let reasonLabel = TrimSpace (ToLower reason);
              reasonLabel = (if reasonLabel = [] then ''unknown'' else reasonLabel)
          in pm_CounterInc p ''notifications_failed_total'' [normalizeChannel channel, reasonLabel])"

definition ObserveNotificationSendDuration :: "'w metrics \<Rightarrow> string \<Rightarrow> duration \<Rightarrow> ('w, unit) state" where
  "ObserveNotificationSendDuration m channel dur =
     (case m of None \<Rightarrow> State_Monad.return ()
      | Some p \<Rightarrow>
          let seconds = (if dur < 0 then 0 else dur)
          in pm_Observe p ''notification_send_duration_seconds'' [normalizeChannel channel] seconds)"

definition IncWorkerInFlight :: "'w metrics \<Rightarrow> string \<Rightarrow> ('w, unit) state" where
  "IncWorkerInFlight m channel =
     (case m of None \<Rightarrow> State_Monad.return ()
      | Some p \<Rightarrow> pm_GaugeInc p ''worker_inflight'' [normalizeChannel channel])"

definition DecWorkerInFlight :: "'w metrics \<Rightarrow> string \<Rightarrow> ('w, unit) state" where
  "DecWorkerInFlight m channel =
     (case m of None \<Rightarrow> State_Monad.return ()
      | Some p \<Rightarrow> pm_GaugeDec p ''worker_inflight'' [normalizeChannel channel])"

definition IncRetryScheduled :: "'w metrics \<Rightarrow> string \<Rightarrow> ('w, unit) state" where
  "IncRetryScheduled m channel =
     (case m of None \<Rightarrow> State_Monad.return ()
      | Some p \<Rightarrow> pm_CounterInc p ''retry_scheduled_total'' [normalizeChannel channel])"

definition recordHTTPRequest ::
  "'w metrics \<Rightarrow> string \<Rightarrow> string \<Rightarrow> int \<Rightarrow> duration \<Rightarrow> ('w, unit) state" where
  "recordHTTPRequest m method path status dur =
     (case m of None \<Rightarrow> State_Monad.return ()
      | Some p \<Rightarrow>
          let methodLabel = ToUpper (TrimSpace method);
              methodLabel = (if methodLabel = [] then ''UNKNOWN'' else methodLabel);
              pathLabel = TrimSpace path;
              pathLabel = (if pathLabel = [] then ''unmatched'' else pathLabel)
          in do {
               pm_CounterInc p ''http_requests_total'' [methodLabel, pathLabel, Itoa status];
               pm_Observe p ''http_request_duration_seconds'' [methodLabel, pathLabel] dur
             })"

text \<open>\<open>routePath\<close> of a context whose matched route (if any) has the given path.\<close>

definition routePath :: "string option option \<Rightarrow> string" where
  "routePath ctx_route =
     (case ctx_route of
        None \<Rightarrow> ''unmatched''
      | Some None \<Rightarrow> ''unmatched''
      | Some (Some route_path) \<Rightarrow>
          let path = TrimSpace route_path in if path \<noteq> [] then path else ''unmatched'')"

text \<open>\<open>statusFromResult\<close>; \<open>ctx_status\<close> is the response status of a non-nil context.\<close>

definition statusFromResult :: "int option \<Rightarrow> go_error option \<Rightarrow> int" where
  "statusFromResult ctx_status err =
     (case err of
        Some e \<Rightarrow> (case e of FiberError code m \<Rightarrow> code | _ \<Rightarrow> 500)
      | None \<Rightarrow>
          (case ctx_status of
             None \<Rightarrow> 200
           | Some status \<Rightarrow> if status = 0 then 200 else status))"

definition parseLevel :: "(string \<Rightarrow> go_error + 'level) \<Rightarrow> string \<Rightarrow> go_error + 'level" where
  "parseLevel UnmarshalText level =
     (let normalized = ToLower (TrimSpace level);
          normalized = (if normalized = [] then ''info'' else normalized)
      in case UnmarshalText normalized of
           Inl err \<Rightarrow> Inl (Wrap (''invalid log level '' @ Quote level @ '': '') err [])
         | Inr parsed \<Rightarrow> Inr parsed)"

text \<open>A \<open>context.Context\<close>, seen through the one key this package uses; \<open>None\<close> is a nil context.\<close>

record go_context =
  ctx_correlationID :: "string option"

definition WithCorrelationID :: "go_context option \<Rightarrow> string \<Rightarrow> go_context option" where
  "WithCorrelationID ctx correlationID =
     Some ((case ctx of None \<Rightarrow> \<lparr>ctx_correlationID = None\<rparr> | Some c \<Rightarrow> c)
             \<lparr>ctx_correlationID := Some correlationID\<rparr>)"

definition CorrelationIDFromContext :: "go_context option \<Rightarrow> string \<times> bool" where
  "CorrelationIDFromContext ctx =
     (case ctx of
        None \<Rightarrow> ([], False)
      | Some c \<Rightarrow>
          (case ctx_correlationID c of
             None \<Rightarrow> ([], False)
           | Some correlationID \<Rightarrow>
               if correlationID = [] then ([], False) else (correlationID, True)))"

section \<open>Construction of the metrics\<close>

datatype buckets = DefBuckets | ExponentialBuckets_ms nat nat nat

datatype metric_kind = CounterVec | GaugeVec | HistogramVec buckets

text \<open>A vector as \<open>NewMetrics\<close> describes it, with the field that holds it. The first bucket of an
  exponential sequence is given in milliseconds.\<close>

record metric_desc =
  md_Field :: string
  md_Kind :: metric_kind
  md_Namespace :: string
  md_Name :: string
  md_Help :: string
  md_Labels :: "string list"

definition metric_vectors :: "metric_desc list" where
  "metric_vectors =
     [\<lparr>md_Field = ''httpRequestsTotal'', md_Kind = CounterVec, md_Namespace = ''dispatch_engine'',
       md_Name = ''http_requests_total'',
       md_Help = ''Total number of HTTP requests processed by method, path, and status.'',
       md_Labels = [''method'', ''path'', ''status'']\<rparr>,
      \<lparr>md_Field = ''httpRequestDuration'', md_Kind = HistogramVec DefBuckets, md_Namespace = ''dispatch_engine'',
       md_Name = ''http_request_duration_seconds'',
       md_Help = ''HTTP request duration in seconds by method and path.'',
       md_Labels = [''method'', ''path'']\<rparr>,
      \<lparr>md_Field = ''notificationsSentTotal'', md_Kind = CounterVec, md_Namespace = ''dispatch_engine'',
       md_Name = ''notifications_sent_total'',
       md_Help = ''Total number of notifications sent successfully.'', md_Labels = [''channel'']\<rparr>,
      \<lparr>md_Field = ''notificationsFailedTotal'', md_Kind = CounterVec, md_Namespace = ''dispatch_engine'',
       md_Name = ''notifications_failed_total'',
       md_Help = ''Total number of notifications that ended in failed state.'',
       md_Labels = [''channel'', ''reason'']\<rparr>,
      \<lparr>md_Field = ''notificationSendDuration'', md_Kind = HistogramVec (ExponentialBuckets_ms 10 2 12),
       md_Namespace = ''dispatch_engine'', md_Name = ''notification_send_duration_seconds'',
       md_Help = ''Provider send duration in seconds grouped by channel.'', md_Labels = [''channel'']\<rparr>,
      \<lparr>md_Field = ''workerInflight'', md_Kind = GaugeVec, md_Namespace = ''dispatch_engine'',
       md_Name = ''worker_inflight'',
       md_Help = ''Current number of in-flight worker operations grouped by channel.'', md_Labels = [''channel'']\<rparr>,
      \<lparr>md_Field = ''retryScheduledTotal'', md_Kind = CounterVec, md_Namespace = ''dispatch_engine'',
       md_Name = ''retry_scheduled_total'',
       md_Help = ''Total number of notifications scheduled for retry.'', md_Labels = [''channel'']\<rparr>]"

text \<open>
  The Prometheus library: registries (\<open>'r\<close>), collectors (\<open>'k\<close>), and the operations of a list of
  vectors. \<open>MustRegister\<close> returns \<open>None\<close> when it panics.
\<close>

record ('w, 'r, 'k) prometheus_lib =
  pl_NewRegistry :: "('w, 'r) state"
  pl_NewGoCollector :: 'k
  pl_NewProcessCollector :: 'k
  pl_Vec :: "metric_desc \<Rightarrow> 'k"
  pl_MustRegister :: "'r \<Rightarrow> 'k list \<Rightarrow> ('w, unit option) state"
  pl_ops :: "metric_desc list \<Rightarrow> 'w prometheus"

definition NewMetrics :: "('w, 'r, 'k) prometheus_lib \<Rightarrow> ('w, ('r \<times> 'w prometheus) option) state" where
  "NewMetrics lib = do {
     registry \<leftarrow> pl_NewRegistry lib;
     registered \<leftarrow> pl_MustRegister lib registry
       ([pl_NewGoCollector lib, pl_NewProcessCollector lib] @ map (pl_Vec lib) metric_vectors);
     State_Monad.return (case registered of
         None \<Rightarrow> None
       | Some _ \<Rightarrow> Some (registry, pl_ops lib metric_vectors))
   }"

text \<open>\<open>Handler\<close> of a metrics value whose registry may be nil.\<close>

definition metrics_Handler :: "'handler \<Rightarrow> ('r \<Rightarrow> 'handler) \<Rightarrow> 'r option option \<Rightarrow> 'handler" where
  "metrics_Handler promhttp_Handler promhttp_HandlerFor m =
     (case m of
        None \<Rightarrow> promhttp_Handler
      | Some None \<Rightarrow> promhttp_Handler
      | Some (Some registry) \<Rightarrow> promhttp_HandlerFor registry)"

section \<open>Logger\<close>

text \<open>The fields of the zap configuration that \<open>NewLogger\<close> changes; \<open>Build\<close> is zap's.\<close>

record 'level zap_config =
  zc_Level :: 'level
  zc_TimeKey :: string
  zc_EncodeTime :: string
  zc_DisableStacktrace :: bool

definition NewLogger ::
  "(string \<Rightarrow> go_error + 'level) \<Rightarrow> 'level zap_config \<Rightarrow> ('level zap_config \<Rightarrow> go_error + 'logger) \<Rightarrow> string
     \<Rightarrow> go_error + 'logger" where
  "NewLogger UnmarshalText NewProductionConfig Build level =
     (case parseLevel UnmarshalText level of
        Inl err \<Rightarrow> Inl err
      | Inr parsedLevel \<Rightarrow>
          let cfg = NewProductionConfig\<lparr>zc_Level := parsedLevel, zc_TimeKey := ''timestamp'',
                      zc_EncodeTime := ''ISO8601TimeEncoder'', zc_DisableStacktrace := True\<rparr>
          in case Build cfg of
               Inl err \<Rightarrow> Inl (Wrap ''failed to build logger: '' err [])
             | Inr logger \<Rightarrow> Inr logger)"

definition WithContextLogger ::
  "('logger \<Rightarrow> string \<times> string \<Rightarrow> 'logger) \<Rightarrow> 'logger option \<Rightarrow> go_context option \<Rightarrow> 'logger option" where
  "WithContextLogger With logger ctx =
     (case logger of
        None \<Rightarrow> None
      | Some l \<Rightarrow>
          let (correlationID, ok) = CorrelationIDFromContext ctx
          in if \<not> ok then Some l else Some (With l (''correlationId'', correlationID)))"

section \<open>Metrics: properties\<close>

definition metric_fits :: "(metric_kind \<Rightarrow> bool) \<Rightarrow> string \<Rightarrow> string list \<Rightarrow> bool" where
  "metric_fits kind name labels \<longleftrightarrow>
     list_ex (\<lambda>d. md_Name d = name \<and> kind (md_Kind d) \<and> length (md_Labels d) = length labels) metric_vectors"

definition is_histogram :: "metric_kind \<Rightarrow> bool" where
  "is_histogram k = (case k of HistogramVec _ \<Rightarrow> True | _ \<Rightarrow> False)"

text \<open>Vectors as the library has them: an operation with a wrong number of label values panics, which
  is the effect \<open>bad\<close> here, and so would one of the wrong kind.\<close>

definition strict :: "('w, unit) state \<Rightarrow> 'w prometheus \<Rightarrow> 'w prometheus" where
  "strict bad p =
     \<lparr>pm_CounterInc = (\<lambda>name ls. if metric_fits (\<lambda>k. k = CounterVec) name ls then pm_CounterInc p name ls else bad),
      pm_GaugeInc = (\<lambda>name ls. if metric_fits (\<lambda>k. k = GaugeVec) name ls then pm_GaugeInc p name ls else bad),
      pm_GaugeDec = (\<lambda>name ls. if metric_fits (\<lambda>k. k = GaugeVec) name ls then pm_GaugeDec p name ls else bad),
      pm_Observe = (\<lambda>name ls. if metric_fits is_histogram name ls then pm_Observe p name ls else (\<lambda>_. bad))\<rparr>"


end
