(* ===== verification/Worker_Service.thy ===== *)
theory Worker_Service
  imports Notification_Service Provider Rate_Limiter Observability
begin

text \<open>
  \<open>internal/service/worker_service.go\<close>: the consumers of the work queues. One delivery is
  processed by \<open>processMessage\<close>: claim the row, wait for the rate limiter, send, record the
  attempt, settle the row. The locale \<open>worker_env\<close> collects what the worker relies on of its
  collaborators, and the lemmas inside it describe every way a delivery can end.
\<close>

section \<open>The worker\<close>

definition minWorkerConcurrency :: int where "minWorkerConcurrency = 1"
definition maxRetryDelay :: duration where "maxRetryDelay = 60 * 10 ^ 9"
definition baseRetryDelay :: duration where "baseRetryDelay = 10 ^ 9"
definition maxRetryJitterMillis :: int where "maxRetryJitterMillis = 250"

record 'w worker_service =
  w_notifications :: "'w notification_repository"
  w_attempts :: "'w attempt_repository"
  w_consumer :: "'w consumer"
  w_provider :: "'w provider"
  w_rateLimiter :: "'w rate_limiter"
  w_metrics :: "'w metrics"
  w_concurrency :: int
  w_now :: "('w, go_time) state"
  w_randIntn :: "(int \<Rightarrow> ('w, int) state) option"

definition NewWorkerService ::
  "'w runtime \<Rightarrow> 'w notification_repository \<Rightarrow> 'w attempt_repository \<Rightarrow> 'w consumer \<Rightarrow> 'w provider
     \<Rightarrow> 'w rate_limiter \<Rightarrow> int \<Rightarrow> go_error + 'w worker_service" where
  "NewWorkerService rt notifications attempts consumer prov rateLimiter concurrency =
     (let concurrency = (if concurrency < minWorkerConcurrency then minWorkerConcurrency else concurrency)
      in Inr \<lparr>w_notifications = notifications, w_attempts = attempts, w_consumer = consumer, w_provider = prov,
              w_rateLimiter = rateLimiter, w_metrics = None, w_concurrency = concurrency,
              w_now = time_Now rt, w_randIntn = Some (rand_Intn rt)\<rparr>)"

definition worker_SetMetrics :: "'w worker_service option \<Rightarrow> 'w metrics \<Rightarrow> 'w worker_service option" where
  "worker_SetMetrics s metrics =
     (case s of None \<Rightarrow> None | Some w \<Rightarrow> Some (w\<lparr>w_metrics := metrics\<rparr>))"

section \<open>Retry delay\<close>

fun retry_delay_loop :: "nat \<Rightarrow> duration \<Rightarrow> duration" where
  "retry_delay_loop 0 delay = delay"
| "retry_delay_loop (Suc rounds) delay =
     (let delay = i64 (delay * 2) in
      if maxRetryDelay \<le> delay then maxRetryDelay else retry_delay_loop rounds delay)"

definition computeRetryDelay :: "'w worker_service \<Rightarrow> int \<Rightarrow> ('w, duration) state" where
  "computeRetryDelay s attemptNumber = do {
     let attemptNumber = (if attemptNumber < 1 then 1 else attemptNumber);
     let delay = retry_delay_loop (nat (attemptNumber - 1)) baseRetryDelay;
     let delay = (if maxRetryDelay < delay then maxRetryDelay else delay);
     jitterMillis \<leftarrow> (case w_randIntn s of
         Some randIntn \<Rightarrow> if 0 < maxRetryJitterMillis then randIntn (maxRetryJitterMillis + 1)
                         else State_Monad.return 0
       | None \<Rightarrow> State_Monad.return 0);
     State_Monad.return (i64 (delay + i64 (jitterMillis * 10 ^ 6)))
   }"

section \<open>Recording an attempt\<close>

definition attempt_status_code :: "provider_response option \<Rightarrow> go_error option \<Rightarrow> int option" where
  "attempt_status_code providerResp sendErr =
     (let statusCode = (case providerResp of
            Some resp \<Rightarrow> if 0 < pr_StatusCode resp then Some (pr_StatusCode resp) else None
          | None \<Rightarrow> None)
      in case sendErr of
           None \<Rightarrow> statusCode
         | Some err \<Rightarrow>
             (case errors_As_ProviderError err of
                Some providerErr \<Rightarrow>
                  if 0 < pe_StatusCode providerErr \<and> statusCode = None
                  then Some (pe_StatusCode providerErr) else statusCode
              | None \<Rightarrow> statusCode))"

definition attempt_response_body :: "provider_response option \<Rightarrow> string option" where
  "attempt_response_body providerResp =
     (case providerResp of
        Some resp \<Rightarrow> if TrimSpace (pr_Body resp) \<noteq> [] then Some (pr_Body resp) else None
      | None \<Rightarrow> None)"

definition recordAttempt ::
  "'w worker_service \<Rightarrow> 'w runtime \<Rightarrow> string \<Rightarrow> int \<Rightarrow> provider_response option \<Rightarrow> go_error option
     \<Rightarrow> ('w, go_error option) state" where
  "recordAttempt s rt notificationID attemptNumber providerResp sendErr = do {
     let statusCode = attempt_status_code providerResp sendErr;
     let responseBody = attempt_response_body providerResp;
     let attemptErr = map_option Error sendErr;
     newID \<leftarrow> uuid_NewString rt;
     now \<leftarrow> w_now s;
     r \<leftarrow> ar_Create (w_attempts s)
            (Some \<lparr>a_ID = newID, a_NotificationID = notificationID, a_AttemptNumber = attemptNumber,
                   a_StatusCode = statusCode, a_ResponseBody = responseBody, a_Error = attemptErr,
                   a_CreatedAt = now\<rparr>);
     State_Monad.return (case r of Inl err \<Rightarrow> Some err | Inr _ \<Rightarrow> None)
   }"

section \<open>Processing a message\<close>

definition settle_sent ::
  "'w worker_service \<Rightarrow> notification \<Rightarrow> string \<Rightarrow> provider_response option \<Rightarrow> ('w, go_error option) state" where
  "settle_sent s notification channelName providerResp = do {
     pmid \<leftarrow> (case providerResp of
         Some resp \<Rightarrow>
           if TrimSpace (pr_MessageID resp) \<noteq> []
           then nr_SetProviderMessageID (w_notifications s) (ID notification) (pr_MessageID resp)
           else State_Monad.return None
       | None \<Rightarrow> State_Monad.return None);
     (case pmid of
        Some err \<Rightarrow> State_Monad.return (Some (Wrap ''failed to set provider message id: '' err []))
      | None \<Rightarrow> do {
          r \<leftarrow> nr_UpdateStatus (w_notifications s) (ID notification) StatusSent;
          (case r of
             Some err \<Rightarrow> State_Monad.return (Some (Wrap ''failed to update notification status to sent: '' err []))
           | None \<Rightarrow> do { IncNotificationSent (w_metrics s) channelName; State_Monad.return None })
        })
   }"

definition settle_error ::
  "'w worker_service \<Rightarrow> notification \<Rightarrow> string \<Rightarrow> int \<Rightarrow> go_error \<Rightarrow> ('w, go_error option) state" where
  "settle_error s notification channelName attemptNumber sendErr =
     (let isTransient = IsTransient (Some sendErr);
          maxRetries = (if MaxRetries notification \<le> 0 then defaultMaxRetries else MaxRetries notification)
      in if isTransient \<and> attemptNumber < maxRetries
         then do {
           now \<leftarrow> w_now s;
           delay \<leftarrow> computeRetryDelay s attemptNumber;
           r \<leftarrow> nr_UpdateStatusWithRetry (w_notifications s) (ID notification) StatusQueued (now + delay);
           (case r of
              Some err \<Rightarrow> State_Monad.return (Some (Wrap ''failed to update notification for retry: '' err []))
            | None \<Rightarrow> do { IncRetryScheduled (w_metrics s) channelName; State_Monad.return None })
         }
         else do {
           r \<leftarrow> nr_UpdateStatus (w_notifications s) (ID notification) StatusFailed;
           (case r of
              Some err \<Rightarrow> State_Monad.return (Some (Wrap ''failed to update notification status to failed: '' err []))
            | None \<Rightarrow> do {
                IncNotificationFailed (w_metrics s) channelName
                  (if isTransient then ''retry_exhausted'' else ''permanent_error'');
                State_Monad.return None
              })
         })"

text \<open>What happens between the increment and the deferred decrement of the in-flight gauge.\<close>

definition deliver ::
  "'w worker_service \<Rightarrow> 'w runtime \<Rightarrow> notification \<Rightarrow> string \<Rightarrow> ('w, go_error option) state" where
  "deliver s rt notification channelName = do {
     waited \<leftarrow> rl_Wait (w_rateLimiter s) channelName;
     (case waited of
        Some err \<Rightarrow> State_Monad.return (Some (Wrap ''rate limiter wait failed: '' err []))
      | None \<Rightarrow> do {
          let attemptNumber = i64 (AttemptCount notification + 1);
          sendStart \<leftarrow> w_now s;
          (providerResp, sendErr) \<leftarrow> p_Send (w_provider s) notification;
          (if w_metrics s \<noteq> None
           then do {
             sendEnd \<leftarrow> w_now s;
             ObserveNotificationSendDuration (w_metrics s) channelName (Time_Sub sendEnd sendStart)
           }
           else State_Monad.return ());
          recorded \<leftarrow> recordAttempt s rt (ID notification) attemptNumber providerResp sendErr;
          (case recorded of
             Some err \<Rightarrow> State_Monad.return (Some (Wrap ''failed to record attempt: '' err []))
           | None \<Rightarrow>
               (case sendErr of
                  None \<Rightarrow> settle_sent s notification channelName providerResp
                | Some err \<Rightarrow> settle_error s notification channelName attemptNumber err))
        })
   }"

definition processMessage ::
  "'w worker_service \<Rightarrow> 'w runtime \<Rightarrow> notification_message \<Rightarrow> ('w, go_error option) state" where
  "processMessage s rt msg = do {
     locked \<leftarrow> nr_LockForSending (w_notifications s) (msg_NotificationID msg);
     (case locked of
        Inl err \<Rightarrow>
          State_Monad.return (if errors_Is err ErrNotFound then None
            else Some (Wrap ''failed to lock notification for sending: '' err []))
      | Inr None \<Rightarrow> State_Monad.return None
      | Inr (Some notification) \<Rightarrow> do {
          let channelName = ToLower (Channel notification);
          IncWorkerInFlight (w_metrics s) channelName;
          r \<leftarrow> deliver s rt notification channelName;
          DecWorkerInFlight (w_metrics s) channelName;
          State_Monad.return r
        })
   }"

section \<open>Starting the workers\<close>

text \<open>
  The group of goroutines of \<open>errgroup\<close>: \<open>Go\<close> launches one, \<open>Wait\<close> waits for all of them and yields
  the first error. The variables that a goroutine captures, its worker id and its queue, are shown
  beside its body.
\<close>

record 'w errgroup =
  eg_Go :: "int \<Rightarrow> string \<Rightarrow> ('w \<Rightarrow> (go_error option \<times> 'w) option) \<Rightarrow> ('w, unit) state"
  eg_Wait :: "('w, go_error option) state"

definition worker_Start :: "'w worker_service \<Rightarrow> 'w runtime \<Rightarrow> 'w errgroup \<Rightarrow> ('w, go_error option) state" where
  "worker_Start s rt g =
     (let queueNames = WorkQueueNames in
      if length queueNames = 0 then State_Monad.return (Some (ErrorString ''no work queues configured''))
      else do {
        for_each (\<lambda>i. let queueName = queueNames ! (i mod length queueNames); workerID = int i + 1
                       in eg_Go g workerID queueName (con_Consume (w_consumer s) queueName (processMessage s rt)))
          [0..<nat (w_concurrency s)];
        eg_Wait g
      })"

section \<open>What the worker relies on\<close>

text \<open>
  \<open>rows\<close> is the notifications table, \<open>posts\<close> the log of the requests that reached the provider's
  peer, \<open>attempts\<close> the recorded attempts in insertion order and \<open>gauge\<close> the Prometheus gauges.
  The rate limiter, the clock, the random source and the counters touch none of them; a \<open>Send\<close>
  posts at most once; the statements on the notifications table touch only that table.
\<close>

definition retry_budget :: "notification \<Rightarrow> int" where
  "retry_budget n = (if MaxRetries n \<le> 0 then defaultMaxRetries else MaxRetries n)"

text \<open>The row a processed delivery leaves behind, as a function of the claimed row, of what the
  provider answered and of the time of the next attempt.\<close>

definition given_message_id :: "provider_response option \<Rightarrow> string option \<Rightarrow> string option" where
  "given_message_id resp old =
     (case resp of
        Some x \<Rightarrow> if TrimSpace (pr_MessageID x) \<noteq> [] then Some (pr_MessageID x) else old
      | None \<Rightarrow> old)"

definition settled_row ::
  "notification \<Rightarrow> provider_response option \<Rightarrow> go_error option \<Rightarrow> go_time \<Rightarrow> notification" where
  "settled_row n resp err at =
     (if err = None
      then n\<lparr>ProviderMessageID := given_message_id resp (ProviderMessageID n), Status := StatusSent\<rparr>
      else if IsTransient err \<and> i64 (AttemptCount n + 1) < retry_budget n
      then n\<lparr>Status := StatusQueued, NextRetryAt := Some at, AttemptCount := AttemptCount n + 1\<rparr>
      else n\<lparr>Status := StatusFailed\<rparr>)"

definition attempt_for ::
  "notification \<Rightarrow> provider_response option \<Rightarrow> go_error option \<Rightarrow> notification_attempt \<Rightarrow> bool" where
  "attempt_for n resp err a \<longleftrightarrow> a_NotificationID a = ID n \<and> a_AttemptNumber a = i64 (AttemptCount n + 1)
     \<and> a_StatusCode a = attempt_status_code resp err \<and> a_ResponseBody a = attempt_response_body resp
     \<and> a_Error a = map_option Error err"

definition settled_statuses :: "status set" where
  "settled_statuses = {StatusSending, StatusSent, StatusFailed, StatusQueued}"

text \<open>The row \<open>k\<close> became \<open>n\<close>, up to the update time; or, on an error, the row is left in
  SENDING or in one of the statuses a delivery ends in.\<close>

definition rewritten ::
  "(string \<rightharpoonup> notification) \<Rightarrow> (string \<rightharpoonup> notification) \<Rightarrow> string \<Rightarrow> notification \<Rightarrow> bool" where
  "rewritten R R' k n \<longleftrightarrow> (\<exists>u. R' = R(k \<mapsto> n\<lparr>UpdatedAt := u\<rparr>))"

definition settle_outcome ::
  "(string \<rightharpoonup> notification) \<Rightarrow> (string \<rightharpoonup> notification) \<Rightarrow> string \<Rightarrow> notification \<Rightarrow> go_error option \<Rightarrow> bool" where
  "settle_outcome R R' k n r \<longleftrightarrow>
     (if r = None then rewritten R R' k n
      else \<exists>n'. R' = R(k \<mapsto> n') \<and> ID n' = k \<and> Status n' \<in> settled_statuses)"

definition provider_answers ::
  "'w provider \<Rightarrow> notification \<Rightarrow> provider_response option \<Rightarrow> go_error option \<Rightarrow> bool" where
  "provider_answers prov n resp err \<longleftrightarrow> (\<exists>v v'. run_state (p_Send prov n) v = ((resp, err), v'))"

text \<open>
  How the delivery of a claimed row \<open>n\<close> ends, in terms of the table (\<open>R\<close> before, \<open>R'\<close> after) and
  of the recorded attempts. Without an error there is an answer of the provider, the attempt that
  reports it, and the row settled accordingly.
\<close>

definition delivery_spec ::
  "'w provider \<Rightarrow> notification \<Rightarrow> (string \<rightharpoonup> notification) \<Rightarrow> notification_attempt list
     \<Rightarrow> (string \<rightharpoonup> notification) \<Rightarrow> notification_attempt list \<Rightarrow> go_error option \<Rightarrow> bool" where
  "delivery_spec prov n R A R' A' r \<longleftrightarrow>
     (if r = None
      then \<exists>resp err at a. provider_answers prov n resp err
        \<and> A' = A @ [a] \<and> attempt_for n resp err a
        \<and> rewritten R R' (ID n) (settled_row n resp err at)
      else (\<exists>n'. R' = R(ID n \<mapsto> n') \<and> ID n' = ID n \<and> Status n' \<in> settled_statuses)
        \<and> (A' = A \<or> (\<exists>a. A' = A @ [a] \<and> a_NotificationID a = ID n)))"

lemma rewritten_refl: "R k = Some n \<Longrightarrow> rewritten R R k n"
  unfolding rewritten_def by (rule exI [of _ "UpdatedAt n"]) auto

lemma settle_outcome_None [simp]: "settle_outcome R R' k n None = rewritten R R' k n"
  by (simp add: settle_outcome_def)

lemma settle_outcome_err: "settle_outcome R R' k n (Some e) \<Longrightarrow> settle_outcome R R' k n' (Some e')"
  by (simp add: settle_outcome_def)

lemma set_spec_settle:
  assumes "rewritten R R1 k n" and "set_spec R1 R' k f r"
    and "\<And>x u. f (x\<lparr>UpdatedAt := u\<rparr>) = (f x)\<lparr>UpdatedAt := u\<rparr>"
    and "ID n = k" and "ID (f n) = k" and "Status n \<in> settled_statuses" and "Status (f n) \<in> settled_statuses"
  shows "settle_outcome R R' k (f n) r"
  using assms
  by (auto simp: settle_outcome_def set_spec_def rewritten_def updated_row_def split: option.splits if_splits)

lemma updated_rowE:
  assumes "updated_row R R' k f" and "R' k = Some n1"
  obtains n u where "R k = Some n" and "n1 = (f n)\<lparr>UpdatedAt := u\<rparr>" and "R' = R(k \<mapsto> n1)"
proof -
  from assms(1) obtain n u where "R k = Some n" and R': "R' = R(k \<mapsto> (f n)\<lparr>UpdatedAt := u\<rparr>)"
    unfolding updated_row_def by blast
  moreover from assms(2) R' have "n1 = (f n)\<lparr>UpdatedAt := u\<rparr>" by simp
  ultimately show ?thesis using that by blast
qed

lemma delivery_spec_locked:
  assumes "updated_row R R' k (\<lambda>n. n\<lparr>Status := StatusSending\<rparr>)" and "R k = Some n" and "ID n = k"
  shows "\<exists>u. delivery_spec prov (n\<lparr>Status := StatusSending, UpdatedAt := u\<rparr>) R A R' A (Some e)"
proof -
  from assms obtain u where "R' = R(k \<mapsto> n\<lparr>Status := StatusSending, UpdatedAt := u\<rparr>)"
    unfolding updated_row_def by auto
  with assms show ?thesis by (auto simp: delivery_spec_def settled_statuses_def)
qed

lemma delivery_spec_base:
  "ID n = k \<Longrightarrow> delivery_spec prov n (R(k \<mapsto> x)) A R' A' r = delivery_spec prov n R A R' A' r"
  by (auto simp: delivery_spec_def rewritten_def)

definition settled_delivery ::
  "'w provider \<Rightarrow> notification \<Rightarrow> (string \<rightharpoonup> notification) \<Rightarrow> notification_attempt list
     \<Rightarrow> (string \<rightharpoonup> notification) \<Rightarrow> notification_attempt list \<Rightarrow> bool" where
  "settled_delivery prov n R A R' A' \<longleftrightarrow>
     (\<exists>resp err at a u. provider_answers prov (n\<lparr>Status := StatusSending, UpdatedAt := u\<rparr>) resp err
        \<and> A' = A @ [a] \<and> attempt_for n resp err a
        \<and> rewritten R R' (ID n) (settled_row n resp err at))"

lemma settled_row_claimed:
  "settled_row (n\<lparr>Status := st, UpdatedAt := u\<rparr>) resp err at = (settled_row n resp err at)\<lparr>UpdatedAt := u\<rparr>"
  by (rule notification.equality) (simp_all add: settled_row_def retry_budget_def)

lemma rewritten_touch: "rewritten R R' k (n\<lparr>UpdatedAt := u\<rparr>) = rewritten R R' k n"
  by (simp add: rewritten_def)

lemma delivery_spec_settled:
  "delivery_spec prov (n\<lparr>Status := StatusSending, UpdatedAt := u\<rparr>) R A R' A' None \<Longrightarrow>
     settled_delivery prov n R A R' A'"
  by (simp add: delivery_spec_def settled_delivery_def attempt_for_def settled_row_claimed rewritten_touch) blast

locale worker_env = notification_repository_laws "w_notifications s" rows
  for s :: "'w worker_service" and rows :: "'w \<Rightarrow> (string \<rightharpoonup> notification)" +
  fixes rt :: "'w runtime"
    and posts :: "'w \<Rightarrow> 'p list"
    and attempts :: "'w \<Rightarrow> notification_attempt list"
    and gauge :: "'w \<Rightarrow> string \<Rightarrow> string list \<Rightarrow> int"
  assumes Lock_frame: "keeps (\<lambda>w. (posts w, attempts w, gauge w)) (nr_LockForSending (w_notifications s) nid)"
    and Update_frame: "keeps (\<lambda>w. (posts w, attempts w, gauge w)) (nr_UpdateStatus (w_notifications s) nid st)"
    and Retry_frame: "keeps (\<lambda>w. (posts w, attempts w, gauge w)) (nr_UpdateStatusWithRetry (w_notifications s) nid st at)"
    and SetID_frame: "keeps (\<lambda>w. (posts w, attempts w, gauge w)) (nr_SetProviderMessageID (w_notifications s) nid pmid)"
    and Wait_frame: "keeps (\<lambda>w. (rows w, posts w, attempts w, gauge w)) (rl_Wait (w_rateLimiter s) ch)"
    and now_frame: "keeps (\<lambda>w. (rows w, posts w, attempts w, gauge w)) (w_now s)"
    and uuid_frame: "keeps (\<lambda>w. (rows w, posts w, attempts w, gauge w)) (uuid_NewString rt)"
    and rand_frame: "w_randIntn s = Some f \<Longrightarrow> keeps (\<lambda>w. (rows w, posts w, attempts w, gauge w)) (f k)"
    and rand_range: "w_randIntn s = Some f \<Longrightarrow> 0 < k \<Longrightarrow> wp (f k) (\<lambda>i _. 0 \<le> i \<and> i < k) w"
    and Send_law: "wp (p_Send (w_provider s) n) (\<lambda>_ w'. rows w' = rows w \<and> attempts w' = attempts w
        \<and> gauge w' = gauge w \<and> (\<exists>l. posts w' = posts w @ l \<and> length l \<le> 1)) w"
    and attempt_law: "wp (ar_Create (w_attempts s) (Some a)) (\<lambda>r w'. rows w' = rows w
        \<and> posts w' = posts w \<and> gauge w' = gauge w
        \<and> (case r of Inr _ \<Rightarrow> \<exists>c. attempts w' = attempts w @ [a\<lparr>a_CreatedAt := c\<rparr>]
           | Inl _ \<Rightarrow> attempts w' = attempts w \<or> (\<exists>c. attempts w' = attempts w @ [a\<lparr>a_CreatedAt := c\<rparr>]))) w"
    and counter_frame: "w_metrics s = Some p \<Longrightarrow>
        keeps (\<lambda>w. (rows w, posts w, attempts w, gauge w)) (pm_CounterInc p name labels)"
    and observe_frame: "w_metrics s = Some p \<Longrightarrow>
        keeps (\<lambda>w. (rows w, posts w, attempts w, gauge w)) (pm_Observe p name labels d)"
    and inc_law: "w_metrics s = Some p \<Longrightarrow> wp (pm_GaugeInc p name labels) (\<lambda>_ w'. rows w' = rows w
        \<and> posts w' = posts w \<and> attempts w' = attempts w
        \<and> gauge w' = (gauge w)(name := (gauge w name)(labels := gauge w name labels + 1))) w"
    and dec_law: "w_metrics s = Some p \<Longrightarrow> wp (pm_GaugeDec p name labels) (\<lambda>_ w'. rows w' = rows w
        \<and> posts w' = posts w \<and> attempts w' = attempts w
        \<and> gauge w' = (gauge w)(name := (gauge w name)(labels := gauge w name labels - 1))) w"
begin

abbreviation obs :: "'w \<Rightarrow> (string \<rightharpoonup> notification) \<times> 'p list \<times> notification_attempt list
    \<times> (string \<Rightarrow> string list \<Rightarrow> int)" where
  "obs w \<equiv> (rows w, posts w, attempts w, gauge w)"

abbreviation same_but_rows :: "'w \<Rightarrow> 'w \<Rightarrow> bool" where
  "same_but_rows w w' \<equiv> posts w' = posts w \<and> attempts w' = attempts w \<and> gauge w' = gauge w"

lemma quiet: "keeps obs m \<Longrightarrow> (\<And>a w'. rows w' = rows w \<Longrightarrow> same_but_rows w w' \<Longrightarrow> Q a w') \<Longrightarrow> wp m Q w"
  by (rule keeps_wpI) auto

lemma framed:
  assumes "wp m P w" and "keeps (\<lambda>w. (posts w, attempts w, gauge w)) m"
    and "\<And>a w'. P a w' \<Longrightarrow> same_but_rows w w' \<Longrightarrow> Q a w'"
  shows "wp m Q w"
  by (intro wpI assms(3)) (auto dest: wpD [OF assms(1)] keepsD [OF assms(2)])

lemmas UpdateStatus_use = framed [OF UpdateStatus_law Update_frame]
lemmas Retry_use = framed [OF UpdateStatusWithRetry_law Retry_frame]
lemmas SetID_use = framed [OF SetProviderMessageID_law SetID_frame]
lemmas Lock_use = framed [OF LockForSending_law Lock_frame]

lemma metrics_quiet:
  "keeps obs (IncNotificationSent (w_metrics s) c)"
  "keeps obs (IncNotificationFailed (w_metrics s) c reason)"
  "keeps obs (IncRetryScheduled (w_metrics s) c)"
  "keeps obs (ObserveNotificationSendDuration (w_metrics s) c d)"
  by (auto simp: IncNotificationSent_def IncNotificationFailed_def IncRetryScheduled_def
      ObserveNotificationSendDuration_def Let_def intro: counter_frame observe_frame split: option.split)

lemma delay_quiet: "keeps obs (computeRetryDelay s k)"
  by (auto simp: computeRetryDelay_def Let_def intro!: keeps_bind intro: rand_frame split: option.split)

lemma settle_sent_wp:
  assumes row: "rows w (ID n1) = Some n1" and sending: "Status n1 = StatusSending"
  shows "wp (settle_sent s n1 ch resp) (\<lambda>r w'.
     settle_outcome (rows w) (rows w') (ID n1) (settled_row n1 resp None at) r \<and> same_but_rows w w') w"
proof -
  have refl: "rewritten (rows w) (rows w) (ID n1) n1"
    using row by (rule rewritten_refl)
  let ?upd = "\<lambda>pre. do { r \<leftarrow> nr_UpdateStatus (w_notifications s) (ID n1) StatusSent;
        (case r of Some err \<Rightarrow> State_Monad.return (Some (Wrap pre err []))
         | None \<Rightarrow> do { IncNotificationSent (w_metrics s) ch; State_Monad.return None }) }"
  have upd: "wp (?upd pre) (\<lambda>r w'.
        settle_outcome (rows w) (rows w') (ID n1) (m\<lparr>Status := StatusSent\<rparr>) r \<and> same_but_rows w w') v"
    if "rewritten (rows w) (rows v) (ID n1) m" "same_but_rows w v" "Status m = StatusSending" "ID m = ID n1"
    for v m pre
    unfolding wp_bind
    by (rule UpdateStatus_use)
       (use that in \<open>auto simp: settled_statuses_def split: option.splits
           dest: set_spec_settle intro!: quiet [OF metrics_quiet(1)] elim: settle_outcome_err\<close>)
  show ?thesis
  proof (cases "\<exists>x. resp = Some x \<and> TrimSpace (pr_MessageID x) \<noteq> []")
    case True
    then obtain x where x: "resp = Some x" "TrimSpace (pr_MessageID x) \<noteq> []" by blast
    let ?n2 = "n1\<lparr>ProviderMessageID := Some (pr_MessageID x)\<rparr>"
    have target: "settled_row n1 resp None at = ?n2\<lparr>Status := StatusSent\<rparr>"
      using x by (simp add: settled_row_def given_message_id_def)
    have set: "settle_outcome (rows w) (rows v) (ID n1) ?n2 r"
      if "set_spec (rows w) (rows v) (ID n1) (\<lambda>n. n\<lparr>ProviderMessageID := Some (pr_MessageID x)\<rparr>) r" for v r
      by (rule set_spec_settle [OF refl that]) (use sending in \<open>simp_all add: settled_statuses_def\<close>)
    show ?thesis
      unfolding settle_sent_def target
      using x
      by (simp del: wp_bind, intro wp_bindI, intro SetID_use)
         (use sending in \<open>auto dest!: set simp: settle_outcome_None simp del: wp_bind
             split: option.splits intro!: upd [where m = ?n2] elim: settle_outcome_err\<close>)
  next
    case False
    then have "settled_row n1 resp None at = n1\<lparr>Status := StatusSent\<rparr>"
      by (auto simp: settled_row_def given_message_id_def split: option.split)
    with False upd [OF refl _ sending] show ?thesis
      by (auto simp: settle_sent_def simp del: wp_bind split: option.splits)
  qed
qed

lemma settle_error_wp:
  assumes row: "rows w (ID n1) = Some n1" and sending: "Status n1 = StatusSending"
  shows "wp (settle_error s n1 ch (i64 (AttemptCount n1 + 1)) e) (\<lambda>r w'.
     (\<exists>at. settle_outcome (rows w) (rows w') (ID n1) (settled_row n1 resp (Some e) at) r)
     \<and> same_but_rows w w') w"
proof -
  have refl: "rewritten (rows w) (rows w) (ID n1) n1"
    using row by (rule rewritten_refl)
  have step: "settle_outcome (rows w) R' (ID n1) (f n1) r"
    if "set_spec (rows w) R' (ID n1) f r" "\<And>x u. f (x\<lparr>UpdatedAt := u\<rparr>) = (f x)\<lparr>UpdatedAt := u\<rparr>"
      "ID (f n1) = ID n1" "Status (f n1) \<in> settled_statuses" for R' f r
    by (rule set_spec_settle [OF refl that(1,2)])
       (use that sending in \<open>simp_all add: settled_statuses_def\<close>)
  show ?thesis
  proof (cases "IsTransient (Some e) \<and> i64 (AttemptCount n1 + 1) < retry_budget n1")
    case True
    have target: "settled_row n1 resp (Some e) at =
        n1\<lparr>Status := StatusQueued, NextRetryAt := Some at, AttemptCount := AttemptCount n1 + 1\<rparr>" for at
      using True by (simp add: settled_row_def)
    show ?thesis
      unfolding settle_error_def Let_def target retry_budget_def [symmetric] if_P [OF True]
      by (intro wp_bindI quiet [OF now_frame] quiet [OF delay_quiet] Retry_use)
         (auto dest!: step simp: settled_statuses_def split: option.splits
           intro!: quiet [OF metrics_quiet(3)] elim: settle_outcome_err)
  next
    case False
    then have target: "settled_row n1 resp (Some e) at = n1\<lparr>Status := StatusFailed\<rparr>" for at
      by (auto simp: settled_row_def)
    show ?thesis
      unfolding settle_error_def Let_def target retry_budget_def [symmetric] if_not_P [OF False]
      by (intro wp_bindI UpdateStatus_use)
         (auto dest!: step simp: settled_statuses_def split: option.splits
           intro!: quiet [OF metrics_quiet(2)] elim: settle_outcome_err)
  qed
qed

lemma attempt_stored:
  "wp (ar_Create (w_attempts s) (Some a)) (\<lambda>r w'.
     (\<exists>b. a_NotificationID b = a_NotificationID a \<and> a_AttemptNumber b = a_AttemptNumber a
        \<and> a_StatusCode b = a_StatusCode a \<and> a_ResponseBody b = a_ResponseBody a \<and> a_Error b = a_Error a
        \<and> (case r of Inr _ \<Rightarrow> attempts w' = attempts w @ [b]
           | Inl _ \<Rightarrow> attempts w' = attempts w \<or> attempts w' = attempts w @ [b]))
     \<and> rows w' = rows w \<and> posts w' = posts w \<and> gauge w' = gauge w) w"
proof (rule wp_mono [OF attempt_law], elim conjE, intro conjI)
  fix r :: "go_error + notification_attempt option" and w'
  assume "case r of Inr _ \<Rightarrow> \<exists>c. attempts w' = attempts w @ [a\<lparr>a_CreatedAt := c\<rparr>]
    | Inl _ \<Rightarrow> attempts w' = attempts w \<or> (\<exists>c. attempts w' = attempts w @ [a\<lparr>a_CreatedAt := c\<rparr>])"
  then obtain c where "case r of Inr _ \<Rightarrow> attempts w' = attempts w @ [a\<lparr>a_CreatedAt := c\<rparr>]
    | Inl _ \<Rightarrow> attempts w' = attempts w \<or> attempts w' = attempts w @ [a\<lparr>a_CreatedAt := c\<rparr>]"
    by (cases r) auto
  then show "\<exists>b. a_NotificationID b = a_NotificationID a \<and> a_AttemptNumber b = a_AttemptNumber a
        \<and> a_StatusCode b = a_StatusCode a \<and> a_ResponseBody b = a_ResponseBody a \<and> a_Error b = a_Error a
        \<and> (case r of Inr _ \<Rightarrow> attempts w' = attempts w @ [b]
           | Inl _ \<Rightarrow> attempts w' = attempts w \<or> attempts w' = attempts w @ [b])"
    by (intro exI [of _ "a\<lparr>a_CreatedAt := c\<rparr>"]) simp
qed

lemma recordAttempt_wp:
  "wp (recordAttempt s rt nid k resp err) (\<lambda>r w'.
     (\<exists>a. a_NotificationID a = nid \<and> a_AttemptNumber a = k
        \<and> a_StatusCode a = attempt_status_code resp err \<and> a_ResponseBody a = attempt_response_body resp
        \<and> a_Error a = map_option Error err
        \<and> (if r = None then attempts w' = attempts w @ [a]
           else attempts w' = attempts w \<or> attempts w' = attempts w @ [a]))
     \<and> rows w' = rows w \<and> posts w' = posts w \<and> gauge w' = gauge w) w"
  unfolding recordAttempt_def Let_def
  by (intro wp_bindI quiet [OF uuid_frame] quiet [OF now_frame] wp_mono [OF attempt_stored])
     (auto split: sum.splits)

lemma settle_wp:
  assumes "rows v = rows w" and "rows w (ID n1) = Some n1" and "Status n1 = StatusSending"
    and "provider_answers (w_provider s) n1 resp err" and "attempt_for n1 resp err a"
    and "attempts v = attempts w @ [a]" and "posts v = posts w @ l" and "gauge v = gauge w"
  shows "wp (case err of None \<Rightarrow> settle_sent s n1 ch resp
             | Some e \<Rightarrow> settle_error s n1 ch (i64 (AttemptCount n1 + 1)) e) (\<lambda>r w'.
     delivery_spec (w_provider s) n1 (rows w) (attempts w) (rows w') (attempts w') r
     \<and> posts w' = posts w @ l \<and> gauge w' = gauge w) v"
proof -
  have post: "wp m (\<lambda>r w'. delivery_spec (w_provider s) n1 (rows w) (attempts w) (rows w') (attempts w') r
       \<and> posts w' = posts w @ l \<and> gauge w' = gauge w) v"
    if "wp m (\<lambda>r w'. (\<exists>at. settle_outcome (rows v) (rows w') (ID n1) (settled_row n1 resp err at) r)
       \<and> same_but_rows v w') v" for m
    by (rule wp_mono [OF that])
       (use assms in \<open>auto simp: delivery_spec_def settle_outcome_def attempt_for_def split: if_splits\<close>)
  show ?thesis
  proof (cases err)
    case None
    then show ?thesis
      using assms by (auto intro!: post wp_mono [OF settle_sent_wp [where w = v]])
  next
    case (Some e)
    then show ?thesis
      using assms by (auto intro!: post settle_error_wp)
  qed
qed

lemma deliver_wp:
  assumes row: "rows w (ID n1) = Some n1" and sending: "Status n1 = StatusSending"
  shows "wp (deliver s rt n1 ch) (\<lambda>r w'.
     delivery_spec (w_provider s) n1 (rows w) (attempts w) (rows w') (attempts w') r
     \<and> (\<exists>l. posts w' = posts w @ l \<and> length l \<le> 1) \<and> gauge w' = gauge w) w"
proof -
  have failed: "delivery_spec (w_provider s) n1 (rows w) (attempts w) (rows w) A (Some e)"
    if "A = attempts w \<or> (\<exists>a. A = attempts w @ [a] \<and> a_NotificationID a = ID n1)" for A e
    using that row sending by (auto simp: delivery_spec_def settled_statuses_def intro!: exI [of _ n1])
  have answer: "wp (p_Send (w_provider s) n1) (\<lambda>ans _. provider_answers (w_provider s) n1 (fst ans) (snd ans)) u" for u
    by (rule wpI) (auto simp: provider_answers_def)
  have timing: "keeps obs (if w_metrics s \<noteq> None then do {
        sendEnd \<leftarrow> w_now s;
        ObserveNotificationSendDuration (w_metrics s) ch (Time_Sub sendEnd t0) }
      else State_Monad.return ())" for t0
    by (auto intro!: keeps_bind now_frame metrics_quiet)
  let ?Q = "\<lambda>r w'. delivery_spec (w_provider s) n1 (rows w) (attempts w) (rows w') (attempts w') r
     \<and> (\<exists>l. posts w' = posts w @ l \<and> length l \<le> 1) \<and> gauge w' = gauge w"
  let ?k = "i64 (AttemptCount n1 + 1)"
  let ?settle = "\<lambda>resp err. \<lambda>recorded. case recorded of
      Some e \<Rightarrow> State_Monad.return (Some (Wrap ''failed to record attempt: '' e []))
    | None \<Rightarrow> (case err of None \<Rightarrow> settle_sent s n1 ch resp | Some e \<Rightarrow> settle_error s n1 ch ?k e)"
  have recording: "wp (State_Monad.bind (recordAttempt s rt (ID n1) ?k resp err) (?settle resp err)) ?Q v"
    if v: "provider_answers (w_provider s) n1 resp err" "rows v = rows w" "attempts v = attempts w"
       "gauge v = gauge w" "posts v = posts w @ l" "length l \<le> 1" for resp err v l
  proof (rule wp_bindI, rule wp_mono [OF recordAttempt_wp], elim conjE exE)
    fix recorded :: "go_error option" and v' a
    assume a: "a_NotificationID a = ID n1" "a_AttemptNumber a = ?k" "a_StatusCode a = attempt_status_code resp err"
        "a_ResponseBody a = attempt_response_body resp" "a_Error a = map_option Error err"
      and r: "if recorded = None then attempts v' = attempts v @ [a]
           else attempts v' = attempts v \<or> attempts v' = attempts v @ [a]"
      and v': "rows v' = rows v" "posts v' = posts v" "gauge v' = gauge v"
    show "wp (?settle resp err recorded) ?Q v'"
    proof (cases recorded)
      case None
      have "wp (?settle resp err None) (\<lambda>r w'. delivery_spec (w_provider s) n1 (rows w) (attempts w) (rows w') (attempts w') r
         \<and> posts w' = posts w @ l \<and> gauge w' = gauge w) v'"
        unfolding option.case
        by (rule settle_wp [where a = a]) (use a r v v' row sending None in \<open>simp_all add: attempt_for_def\<close>)
      with None show ?thesis using v(6) by (auto elim!: wp_mono)
    next
      case (Some e)
      with a r v v' show ?thesis by (auto intro!: failed)
    qed
  qed
  have sent: "wp (do { sendStart \<leftarrow> w_now s;
        (resp, err) \<leftarrow> p_Send (w_provider s) n1;
        (if w_metrics s \<noteq> None
         then do { sendEnd \<leftarrow> w_now s;
                   ObserveNotificationSendDuration (w_metrics s) ch (Time_Sub sendEnd sendStart) }
         else State_Monad.return ());
        recorded \<leftarrow> recordAttempt s rt (ID n1) ?k resp err;
        ?settle resp err recorded }) ?Q v"
    if "rows v = rows w" "same_but_rows w v" for v
    by (rule wp_bindI, rule quiet [OF now_frame], rule wp_bindI,
        rule wp_mono [OF wp_conj [OF answer Send_law]], elim conjE exE, simp only: split_beta,
        rule wp_bindI, rule quiet [OF timing], rule recording)
       (use that in simp_all)
  show ?thesis
    unfolding deliver_def Let_def
  proof (rule wp_bindI, rule quiet [OF Wait_frame], goal_cases)
    case (1 waited w1)
    then show ?case
      using sent [of w1] by (cases waited) (simp_all add: failed del: wp_bind)
  qed
qed

lemma in_flight_wp:
  assumes "wp m P w1"
    and "gauge w1 = g" "w_metrics s = None \<Longrightarrow> h = g"
    and "\<And>p. w_metrics s = Some p \<Longrightarrow>
        g = h(''worker_inflight'' := (h ''worker_inflight'')([normalizeChannel c] := h ''worker_inflight'' [normalizeChannel c] + 1))"
    and "\<And>r v v'. P r v \<Longrightarrow> rows v' = rows v \<Longrightarrow> posts v' = posts v \<Longrightarrow> attempts v' = attempts v \<Longrightarrow>
        gauge v = g \<Longrightarrow> gauge v' = h \<Longrightarrow> Q r v'"
    and "\<And>r v. P r v \<Longrightarrow> gauge v = g"
  shows "wp (do { r \<leftarrow> m; DecWorkerInFlight (w_metrics s) c; State_Monad.return r }) Q w1"
proof (rule wp_bindI, rule wp_mono [OF assms(1)])
  fix r v assume P: "P r v"
  then have g: "gauge v = g" by (rule assms(6))
  show "wp (do { DecWorkerInFlight (w_metrics s) c; State_Monad.return r }) Q v"
  proof (cases "w_metrics s")
    case None
    with P g assms(3) show ?thesis by (auto simp: DecWorkerInFlight_def intro: assms(5))
  next
    case (Some p)
    show ?thesis
      unfolding DecWorkerInFlight_def Some option.case
      by (rule wp_bindI, rule wp_mono [OF dec_law [OF Some]], unfold wp_return, rule assms(5) [OF P])
         (use g assms(4) [OF Some] in auto)
  qed
qed

lemma processMessage_wp:
  "wp (processMessage s rt msg) (\<lambda>r w'. gauge w' = gauge w
     \<and> (\<exists>l. posts w' = posts w @ l \<and> length l \<le> 1)
     \<and> (case rows w (msg_NotificationID msg) of
           Some n \<Rightarrow>
             if claimable n
             then rows w' = rows w \<and> attempts w' = attempts w \<and> r \<noteq> None
                \<or> (\<exists>u. delivery_spec (w_provider s) (n\<lparr>Status := StatusSending, UpdatedAt := u\<rparr>)
                        (rows w) (attempts w) (rows w') (attempts w') r)
             else rows w' = rows w \<and> same_but_rows w w'
         | None \<Rightarrow> rows w' = rows w \<and> same_but_rows w w')) w"
proof -
  let ?nid = "msg_NotificationID msg"
  show ?thesis
    unfolding processMessage_def
  proof (rule wp_bindI, rule Lock_use, goal_cases)
    case (1 locked v)
    then show ?case
    proof (cases "\<exists>n1. locked = Inr (Some n1)")
      case True
      then obtain n1 where n1: "locked = Inr (Some n1)" ..
      note lock = 1(1) [unfolded n1 Let_def sum.case option.case]
      obtain n u where n: "rows w ?nid = Some n"
        and n1': "n1 = n\<lparr>Status := StatusSending, UpdatedAt := u\<rparr>" and v: "rows v = (rows w)(?nid \<mapsto> n1)"
        by (rule updated_rowE [of "rows w" "rows v" ?nid _ n1]) (use lock in blast)+
      have c: "claimable n" using lock n by simp
      have nid: "ID n1 = ?nid" using rows_keyed [OF n] n1' by simp
      let ?D = "\<lambda>g r w'. delivery_spec (w_provider s) n1 (rows w) (attempts w) (rows w') (attempts w') r
         \<and> (\<exists>l. posts w' = posts w @ l \<and> length l \<le> 1) \<and> gauge w' = g"
      have deliver: "wp (deliver s rt n1 ch) (?D (gauge v')) v'"
        if "rows v' = rows v" "posts v' = posts w" "attempts v' = attempts w" for v' ch
      proof -
        have "rows v' (ID n1) = Some n1" "Status n1 = StatusSending"
          using that v nid n1' by simp_all
        from deliver_wp [OF this] show ?thesis
          by (rule wp_mono) (auto simp: that v nid delivery_spec_base)
      qed
      have post: "wp (do { r \<leftarrow> deliver s rt n1 c; DecWorkerInFlight (w_metrics s) c; State_Monad.return r })
          (?D (gauge w)) v'"
        if "rows v' = rows v" "posts v' = posts w" "attempts v' = attempts w"
          "if w_metrics s = None then gauge v' = gauge w else gauge v' = (gauge w)(''worker_inflight'' :=
             (gauge w ''worker_inflight'')([normalizeChannel c] := gauge w ''worker_inflight'' [normalizeChannel c] + 1))"
        for v' c
        by (rule in_flight_wp [OF deliver, of v' "gauge v'" "gauge w"])
           (use that in \<open>auto split: if_splits\<close>)
      have "wp (do { IncWorkerInFlight (w_metrics s) c;
              r \<leftarrow> deliver s rt n1 c; DecWorkerInFlight (w_metrics s) c; State_Monad.return r })
            (?D (gauge w)) v" for c
      proof (cases "w_metrics s")
        case None
        with 1 post [of v c] show ?thesis by (simp add: IncWorkerInFlight_def)
      next
        case (Some p)
        show ?thesis
          unfolding IncWorkerInFlight_def Some option.case
          by (rule wp_bindI, rule wp_mono [OF inc_law [OF Some]], rule post [unfolded Some])
             (use 1 Some in auto)
      qed
      then show ?thesis
        unfolding n1 sum.case option.case Let_def
        by (rule wp_mono) (use n c n1' in auto)
    next
      case False
      have "\<exists>u. delivery_spec (w_provider s) (n\<lparr>Status := StatusSending, UpdatedAt := u\<rparr>)
          (rows w) (attempts w) (rows v) (attempts w) (Some e)"
        if "updated_row (rows w) (rows v) ?nid (\<lambda>n. n\<lparr>Status := StatusSending\<rparr>)" "rows w ?nid = Some n" for n e
        using that rows_keyed by (blast intro: delivery_spec_locked)
      with False 1 show ?thesis
        by (auto simp: Let_def split: sum.splits option.splits if_splits)
    qed
  qed
qed

end

section \<open>Bounds of the retry delay\<close>

lemma retry_delay_loop_eq:
  assumes "0 < d" and "d \<le> maxRetryDelay"
  shows "retry_delay_loop k d = min maxRetryDelay (d * 2 ^ k)"
  using assms
proof (induction k arbitrary: d)
  case 0
  then show ?case by simp
next
  case (Suc k)
  have i: "i64 (d * 2) = d * 2"
    using Suc.prems by (intro i64_id) (simp add: is_i64_def maxRetryDelay_def)
  have "d * 2 ^ Suc k \<ge> d * 2"
    using Suc.prems by simp
  with Suc show ?case by (auto simp: i Let_def min_def mult.assoc intro: order_trans)
qed

lemma retry_delay_base:
  "retry_delay_loop (nat (max n 1 - 1)) baseRetryDelay = min (60 * 10 ^ 9) (10 ^ 9 * 2 ^ nat (max n 1 - 1))"
  by (subst retry_delay_loop_eq) (simp_all add: baseRetryDelay_def maxRetryDelay_def)

lemma jitter_fits:
  "0 \<le> b \<Longrightarrow> b \<le> 60 * 10 ^ 9 \<Longrightarrow> 0 \<le> i \<Longrightarrow> i \<le> 250 \<Longrightarrow> i64 (b + i64 (i * 10 ^ 6)) = b + i * 10 ^ 6"
  by (simp add: is_i64_def)

text \<open>
  C28: the delay before the next attempt is one second doubled with every attempt already made,
  capped at 60 seconds, plus a jitter of whole milliseconds between 0 and 250; no 64-bit overflow
  occurs for any attempt number.
\<close>

theorem computeRetryDelay_bounds:
  assumes rand: "\<And>f w. w_randIntn s = Some f \<Longrightarrow> wp (f 251) (\<lambda>i _. 0 \<le> i \<and> i < 251) w"
  shows "wp (computeRetryDelay s n) (\<lambda>delay _. \<exists>jitter. 0 \<le> jitter \<and> jitter \<le> 250 \<and>
     delay = min (60 * 10 ^ 9) (10 ^ 9 * 2 ^ nat (max n 1 - 1)) + jitter * 10 ^ 6) w"
proof -
  let ?base = "min (60 * 10 ^ 9) (10 ^ 9 * 2 ^ nat (max n 1 - 1)) :: int"
  have base: "0 \<le> ?base" "?base \<le> 60 * 10 ^ 9" by simp_all
  have n: "(if n < 1 then 1 else n) = max n 1" by simp
  have cap: "\<not> maxRetryDelay < ?base" by (simp add: maxRetryDelay_def)
  have jitter: "wp (case w_randIntn s of None \<Rightarrow> State_Monad.return 0
        | Some r \<Rightarrow> if 0 < maxRetryJitterMillis then r (maxRetryJitterMillis + 1) else State_Monad.return 0)
      (\<lambda>i _. 0 \<le> i \<and> i \<le> 250) w"
    using wp_mono [OF rand] by (auto simp: maxRetryJitterMillis_def split: option.split)
  show ?thesis
    unfolding computeRetryDelay_def Let_def n retry_delay_base if_not_P [OF cap]
    by (rule wp_bindI, rule wp_mono [OF jitter], unfold wp_return)
       (use jitter_fits [OF base] in blast)
qed

text \<open>
  C1: a delivery for a notification that is missing or not open (ACCEPTED or QUEUED) changes
  nothing: no row, no recorded attempt, no request to the provider, and the in-flight gauge is as
  before. For an open notification a delivery without error ends in exactly one of three ways,
  decided by what the provider answered: SENT; QUEUED with one more attempt counted and a next
  attempt planned, when the error is transient and the retry budget is not used up; FAILED
  otherwise; and exactly one attempt, with the next number, is recorded.
\<close>

theorem processMessage_settles:
  assumes "worker_env s rows rt posts attempts gauge"
  shows "wp (processMessage s rt msg) (\<lambda>r w'.
     case rows w (msg_NotificationID msg) of
       None \<Rightarrow> rows w' = rows w \<and> attempts w' = attempts w \<and> posts w' = posts w \<and> gauge w' = gauge w
     | Some n \<Rightarrow>
         if Status n \<noteq> StatusAccepted \<and> Status n \<noteq> StatusQueued
         then rows w' = rows w \<and> attempts w' = attempts w \<and> posts w' = posts w \<and> gauge w' = gauge w
         else if r = None
         then settled_delivery (w_provider s) n (rows w) (attempts w) (rows w') (attempts w')
         else True) w"
proof (rule wp_mono [OF worker_env.processMessage_wp [OF assms]], goal_cases)
  case (1 r w')
  then show ?case
    by (auto simp: claimable_def dest: delivery_spec_settled split: option.splits if_splits)
qed

lemma delivery_spec_frame:
  assumes "delivery_spec prov n R A R' A' r"
  shows "(\<forall>k. k \<noteq> ID n \<longrightarrow> R' k = R k) \<and> (\<exists>n'. R' (ID n) = Some n' \<and> ID n' = ID n \<and> Status n' \<in> settled_statuses)
    \<and> (\<exists>l. A' = A @ l \<and> length l \<le> 1)"
proof -
  have row: "ID (settled_row n resp err at) = ID n" "Status (settled_row n resp err at) \<in> settled_statuses"
    for resp err at
    by (simp_all add: settled_row_def settled_statuses_def)
  show ?thesis
    using assms by (auto simp: delivery_spec_def rewritten_def row split: if_splits)
qed

text \<open>
  C2: whatever fails while a delivery is processed, the provider is asked at most once, at most
  one attempt is recorded, no other notification is touched, the in-flight gauge ends where it
  started, and the notification itself keeps its id and is left in SENDING, SENT, FAILED or
  QUEUED unless nothing was changed at all.
\<close>

theorem processMessage_safe:
  assumes "worker_env s rows rt posts attempts gauge"
  shows "wp (processMessage s rt msg) (\<lambda>r w'.
     (\<exists>l. posts w' = posts w @ l \<and> length l \<le> 1)
     \<and> (\<exists>l. attempts w' = attempts w @ l \<and> length l \<le> 1)
     \<and> gauge w' = gauge w
     \<and> (rows w' = rows w
        \<or> (\<exists>n'. rows w' = (rows w)(msg_NotificationID msg \<mapsto> n') \<and> ID n' = msg_NotificationID msg
             \<and> Status n' \<in> {StatusSending, StatusSent, StatusFailed, StatusQueued}))) w"
proof (rule wp_mono [OF worker_env.processMessage_wp [OF assms]], goal_cases)
  case (1 r w')
  let ?nid = "msg_NotificationID msg"
  have row: "(\<exists>l. attempts w' = attempts w @ l \<and> length l \<le> 1)
      \<and> (\<exists>n'. rows w' = (rows w)(?nid \<mapsto> n') \<and> ID n' = ?nid \<and> Status n' \<in> settled_statuses)"
    if "delivery_spec (w_provider s) m (rows w) (attempts w) (rows w') (attempts w') r" "ID m = ?nid" for m
  proof -
    note f = delivery_spec_frame [OF that(1), unfolded that(2)]
    then obtain n' where n': "rows w' ?nid = Some n'" "ID n' = ?nid" "Status n' \<in> settled_statuses" by blast
    have "rows w' = (rows w)(?nid \<mapsto> n')"
      using f n' by (auto simp: fun_eq_iff)
    with f n' show ?thesis by blast
  qed
  have keyed: "ID n = ?nid" if "rows w ?nid = Some n" for n
    using notification_repository_laws.rows_keyed [OF worker_env.axioms(1) [OF assms] that] .
  from 1 show ?case
    by (auto simp: keyed settled_statuses_def [symmetric] split: option.splits if_splits dest!: row)
qed

lemma queue_turns:
  "(\<lambda>i. WorkQueueNames ! (i mod 3)) ` {0..<c} = set WorkQueueNames \<longleftrightarrow> 3 \<le> c"
proof -
  let ?q = "\<lambda>i. WorkQueueNames ! (i mod 3)"
  have q: "WorkQueueNames = [''sms'', ''email'', ''push'']"
    by (simp add: WorkQueueNames_def supportedChannels_def)
  have pick: "?q i = (if i mod 3 = 0 then ''sms'' else if i mod 3 = 1 then ''email'' else ''push'')" for i :: nat
  proof -
    have "i mod 3 = 0 \<or> i mod 3 = 1 \<or> i mod 3 = 2" by arith
    then show ?thesis by (auto simp: q)
  qed
  have "3 \<le> c" if "''push'' \<in> ?q ` {0..<c}"
  proof -
    from that obtain i where i: "i < c" and "''push'' = ?q i" by auto
    then have "i mod 3 \<noteq> 0" "i mod 3 \<noteq> 1" by (simp_all add: pick split: if_splits)
    then have "2 \<le> i" by (cases "i < 2") (auto simp: less_2_cases_iff)
    with i show ?thesis by linarith
  qed
  moreover have "?q ` {0..<c} \<subseteq> {''sms'', ''email'', ''push''}" by (auto simp: pick)
  moreover have "?q ` {0, 1, 2} \<subseteq> ?q ` {0..<c}" if "3 \<le> c"
    by (rule image_mono) (use that in auto)
  moreover have "?q ` {0, 1, 2} = {''sms'', ''email'', ''push''}" by (simp add: pick insert_commute)
  ultimately have "?q ` {0..<c} = {''sms'', ''email'', ''push''} \<longleftrightarrow> 3 \<le> c"
    by (metis insertCI subset_antisym)
  moreover have "set WorkQueueNames = {''sms'', ''email'', ''push''}" by (simp add: q)
  ultimately show ?thesis by simp
qed

lemma for_each_log:
  assumes "\<And>x w. wp (f x) (\<lambda>_ w'. obs w' = obs w @ [g x]) w"
  shows "wp (for_each f xs) (\<lambda>_ w'. obs w' = obs w @ map g xs) w"
proof (induction xs arbitrary: w)
  case (Cons x xs)
  show ?case
    unfolding for_each.simps wp_bind
    by (rule wp_mono [OF assms]) (rule wp_mono [OF Cons.IH], simp)
qed simp


end
