(* ===== verification/Scanners.thy ===== *)
theory Scanners
  imports Notification_Service "HOL-Library.Sublist"
begin

text \<open>
  \<open>internal/service/retry_scanner.go\<close> and \<open>internal/service/scheduler.go\<close>: the two background
  loops that put due notifications back on their queue. Both publish a message first and record
  the hand-over afterwards; the locale \<open>requeue_laws\<close> holds what that pattern relies on, and its
  lemmas are used for both.
\<close>

section \<open>The retry scanner\<close>

definition defaultRetryScanInterval :: duration where "defaultRetryScanInterval = 5 * 10 ^ 9"
definition defaultRetryScanLimit :: int where "defaultRetryScanLimit = 100"

record 'w scanner =
  sc_notifications :: "'w notification_repository"
  sc_publisher :: "'w publisher"
  sc_interval :: duration
  sc_limit :: int

definition NewRetryScanner ::
  "'w notification_repository \<Rightarrow> 'w publisher \<Rightarrow> duration \<Rightarrow> int \<Rightarrow> go_error + 'w scanner" where
  "NewRetryScanner notifications publisher interval limit =
     (let interval = (if interval \<le> 0 then defaultRetryScanInterval else interval);
          limit = (if limit \<le> 0 then defaultRetryScanLimit else limit)
      in Inr \<lparr>sc_notifications = notifications, sc_publisher = publisher,
              sc_interval = interval, sc_limit = limit\<rparr>)"

definition retry_one :: "'w scanner \<Rightarrow> notification \<Rightarrow> ('w, unit) state" where
  "retry_one s notification = do {
     let msg = \<lparr>msg_NotificationID = ID notification, msg_CorrelationID = CorrelationID notification,
                msg_Channel = Channel notification, msg_Priority = Priority notification\<rparr>;
     let queueName = QueueName (Channel notification);
     published \<leftarrow> pub_Publish (sc_publisher s) queueName msg;
     (case published of
        Some err \<Rightarrow> State_Monad.return ()
      | None \<Rightarrow> do {
          _ \<leftarrow> nr_ClearNextRetryAt (sc_notifications s) (ID notification);
          State_Monad.return ()
        })
   }"

definition retry_scanDue :: "'w scanner \<Rightarrow> ('w, go_error option) state" where
  "retry_scanDue s = do {
     due \<leftarrow> nr_GetDueForRetry (sc_notifications s) (sc_limit s);
     (case due of
        Inl err \<Rightarrow> State_Monad.return (Some (Wrap ''failed to fetch due retries: '' err []))
      | Inr dueNotifications \<Rightarrow> do {
          for_each (retry_one s) dueNotifications;
          State_Monad.return None
        })
   }"

text \<open>
  The context and the ticker of a scanner: \<open>t_Done\<close> waits in the \<open>select\<close> and tells whether the
  context was done (otherwise the ticker fired); \<open>t_Err\<close> is \<open>ctx.Err() != nil\<close>. The loop ends only
  with the context.
\<close>

record 'w ticker =
  t_Done :: "('w, bool) state"
  t_Err :: "('w, bool) state"

partial_function (option) scan_loop ::
  "('w, go_error option) state \<Rightarrow> 'w ticker \<Rightarrow> 'w \<Rightarrow> (go_error option \<times> 'w) option" where
  "scan_loop scan tk w =
     (case run_state (t_Done tk) w of
        (stop, w1) \<Rightarrow>
          if stop then Some (None, w1)
          else (case run_state scan w1 of
             (None, w2) \<Rightarrow> scan_loop scan tk w2
           | (Some err, w2) \<Rightarrow>
               (case run_state (t_Err tk) w2 of
                  (cancelled, w3) \<Rightarrow>
                    if cancelled then Some (None, w3) else scan_loop scan tk w3)))"

declare scan_loop.simps [code]

definition retry_Start :: "'w scanner \<Rightarrow> 'w ticker \<Rightarrow> 'w \<Rightarrow> (go_error option \<times> 'w) option" where
  "retry_Start s tk w =
     (case run_state (retry_scanDue s) w of
        (None, w1) \<Rightarrow> scan_loop (retry_scanDue s) tk w1
      | (Some err, w1) \<Rightarrow>
          (case run_state (t_Err tk) w1 of (_, w2) \<Rightarrow> scan_loop (retry_scanDue s) tk w2))"

section \<open>The scheduler\<close>

definition defaultSchedulerScanInterval :: duration where "defaultSchedulerScanInterval = 5 * 10 ^ 9"
definition defaultSchedulerScanLimit :: int where "defaultSchedulerScanLimit = 100"

definition NewScheduler ::
  "'w notification_repository \<Rightarrow> 'w publisher \<Rightarrow> duration \<Rightarrow> int \<Rightarrow> go_error + 'w scanner" where
  "NewScheduler notifications publisher interval limit =
     (let interval = (if interval \<le> 0 then defaultSchedulerScanInterval else interval);
          limit = (if limit \<le> 0 then defaultSchedulerScanLimit else limit)
      in Inr \<lparr>sc_notifications = notifications, sc_publisher = publisher,
              sc_interval = interval, sc_limit = limit\<rparr>)"

definition schedule_one :: "'w scanner \<Rightarrow> notification \<Rightarrow> ('w, unit) state" where
  "schedule_one s notification = do {
     let msg = \<lparr>msg_NotificationID = ID notification, msg_CorrelationID = CorrelationID notification,
                msg_Channel = Channel notification, msg_Priority = Priority notification\<rparr>;
     let queueName = QueueName (Channel notification);
     published \<leftarrow> pub_Publish (sc_publisher s) queueName msg;
     (case published of
        Some err \<Rightarrow> State_Monad.return ()
      | None \<Rightarrow> do {
          _ \<leftarrow> nr_MarkQueuedIfAccepted (sc_notifications s) (ID notification);
          State_Monad.return ()
        })
   }"

definition schedule_scanDue :: "'w scanner \<Rightarrow> ('w, go_error option) state" where
  "schedule_scanDue s = do {
     due \<leftarrow> nr_GetDueForSchedule (sc_notifications s) (sc_limit s);
     (case due of
        Inl err \<Rightarrow> State_Monad.return (Some (Wrap ''failed to fetch due scheduled notifications: '' err []))
      | Inr dueNotifications \<Rightarrow> do {
          for_each (schedule_one s) dueNotifications;
          State_Monad.return None
        })
   }"

definition schedule_Start :: "'w scanner \<Rightarrow> 'w ticker \<Rightarrow> 'w \<Rightarrow> (go_error option \<times> 'w) option" where
  "schedule_Start s tk w =
     (case run_state (schedule_scanDue s) w of
        (None, w1) \<Rightarrow> scan_loop (schedule_scanDue s) tk w1
      | (Some err, w1) \<Rightarrow>
          (case run_state (t_Err tk) w1 of (_, w2) \<Rightarrow> scan_loop (schedule_scanDue s) tk w2))"

section \<open>Publish, then record\<close>

definition envelope :: "notification \<Rightarrow> string \<times> notification_message" where
  "envelope n = (QueueName (Channel n), message_of n)"

text \<open>
  \<open>published w\<close> is the sequence of messages handed to the broker. A failed \<open>Publish\<close> may have
  reached the broker or not. \<open>mark\<close> is the statement that records the hand-over: it applies \<open>f\<close>
  to the row or leaves the table alone.
\<close>

locale requeue_laws =
  fixes publish :: "string \<Rightarrow> notification_message \<Rightarrow> ('w, go_error option) state"
    and mark :: "string \<Rightarrow> ('w, 'b) state"
    and f :: "notification \<Rightarrow> notification"
    and rows :: "'w \<Rightarrow> (string \<rightharpoonup> notification)"
    and published :: "'w \<Rightarrow> (string \<times> notification_message) list"
  assumes publish_law: "wp (publish q m) (\<lambda>r w'. rows w' = rows w \<and>
        (case r of None \<Rightarrow> published w' = published w @ [(q, m)]
         | Some _ \<Rightarrow> published w' = published w \<or> published w' = published w @ [(q, m)])) w"
    and mark_law: "wp (mark k) (\<lambda>_ w'. published w' = published w \<and>
        (rows w' = rows w \<or> updated_row (rows w) (rows w') k f)) w"
begin

definition requeue :: "notification \<Rightarrow> ('w, unit) state" where
  "requeue n = do {
     p \<leftarrow> publish (QueueName (Channel n)) (message_of n);
     (case p of Some _ \<Rightarrow> State_Monad.return ()
      | None \<Rightarrow> do { _ \<leftarrow> mark (ID n); State_Monad.return () })
   }"

lemma requeue_wp:
  assumes "rows w (ID n) = Some n"
  shows "wp (requeue n) (\<lambda>_ w'. published w' = published w \<and> rows w' = rows w
     \<or> published w' = published w @ [envelope n]
       \<and> (rows w' = rows w \<or> (\<exists>u. rows w' = (rows w)(ID n \<mapsto> (f n)\<lparr>UpdatedAt := u\<rparr>)))) w"
  unfolding requeue_def
  by (rule wp_bindI, rule wp_mono [OF publish_law])
     (use assms in \<open>auto simp: envelope_def updated_row_def split: option.split
        intro!: wp_mono [OF mark_law]\<close>)

text \<open>After a pass over distinct rows: what was published is a subsequence of what was due, and a
  row changed only when its message is part of it.\<close>

lemma requeue_all_wp:
  assumes "distinct (map ID ns)" and "\<And>n. n \<in> set ns \<Longrightarrow> rows w (ID n) = Some n"
  shows "wp (for_each requeue ns) (\<lambda>_ w'. \<exists>l. published w' = published w @ l
     \<and> subseq l (map envelope ns)
     \<and> (\<forall>k. rows w' k = rows w k
          \<or> (\<exists>n u. n \<in> set ns \<and> ID n = k \<and> envelope n \<in> set l \<and> rows w' k = Some ((f n)\<lparr>UpdatedAt := u\<rparr>)))) w"
  using assms
proof (induction ns arbitrary: w)
  case Nil
  then show ?case by simp
next
  case (Cons n ns)
  show ?case
    unfolding for_each.simps
  proof (rule wp_bindI, rule wp_mono [OF requeue_wp], goal_cases)
    case 1
    then show ?case using Cons.prems by simp
  next
    case (2 _ v)
    note step = this
    then have other: "rows v k = rows w k" if "k \<noteq> ID n" for k using that by auto
    have due: "rows v (ID m) = Some m" if "m \<in> set ns" for m
    proof -
      have "ID m \<noteq> ID n" using that Cons.prems(1) by (auto simp: image_iff)
      with that Cons.prems(2) [of m] other show ?thesis by simp
    qed
    have "distinct (map ID ns)" using Cons.prems by simp
    note IH = Cons.IH [OF this due]
    show ?case
    proof (rule wp_mono [OF IH], goal_cases)
      case 1
      then show ?case .
    next
      case (2 x w')
      then obtain l where l: "published w' = published v @ l" "subseq l (map envelope ns)"
        and ch: "\<And>k. rows w' k = rows v k \<or> (\<exists>m u. m \<in> set ns \<and> ID m = k \<and> envelope m \<in> set l
             \<and> rows w' k = Some ((f m)\<lparr>UpdatedAt := u\<rparr>))" by blast
      have new: "ID n \<notin> ID ` set ns" using Cons.prems by simp
      show ?case
      proof (rule disjE [OF step])
        assume "published v = published w \<and> rows v = rows w"
        with l ch show ?thesis by (intro exI [of _ l]) fastforce
      next
        assume a: "published v = published w @ [envelope n] \<and>
          (rows v = rows w \<or> (\<exists>u. rows v = (rows w)(ID n \<mapsto> (f n)\<lparr>UpdatedAt := u\<rparr>)))"
        have "rows w' k = rows w k \<or> (\<exists>m u. m \<in> set (n # ns) \<and> ID m = k \<and> envelope m \<in> set (envelope n # l)
             \<and> rows w' k = Some ((f m)\<lparr>UpdatedAt := u\<rparr>))" for k
          using ch [of k] a
          by (cases "k = ID n") (auto, metis list.set_intros(1))
        with a l show ?thesis by (intro exI [of _ "envelope n # l"]) simp
      qed
    qed
  qed
qed

end

section \<open>Both scanners\<close>

locale scanner_env = notification_repository_laws "sc_notifications s" rows
  for s :: "'w scanner" and rows :: "'w \<Rightarrow> (string \<rightharpoonup> notification)" +
  fixes published :: "'w \<Rightarrow> (string \<times> notification_message) list"
  assumes Publish_law: "wp (pub_Publish (sc_publisher s) q m) (\<lambda>r w'. rows w' = rows w \<and>
        (case r of None \<Rightarrow> published w' = published w @ [(q, m)]
         | Some _ \<Rightarrow> published w' = published w \<or> published w' = published w @ [(q, m)])) w"
    and Due_frame: "keeps published (nr_GetDueForRetry (sc_notifications s) limit)"
    and Schedule_frame: "keeps published (nr_GetDueForSchedule (sc_notifications s) limit)"
    and Clear_frame: "keeps published (nr_ClearNextRetryAt (sc_notifications s) k)"
    and Mark_frame: "keeps published (nr_MarkQueuedIfAccepted (sc_notifications s) k)"

sublocale scanner_env \<subseteq> retry: requeue_laws "pub_Publish (sc_publisher s)"
  "nr_ClearNextRetryAt (sc_notifications s)" "\<lambda>n. n\<lparr>NextRetryAt := None\<rparr>" rows published
proof
  show "wp (nr_ClearNextRetryAt (sc_notifications s) k) (\<lambda>_ w'. published w' = published w \<and>
      (rows w' = rows w \<or> updated_row (rows w) (rows w') k (\<lambda>n. n\<lparr>NextRetryAt := None\<rparr>))) w" for k w
    by (rule wp_mono [OF wp_conj [OF ClearNextRetryAt_law Clear_frame [unfolded keeps_wp, rule_format]]])
       (auto simp: set_spec_def split: option.splits if_splits)
qed (rule Publish_law)

sublocale scanner_env \<subseteq> schedule: requeue_laws "pub_Publish (sc_publisher s)"
  "nr_MarkQueuedIfAccepted (sc_notifications s)" "\<lambda>n. n\<lparr>Status := StatusQueued\<rparr>" rows published
proof
  show "wp (nr_MarkQueuedIfAccepted (sc_notifications s) k) (\<lambda>_ w'. published w' = published w \<and>
      (rows w' = rows w \<or> updated_row (rows w) (rows w') k (\<lambda>n. n\<lparr>Status := StatusQueued\<rparr>))) w" for k w
    by (rule wp_mono [OF wp_conj [OF MarkQueuedIfAccepted_law Mark_frame [unfolded keeps_wp, rule_format]]])
       (auto simp: Let_def split: sum.splits if_splits)
qed (rule Publish_law)

text \<open>A batch of due rows: distinct rows with the property, in order, at most \<open>limit\<close> of them, and all
  of them when there are fewer.\<close>

definition due_batch ::
  "(notification \<Rightarrow> bool) \<Rightarrow> (notification \<Rightarrow> notification \<Rightarrow> bool) \<Rightarrow> int
     \<Rightarrow> (string \<rightharpoonup> notification) \<Rightarrow> notification list \<Rightarrow> bool" where
  "due_batch P le limit R due \<longleftrightarrow> distinct (map ID due)
     \<and> (\<forall>n\<in>set due. R (ID n) = Some n \<and> P n) \<and> sorted_wrt le due \<and> int (length due) \<le> limit
     \<and> (int (length due) < limit \<longrightarrow> (\<forall>k n. R k = Some n \<longrightarrow> P n \<longrightarrow> n \<in> set due))"

text \<open>What was published is a subsequence of what was due, and a row changed only when its message
  is part of it.\<close>

definition handed_over ::
  "(notification \<Rightarrow> notification) \<Rightarrow> notification list \<Rightarrow> (string \<times> notification_message) list
     \<Rightarrow> (string \<rightharpoonup> notification) \<Rightarrow> (string \<rightharpoonup> notification) \<Rightarrow> bool" where
  "handed_over f due l R R' \<longleftrightarrow> subseq l (map envelope due)
     \<and> (\<forall>k. R' k = R k
          \<or> (\<exists>n u. n \<in> set due \<and> ID n = k \<and> envelope n \<in> set l \<and> R' k = Some ((f n)\<lparr>UpdatedAt := u\<rparr>)))"

lemma take_sorted_wrt: "sorted_wrt le xs \<Longrightarrow> sorted_wrt le (take k xs)"
  by (metis append_take_drop_id sorted_wrt_append)

context scanner_env
begin

lemma due_batch_page:
  assumes "listing (rows w) (row_keys (rows w) P) all" and "sorted_wrt le all" and "0 \<le> limit"
  shows "due_batch P le limit (rows w) (page_of 0 (Some limit) all)"
proof -
  let ?due = "take (nat limit) all"
  note rows = listing_facts [where key = ID, OF assms(1) row_keys_subset rows_keyed [of w]]
  have all: "n \<in> set all" if "rows w k = Some n" "P n" for k n
    using that assms(1) by (auto simp: listing_def row_keys_def) (metis (mono_tags, lifting) image_eqI mem_Collect_eq option.sel)
  have P: "P n" if "n \<in> set all" for n
    using rows(3) that by (force simp: row_keys_def)
  have "distinct (map ID ?due)" using rows(1) by (simp add: take_map [symmetric])
  then show ?thesis
    using rows(3) P all take_sorted_wrt [OF assms(2)] assms(3)
    by (auto simp: due_batch_def page_of_def dest: in_set_takeD)
qed

lemma scan_wp:
  assumes due: "wp due_query (\<lambda>r w'. rows w' = rows w \<and> (case r of Inl e \<Rightarrow> foreign_error e
      | Inr ns \<Rightarrow> \<exists>now all. listing (rows w) (row_keys (rows w) (P now)) all \<and> sorted_wrt le all
          \<and> ns = page_of 0 (Some (sc_limit s)) all)) w"
    and "keeps published due_query" and limit: "0 \<le> sc_limit s"
    and pass: "\<And>v ns. distinct (map ID ns) \<Longrightarrow> (\<And>n. n \<in> set ns \<Longrightarrow> rows v (ID n) = Some n) \<Longrightarrow>
       wp (for_each step ns) (\<lambda>_ w'. \<exists>l. published w' = published v @ l \<and> handed_over f ns l (rows v) (rows w')) v"
  shows "wp (do { due \<leftarrow> due_query;
       (case due of Inl err \<Rightarrow> State_Monad.return (Some (Wrap pre err []))
        | Inr ns \<Rightarrow> do { for_each step ns; State_Monad.return None }) })
     (\<lambda>r w'. case r of
         Some e \<Rightarrow> foreign_error e \<and> rows w' = rows w \<and> published w' = published w
       | None \<Rightarrow> \<exists>now due l. due_batch (P now) le (sc_limit s) (rows w) due
           \<and> published w' = published w @ l \<and> handed_over f due l (rows w) (rows w')) w"
proof (rule wp_bindI, rule wp_mono [OF wp_conj [OF due assms(2) [unfolded keeps_wp, rule_format]]], goal_cases)
  case (1 r v)
  show ?case
  proof (cases r)
    case (Inl e)
    with 1 show ?thesis by (simp add: foreign_error_def)
  next
    case (Inr ns)
    with 1 obtain now all where ns: "listing (rows w) (row_keys (rows w) (P now)) all" "sorted_wrt le all"
      "ns = page_of 0 (Some (sc_limit s)) all" and v: "rows v = rows w" "published v = published w" by auto
    have batch: "due_batch (P now) le (sc_limit s) (rows w) ns"
      using due_batch_page [OF ns(1,2) limit] ns(3) by simp
    have "wp (for_each step ns) (\<lambda>_ w'. \<exists>l. published w' = published v @ l \<and> handed_over f ns l (rows v) (rows w')) v"
      by (rule pass) (use batch v in \<open>auto simp: due_batch_def\<close>)
    then show ?thesis
      unfolding Inr sum.case wp_bind wp_return option.case
      by (rule wp_mono) (use batch v in auto)
  qed
qed

lemma retry_scan_wp:
  assumes "0 \<le> sc_limit s"
  shows "wp (retry_scanDue s) (\<lambda>r w'. case r of
         Some e \<Rightarrow> foreign_error e \<and> rows w' = rows w \<and> published w' = published w
       | None \<Rightarrow> \<exists>now due l. due_batch (retry_due now) (\<lambda>a b. the (NextRetryAt a) \<le> the (NextRetryAt b))
             (sc_limit s) (rows w) due
           \<and> published w' = published w @ l
           \<and> handed_over (\<lambda>n. n\<lparr>NextRetryAt := None\<rparr>) due l (rows w) (rows w')) w"
proof -
  have step: "retry_one s = retry.requeue"
    by (auto simp: fun_eq_iff retry_one_def retry.requeue_def message_of_def Let_def cong: option.case_cong)
  show ?thesis
    unfolding retry_scanDue_def
    by (rule scan_wp [OF GetDueForRetry_law Due_frame assms])
       (unfold step handed_over_def, rule retry.requeue_all_wp, blast+)
qed

lemma schedule_scan_wp:
  assumes "0 \<le> sc_limit s"
  shows "wp (schedule_scanDue s) (\<lambda>r w'. case r of
         Some e \<Rightarrow> foreign_error e \<and> rows w' = rows w \<and> published w' = published w
       | None \<Rightarrow> \<exists>now due l. due_batch (schedule_due now) (\<lambda>a b. the (ScheduledAt a) \<le> the (ScheduledAt b))
             (sc_limit s) (rows w) due
           \<and> published w' = published w @ l
           \<and> handed_over (\<lambda>n. n\<lparr>Status := StatusQueued\<rparr>) due l (rows w) (rows w')) w"
proof -
  have step: "schedule_one s = schedule.requeue"
    by (auto simp: fun_eq_iff schedule_one_def schedule.requeue_def message_of_def Let_def cong: option.case_cong)
  show ?thesis
    unfolding schedule_scanDue_def
    by (rule scan_wp [OF GetDueForSchedule_law Schedule_frame assms])
       (unfold step handed_over_def, rule schedule.requeue_all_wp, blast+)
qed

end

lemma NewRetryScanner_fields:
  "NewRetryScanner repo pub interval limit = Inr s \<Longrightarrow> sc_notifications s = repo \<and> sc_publisher s = pub"
  by (auto simp: NewRetryScanner_def Let_def)

lemma NewScheduler_fields:
  "NewScheduler repo pub interval limit = Inr s \<Longrightarrow> sc_notifications s = repo \<and> sc_publisher s = pub"
  by (auto simp: NewScheduler_def Let_def)

lemma NewRetryScanner_limit: "NewRetryScanner repo pub interval limit = Inr s \<Longrightarrow> 0 < sc_limit s \<and> 0 < sc_interval s"
  by (auto simp: NewRetryScanner_def Let_def defaultRetryScanLimit_def defaultRetryScanInterval_def)

lemma NewScheduler_limit: "NewScheduler repo pub interval limit = Inr s \<Longrightarrow> 0 < sc_limit s \<and> 0 < sc_interval s"
  by (auto simp: NewScheduler_def Let_def defaultSchedulerScanLimit_def defaultSchedulerScanInterval_def)



end
