(* ===== verification/RabbitMQ.thy ===== *)
theory RabbitMQ
  imports Queue
begin

text \<open>
  Package \<open>internal/queue\<close>, the parts that hold a connection: \<open>rabbitmq.go\<close> (connection,
  reconnection with back-off, topology), \<open>publisher.go\<close> and \<open>consumer.go\<close>. The AMQP client library
  is a parameter, the record \<open>amqp\<close>; connections and channels are values of its types \<open>'c\<close> and
  \<open>'h\<close>. The field \<open>conn\<close> of the shared \<open>RabbitMQ\<close> struct is the first component of the state, the
  world the second; the mutexes make each access to it atomic. Loops that end only with their
  context or a successful dial are partial functions: \<open>None\<close> means the call does not return.
\<close>

section \<open>The AMQP client\<close>

datatype amqp_arg = ArgString string | ArgInt32 "32 word"

record publishing =
  pub_ContentType :: string
  pub_DeliveryMode :: "8 word"
  pub_Timestamp :: go_time
  pub_MessageId :: string
  pub_CorrelationId :: string
  pub_Priority :: "8 word"
  pub_Body :: string

datatype 'w received = RDone | RClosed | RDelivery delivery "'w acknowledger"

text \<open>
  \<open>q_after\<close> is \<^verbatim>\<open>select { case <-ctx.Done(): ... case <-time.After(d): }\<close>: it yields \<open>ctx.Err()\<close> in
  the first case. \<open>q_recv\<close> waits for the context, a closed delivery channel or a delivery.
\<close>

record ('w, 'c, 'h) amqp =
  q_Dial :: "string \<Rightarrow> ('w, go_error + 'c) state"
  q_IsClosed :: "'c \<Rightarrow> ('w, bool) state"
  q_ConnClose :: "'c \<Rightarrow> ('w, go_error option) state"
  q_Channel :: "'c \<Rightarrow> ('w, go_error + 'h) state"
  q_ChClose :: "'h \<Rightarrow> ('w, go_error option) state"
  q_ExchangeDeclare :: "'h \<Rightarrow> string \<Rightarrow> string \<Rightarrow> bool \<Rightarrow> bool \<Rightarrow> bool \<Rightarrow> bool \<Rightarrow> ('w, go_error option) state"
  q_QueueDeclare :: "'h \<Rightarrow> string \<Rightarrow> bool \<Rightarrow> bool \<Rightarrow> bool \<Rightarrow> bool \<Rightarrow> (string \<times> amqp_arg) list \<Rightarrow> ('w, go_error option) state"
  q_QueueBind :: "'h \<Rightarrow> string \<Rightarrow> string \<Rightarrow> string \<Rightarrow> bool \<Rightarrow> ('w, go_error option) state"
  q_Publish :: "'h \<Rightarrow> string \<Rightarrow> string \<Rightarrow> bool \<Rightarrow> bool \<Rightarrow> publishing \<Rightarrow> ('w, go_error option) state"
  q_Qos :: "'h \<Rightarrow> int \<Rightarrow> int \<Rightarrow> bool \<Rightarrow> ('w, go_error option) state"
  q_Consume :: "'h \<Rightarrow> string \<Rightarrow> ('w, go_error option) state"
  q_recv :: "'h \<Rightarrow> ('w, 'w received) state"
  q_after :: "duration \<Rightarrow> ('w, go_error option) state"
  q_ctxErr :: "('w, go_error option) state"

section \<open>Topology\<close>

definition dlxExchangeName :: string where "dlxExchangeName = ''dispatch.dlx''"
definition reconnectBackoff :: duration where "reconnectBackoff = 10 ^ 9"
definition maxBackoff :: duration where "maxBackoff = 30 * 10 ^ 9"

definition channelRoutingKey :: "channel \<Rightarrow> string" where
  "channelRoutingKey channel = ToLower channel"

text \<open>One round of the loop over \<open>supportedChannels\<close>.\<close>

definition declare_channel :: "('w, 'c, 'h) amqp \<Rightarrow> 'h \<Rightarrow> channel \<Rightarrow> ('w, go_error option) state" where
  "declare_channel A ch channel = do {
     let dlqName = DLQName channel;
     let routingKey = channelRoutingKey channel;
     e1 \<leftarrow> q_QueueDeclare A ch dlqName True False False False [];
     (case e1 of
        Some err \<Rightarrow> State_Monad.return (Some (Wrap (''failed to declare dlq '' @ Quote dlqName @ '': '') err []))
      | None \<Rightarrow> do {
          e2 \<leftarrow> q_QueueBind A ch dlqName routingKey dlxExchangeName False;
          (case e2 of
             Some err \<Rightarrow> State_Monad.return (Some (Wrap (''failed to bind dlq '' @ Quote dlqName @ '': '') err []))
           | None \<Rightarrow> do {
               let queueName = QueueName channel;
               e3 \<leftarrow> q_QueueDeclare A ch queueName True False False False
                      [(''x-dead-letter-exchange'', ArgString dlxExchangeName),
                       (''x-dead-letter-routing-key'', ArgString routingKey),
                       (''x-max-priority'', ArgInt32 queueMaxPriority)];
               State_Monad.return (case e3 of
                   Some err \<Rightarrow> Some (Wrap (''failed to declare queue '' @ Quote queueName @ '': '') err [])
                 | None \<Rightarrow> None)
             })
        })
   }"

fun declare_channels :: "('w, 'c, 'h) amqp \<Rightarrow> 'h \<Rightarrow> channel list \<Rightarrow> ('w, go_error option) state" where
  "declare_channels A ch [] = State_Monad.return None"
| "declare_channels A ch (c # cs) = do {
     e \<leftarrow> declare_channel A ch c;
     (case e of Some err \<Rightarrow> State_Monad.return (Some err) | None \<Rightarrow> declare_channels A ch cs)
   }"

definition declareTopology :: "('w, 'c, 'h) amqp \<Rightarrow> 'h \<Rightarrow> ('w, go_error option) state" where
  "declareTopology A ch = do {
     e \<leftarrow> q_ExchangeDeclare A ch dlxExchangeName ''direct'' True False False False;
     (case e of
        Some err \<Rightarrow> State_Monad.return (Some (Wrap ''failed to declare dlx exchange: '' err []))
      | None \<Rightarrow> declare_channels A ch supportedChannels)
   }"

section \<open>Connection\<close>

definition next_wait :: "duration \<Rightarrow> duration" where
  "next_wait wait = (let wait = i64 (wait * 2) in if maxBackoff < wait then maxBackoff else wait)"

definition is_open :: "('w, 'c, 'h) amqp \<Rightarrow> 'c option \<Rightarrow> ('w, bool) state" where
  "is_open A conn =
     (case conn of
        None \<Rightarrow> State_Monad.return False
      | Some c \<Rightarrow> do { closed \<leftarrow> q_IsClosed A c; State_Monad.return (\<not> closed) })"

text \<open>The old connection, when it is still open, is closed after it was replaced.\<close>

definition close_old :: "('w, 'c, 'h) amqp \<Rightarrow> 'c option \<Rightarrow> ('w, unit) state" where
  "close_old A oldConn = do {
     open_conn \<leftarrow> is_open A oldConn;
     (if open_conn then do { _ \<leftarrow> q_ConnClose A (the oldConn); State_Monad.return () }
      else State_Monad.return ())
   }"

partial_function (option) reconnect_loop ::
  "('w, 'c, 'h) amqp \<Rightarrow> string \<Rightarrow> 'c option \<Rightarrow> duration \<Rightarrow> 'w \<Rightarrow> (go_error option \<times> 'c option \<times> 'w) option" where
  "reconnect_loop A url conn wait w =
     (case run_state (q_Dial A url) w of
        (Inr newConn, w1) \<Rightarrow>
          (case run_state (close_old A conn) w1 of (_, w2) \<Rightarrow> Some (None, Some newConn, w2))
      | (Inl err, w1) \<Rightarrow>
          (case run_state (q_after A wait) w1 of
             (Some ctxErr, w2) \<Rightarrow> Some (Some (Wrap ''rabbitmq reconnect canceled: '' ctxErr []), conn, w2)
           | (None, w2) \<Rightarrow> reconnect_loop A url conn (next_wait wait) w2))"

definition reconnectWithBackoff ::
  "('w, 'c, 'h) amqp \<Rightarrow> string \<Rightarrow> 'c option \<Rightarrow> 'w \<Rightarrow> (go_error option \<times> 'c option \<times> 'w) option" where
  "reconnectWithBackoff A url conn w =
     (case run_state (is_open A conn) w of
        (open_conn, w1) \<Rightarrow>
          if open_conn then Some (None, conn, w1) else reconnect_loop A url conn reconnectBackoff w1)"

definition ensureConnected ::
  "('w, 'c, 'h) amqp \<Rightarrow> string \<Rightarrow> 'c option \<Rightarrow> 'w \<Rightarrow> (go_error option \<times> 'c option \<times> 'w) option" where
  "ensureConnected A url conn w =
     (case run_state (is_open A conn) w of
        (open_conn, w1) \<Rightarrow>
          if open_conn then Some (None, conn, w1) else reconnectWithBackoff A url conn w1)"

definition NewRabbitMQ ::
  "('w, 'c, 'h) amqp \<Rightarrow> string \<Rightarrow> 'w \<Rightarrow> ((go_error + string) \<times> 'c option \<times> 'w) option" where
  "NewRabbitMQ A url w =
     (if TrimSpace url = [] then Some (Inl (ErrorString ''rabbitmq url is required''), None, w)
      else case ensureConnected A url None w of
        None \<Rightarrow> None
      | Some (Some err, conn, w1) \<Rightarrow> Some (Inl err, conn, w1)
      | Some (None, conn, w1) \<Rightarrow> Some (Inr url, conn, w1))"

definition rabbitmq_Close :: "('w, 'c, 'h) amqp \<Rightarrow> 'c option \<Rightarrow> 'w \<Rightarrow> go_error option \<times> 'c option \<times> 'w" where
  "rabbitmq_Close A conn w =
     (case run_state (is_open A conn) w of
        (open_conn, w1) \<Rightarrow>
          if \<not> open_conn then (None, None, w1)
          else (case run_state (q_ConnClose A (the conn)) w1 of (err, w2) \<Rightarrow> (err, None, w2)))"

section \<open>Opening a channel\<close>

definition nil_dereference :: go_error where
  "nil_dereference = ErrorString ''runtime error: invalid memory address or nil pointer dereference''"

definition conn_Channel :: "('w, 'c, 'h) amqp \<Rightarrow> 'c option \<Rightarrow> ('w, go_error + 'h) state" where
  "conn_Channel A conn =
     (case conn of None \<Rightarrow> State_Monad.return (Inl nil_dereference) | Some c \<Rightarrow> q_Channel A c)"

text \<open>The last part of \<open>channel\<close>: declare the topology on the channel that was opened.\<close>

definition with_topology ::
  "('w, 'c, 'h) amqp \<Rightarrow> 'h \<Rightarrow> 'c option \<Rightarrow> 'w \<Rightarrow> (go_error + 'h) \<times> 'c option \<times> 'w" where
  "with_topology A ch conn w =
     (case run_state (declareTopology A ch) w of
        (Some err, w1) \<Rightarrow> (case run_state (q_ChClose A ch) w1 of (_, w2) \<Rightarrow> (Inl err, conn, w2))
      | (None, w1) \<Rightarrow> (Inr ch, conn, w1))"

definition open_channel ::
  "('w, 'c, 'h) amqp \<Rightarrow> string \<Rightarrow> 'c option \<Rightarrow> 'w \<Rightarrow> ((go_error + 'h) \<times> 'c option \<times> 'w) option" where
  "open_channel A url conn w =
     (case run_state (conn_Channel A conn) w of
        (Inr ch, w1) \<Rightarrow> Some (with_topology A ch conn w1)
      | (Inl err, w1) \<Rightarrow>
          (case reconnectWithBackoff A url conn w1 of
             None \<Rightarrow> None
           | Some (Some errReconnect, conn, w2) \<Rightarrow> Some (Inl errReconnect, conn, w2)
           | Some (None, conn, w2) \<Rightarrow>
               (case run_state (conn_Channel A conn) w2 of
                  (Inl err, w3) \<Rightarrow>
                    Some (Inl (Wrap ''failed to create rabbitmq channel after reconnect: '' err []), conn, w3)
                | (Inr ch, w3) \<Rightarrow> Some (with_topology A ch conn w3))))"

definition rabbitmq_channel ::
  "('w, 'c, 'h) amqp \<Rightarrow> string \<Rightarrow> 'c option \<Rightarrow> 'w \<Rightarrow> ((go_error + 'h) \<times> 'c option \<times> 'w) option" where
  "rabbitmq_channel A url conn w =
     (case ensureConnected A url conn w of
        None \<Rightarrow> None
      | Some (Some err, conn, w1) \<Rightarrow> Some (Inl err, conn, w1)
      | Some (None, conn, w1) \<Rightarrow>
          (case run_state (is_open A conn) w1 of
             (open_conn, w2) \<Rightarrow>
               if open_conn then open_channel A url conn w2
               else (case ensureConnected A url conn w2 of
                       None \<Rightarrow> None
                     | Some (Some err, conn, w3) \<Rightarrow> Some (Inl err, conn, w3)
                     | Some (None, conn, w3) \<Rightarrow> open_channel A url conn w3)))"

section \<open>Publisher\<close>

text \<open>\<open>amqp.Persistent\<close>.\<close>

definition Persistent :: "8 word" where "Persistent = 2"

definition make_publishing :: "notification_message \<Rightarrow> go_time \<Rightarrow> string \<Rightarrow> publishing" where
  "make_publishing msg now payload =
     \<lparr>pub_ContentType = ''application/json'', pub_DeliveryMode = Persistent, pub_Timestamp = now,
      pub_MessageId = msg_NotificationID msg, pub_CorrelationId = msg_CorrelationID msg,
      pub_Priority = PriorityValue (msg_Priority msg), pub_Body = payload\<rparr>"

text \<open>\<open>client\<close> is the url of the publisher's \<open>RabbitMQ\<close>, \<open>None\<close> for a nil publisher or client. The
  channel is closed by the deferred call in every case.\<close>

definition rabbit_Publish ::
  "('w, 'c, 'h) amqp \<Rightarrow> 'w runtime \<Rightarrow> string option
     \<Rightarrow> string \<Rightarrow> notification_message \<Rightarrow> 'c option \<Rightarrow> 'w \<Rightarrow> (go_error option \<times> 'c option \<times> 'w) option" where
  "rabbit_Publish A rt client queue msg conn w =
     (case client of
        None \<Rightarrow> Some (Some (ErrorString ''publisher is not initialized''), conn, w)
      | Some url \<Rightarrow>
          if queue = [] then Some (Some (ErrorString ''queue name is required''), conn, w)
          else case message_Validate msg of
            Some err \<Rightarrow> Some (Some (Wrap ''invalid notification message: '' err []), conn, w)
          | None \<Rightarrow>
              (case message_Marshal msg of
                 Inl err \<Rightarrow> Some (Some (Wrap ''failed to marshal notification message: '' err []), conn, w)
               | Inr payload \<Rightarrow>
                   (case rabbitmq_channel A url conn w of
                      None \<Rightarrow> None
                    | Some (Inl err, conn, w1) \<Rightarrow> Some (Some err, conn, w1)
                    | Some (Inr ch, conn, w1) \<Rightarrow>
                        (case run_state (do {
                             now \<leftarrow> time_Now rt;
                             err \<leftarrow> q_Publish A ch [] queue False False (make_publishing msg now payload);
                             _ \<leftarrow> q_ChClose A ch;
                             State_Monad.return (case err of
                                 Some e \<Rightarrow> Some (Wrap (''failed to publish message to queue '' @ Quote queue @ '': '') e [])
                               | None \<Rightarrow> None)
                           }) w1 of (r, w2) \<Rightarrow> Some (r, conn, w2)))))"

definition publisher_Close ::
  "('w, 'c, 'h) amqp \<Rightarrow> string option \<Rightarrow> 'c option \<Rightarrow> 'w \<Rightarrow> go_error option \<times> 'c option \<times> 'w" where
  "publisher_Close A client conn w =
     (case client of None \<Rightarrow> (None, conn, w) | Some url \<Rightarrow> rabbitmq_Close A conn w)"

section \<open>Consumer\<close>

record rabbitmq_consumer =
  rc_client :: "string option"
  rc_prefetch :: int

definition NewRabbitMQConsumer :: "string option \<Rightarrow> int \<Rightarrow> rabbitmq_consumer" where
  "NewRabbitMQConsumer client prefetch =
     \<lparr>rc_client = client, rc_prefetch = (if prefetch < 1 then 1 else prefetch)\<rparr>"

text \<open>The receive loop of \<open>consumeOnce\<close>.\<close>

partial_function (option) delivery_loop ::
  "('w, 'c, 'h) amqp \<Rightarrow> 'h
     \<Rightarrow> (notification_message \<Rightarrow> ('w, go_error option) state) \<Rightarrow> 'w \<Rightarrow> (go_error option \<times> 'w) option" where
  "delivery_loop A ch handler w =
     (case run_state (q_recv A ch) w of
        (RDone, w1) \<Rightarrow> Some (None, w1)
      | (RClosed, w1) \<Rightarrow> Some (Some (ErrorString ''delivery channel closed''), w1)
      | (RDelivery d ack, w1) \<Rightarrow>
          (case run_state (handleDelivery ack d handler) w1 of
             (Some err, w2) \<Rightarrow> Some (Some err, w2)
           | (None, w2) \<Rightarrow> delivery_loop A ch handler w2))"

definition consumeOnce ::
  "('w, 'c, 'h) amqp \<Rightarrow> string \<Rightarrow> int \<Rightarrow> string
     \<Rightarrow> (notification_message \<Rightarrow> ('w, go_error option) state) \<Rightarrow> 'c option \<Rightarrow> 'w
     \<Rightarrow> (go_error option \<times> 'c option \<times> 'w) option" where
  "consumeOnce A url prefetch queue handler conn w =
     (case rabbitmq_channel A url conn w of
        None \<Rightarrow> None
      | Some (Inl err, conn, w1) \<Rightarrow> Some (Some err, conn, w1)
      | Some (Inr ch, conn, w1) \<Rightarrow>
          (case run_state (q_Qos A ch prefetch 0 False) w1 of
             (Some err, w2) \<Rightarrow>
               (case run_state (q_ChClose A ch) w2 of
                  (_, w3) \<Rightarrow> Some (Some (Wrap ''failed to set qos: '' err []), conn, w3))
           | (None, w2) \<Rightarrow>
               (case run_state (q_Consume A ch queue) w2 of
                  (Some err, w3) \<Rightarrow>
                    (case run_state (q_ChClose A ch) w3 of
                       (_, w4) \<Rightarrow>
                         Some (Some (Wrap (''failed to consume queue '' @ Quote queue @ '': '') err []), conn, w4))
                | (None, w3) \<Rightarrow>
                    (case delivery_loop A ch handler w3 of
                       None \<Rightarrow> None
                     | Some (r, w4) \<Rightarrow>
                         (case run_state (q_ChClose A ch) w4 of (_, w5) \<Rightarrow> Some (r, conn, w5))))))"

partial_function (option) consume_loop ::
  "('w, 'c, 'h) amqp \<Rightarrow> string \<Rightarrow> int \<Rightarrow> string
     \<Rightarrow> (notification_message \<Rightarrow> ('w, go_error option) state) \<Rightarrow> duration \<Rightarrow> 'c option \<Rightarrow> 'w
     \<Rightarrow> (go_error option \<times> 'c option \<times> 'w) option" where
  "consume_loop A url prefetch queue handler backoff conn w =
     (case consumeOnce A url prefetch queue handler conn w of
        None \<Rightarrow> None
      | Some (err, conn, w1) \<Rightarrow>
          (case run_state (q_ctxErr A) w1 of
             (Some _, w2) \<Rightarrow> Some (None, conn, w2)
           | (None, w2) \<Rightarrow>
               (case err of
                  None \<Rightarrow> consume_loop A url prefetch queue handler reconnectBackoff conn w2
                | Some e \<Rightarrow>
                    (case run_state (q_after A backoff) w2 of
                       (Some _, w3) \<Rightarrow> Some (None, conn, w3)
                     | (None, w3) \<Rightarrow>
                         consume_loop A url prefetch queue handler (next_wait backoff) conn w3))))"

text \<open>A nil handler is \<open>None\<close>.\<close>

definition rabbit_Consume ::
  "('w, 'c, 'h) amqp \<Rightarrow> rabbitmq_consumer option \<Rightarrow> string
     \<Rightarrow> (notification_message \<Rightarrow> ('w, go_error option) state) option \<Rightarrow> 'c option \<Rightarrow> 'w
     \<Rightarrow> (go_error option \<times> 'c option \<times> 'w) option" where
  "rabbit_Consume A c queue handler conn w =
     (case Option.bind c rc_client of
        None \<Rightarrow> Some (Some (ErrorString ''consumer is not initialized''), conn, w)
      | Some url \<Rightarrow>
          if queue = [] then Some (Some (ErrorString ''queue name is required''), conn, w)
          else case handler of
            None \<Rightarrow> Some (Some (ErrorString ''message handler is required''), conn, w)
          | Some h \<Rightarrow>
              consume_loop A url (rc_prefetch (the c)) queue h reconnectBackoff conn w)"

definition consumer_Close ::
  "('w, 'c, 'h) amqp \<Rightarrow> rabbitmq_consumer option \<Rightarrow> 'c option \<Rightarrow> 'w \<Rightarrow> go_error option \<times> 'c option \<times> 'w" where
  "consumer_Close A c conn w =
     (case Option.bind c rc_client of None \<Rightarrow> (None, conn, w) | Some url \<Rightarrow> rabbitmq_Close A conn w)"

declare reconnect_loop.simps [code] delivery_loop.simps [code] consume_loop.simps [code]

section \<open>From publisher to consumer\<close>

text \<open>
  C25: what is published is what is delivered. The body that \<open>Publish\<close> sends for a valid message is
  decoded by the consumer to the same message, which is valid again, so that it is handled and not
  rejected; ids that are not UTF-8 are excepted, their invalid bytes arrive as U+FFFD.
\<close>

theorem message_roundtrip:
  assumes "message_Validate m = None" and "valid_utf8 (msg_NotificationID m)" and "valid_utf8 (msg_CorrelationID m)"
  shows "\<exists>payload. message_Marshal m = Inr payload
    \<and> message_Unmarshal (pub_Body (make_publishing m now payload)) = Inr m
    \<and> handleDelivery ack \<lparr>d_Body = pub_Body (make_publishing m now payload), d_RoutingKey = key\<rparr> handler = do {
        handlerErr \<leftarrow> handler m;
        (case handlerErr of
           Some err \<Rightarrow> do {
             nackErr \<leftarrow> d_Nack ack False True;
             State_Monad.return (case nackErr of
                 Some e \<Rightarrow> Some (Wrap ''handler failed and nack failed: '' e [])
               | None \<Rightarrow> None)
           }
         | None \<Rightarrow> do {
             ackErr \<leftarrow> d_Ack ack False;
             State_Monad.return (case ackErr of
                 Some e \<Rightarrow> Some (Wrap ''failed to ack delivery: '' e [])
               | None \<Rightarrow> None)
           })
      }"
proof -
  obtain payload where payload: "message_Marshal m = Inr payload" by (simp add: message_Marshal_def)
  with message_roundtrip_valid [OF assms(1)] assms
  have "message_Unmarshal (pub_Body (make_publishing m now payload)) = Inr m"
    by (simp add: make_publishing_def sanitize_valid)
  with payload assms(1) show ?thesis by (simp add: handleDelivery_def)
qed

section \<open>Topology: properties\<close>

datatype amqp_declaration =
    DExchange string string bool bool bool bool
  | DQueue string bool bool bool bool "(string \<times> amqp_arg) list"
  | DBinding string string string bool

text \<open>\<open>declared w\<close> lists the successful declarations in order; one that reports an error may have
  reached the broker or not.\<close>

definition may_append :: "'x list \<Rightarrow> 'x \<Rightarrow> 'x list \<Rightarrow> go_error option \<Rightarrow> bool" where
  "may_append xs x xs' r \<longleftrightarrow> xs' = xs @ [x] \<or> r \<noteq> None \<and> xs' = xs"

locale topology_laws =
  fixes A :: "('w, 'c, 'h) amqp" and declared :: "'w \<Rightarrow> amqp_declaration list"
  assumes ExchangeDeclare_law: "wp (q_ExchangeDeclare A ch name kind durable auto internal nowait) (\<lambda>r w'.
        may_append (declared w) (DExchange name kind durable auto internal nowait) (declared w') r) w"
    and QueueDeclare_law: "wp (q_QueueDeclare A ch name durable auto exclusive nowait args) (\<lambda>r w'.
        may_append (declared w) (DQueue name durable auto exclusive nowait args) (declared w') r) w"
    and QueueBind_law: "wp (q_QueueBind A ch queue key exchange nowait) (\<lambda>r w'.
        may_append (declared w) (DBinding queue key exchange nowait) (declared w') r) w"

definition channel_declarations :: "channel \<Rightarrow> amqp_declaration list" where
  "channel_declarations c =
     [DQueue (DLQName c) True False False False [],
      DBinding (DLQName c) (channelRoutingKey c) dlxExchangeName False,
      DQueue (QueueName c) True False False False
        [(''x-dead-letter-exchange'', ArgString dlxExchangeName),
         (''x-dead-letter-routing-key'', ArgString (channelRoutingKey c)),
         (''x-max-priority'', ArgInt32 queueMaxPriority)]]"

definition topology :: "amqp_declaration list" where
  "topology = DExchange dlxExchangeName ''direct'' True False False False
     # concat (map channel_declarations supportedChannels)"

definition progress :: "'x list \<Rightarrow> 'x list \<Rightarrow> 'x list \<Rightarrow> go_error option \<Rightarrow> bool" where
  "progress xs l xs' r \<longleftrightarrow> (\<exists>pre post. l = pre @ post \<and> xs' = xs @ pre \<and> (r = None \<longrightarrow> post = []))"

lemma progress_append:
  assumes "progress xs l ys None" and "progress ys l' zs r"
  shows "progress xs (l @ l') zs r"
  using assms unfolding progress_def by force

lemma progress_more: "progress xs l ys (Some e) \<Longrightarrow> progress xs (l @ l') ys (Some e')"
  unfolding progress_def by auto

lemma progress_single: "may_append xs x xs' r \<Longrightarrow> progress xs [x] xs' r"
  by (cases r) (auto simp: may_append_def progress_def intro: exI [of _ "[x]"] exI [of _ "[]"])

context topology_laws
begin

lemma step_wp:
  assumes "wp m (\<lambda>r w'. progress (declared w) l (declared w') r) w"
    and "\<And>w'. wp n (\<lambda>r w''. progress (declared w') l' (declared w'') r) w'"
  shows "wp (do { e \<leftarrow> m; (case e of Some err \<Rightarrow> State_Monad.return (Some (g err)) | None \<Rightarrow> n) })
     (\<lambda>r w'. progress (declared w) (l @ l') (declared w') r) w"
  by (rule wp_bindI, rule wp_mono [OF assms(1)])
     (auto split: option.split intro: progress_more wp_mono [OF assms(2)] progress_append)

lemma last_wp:
  assumes "wp m (\<lambda>r w'. progress (declared w) l (declared w') r) w"
  shows "wp (do { e \<leftarrow> m; State_Monad.return (case e of Some err \<Rightarrow> Some (g err) | None \<Rightarrow> None) })
     (\<lambda>r w'. progress (declared w) l (declared w') r) w"
  by (rule wp_bindI, rule wp_mono [OF assms])
     (auto split: option.split intro: progress_more [where l' = "[]", simplified])

lemmas declare_steps =
  wp_mono [OF ExchangeDeclare_law progress_single] wp_mono [OF QueueDeclare_law progress_single]
  wp_mono [OF QueueBind_law progress_single]

lemma declare_channel_wp:
  "wp (declare_channel A ch c) (\<lambda>r w'. progress (declared w) (channel_declarations c) (declared w') r) w"
proof -
  have split: "channel_declarations c = [DQueue (DLQName c) True False False False []]
      @ [DBinding (DLQName c) (channelRoutingKey c) dlxExchangeName False]
      @ [DQueue (QueueName c) True False False False
        [(''x-dead-letter-exchange'', ArgString dlxExchangeName),
         (''x-dead-letter-routing-key'', ArgString (channelRoutingKey c)),
         (''x-max-priority'', ArgInt32 queueMaxPriority)]]"
    by (simp add: channel_declarations_def)
  show ?thesis
    unfolding declare_channel_def Let_def split
    by (intro step_wp last_wp declare_steps)
qed

lemma declare_channels_wp:
  "wp (declare_channels A ch cs) (\<lambda>r w'. progress (declared w) (concat (map channel_declarations cs)) (declared w') r) w"
proof (induction cs arbitrary: w)
  case Nil
  then show ?case by (simp add: progress_def)
next
  case (Cons c cs)
  show ?case
    unfolding declare_channels.simps list.map concat.simps
    by (rule step_wp [where g = "\<lambda>e. e", OF declare_channel_wp Cons.IH])
qed

lemma declareTopology_wp:
  "wp (declareTopology A ch) (\<lambda>r w'. progress (declared w) topology (declared w') r) w"
  unfolding declareTopology_def topology_def
  using step_wp [OF declare_steps(1) declare_channels_wp] by simp

end

text \<open>Where a broker with these declarations sends a message rejected on a queue.\<close>

definition dead_letter_queues :: "amqp_declaration list \<Rightarrow> string \<Rightarrow> string list" where
  "dead_letter_queues ds q =
     concat (map (\<lambda>d. case d of
       DQueue name _ _ _ _ args \<Rightarrow>
         (if name = q
          then (case (map_of args ''x-dead-letter-exchange'', map_of args ''x-dead-letter-routing-key'') of
              (Some (ArgString x), Some (ArgString k)) \<Rightarrow>
                concat (map (\<lambda>b. case b of DBinding bq bk bx _ \<Rightarrow> if bx = x \<and> bk = k then [bq] else [] | _ \<Rightarrow> []) ds)
            | _ \<Rightarrow> [])
          else [])
     | _ \<Rightarrow> []) ds)"

lemma channelRoutingKey_QueueName: "channelRoutingKey = QueueName"
  by (simp add: fun_eq_iff channelRoutingKey_def QueueName_def)

lemma dead_letters_stay_in_channel:
  "map (dead_letter_queues topology) WorkQueueNames = map (\<lambda>q. [q]) DLQNames"
  "map (dead_letter_queues topology) DLQNames = [[], [], []]"
  by (simp_all add: dead_letter_queues_def topology_def channel_declarations_def WorkQueueNames_def
      DLQNames_def DLQName_def supportedChannels_def channelRoutingKey_QueueName dlxExchangeName_def)

text \<open>
  C26: a successful \<open>declareTopology\<close> has declared the dead-letter exchange and then, for each
  channel, its dead-letter queue, the binding of that queue and the work queue, all durable; an
  error stops it after a prefix of these declarations. With the complete topology a message
  rejected on a work queue goes to the dead-letter queue of the same channel and to no other, and
  a message rejected on a dead-letter queue goes nowhere.
\<close>

theorem declareTopology_complete:
  assumes "topology_laws A declared" and "declared w = []"
  shows "wp (declareTopology A ch) (\<lambda>r w'. (\<exists>post. topology = declared w' @ post)
     \<and> (r = None \<longrightarrow> declared w' = topology
          \<and> map (dead_letter_queues (declared w')) WorkQueueNames = map (\<lambda>q. [q]) DLQNames
          \<and> map (dead_letter_queues (declared w')) DLQNames = [[], [], []])) w"
  using topology_laws.declareTopology_wp [OF assms(1), of ch w] assms(2)
  by (auto simp: progress_def dead_letters_stay_in_channel elim!: wp_mono)

section \<open>Connection: properties\<close>

text \<open>Rounds of the reconnection loop: \<open>failed_dials k\<close> follows \<open>k\<close> refused dials and undisturbed
  waits.\<close>

fun failed_dials ::
  "('w, 'c, 'h) amqp \<Rightarrow> string \<Rightarrow> nat \<Rightarrow> duration \<Rightarrow> 'w \<Rightarrow> (duration \<times> 'w) option" where
  "failed_dials A url 0 wait w = Some (wait, w)"
| "failed_dials A url (Suc k) wait w =
     (case run_state (q_Dial A url) w of
        (Inr _, _) \<Rightarrow> None
      | (Inl _, w1) \<Rightarrow>
          (case run_state (q_after A wait) w1 of
             (Some _, _) \<Rightarrow> None
           | (None, w2) \<Rightarrow> failed_dials A url k (next_wait wait) w2))"

definition dial_exit ::
  "('w, 'c, 'h) amqp \<Rightarrow> string \<Rightarrow> 'c option \<Rightarrow> duration \<Rightarrow> 'w \<Rightarrow> go_error option \<times> 'c option \<times> 'w \<Rightarrow> bool" where
  "dial_exit A url conn wait w y \<longleftrightarrow>
     (\<exists>c w1 u w2. run_state (q_Dial A url) w = (Inr c, w1) \<and> run_state (close_old A conn) w1 = (u, w2)
        \<and> y = (None, Some c, w2))
   \<or> (\<exists>e w1 ce w2. run_state (q_Dial A url) w = (Inl e, w1) \<and> run_state (q_after A wait) w1 = (Some ce, w2)
        \<and> y = (Some (Wrap ''rabbitmq reconnect canceled: '' ce []), conn, w2))"

lemma reconnect_loop_exit: "dial_exit A url conn wait w y \<Longrightarrow> reconnect_loop A url conn wait w = Some y"
  by (subst reconnect_loop.simps) (auto simp: dial_exit_def)

lemma reconnect_loop_rounds:
  "failed_dials A url k wait w = Some (wait', v) \<Longrightarrow>
     reconnect_loop A url conn wait w = reconnect_loop A url conn wait' v"
proof (induction A url k wait w rule: failed_dials.induct)
  case (2 A url k wait w)
  then obtain e w1 w2 where w: "run_state (q_Dial A url) w = (Inl e, w1)"
    "run_state (q_after A wait) w1 = (None, w2)" "failed_dials A url k (next_wait wait) w2 = Some (wait', v)"
    by (auto split: prod.splits sum.splits option.splits)
  then have "reconnect_loop A url conn (next_wait wait) w2 = reconnect_loop A url conn wait' v"
    by (intro 2(1)) auto
  with w show ?case by (subst reconnect_loop.simps) simp
qed simp

lemma reconnect_loop_Some:
  "reconnect_loop A url conn wait w = Some y \<Longrightarrow>
     \<exists>k wait' v. failed_dials A url k wait w = Some (wait', v) \<and> dial_exit A url conn wait' v y"
proof (rule reconnect_loop.raw_induct [where P = "\<lambda>A url conn wait w y.
    \<exists>k wait' v. failed_dials A url k wait w = Some (wait', v) \<and> dial_exit A url conn wait' v y"], goal_cases)
  case (1 loop A url conn wait w y)
  note IH = 1(2) and body = 1(3)
  obtain d w1 where d: "run_state (q_Dial A url) w = (d, w1)" by fastforce
  show ?case
  proof (cases "(\<exists>e. d = Inl e) \<and> fst (run_state (q_after A wait) w1) = None")
    case False
    with body d have "dial_exit A url conn wait w y"
      by (auto simp: dial_exit_def split: sum.splits prod.splits option.splits)
    then have "failed_dials A url 0 wait w = Some (wait, w) \<and> dial_exit A url conn wait w y" by simp
    then show ?thesis by blast
  next
    case True
    then obtain e w2 where w2: "d = Inl e" "run_state (q_after A wait) w1 = (None, w2)" by (metis prod.collapse)
    with d body have "loop A url conn (next_wait wait) w2 = Some y" by simp
    from IH [OF this] obtain k wait' v
      where "failed_dials A url k (next_wait wait) w2 = Some (wait', v)" "dial_exit A url conn wait' v y" by blast
    with w2 d have "failed_dials A url (Suc k) wait w = Some (wait', v) \<and> dial_exit A url conn wait' v y" by simp
    then show ?thesis by blast
  qed
next
  case 2
  then show ?case .
qed

lemma next_wait_eq: "0 < d \<Longrightarrow> d \<le> maxBackoff \<Longrightarrow> next_wait d = min maxBackoff (d * 2)"
  by (simp add: next_wait_def maxBackoff_def is_i64_def)

lemma wait_after:
  "failed_dials A url k d w = Some (d', v) \<Longrightarrow> 0 < d \<Longrightarrow> d \<le> maxBackoff \<Longrightarrow> d' = min maxBackoff (d * 2 ^ k)"
proof (induction A url k d w rule: failed_dials.induct)
  case (2 A url k d w)
  then obtain e w1 w2 where w: "run_state (q_Dial A url) w = (Inl e, w1)"
    "run_state (q_after A d) w1 = (None, w2)" "failed_dials A url k (next_wait d) w2 = Some (d', v)"
    by (auto split: prod.splits sum.splits option.splits)
  have nw: "0 < next_wait d" "next_wait d \<le> maxBackoff"
    using 2(3,4) by (simp_all add: next_wait_eq maxBackoff_def)
  have IH: "d' = min maxBackoff (next_wait d * 2 ^ k)"
    by (rule 2(1) [OF w(1) [symmetric] refl w(2) [symmetric] refl w(3) nw])
  have "maxBackoff \<le> d * (2 * 2 ^ k)" if "maxBackoff \<le> d * 2"
    by (rule order_trans [OF that]) (use 2(3) in simp)
  moreover have "maxBackoff \<le> maxBackoff * 2 ^ k" by (simp add: maxBackoff_def)
  ultimately show ?case
    using 2(3,4) IH by (auto simp: next_wait_eq min_def algebra_simps)
qed simp


end
