(* ===== verification/Broker.thy ===== *)
theory Broker
  imports RabbitMQ
begin

text \<open>
  What the RabbitMQ publisher promises. The locale \<open>broker_laws\<close> says which calls of the AMQP
  client hand a message to the broker (only \<open>PublishWithContext\<close>), that none of them touches the
  rest of the world the caller can observe (\<open>obs\<close>), and that their errors are not the sentinels of
  \<open>internal/domain\<close>. The lemmas follow a publication through connection, channel and topology;
  \<open>broker_publisher\<close> turns them into the contract the services rely on.
\<close>

locale broker_laws =
  fixes A :: "('w, 'c, 'h) amqp" and rt :: "'w runtime"
    and posted :: "'w \<Rightarrow> (string \<times> publishing) list" and obs :: "'w \<Rightarrow> 'o"
  assumes Dial_law: "tame (\<lambda>w. (posted w, obs w)) foreign_left (q_Dial A url)"
    and IsClosed_law: "keeps (\<lambda>w. (posted w, obs w)) (q_IsClosed A c)"
    and ConnClose_law: "keeps (\<lambda>w. (posted w, obs w)) (q_ConnClose A c)"
    and Channel_law: "tame (\<lambda>w. (posted w, obs w)) foreign_left (q_Channel A c)"
    and ChClose_law: "keeps (\<lambda>w. (posted w, obs w)) (q_ChClose A ch)"
    and Exchange_law: "tame (\<lambda>w. (posted w, obs w)) foreign_option (q_ExchangeDeclare A ch name kind d a i n)"
    and Queue_law: "tame (\<lambda>w. (posted w, obs w)) foreign_option (q_QueueDeclare A ch name d a e n args)"
    and Bind_law: "tame (\<lambda>w. (posted w, obs w)) foreign_option (q_QueueBind A ch name key x n)"
    and after_law: "tame (\<lambda>w. (posted w, obs w)) foreign_option (q_after A dur)"
    and now_law: "keeps (\<lambda>w. (posted w, obs w)) (time_Now rt)"
    and Publish_law: "wp (q_Publish A ch x key m i p) (\<lambda>r w'. obs w' = obs w \<and> foreign_option r
        \<and> may_append (posted w) (key, p) (posted w') r) w"
begin

abbreviation still :: "'w \<Rightarrow> 'w \<Rightarrow> bool" where
  "still w w' \<equiv> posted w' = posted w \<and> obs w' = obs w"

abbreviation quiet :: "('a \<Rightarrow> bool) \<Rightarrow> ('w, 'a) state \<Rightarrow> bool" where
  "quiet \<equiv> tame (\<lambda>w. (posted w, obs w))"

lemma run_quiet: "quiet good m \<Longrightarrow> run_state m w = (a, w') \<Longrightarrow> still w w' \<and> good a"
  by (drule (1) tameD) simp

lemma run_still: "keeps (\<lambda>w. (posted w, obs w)) m \<Longrightarrow> run_state m w = (a, w') \<Longrightarrow> still w w'"
  by (drule (1) keepsD) simp

lemma open_law: "keeps (\<lambda>w. (posted w, obs w)) (is_open A conn)"
  by (auto simp: is_open_def intro: IsClosed_law split: option.split)

lemma close_old_law: "keeps (\<lambda>w. (posted w, obs w)) (close_old A conn)"
  unfolding close_old_def by (auto intro!: keeps_bind open_law ConnClose_law)

lemma conn_Channel_law: "quiet foreign_left (conn_Channel A conn)"
  by (auto simp: conn_Channel_def nil_dereference_def intro: Channel_law split: option.split)

lemma declare_channel_law: "quiet foreign_option (declare_channel A ch c)"
  unfolding declare_channel_def Let_def
  by (rule tame_bind [OF Queue_law], auto intro!: tame_bind [OF Bind_law] tame_bind [OF Queue_law] split: option.split)

lemma declare_channels_law: "quiet foreign_option (declare_channels A ch cs)"
  by (induction cs) (auto intro!: tame_bind [OF declare_channel_law] split: option.split)

lemma declareTopology_law: "quiet foreign_option (declareTopology A ch)"
  unfolding declareTopology_def
  by (rule tame_bind [OF Exchange_law]) (auto intro: declare_channels_law split: option.split)

lemma failed_dials_still: "failed_dials A url k d w = Some (d', v) \<Longrightarrow> still w v"
proof (induction k arbitrary: d w)
  case (Suc k)
  then obtain e w1 w2 where w: "run_state (q_Dial A url) w = (Inl e, w1)"
    "run_state (q_after A d) w1 = (None, w2)" "failed_dials A url k (next_wait d) w2 = Some (d', v)"
    by (auto split: prod.splits sum.splits option.splits)
  with Suc.IH [OF w(3)] run_quiet [OF Dial_law w(1)] run_quiet [OF after_law w(2)] show ?case by simp
qed simp

lemma reconnect_loop_still:
  "reconnect_loop A url conn d w = Some (r, conn', w') \<Longrightarrow> still w w' \<and> foreign_option r"
  by (drule reconnect_loop_Some)
     (auto simp: dial_exit_def dest!: failed_dials_still run_quiet [OF Dial_law]
        run_quiet [OF after_law] run_still [OF close_old_law])

lemma reconnect_still:
  "reconnectWithBackoff A url conn w = Some (r, conn', w') \<Longrightarrow> still w w' \<and> foreign_option r"
  by (auto simp: reconnectWithBackoff_def split: prod.splits if_splits
      dest!: run_still [OF open_law] reconnect_loop_still)

lemma ensure_still: "ensureConnected A url conn w = Some (r, conn', w') \<Longrightarrow> still w w' \<and> foreign_option r"
  by (auto simp: ensureConnected_def split: prod.splits if_splits
      dest!: run_still [OF open_law] reconnect_still)

lemma with_topology_still: "with_topology A ch conn w = (r, conn', w') \<Longrightarrow> still w w' \<and> foreign_left r"
  by (auto simp: with_topology_def split: prod.splits option.splits
      dest!: run_quiet [OF declareTopology_law] run_still [OF ChClose_law])

lemma open_channel_still:
  "open_channel A url conn w = Some (r, conn', w') \<Longrightarrow> still w w' \<and> foreign_left r"
  by (auto simp: open_channel_def split: prod.splits option.splits sum.splits
      dest!: run_quiet [OF conn_Channel_law] reconnect_still with_topology_still)

lemma channel_still: "rabbitmq_channel A url conn w = Some (r, conn', w') \<Longrightarrow> still w w' \<and> foreign_left r"
  by (auto simp: rabbitmq_channel_def split: prod.splits option.splits if_splits
      dest!: ensure_still run_still [OF open_law] open_channel_still)

text \<open>The last step of \<open>Publish\<close>, on an open channel.\<close>

lemma publish_on_channel_wp:
  "wp (do {
         now \<leftarrow> time_Now rt;
         err \<leftarrow> q_Publish A ch x queue m i (make_publishing msg now payload);
         _ \<leftarrow> q_ChClose A ch;
         State_Monad.return (case err of Some e \<Rightarrow> Some (Wrap pre e post) | None \<Rightarrow> None)
       }) (\<lambda>r w'. obs w' = obs w \<and> foreign_option r
          \<and> (\<exists>now. may_append (posted w) (queue, make_publishing msg now payload) (posted w') r)) w"
  unfolding wp_bind wp_return
  by (rule keeps_wpI [OF now_law], rule wp_mono [OF Publish_law], rule keeps_wpI [OF ChClose_law])
     (auto simp: may_append_def split: option.splits)

lemma rabbit_Publish_wp:
  assumes "rabbit_Publish A rt client queue msg conn w = Some (r, conn', w')"
  shows "obs w' = obs w \<and> foreign_option r
    \<and> (posted w' = posted w \<and> r \<noteq> None
       \<or> client \<noteq> None \<and> queue \<noteq> [] \<and> message_Validate msg = None
         \<and> (\<exists>now payload. message_Marshal msg = Inr payload
              \<and> may_append (posted w) (queue, make_publishing msg now payload) (posted w') r))"
proof (cases "client = None \<or> queue = [] \<or> message_Validate msg \<noteq> None")
  case True
  with assms show ?thesis
    by (auto simp: rabbit_Publish_def message_Validate_def split: if_splits option.splits)
next
  case False
  then obtain url where url: "client = Some url" by auto
  show ?thesis
  proof (cases "message_Marshal msg")
    case (Inl e)
    then show ?thesis by (simp add: message_Marshal_def)
  next
    case payload: (Inr payload)
    obtain ch conn1 w1 where ch: "rabbitmq_channel A url conn w = Some (ch, conn1, w1)"
      using assms False url payload by (auto simp: rabbit_Publish_def split: option.splits)
    note still = channel_still [OF ch]
    show ?thesis
    proof (cases ch)
      case (Inl e)
      with assms False url payload ch still show ?thesis by (auto simp: rabbit_Publish_def)
    next
      case (Inr c)
      have "run_state (do {
         now \<leftarrow> time_Now rt;
         err \<leftarrow> q_Publish A c [] queue False False (make_publishing msg now payload);
         _ \<leftarrow> q_ChClose A c;
         State_Monad.return (case err of
             Some e \<Rightarrow> Some (Wrap (''failed to publish message to queue '' @ Quote queue @ '': '') e [])
           | None \<Rightarrow> None)
       }) w1 = (r, w')"
        using assms(1) False url payload ch Inr
        unfolding rabbit_Publish_def by (simp split: prod.splits)
      from wpD [OF publish_on_channel_wp this] still False url payload show ?thesis
        by auto
    qed
  qed
qed

end

section \<open>The publisher as a service sees it\<close>

text \<open>
  \<open>NewRabbitMQPublisher\<close> over a world that holds the connection of the client (\<open>get_conn\<close>,
  \<open>put_conn\<close>). A call whose context never ends and that never reaches the broker does not return;
  the publisher interface reports that as an exceeded deadline.
\<close>

definition NewRabbitMQPublisher ::
  "('w, 'c, 'h) amqp \<Rightarrow> 'w runtime
     \<Rightarrow> ('w \<Rightarrow> 'c option) \<Rightarrow> ('c option \<Rightarrow> 'w \<Rightarrow> 'w) \<Rightarrow> string option \<Rightarrow> 'w publisher" where
  "NewRabbitMQPublisher A rt get_conn put_conn client =
     \<lparr>pub_Publish = (\<lambda>queue msg. State (\<lambda>w.
        case rabbit_Publish A rt client queue msg (get_conn w) w of
          Some (r, conn, w') \<Rightarrow> (r, put_conn conn w')
        | None \<Rightarrow> (Some (Sentinel ContextDeadlineExceeded), w))),
      pub_Close = State (\<lambda>w. case publisher_Close A client (get_conn w) w of (r, conn, w') \<Rightarrow> (r, put_conn conn w'))\<rparr>"

text \<open>The message of a publication: the ids from its AMQP properties, the rest from its body.\<close>

definition published_message :: "publishing \<Rightarrow> notification_message" where
  "published_message p = (case message_Unmarshal (pub_Body p) of
     Inl e \<Rightarrow> zero_message
   | Inr m \<Rightarrow> m\<lparr>msg_NotificationID := pub_MessageId p, msg_CorrelationID := pub_CorrelationId p\<rparr>)"

lemma published_message_publishing:
  "message_Validate m = None \<Longrightarrow> message_Marshal m = Inr payload \<Longrightarrow> published_message (make_publishing m now payload) = m"
  using message_roundtrip_valid [of m payload] by (simp add: published_message_def make_publishing_def)

locale broker_publisher = broker_laws A rt posted obs
  for A :: "('w, 'c, 'h) amqp" and rt posted and obs :: "'w \<Rightarrow> 'o" +
  fixes get_conn :: "'w \<Rightarrow> 'c option" and put_conn :: "'c option \<Rightarrow> 'w \<Rightarrow> 'w"
  assumes put_conn_posted: "posted (put_conn c w) = posted w"
    and put_conn_obs: "obs (put_conn c w) = obs w"
begin

abbreviation published :: "'w \<Rightarrow> (string \<times> notification_message) list" where
  "published w \<equiv> map (map_prod id published_message) (posted w)"

lemma publisher_wp:
  "wp (pub_Publish (NewRabbitMQPublisher A rt get_conn put_conn client) q m) (\<lambda>r w'. obs w' = obs w \<and>
     (case r of
        None \<Rightarrow> published w' = published w @ [(q, m)]
      | Some e \<Rightarrow> foreign_error e \<and> (published w' = published w \<or> published w' = published w @ [(q, m)]))) w"
proof (cases "rabbit_Publish A rt client q m (get_conn w) w")
  case None
  then show ?thesis by (simp add: NewRabbitMQPublisher_def wp_def)
next
  case (Some y)
  then obtain r conn w' where y: "rabbit_Publish A rt client q m (get_conn w) w = Some (r, conn, w')"
    by (cases y) auto
  from rabbit_Publish_wp [OF y]
  show ?thesis
    by (auto simp: NewRabbitMQPublisher_def wp_def y put_conn_posted put_conn_obs may_append_def
        published_message_publishing split: option.splits)
qed

end

text \<open>
  C23: \<open>Publish\<close> hands the broker at most one message and touches nothing else the caller can
  observe. It succeeds only for an initialised publisher, a queue name and a valid message, and
  then exactly that message was sent, on the named queue, with the notification's id, correlation
  id and priority; a rejected message was never sent.
\<close>

theorem Publish_at_most_once:
  assumes "broker_laws A rt posted obs"
    and "rabbit_Publish A rt client queue msg conn w = Some (r, conn', w')"
  shows "obs w' = obs w
    \<and> (posted w' = posted w \<or> (\<exists>now payload. message_Marshal msg = Inr payload
         \<and> posted w' = posted w @ [(queue, make_publishing msg now payload)]))
    \<and> (r = None \<longrightarrow> client \<noteq> None \<and> queue \<noteq> [] \<and> message_Validate msg = None \<and> posted w' \<noteq> posted w)
    \<and> (message_Validate msg \<noteq> None \<longrightarrow> posted w' = posted w)"
  using broker_laws.rabbit_Publish_wp [OF assms] by (auto simp: may_append_def)

end
