(* ===== verification/Wiring.thy ===== *)
theory Wiring
  imports Notification_Service Worker_Service Scanners Broker
begin

text \<open>
  \<open>internal/config/config.go\<close> and the composition of the program in \<open>cmd/api/main.go\<close>:
  \<open>wireDependencies\<close> builds the repositories, the publisher and the consumer, the provider, the
  rate limiter and the four services on them. What the program does not implement itself (the
  database tables, the AMQP, Redis and HTTP clients, the clock) is the record
  \<open>externals\<close>.
\<close>

section \<open>Configuration\<close>

record config =
  DatabaseDSN :: string
  RabbitMQURL :: string
  RedisURL :: string
  WebhookSiteURL :: string
  RateLimitPerSec :: int
  WorkerConcurrency :: int
  RetryScanInterval :: duration
  RetryScanLimit :: int
  SchedulerScanInterval :: duration
  SchedulerScanLimit :: int
  APIPort :: int
  LogLevel :: string

text \<open>\<open>UnmarshalFromEnviron\<close> is the outcome of the environment parser.\<close>

definition config_Load :: "go_error + config \<Rightarrow> go_error + config" where
  "config_Load UnmarshalFromEnviron =
     (case UnmarshalFromEnviron of
        Inl err \<Rightarrow> Inl (Wrap ''failed to load config: '' err [])
      | Inr cfg \<Rightarrow> Inr cfg)"

section \<open>Dependencies\<close>

record ('w, 'c, 'h) externals =
  x_rt :: "'w runtime"
  x_notifications :: "('w, notification_model) gorm_table"
  x_batches :: "('w, batch_model) gorm_table"
  x_attempts :: "('w, attempt_model) gorm_table"
  x_amqp :: "('w, 'c, 'h) amqp"
  x_get_conn :: "'w \<Rightarrow> 'c option"
  x_put_conn :: "'c option \<Rightarrow> 'w \<Rightarrow> 'w"
  x_ParseRequestURI :: "string \<Rightarrow> go_error option"
  x_resty_New :: "'w resty_client"
  x_redis :: "'w redis_client option"
  x_fired :: "duration \<Rightarrow> ('w, go_error option) state"
  x_metrics :: "'w metrics"

record 'w app_dependencies =
  notificationRepo :: "'w notification_repository"
  batchRepo :: "'w batch_repository"
  attemptRepo :: "'w attempt_repository"
  app_publisher :: "'w publisher"
  app_consumer :: "'w consumer"
  notificationService :: "'w notification_service"
  workerService :: "'w worker_service"
  retryScanner :: "'w scanner"
  app_scheduler :: "'w scanner"
  app_provider :: "'w provider"
  app_rateLimiter :: "'w rate_limiter"

text \<open>The RabbitMQ consumer behind the \<open>Consumer\<close> interface.\<close>

definition consumer_of ::
  "('w, 'c, 'h) externals \<Rightarrow> rabbitmq_consumer \<Rightarrow> 'w consumer" where
  "consumer_of X c =
     \<lparr>con_Consume = (\<lambda>queue handler w.
        case rabbit_Consume (x_amqp X) (Some c) queue (Some handler) (x_get_conn X w) w of
          None \<Rightarrow> None
        | Some (r, conn, w') \<Rightarrow> Some (r, x_put_conn X conn w')),
      con_Close = State (\<lambda>w. case consumer_Close (x_amqp X) (Some c) (x_get_conn X w) w of
        (r, conn, w') \<Rightarrow> (r, x_put_conn X conn w'))\<rparr>"

definition wireDependencies ::
  "config \<Rightarrow> ('w, 'c, 'h) externals \<Rightarrow> go_error + 'w app_dependencies" where
  "wireDependencies cfg X =
     (let notificationRepo = NewGormNotificationRepo (x_rt X) (x_notifications X);
          batchRepo = NewGormBatchRepo (x_batches X);
          attemptRepo = NewGormAttemptRepo (x_attempts X);
          publisher = NewRabbitMQPublisher (x_amqp X) (x_rt X) (x_get_conn X) (x_put_conn X)
                        (Some (RabbitMQURL cfg));
          consumer = consumer_of X (NewRabbitMQConsumer (Some (RabbitMQURL cfg)) 1)
      in case NewNotificationService notificationRepo batchRepo publisher of
        Inl err \<Rightarrow> Inl (Wrap ''failed to initialize notification service: '' err [])
      | Inr service \<Rightarrow>
        (case NewWebhookSiteProvider (x_ParseRequestURI X) (x_resty_New X) (WebhookSiteURL cfg) of
           Inl err \<Rightarrow> Inl (Wrap ''failed to initialize provider client: '' err [])
         | Inr webhookProvider \<Rightarrow>
        (case NewRedisRateLimiter (time_Now (x_rt X)) (sleepWithContext (x_fired X)) (x_redis X) (RateLimitPerSec cfg) of
           Inl err \<Rightarrow> Inl (Wrap ''failed to initialize rate limiter: '' err [])
         | Inr redisRateLimiter \<Rightarrow>
        (case NewWorkerService (x_rt X) notificationRepo attemptRepo consumer (webhook_provider webhookProvider)
                (redis_limiter redisRateLimiter) (WorkerConcurrency cfg) of
           Inl err \<Rightarrow> Inl (Wrap ''failed to initialize worker service: '' err [])
         | Inr worker \<Rightarrow>
        (let worker = the (worker_SetMetrics (Some worker) (x_metrics X))
         in case NewRetryScanner notificationRepo publisher (RetryScanInterval cfg) (RetryScanLimit cfg) of
           Inl err \<Rightarrow> Inl (Wrap ''failed to initialize retry scanner: '' err [])
         | Inr retry \<Rightarrow>
        (case NewScheduler notificationRepo publisher (SchedulerScanInterval cfg) (SchedulerScanLimit cfg) of
           Inl err \<Rightarrow> Inl (Wrap ''failed to initialize scheduler: '' err [])
         | Inr scheduler \<Rightarrow>
             Inr \<lparr>notificationRepo = notificationRepo, batchRepo = batchRepo, attemptRepo = attemptRepo,
                  app_publisher = publisher, app_consumer = consumer, notificationService = service,
                  workerService = worker, retryScanner = retry, app_scheduler = scheduler,
                  app_provider = webhook_provider webhookProvider,
                  app_rateLimiter = redis_limiter redisRateLimiter\<rparr>))))))"

section \<open>What wiring yields\<close>

lemma wireDependencies_Inr:
  assumes "wireDependencies cfg X = Inr d"
  obtains p r where
    "NewWebhookSiteProvider (x_ParseRequestURI X) (x_resty_New X) (WebhookSiteURL cfg) = Inr p"
    "NewRedisRateLimiter (time_Now (x_rt X)) (sleepWithContext (x_fired X)) (x_redis X) (RateLimitPerSec cfg) = Inr r"
    "app_provider d = webhook_provider p" "app_rateLimiter d = redis_limiter r"
    "w_provider (workerService d) = webhook_provider p" "w_rateLimiter (workerService d) = redis_limiter r"
  using assms that unfolding wireDependencies_def Let_def
  by (auto simp: NewWorkerService_def worker_SetMetrics_def Let_def split: sum.splits)

lemma wireDependencies_fields:
  assumes "wireDependencies cfg X = Inr d"
  defines "repo \<equiv> NewGormNotificationRepo (x_rt X) (x_notifications X)"
    and "pub \<equiv> NewRabbitMQPublisher (x_amqp X) (x_rt X) (x_get_conn X) (x_put_conn X)
                 (Some (RabbitMQURL cfg))"
  shows "notificationService d = \<lparr>s_notifications = repo, s_batches = NewGormBatchRepo (x_batches X), s_publisher = pub\<rparr>"
    and "NewRetryScanner repo pub (RetryScanInterval cfg) (RetryScanLimit cfg) = Inr (retryScanner d)"
    and "NewScheduler repo pub (SchedulerScanInterval cfg) (SchedulerScanLimit cfg) = Inr (app_scheduler d)"
    and "w_notifications (workerService d) = repo" "w_attempts (workerService d) = NewGormAttemptRepo (x_attempts X)"
    and "w_metrics (workerService d) = x_metrics X" "w_now (workerService d) = time_Now (x_rt X)"
    and "w_randIntn (workerService d) = Some (rand_Intn (x_rt X))"
    and "w_concurrency (workerService d) = max 1 (WorkerConcurrency cfg)"
  using assms unfolding wireDependencies_def Let_def
  by (auto simp: NewWorkerService_def NewNotificationService_def worker_SetMetrics_def minWorkerConcurrency_def
      Let_def split: sum.splits)

end
