(* ===== verification/Table_Frame.thy ===== *)
theory Table_Frame
  imports Repository_Laws
begin

text \<open>
  What the statements on a table leave alone. When every statement on the underlying table keeps
  an observation \<open>obs\<close> of the rest of the world, so does every operation of the repository on it.
\<close>

locale table_frame =
  fixes db :: "('w, 'm) gorm_table" and obs :: "'w \<Rightarrow> 'o"
  assumes g_Create_frame: "keeps obs (g_Create db m)"
    and g_CreateInBatches_frame: "keeps obs (g_CreateInBatches db ms chunk)"
    and g_First_frame: "keeps obs (g_First db p)"
    and g_Update_frame: "keeps obs (g_Update db p f)"
    and g_Count_frame: "keeps obs (g_Count db p)"
    and g_Find_frame: "keeps obs (g_Find db p ord off lim)"
    and g_GroupCount_frame: "keeps obs (g_GroupCount db p col)"
begin

lemmas g_frames = g_Create_frame g_CreateInBatches_frame g_First_frame g_Update_frame g_Count_frame
  g_Find_frame g_GroupCount_frame

end

locale notification_frame = table_frame db obs
  for db :: "'w notifications_table" and obs :: "'w \<Rightarrow> 'o" +
  fixes rt :: "'w runtime"
  assumes clock_frame: "keeps obs (time_Now rt)"
begin

lemma nr_frames:
  "keeps obs (nr_Create (NewGormNotificationRepo rt db) on)"
  "keeps obs (nr_CreateBatch (NewGormNotificationRepo rt db) ons)"
  "keeps obs (nr_GetByID (NewGormNotificationRepo rt db) nid)"
  "keeps obs (nr_GetByIdempotencyKey (NewGormNotificationRepo rt db) key)"
  "keeps obs (nr_List (NewGormNotificationRepo rt db) params)"
  "keeps obs (nr_UpdateStatus (NewGormNotificationRepo rt db) nid st)"
  "keeps obs (nr_MarkQueuedIfAccepted (NewGormNotificationRepo rt db) nid)"
  "keeps obs (nr_UpdateStatusWithRetry (NewGormNotificationRepo rt db) nid st at)"
  "keeps obs (nr_Cancel (NewGormNotificationRepo rt db) nid)"
  "keeps obs (nr_LockForSending (NewGormNotificationRepo rt db) nid)"
  "keeps obs (nr_GetDueForSchedule (NewGormNotificationRepo rt db) limit)"
  "keeps obs (nr_GetDueForRetry (NewGormNotificationRepo rt db) limit)"
  "keeps obs (nr_ClearNextRetryAt (NewGormNotificationRepo rt db) nid)"
  "keeps obs (nr_SetProviderMessageID (NewGormNotificationRepo rt db) nid pmid)"
  "keeps obs (nr_GetBatchSummary (NewGormNotificationRepo rt db) bid)"
  unfolding NewGormNotificationRepo_def notification_repository.simps gorm_Create_def gorm_CreateBatch_def
    gorm_GetByID_def gorm_GetByIdempotencyKey_def gorm_List_def gorm_UpdateStatus_def
    gorm_MarkQueuedIfAccepted_def gorm_UpdateStatusWithRetry_def gorm_Cancel_def gorm_LockForSending_def
    gorm_GetDueForSchedule_def gorm_GetDueForRetry_def gorm_ClearNextRetryAt_def
    gorm_SetProviderMessageID_def gorm_GetBatchSummary_def Let_def
  by (auto intro!: keeps_bind g_frames clock_frame split: sum.split list.split)

end

lemma batch_frames:
  assumes "table_frame db obs"
  shows "keeps obs (br_Create (NewGormBatchRepo db) b)" "keeps obs (br_GetByID (NewGormBatchRepo db) k)"
    "keeps obs (br_UpdateStatus (NewGormBatchRepo db) k st)"
  unfolding NewGormBatchRepo_def batch_repository.simps gorm_batch_Create_def gorm_batch_GetByID_def
    gorm_batch_UpdateStatus_def
  by (auto intro!: keeps_bind table_frame.g_frames [OF assms])

lemma attempt_frames:
  assumes "table_frame db obs"
  shows "keeps obs (ar_Create (NewGormAttemptRepo db) a)" "keeps obs (ar_GetByNotificationID (NewGormAttemptRepo db) k)"
  unfolding NewGormAttemptRepo_def attempt_repository.simps gorm_attempt_Create_def
    gorm_attempt_GetByNotificationID_def
  by (auto intro!: keeps_bind table_frame.g_frames [OF assms])

section \<open>The laws of the batch repository\<close>

definition touch_batch :: "go_time \<Rightarrow> batch_model \<Rightarrow> batch_model" where
  "touch_batch s m = m\<lparr>bm_UpdatedAt := s\<rparr>"

definition stamped_batch :: "batch_model \<Rightarrow> batch_model \<Rightarrow> bool" where
  "stamped_batch m m' \<longleftrightarrow> (\<exists>c u. m' = m\<lparr>bm_CreatedAt := c, bm_UpdatedAt := u\<rparr>)"

definition model_to_batch :: "batch_model \<Rightarrow> batch" where
  "model_to_batch m = \<lparr>b_ID = bm_ID m, b_TotalCount = bm_TotalCount m, b_Status = bm_Status m,
     b_CreatedAt = bm_CreatedAt m, b_UpdatedAt = bm_UpdatedAt m\<rparr>"

definition batch_to_model :: "batch \<Rightarrow> batch_model" where
  "batch_to_model b = \<lparr>bm_ID = b_ID b, bm_TotalCount = b_TotalCount b, bm_Status = b_Status b,
     bm_CreatedAt = b_CreatedAt b, bm_UpdatedAt = b_UpdatedAt b\<rparr>"

definition domain_batches :: "(string \<rightharpoonup> batch_model) \<Rightarrow> (string \<rightharpoonup> batch)" where
  "domain_batches T = (\<lambda>k. map_option model_to_batch (T k))"

definition batch_stored :: "batch \<Rightarrow> batch \<Rightarrow> bool" where
  "batch_stored b b' \<longleftrightarrow> (\<exists>c u. b' = b\<lparr>b_CreatedAt := c, b_UpdatedAt := u\<rparr>)"

lemma batch_models_simps [simp]:
  "batchModelToDomain (Some m) = Some (model_to_batch m)" "batchModelToDomain None = None"
  "batchModelFromDomain (Some b) = Some (batch_to_model b)" "bm_ID (batch_to_model b) = b_ID b"
  by (simp_all add: batchModelToDomain_def batchModelFromDomain_def model_to_batch_def batch_to_model_def)

lemma batch_roundtrip [simp]: "model_to_batch (batch_to_model b) = b"
  by (simp add: model_to_batch_def batch_to_model_def)

lemma domain_batches_upd: "domain_batches (T(k \<mapsto> m)) = (domain_batches T)(k \<mapsto> model_to_batch m)"
  by (simp add: domain_batches_def fun_eq_iff)

lemma model_to_batch_upd:
  "model_to_batch (m\<lparr>bm_CreatedAt := c, bm_UpdatedAt := u\<rparr>) = (model_to_batch m)\<lparr>b_CreatedAt := c, b_UpdatedAt := u\<rparr>"
  "model_to_batch (m\<lparr>bm_Status := st, bm_UpdatedAt := u\<rparr>) = (model_to_batch m)\<lparr>b_Status := st, b_UpdatedAt := u\<rparr>"
  by (simp_all add: model_to_batch_def)

locale gorm_batches = gorm_table_laws db tbl bm_ID "\<lambda>_. None" touch_batch stamped_batch
  for db :: "('w, batch_model) gorm_table" and tbl
begin

abbreviation batches :: "'w \<Rightarrow> (string \<rightharpoonup> batch)" where
  "batches w \<equiv> domain_batches (tbl w)"

lemma inserted_batch:
  assumes "inserted bm_ID stamped_batch T (batch_to_model b) m' T'"
  shows "batch_stored b (model_to_batch m') \<and> domain_batches T' = (domain_batches T)(b_ID b \<mapsto> model_to_batch m')"
  using assms
  by (auto simp: inserted_def domain_batches_upd stamped_batch_def batch_stored_def model_to_batch_upd)
     blast

lemma batch_Create_law:
  "wp (br_Create (NewGormBatchRepo db) (Some b)) (\<lambda>r w'. case r of
       Inr None \<Rightarrow> False
     | Inr (Some b') \<Rightarrow> batch_stored b b' \<and> batches w' = (batches w)(b_ID b \<mapsto> b')
     | Inl e \<Rightarrow> foreign_error e
         \<and> (batches w' = batches w \<or> (\<exists>b'. batch_stored b b' \<and> batches w' = (batches w)(b_ID b \<mapsto> b')))) w"
  unfolding NewGormBatchRepo_def batch_repository.simps gorm_batch_Create_def wp_bind wp_return batch_models_simps
  by (rule wp_mono [OF create_law])
     (auto split: sum.splits option.splits if_splits dest!: inserted_batch)

lemma batch_GetByID_law:
  "wp (br_GetByID (NewGormBatchRepo db) k) (\<lambda>r w'. batches w' = batches w \<and> (case r of
       Inl e \<Rightarrow> if errors_Is e ErrNotFound then batches w k = None else foreign_error e
     | Inr b \<Rightarrow> batches w k = Some b)) w"
proof -
  have none: "tbl w k = None" if "row_keys (tbl w) (\<lambda>m. bm_ID m = k) = {}"
    using that by (cases "tbl w k") (auto simp: row_keys_def dest: keyed)
  have row: "tbl w (bm_ID m) = Some m" if "tbl w j = Some m" for j m
    using that by (auto dest: keyed)
  show ?thesis
    unfolding NewGormBatchRepo_def batch_repository.simps gorm_batch_GetByID_def wp_bind wp_return
    by (rule wp_mono [OF first_law])
       (auto split: sum.splits simp: foreign_error_def none domain_batches_def row)
qed

lemma batch_Update_law:
  "wp (br_UpdateStatus (NewGormBatchRepo db) k st) (\<lambda>r w'.
     let hit = (\<exists>b u. batches w k = Some b \<and> batches w' = (batches w)(k \<mapsto> b\<lparr>b_Status := st, b_UpdatedAt := u\<rparr>))
     in case r of
          None \<Rightarrow> hit
        | Some e \<Rightarrow> if errors_Is e ErrNotFound then batches w k = None \<and> batches w' = batches w
            else foreign_error e \<and> (batches w' = batches w \<or> hit)) w"
proof -
  have hit: "\<exists>b u. domain_batches T k = Some b \<and> domain_batches T' = (domain_batches T)(k \<mapsto> b\<lparr>b_Status := st, b_UpdatedAt := u\<rparr>)"
    if "T k = Some m" "T' = T(k \<mapsto> touch_batch t (m\<lparr>bm_Status := st\<rparr>))" for T T' m t
    using that
    by (intro exI [of _ "model_to_batch m"] exI [of _ t])
       (simp add: domain_batches_upd touch_batch_def model_to_batch_upd, simp add: domain_batches_def)
  have none: "domain_batches (tbl w) k = None" if "\<forall>m. tbl w k \<noteq> Some m"
    using that by (simp add: domain_batches_def)
  show ?thesis
    unfolding NewGormBatchRepo_def batch_repository.simps gorm_batch_UpdateStatus_def wp_bind wp_return Let_def
    by (rule wp_mono [OF update_by_id [where q = "\<lambda>_. True", simplified]])
       (auto simp: Let_def foreign_error_def none split: sum.splits if_splits dest!: hit)
qed

end

end
