(* ===== verification/Service_Correctness.thy ===== *)
theory Service_Correctness
  imports Notification_Service Scanners Table_Frame
begin

text \<open>
  What the notification service promises. The locale \<open>service_env\<close> collects the contracts of the
  notification repository, the batch repository, the publisher, the clock and the id generator;
  its lemmas follow \<open>Create\<close> and \<open>CreateBatch\<close> through every outcome.
\<close>

section \<open>Specification\<close>

text \<open>\<open>n'\<close> is the request \<open>n\<close> as \<open>prepareNotificationForCreate\<close> leaves it.\<close>

definition prepared :: "string option \<Rightarrow> notification \<Rightarrow> notification \<Rightarrow> bool" where
  "prepared batchID n n' \<longleftrightarrow>
     Recipient n' = TrimSpace (Recipient n) \<and> Content n' = TrimSpace (Content n)
   \<and> Channel n' = Channel n \<and> Priority n' = Priority n \<and> ScheduledAt n' = ScheduledAt n
   \<and> (TrimSpace (CorrelationID n) \<noteq> [] \<longrightarrow> CorrelationID n' = TrimSpace (CorrelationID n))
   \<and> (TrimSpace (ID n) \<noteq> [] \<longrightarrow> ID n' = TrimSpace (ID n))
   \<and> IdempotencyKey n' = normalizeOptionalString (IdempotencyKey n)
   \<and> BatchID n' = (case batchID of None \<Rightarrow> BatchID n | Some b \<Rightarrow> Some b)
   \<and> Status n' = StatusAccepted \<and> AttemptCount n' = 0
   \<and> MaxRetries n' = (if MaxRetries n \<le> 0 then 5 else MaxRetries n)
   \<and> ProviderMessageID n' = None \<and> NextRetryAt n' = None
   \<and> well_formed n'"

definition later_than :: "go_time \<Rightarrow> notification \<Rightarrow> bool" where
  "later_than now n \<longleftrightarrow> (\<exists>t. ScheduledAt n = Some t \<and> now < t)"

lemma shouldEnqueueImmediately_iff: "shouldEnqueueImmediately (ScheduledAt n) now \<longleftrightarrow> \<not> later_than now n"
  by (auto simp: shouldEnqueueImmediately_def later_than_def split: option.split)

lemma isUniqueViolationError_iff: "isUniqueViolationError (Some e) = duplicate_error e"
  by (auto simp: isUniqueViolationError_def duplicate_error_def Let_def)

text \<open>
  The outcome of \<open>Create\<close>, over the table before and after (\<open>R\<close>, \<open>R'\<close>) and what it published
  (\<open>l\<close>). A result is the replay of a known idempotency key, a notification stored for later, or a
  notification stored and queued.
\<close>

definition create_spec ::
  "notification \<Rightarrow> (string \<rightharpoonup> notification) \<Rightarrow> (string \<rightharpoonup> notification)
     \<Rightarrow> (string \<times> notification_message) list \<Rightarrow> go_error + notification \<Rightarrow> bool" where
  "create_spec n R R' l r \<longleftrightarrow>
     (case r of
        Inr n' \<Rightarrow>
          (R' = R \<and> l = [] \<and> R (ID n') = Some n'
             \<and> IdempotencyKey n' = normalizeOptionalString (IdempotencyKey n) \<and> IdempotencyKey n' \<noteq> None)
        \<or> (\<exists>now m. later_than now n \<and> prepared None n m \<and> n_inserted R m n' R' \<and> l = [])
        \<or> (\<exists>m m' u. prepared None n m \<and> n_stamped m m' \<and> R (ID m) = None \<and> n' = m'\<lparr>Status := StatusQueued\<rparr>
             \<and> R' = R(ID m \<mapsto> n'\<lparr>UpdatedAt := u\<rparr>) \<and> l = [envelope n'])
      | Inl e \<Rightarrow>
          if errors_Is e ErrValidation then R' = R \<and> l = []
          else (R' = R \<and> l = [])
            \<or> (\<exists>m m'. prepared None n m \<and> R (ID m) = None \<and> R' = R(ID m \<mapsto> m') \<and> ID m' = ID m
                 \<and> IdempotencyKey m' = IdempotencyKey m \<and> Status m' \<in> {StatusAccepted, StatusQueued, StatusFailed}
                 \<and> (l = [] \<or> l = [envelope m])))"

lemma n_stamped_sel:
  assumes "n_stamped n n'"
  shows "ID n' = ID n" "IdempotencyKey n' = IdempotencyKey n" "Status n' = Status n" "Channel n' = Channel n" "ScheduledAt n' = ScheduledAt n"
    "envelope n' = envelope n" "message_of n' = message_of n"
  using assms by (auto simp: n_stamped_def envelope_def message_of_def)

text \<open>The struct of a batch entry after a publishing loop in which nothing failed.\<close>

definition queue_now :: "go_time \<Rightarrow> notification \<Rightarrow> notification" where
  "queue_now now n = (if later_than now n then n else n\<lparr>Status := StatusQueued\<rparr>)"

lemma queue_now_ID [simp]: "ID (queue_now now n) = ID n"
  by (simp add: queue_now_def)

text \<open>
  The outcome of \<open>CreateBatch\<close>, over the notifications (\<open>R\<close>, \<open>R'\<close>), the batches (\<open>B\<close>, \<open>B'\<close>) and what
  it published (\<open>l\<close>).
\<close>

definition batch_completed ::
  "notification list \<Rightarrow> string \<Rightarrow> (string \<rightharpoonup> notification) \<Rightarrow> (string \<rightharpoonup> notification)
     \<Rightarrow> (string \<times> notification_message) list \<Rightarrow> notification list \<Rightarrow> bool" where
  "batch_completed ns bid R R' l cs \<longleftrightarrow>
     (\<exists>now ms ms'. list_all2 (prepared (Some bid)) ns ms \<and> list_all2 n_stamped ms ms'
        \<and> cs = map (queue_now now) ms' \<and> distinct (map ID cs)
        \<and> l = map envelope (filter (\<lambda>m. \<not> later_than now m) ms')
        \<and> (\<forall>c\<in>set cs. R (ID c) = None \<and> (\<exists>u. R' (ID c) = Some (c\<lparr>UpdatedAt := u\<rparr>))))"

definition batch_spec ::
  "notification list \<Rightarrow> (string \<rightharpoonup> notification) \<Rightarrow> (string \<rightharpoonup> notification) \<Rightarrow> (string \<rightharpoonup> batch) \<Rightarrow> (string \<rightharpoonup> batch)
     \<Rightarrow> (string \<times> notification_message) list \<Rightarrow> batch option \<times> notification list \<times> go_error option \<Rightarrow> bool" where
  "batch_spec ns R R' B B' l r \<longleftrightarrow>
     (\<forall>k. R k \<noteq> None \<longrightarrow> R' k = R k)
   \<and> (case r of
        (None, cs, err) \<Rightarrow> cs = []
          \<and> (case err of None \<Rightarrow> False
             | Some e \<Rightarrow> errors_Is e ErrValidation \<longrightarrow> R' = R \<and> B' = B \<and> l = [])
      | (Some b, cs, err) \<Rightarrow>
          1 \<le> length ns \<and> length ns \<le> 1000 \<and> b_TotalCount b = int (length ns) \<and> length cs = length ns
          \<and> (\<exists>u. B' = B(b_ID b \<mapsto> b\<lparr>b_UpdatedAt := u\<rparr>))
          \<and> (if err = None then b_Status b = BatchStatusCompleted \<and> batch_completed ns (b_ID b) R R' l cs
             else b_Status b = BatchStatusPartialFailure))"

lemma inserted_all_rows:
  assumes "n_inserted_all R ms ms' R'"
  shows "list_all2 n_stamped ms ms'" and "distinct (map ID ms')"
    and "\<And>m. m \<in> set ms' \<Longrightarrow> R (ID m) = None \<and> R' (ID m) = Some m"
    and "\<And>k. k \<notin> ID ` set ms' \<Longrightarrow> R' k = R k"
proof -
  have "list_all2 n_stamped ms ms' \<and> distinct (map ID ms')
    \<and> (\<forall>m\<in>set ms'. R (ID m) = None \<and> R' (ID m) = Some m) \<and> (\<forall>k. k \<notin> ID ` set ms' \<longrightarrow> R' k = R k)"
    using assms
  proof (induction ms arbitrary: R ms')
    case Nil
    then show ?case by (cases ms') auto
  next
    case (Cons m ms R ns')
    then obtain m' ms' T1 where ns': "ns' = m' # ms'" and T1: "n_inserted R m m' T1" "n_inserted_all T1 ms ms' R'"
      by (cases ns') auto
    note IH = Cons.IH [OF T1(2)]
    have T: "R (ID m) = None" "n_stamped m m'" "T1 = R(ID m' \<mapsto> m')" "ID m' = ID m"
      using T1(1) n_stamped_sel(1) [of m m'] by (auto simp: inserted_def)
    have new: "ID m' \<notin> ID ` set ms'" using IH T by auto
    have old: "R (ID x) = None" if "x \<in> set ms'" for x
      using IH T new that by (metis fun_upd_other image_eqI)
    show ?case unfolding ns' using IH T new old by auto
  qed
  then show "list_all2 n_stamped ms ms'" "distinct (map ID ms')"
    "\<And>m. m \<in> set ms' \<Longrightarrow> R (ID m) = None \<and> R' (ID m) = Some m"
    "\<And>k. k \<notin> ID ` set ms' \<Longrightarrow> R' k = R k" by blast+
qed

section \<open>What the service relies on\<close>

locale service_env = notification_repository_laws "s_notifications s" rows
  for s :: "'w notification_service" and rows :: "'w \<Rightarrow> (string \<rightharpoonup> notification)" +
  fixes rt :: "'w runtime"
    and published :: "'w \<Rightarrow> (string \<times> notification_message) list"
    and batches :: "'w \<Rightarrow> (string \<rightharpoonup> batch)"
  assumes Publish_law: "wp (pub_Publish (s_publisher s) q m) (\<lambda>r w'. rows w' = rows w \<and> batches w' = batches w \<and>
        (case r of None \<Rightarrow> published w' = published w @ [(q, m)]
         | Some e \<Rightarrow> foreign_error e \<and> (published w' = published w \<or> published w' = published w @ [(q, m)]))) w"
    and uuid_frame: "keeps (\<lambda>w. (rows w, published w, batches w)) (uuid_NewString rt)"
    and now_frame: "keeps (\<lambda>w. (rows w, published w, batches w)) (time_Now rt)"
    and Create_frame: "keeps (\<lambda>w. (published w, batches w)) (nr_Create (s_notifications s) on)"
    and CreateBatch_frame: "keeps (\<lambda>w. (published w, batches w)) (nr_CreateBatch (s_notifications s) ons)"
    and GetKey_frame: "keeps (\<lambda>w. (published w, batches w)) (nr_GetByIdempotencyKey (s_notifications s) key)"
    and Update_frame: "keeps (\<lambda>w. (published w, batches w)) (nr_UpdateStatus (s_notifications s) nid st)"
    and batch_Create_law: "wp (br_Create (s_batches s) (Some b)) (\<lambda>r w'. rows w' = rows w \<and> published w' = published w \<and>
        (case r of
           Inr None \<Rightarrow> False
         | Inr (Some b') \<Rightarrow> batch_stored b b' \<and> batches w' = (batches w)(b_ID b \<mapsto> b')
         | Inl e \<Rightarrow> foreign_error e
             \<and> (batches w' = batches w \<or> (\<exists>b'. batch_stored b b' \<and> batches w' = (batches w)(b_ID b \<mapsto> b'))))) w"
    and batch_Update_law: "wp (br_UpdateStatus (s_batches s) k st) (\<lambda>r w'. rows w' = rows w \<and> published w' = published w \<and>
        (case r of
           None \<Rightarrow> \<exists>b u. batches w k = Some b \<and> batches w' = (batches w)(k \<mapsto> b\<lparr>b_Status := st, b_UpdatedAt := u\<rparr>)
         | Some e \<Rightarrow> \<not> errors_Is e ErrValidation \<and> \<not> has_fiber e \<and> (batches w' = batches w
             \<or> (\<exists>b u. batches w k = Some b \<and> batches w' = (batches w)(k \<mapsto> b\<lparr>b_Status := st, b_UpdatedAt := u\<rparr>))))) w"
    and batch_Get_law: "wp (br_GetByID (s_batches s) k) (\<lambda>r w'. rows w' = rows w \<and> published w' = published w
        \<and> batches w' = batches w \<and> (case r of
           Inl e \<Rightarrow> if errors_Is e ErrNotFound then batches w k = None else foreign_error e
         | Inr b \<Rightarrow> batches w k = Some b)) w"
    and read_frames: "keeps (\<lambda>w. (published w, batches w)) (nr_GetByID (s_notifications s) nid)"
      "keeps (\<lambda>w. (published w, batches w)) (nr_List (s_notifications s) params)"
      "keeps (\<lambda>w. (published w, batches w)) (nr_GetBatchSummary (s_notifications s) bid)"
    and Cancel_frame: "keeps (\<lambda>w. (published w, batches w)) (nr_Cancel (s_notifications s) nid)"
begin

abbreviation same_but_rows :: "'w \<Rightarrow> 'w \<Rightarrow> bool" where
  "same_but_rows w w' \<equiv> published w' = published w \<and> batches w' = batches w"

lemma quiet: "keeps (\<lambda>w. (rows w, published w, batches w)) m \<Longrightarrow>
    (\<And>a w'. rows w' = rows w \<Longrightarrow> same_but_rows w w' \<Longrightarrow> Q a w') \<Longrightarrow> wp m Q w"
  by (rule keeps_wpI) auto

lemma framed:
  assumes "wp m P w" and "keeps (\<lambda>w. (published w, batches w)) m"
    and "\<And>a w'. P a w' \<Longrightarrow> same_but_rows w w' \<Longrightarrow> Q a w'"
  shows "wp m Q w"
  by (intro wpI assms(3)) (auto dest: wpD [OF assms(1)] keepsD [OF assms(2)])

lemmas UpdateStatus_use = framed [OF UpdateStatus_law Update_frame]
lemmas GetKey_use = framed [OF GetByIdempotencyKey_law GetKey_frame]

lemma uuid_or_wp:
  "wp (if x = [] then uuid_NewString rt else State_Monad.return x) (\<lambda>c w'. (x \<noteq> [] \<longrightarrow> c = x)
     \<and> rows w' = rows w \<and> same_but_rows w w') w"
  by (auto intro: quiet [OF uuid_frame])

lemma prepare_wp:
  "wp (prepareNotificationForCreate rt (Some n) batchID) (\<lambda>r w'.
     (case r of Inl e \<Rightarrow> errors_Is e ErrValidation | Inr n' \<Rightarrow> prepared batchID n n')
     \<and> rows w' = rows w \<and> same_but_rows w w') w"
  unfolding prepareNotificationForCreate_def Let_def option.case
proof (rule wp_bindI, rule wp_mono [OF uuid_or_wp], rule wp_bindI, rule wp_mono [OF uuid_or_wp], goal_cases)
  case (1 c v i v')
  then show ?case
    by (auto simp: prepared_def Validate_None defaultMaxRetries_def dest: Validate_Some split: option.splits)
qed

lemma update_created_wp:
  assumes v: "rows v = R(ID m \<mapsto> m')" "ID m' = ID m"
  shows "wp (nr_UpdateStatus (s_notifications s) (ID m') st) (\<lambda>r w'.
     (case r of
        None \<Rightarrow> \<exists>u. rows w' = R(ID m \<mapsto> m'\<lparr>Status := st, UpdatedAt := u\<rparr>)
      | Some e \<Rightarrow> \<not> errors_Is e ErrValidation
          \<and> (\<exists>m2. rows w' = R(ID m \<mapsto> m2) \<and> ID m2 = ID m \<and> IdempotencyKey m2 = IdempotencyKey m' \<and> Status m2 \<in> {Status m', st}))
     \<and> same_but_rows v w') v"
  by (rule UpdateStatus_use)
     (use v in \<open>auto simp: set_spec_def updated_row_def foreign_error_def split: option.splits if_splits\<close>)

lemma enqueue_created_wp:
  assumes "rows v = R(ID m \<mapsto> m')" and m: "R (ID m) = None" "n_stamped m m'" "prepared None n m"
  shows "wp (enqueue_created s rt m') (\<lambda>r w'. \<exists>l. published w' = published v @ l
     \<and> create_spec n R (rows w') l r \<and> batches w' = batches v) v"
proof -
  have m': "ID m' = ID m" "IdempotencyKey m' = IdempotencyKey m" "Status m' = StatusAccepted" "envelope m' = envelope m"
      "ScheduledAt m' = ScheduledAt n" "(QueueName (Channel m'), message_of m') = envelope m"
    using m n_stamped_sel [OF m(2)] by (auto simp: prepared_def envelope_def)
  have queued: "envelope (m'\<lparr>Status := StatusQueued\<rparr>) = envelope m"
    using m'(4) by (simp add: envelope_def message_of_def)
  show ?thesis
    unfolding enqueue_created_def
  proof (rule wp_bindI, rule quiet [OF now_frame], goal_cases)
    case (1 now v1)
    show ?case
    proof (cases "later_than now m'")
      case True
      then have "later_than now n" using m' by (simp add: later_than_def)
      with True 1 assms m' show ?thesis
        by (auto simp: shouldEnqueueImmediately_iff create_spec_def inserted_def)
    next
      case False
      then have now: "shouldEnqueueImmediately (ScheduledAt m') now"
        by (simp add: shouldEnqueueImmediately_iff)
      have failed: "create_spec n R R' l (Inl (Wrap pre e post))"
        if "\<not> errors_Is e ErrValidation" "R' = R(ID m \<mapsto> m2)" "ID m2 = ID m" "IdempotencyKey m2 = IdempotencyKey m"
          "Status m2 \<in> {StatusAccepted, StatusQueued, StatusFailed}" "l = [] \<or> l = [envelope m]" for R' l pre e post m2
        using that m unfolding create_spec_def by auto
      have marked: "create_spec n R (R(ID m \<mapsto> m'\<lparr>Status := StatusFailed, UpdatedAt := u\<rparr>)) l (Inl (Wrap pre e post))"
        if "\<not> errors_Is e ErrValidation" "l = [] \<or> l = [envelope m]" for u l pre e post
        by (rule failed [OF _ refl]) (use that m' in auto)
      have queued_ok: "create_spec n R R' [envelope m] (Inr (m'\<lparr>Status := StatusQueued\<rparr>))"
        if "R' = R(ID m \<mapsto> m'\<lparr>Status := StatusQueued, UpdatedAt := u\<rparr>)" for R' u
        using that m queued unfolding create_spec_def by auto
      show ?thesis
        using now
      proof (simp only: not_True_eq_False if_False, intro wp_bindI, intro wp_mono [OF Publish_law], goal_cases)
        case (1 p v2)
        then have v2: "rows v2 = R(ID m \<mapsto> m')" using \<open>rows v1 = rows v\<close> assms(1) by simp
        note upd = update_created_wp [OF v2 m'(1)]
        show ?case
        proof (cases p)
          case None
          show ?thesis
            unfolding None option.case
            by (rule wp_bindI, rule wp_mono [OF upd])
               (use 1 \<open>same_but_rows v v1\<close> m' None in \<open>auto split: option.splits intro: failed queued_ok\<close>)
        next
          case (Some e)
          show ?thesis
            unfolding Some option.case
            by (rule wp_bindI, rule wp_mono [OF upd])
               (use 1 \<open>same_but_rows v v1\<close> m' Some in \<open>auto simp: foreign_error_def split: option.splits intro: failed marked\<close>)
        qed
      qed
    qed
  qed
qed

lemma resolve_wp:
  assumes "prepared b n m"
  shows "wp (resolveIdempotencyConflict s e (IdempotencyKey m)) (\<lambda>r w'.
     (case r of
        Inr None \<Rightarrow> True
      | Inr (Some x) \<Rightarrow> duplicate_error e \<and> rows w (ID x) = Some x
          \<and> IdempotencyKey x = normalizeOptionalString (IdempotencyKey n) \<and> IdempotencyKey x \<noteq> None
      | Inl e' \<Rightarrow> duplicate_error e \<and> \<not> errors_Is e' ErrValidation)
     \<and> rows w' = rows w \<and> same_but_rows w w') w"
proof (cases "IdempotencyKey m")
  case None
  then show ?thesis by (simp add: resolveIdempotencyConflict_def)
next
  case (Some key)
  then have key: "normalizeOptionalString (IdempotencyKey n) = Some key" "TrimSpace key = key" "key \<noteq> []"
    using assms by (auto simp: prepared_def normalizeOptionalString_def Let_def TrimSpace_idem split: option.splits if_splits)
  show ?thesis
  proof (cases "duplicate_error e")
    case False
    with Some key show ?thesis by (simp add: resolveIdempotencyConflict_def isUniqueViolationError_iff)
  next
    case True
    have run: "resolveIdempotencyConflict s e (IdempotencyKey m) = do {
        r \<leftarrow> nr_GetByIdempotencyKey (s_notifications s) key;
        State_Monad.return (case r of
            Inl err \<Rightarrow> Inl (Wrap ''failed to load existing notification after idempotency conflict: '' err [])
          | Inr existing \<Rightarrow> Inr (Some existing)) }"
      using True Some key by (simp add: resolveIdempotencyConflict_def isUniqueViolationError_iff)
    show ?thesis
      unfolding run
      by (rule wp_bindI, rule GetKey_use)
         (use True key in \<open>auto simp: foreign_error_def split: sum.splits if_splits dest: errors_Is_unique\<close>)
  qed
qed

lemma Create_wp:
  "wp (service_Create s rt (Some n)) (\<lambda>r w'. \<exists>l. published w' = published w @ l
     \<and> create_spec n (rows w) (rows w') l r \<and> batches w' = batches w) w"
  unfolding service_Create_def
proof (rule wp_bindI, rule wp_mono [OF prepare_wp], goal_cases)
  case (1 prep v)
  show ?case
  proof (cases prep)
    case (Inl e)
    with 1 show ?thesis by (simp add: create_spec_def)
  next
    case (Inr m)
    with 1 have m: "prepared None n m" and v: "rows v = rows w" "same_but_rows w v" by auto
    have max: "MaxRetries m \<noteq> 0" using m by (auto simp: prepared_def split: if_splits)
    show ?thesis
      unfolding Inr sum.case
    proof (rule wp_bindI, rule framed [OF Create_law [OF max] Create_frame], goal_cases)
      case (1 r v1)
      show ?case
      proof (cases r)
        case (Inr stored)
        with 1 obtain m' where "stored = Some m'" and ins: "n_inserted (rows v) m m' (rows v1)"
          by (auto split: option.splits)
        then have "wp (enqueue_created s rt m') (\<lambda>r w'. \<exists>l. published w' = published v1 @ l
            \<and> create_spec n (rows w) (rows w') l r \<and> batches w' = batches v1) v1"
          by (intro enqueue_created_wp [where m = m]) (use ins v m in \<open>auto simp: inserted_def\<close>)
        then show ?thesis
          unfolding Inr sum.case \<open>stored = Some m'\<close> option.case
          by (rule wp_mono) (use 1 v in auto)
      next
        case (Inl e)
        have f: "foreign_error e" and cases: "if duplicate_error e then rows v1 = rows w
            else rows v1 = rows w \<or> (\<exists>m'. n_inserted (rows w) m m' (rows v1))"
          using 1 Inl v by (auto split: if_splits)
        have stay: "create_spec n (rows w) (rows v1) [] (Inl e)"
        proof (cases "rows v1 = rows w")
          case False
          with cases obtain m' where "n_stamped m m'" "rows w (ID m) = None" "rows v1 = (rows w)(ID m \<mapsto> m')"
            by (auto simp: inserted_def split: if_splits)
          moreover have "Status m = StatusAccepted" using m by (simp add: prepared_def)
          ultimately show ?thesis
            using m f n_stamped_sel [of m m'] unfolding create_spec_def foreign_error_def by auto
        qed (use f in \<open>simp add: create_spec_def foreign_error_def\<close>)
        show ?thesis
          unfolding Inl sum.case
        proof (rule wp_bindI, rule wp_mono [OF resolve_wp [OF m]], unfold wp_return, goal_cases)
          case (1 r v2)
          with stay cases \<open>same_but_rows v v1\<close> v show ?case
            by (auto simp: create_spec_def split: sum.splits option.splits)
        qed
      qed
    qed
  qed
qed

text \<open>One round, then the whole loop, of the publishing pass of a batch.\<close>

lemma enqueue_one_wp:
  assumes "rows v (ID m) = Some m"
  shows "wp (enqueue_one s now m) (\<lambda>r w'.
     (\<forall>k. k \<noteq> ID m \<longrightarrow> rows w' k = rows v k) \<and> batches w' = batches v \<and> ID (snd r) = ID m
     \<and> (\<exists>l. published w' = published v @ l)
     \<and> (\<not> fst r \<longrightarrow> snd r = queue_now now m \<and> (\<exists>u. rows w' (ID m) = Some ((snd r)\<lparr>UpdatedAt := u\<rparr>))
          \<and> published w' = published v @ (if later_than now m then [] else [envelope m]))) v"
proof (cases "later_than now m")
  case True
  with assms show ?thesis
    by (auto simp: enqueue_one_def shouldEnqueueImmediately_iff queue_now_def intro!: exI [of _ "UpdatedAt m"])
next
  case False
  have upd: "wp (nr_UpdateStatus (s_notifications s) (ID m) st) (\<lambda>r w'. (\<forall>k. k \<noteq> ID m \<longrightarrow> rows w' k = rows v k)
      \<and> (r = None \<longrightarrow> (\<exists>u. rows w' (ID m) = Some (m\<lparr>Status := st, UpdatedAt := u\<rparr>))) \<and> same_but_rows v1 w') v1"
    if "rows v1 = rows v" for v1 st
    by (rule UpdateStatus_use)
       (use that assms in \<open>auto simp: set_spec_def updated_row_def split: option.splits if_splits\<close>)
  show ?thesis
    unfolding enqueue_one_def shouldEnqueueImmediately_iff queue_now_def
    using False
  proof (simp del: wp_bind, intro wp_bindI, intro wp_mono [OF Publish_law], goal_cases)
    case (1 p v1)
    then have v1: "rows v1 = rows v" by simp
    note upd1 = upd [OF v1]
    show ?case
    proof (cases p)
      case None
      show ?thesis
        unfolding None option.case
      proof (rule wp_bindI, rule wp_mono [OF upd1], unfold wp_return, goal_cases)
        case (1 r w')
        with None \<open>rows v1 = rows v \<and> _\<close> show ?case
          by (cases r) (simp_all add: envelope_def)
      qed
    next
      case (Some e)
      show ?thesis
        unfolding Some option.case
        by (rule wp_bindI, rule wp_mono [OF upd1]) (use 1 Some in auto)
    qed
  qed
qed

lemma enqueue_all_wp:
  assumes "distinct (map ID ms)" and "\<And>m. m \<in> set ms \<Longrightarrow> rows v (ID m) = Some m"
  shows "wp (enqueue_all s now ms) (\<lambda>r w'.
     (\<forall>k. k \<notin> ID ` set ms \<longrightarrow> rows w' k = rows v k) \<and> batches w' = batches v \<and> map ID (snd r) = map ID ms
     \<and> (\<exists>l. published w' = published v @ l)
     \<and> (fst r = 0 \<longrightarrow> snd r = map (queue_now now) ms
          \<and> (\<forall>c\<in>set (snd r). \<exists>u. rows w' (ID c) = Some (c\<lparr>UpdatedAt := u\<rparr>))
          \<and> published w' = published v @ map envelope (filter (\<lambda>m. \<not> later_than now m) ms))) v"
  using assms
proof (induction ms arbitrary: v)
  case Nil
  then show ?case by simp
next
  case (Cons m ms)
  have row: "rows v (ID m) = Some m" using Cons.prems by simp
  show ?case
    unfolding enqueue_all.simps
  proof (rule wp_bindI, rule wp_mono [OF enqueue_one_wp [OF row]], goal_cases)
    case (1 r v1)
    have "ID x \<noteq> ID m" if "x \<in> set ms" for x
      using that Cons.prems(1) by (auto simp: image_iff)
    with 1 Cons.prems have due: "rows v1 (ID x) = Some x" if "x \<in> set ms" for x
      using that by simp
    have "distinct (map ID ms)" using Cons.prems by simp
    note IH = Cons.IH [OF this due]
    show ?case
      unfolding split_beta
    proof (rule wp_bindI, rule wp_mono [OF IH], goal_cases)
      case (2 r' w')
      have m: "ID m \<notin> ID ` set ms" using Cons.prems(1) by simp
      then have same: "rows w' (ID m) = rows v1 (ID m)" using 2 by blast
      have one: "ID (snd r) = ID m" "batches v1 = batches v" "\<exists>l. published v1 = published v @ l"
          "\<And>k. k \<noteq> ID m \<Longrightarrow> rows v1 k = rows v k"
        and one': "\<not> fst r \<Longrightarrow> snd r = queue_now now m" "\<not> fst r \<Longrightarrow> \<exists>u. rows v1 (ID m) = Some ((snd r)\<lparr>UpdatedAt := u\<rparr>)"
          "\<not> fst r \<Longrightarrow> published v1 = published v @ (if later_than now m then [] else [envelope m])"
        using 1 by blast+
      have rest: "map ID (snd r') = map ID ms" "batches w' = batches v1" "\<exists>l. published w' = published v1 @ l"
          "\<And>k. k \<notin> ID ` set ms \<Longrightarrow> rows w' k = rows v1 k"
        and rest': "fst r' = 0 \<Longrightarrow> snd r' = map (queue_now now) ms"
          "fst r' = 0 \<Longrightarrow> \<forall>c\<in>set (snd r'). \<exists>u. rows w' (ID c) = Some (c\<lparr>UpdatedAt := u\<rparr>)"
          "fst r' = 0 \<Longrightarrow> published w' = published v1 @ map envelope (filter (\<lambda>m. \<not> later_than now m) ms)"
        using 2 by blast+
      have ok: "\<not> fst r \<and> fst r' = 0" if "(if fst r then Suc (fst r') else fst r') = 0"
        using that by (simp split: if_splits)
      have all: "\<forall>c\<in>set (snd r # snd r'). \<exists>u. rows w' (ID c) = Some (c\<lparr>UpdatedAt := u\<rparr>)"
        if "\<not> fst r" "fst r' = 0"
        using rest'(2) [OF that(2)] one'(2) [OF that(1)] same one(1) by (metis set_ConsD)
      have prefix: "\<exists>l. published w' = published v @ l"
        using one(3) rest(3) by (metis append.assoc)
      show ?case
        unfolding wp_return fst_conv snd_conv
        by (intro conjI impI allI prefix) (use one one' rest rest' ok all in \<open>simp_all\<close>)
    qed
  qed
qed

lemma prepare_batch_wp:
  "wp (prepare_batch rt bid ns) (\<lambda>r w'.
     (case r of Inl e \<Rightarrow> errors_Is e ErrValidation | Inr ms \<Rightarrow> list_all2 (prepared (Some bid)) ns ms)
     \<and> rows w' = rows w \<and> same_but_rows w w') w"
proof (induction ns arbitrary: w)
  case Nil
  then show ?case by simp
next
  case (Cons n ns)
  show ?case
    unfolding prepare_batch.simps
  proof (rule wp_bindI, rule wp_mono [OF prepare_wp], goal_cases)
    case (1 r v)
    then show ?case
      by (cases r) (auto intro!: wp_mono [OF Cons.IH] split: sum.splits)
  qed
qed

abbreviation batch_post :: "notification list \<Rightarrow> 'w \<Rightarrow> batch option \<times> notification list \<times> go_error option \<Rightarrow> 'w \<Rightarrow> bool" where
  "batch_post ns w r w' \<equiv> \<exists>l. published w' = published w @ l
     \<and> batch_spec ns (rows w) (rows w') (batches w) (batches w') l r"

lemma batch_failed:
  assumes "\<not> errors_Is e ErrValidation" and "\<exists>l. published w' = published w @ l"
    and "\<And>k. rows w k \<noteq> None \<Longrightarrow> rows w' k = rows w k"
  shows "batch_post ns w (None, [], Some e) w'"
  using assms by (auto simp: batch_spec_def)

text \<open>The batch row is stored and so are the notifications: publish them and close the batch.\<close>

lemma close_batch_wp:
  assumes ns: "1 \<le> length ns" "length ns \<le> 1000"
    and prep: "list_all2 (prepared (Some bid)) ns ms" and ins: "n_inserted_all (rows w) ms ms' (rows v)"
    and b: "b_ID b = bid" "b_TotalCount b = int (length ns)"
    and v: "batches v = (batches w)(bid \<mapsto> b)" "published v = published w"
  shows "wp (do {
       now \<leftarrow> time_Now rt;
       (failed, created) \<leftarrow> enqueue_all s now ms';
       let batch = b\<lparr>b_Status := (if 0 < failed then BatchStatusPartialFailure else BatchStatusCompleted)\<rparr>;
       bu \<leftarrow> br_UpdateStatus (s_batches s) (b_ID batch) (b_Status batch);
       State_Monad.return (case bu of
           Some err \<Rightarrow> (None, [], Some err)
         | None \<Rightarrow> if 0 < failed
             then (Some batch, created, Some (ErrorString (msg failed created))) else (Some batch, created, None))
     }) (batch_post ns w) v"
proof (rule wp_bindI, rule quiet [OF now_frame], goal_cases)
  case (1 now v1)
  note rows_ins = inserted_all_rows [OF ins]
  have due: "rows v1 (ID m) = Some m" if "m \<in> set ms'" for m
    using 1 rows_ins(3) [OF that] by simp
  have len: "length ms' = length ns"
    using prep rows_ins(1) by (simp add: list_all2_lengthD)
  show ?case
    unfolding split_beta Let_def
  proof (rule wp_bindI, rule wp_mono [OF enqueue_all_wp [OF rows_ins(2) due]], assumption, goal_cases)
    case (1 r v2)
    obtain failed cs where r: "r = (failed, cs)" by (cases r)
    have ids: "map ID cs = map ID ms'" and other: "\<And>k. k \<notin> ID ` set ms' \<Longrightarrow> rows v2 k = rows v1 k"
      and bt: "batches v2 = batches v1" and pub: "\<exists>l. published v2 = published v1 @ l"
      using 1 r by auto
    have old: "rows v2 k = rows w k" if "rows w k \<noteq> None" for k
    proof -
      have "k \<notin> ID ` set ms'" using that rows_ins(3) by auto
      with other [of k] rows_ins(4) [of k] \<open>rows v1 = rows v\<close> show ?thesis by simp
    qed
    have completed: "batch_completed ns bid (rows w) (rows v2) (map envelope (filter (\<lambda>m. \<not> later_than now m) ms')) cs"
      if "failed = 0"
    proof -
      have "cs = map (queue_now now) ms'" "\<forall>c\<in>set cs. \<exists>u. rows v2 (ID c) = Some (c\<lparr>UpdatedAt := u\<rparr>)"
        using 1 r that by auto
      with prep rows_ins(1-3) show ?thesis
        unfolding batch_completed_def by (intro exI [of _ now] exI [of _ ms] exI [of _ ms']) (auto simp: comp_def)
    qed
    have bt': "batches v2 = (batches w)(bid \<mapsto> b)" and pub': "\<exists>l. published v2 = published w @ l"
      using bt pub v \<open>same_but_rows v v1\<close> by simp_all
    have pub0: "published v2 = published w @ map envelope (filter (\<lambda>m. \<not> later_than now m) ms')" if "failed = 0"
      using 1 r that v \<open>same_but_rows v v1\<close> by simp
    have len': "length cs = length ns" using ids len by (metis length_map)
    show ?case
      unfolding r fst_conv snd_conv
    proof (rule wp_bindI, rule wp_mono [OF batch_Update_law], unfold wp_return, goal_cases)
      case (1 bu w')
      then have rows': "rows w' = rows v2" and pub'': "published w' = published v2" by simp_all
      show ?case
      proof (cases bu)
        case (Some e)
        then show ?thesis
          unfolding Some option.case
          by (intro batch_failed) (use 1 Some rows' pub' pub'' old in simp_all)
      next
        case None
        with 1 b bt' obtain u where bw: "batches w' = (batches w)(bid \<mapsto> b\<lparr>b_Status :=
            (if 0 < failed then BatchStatusPartialFailure else BatchStatusCompleted), b_UpdatedAt := u\<rparr>)"
          by auto
        show ?thesis
        proof (cases "failed = 0")
          case True
          show ?thesis
            by (rule exI [of _ "map envelope (filter (\<lambda>m. \<not> later_than now m) ms')"])
               (use None True bw completed pub0 rows' pub'' old len' ns b in \<open>auto simp: batch_spec_def\<close>)
        next
          case False
          obtain l where "published v2 = published w @ l" using pub' ..
          then show ?thesis
            by (intro exI [of _ l])
               (use None False bw rows' pub'' old len' ns b in \<open>auto simp: batch_spec_def\<close>)
        qed
      qed
    qed
  qed
qed

lemma store_batch_wp:
  assumes ns: "1 \<le> length ns" "length ns \<le> 1000"
    and prep: "list_all2 (prepared (Some bid)) ns ms"
    and b: "b_ID b = bid" "b_TotalCount b = int (length ns)"
    and v: "rows v = rows w" "batches v = (batches w)(bid \<mapsto> b)" "published v = published w"
  shows "wp (do {
       nc \<leftarrow> nr_CreateBatch (s_notifications s) (map Some ms);
       (case nc of
          Inl err \<Rightarrow> do {
            _ \<leftarrow> br_UpdateStatus (s_batches s) (b_ID b) BatchStatusPartialFailure;
            State_Monad.return (None, [], Some err)
          }
        | Inr stored \<Rightarrow> do {
            now \<leftarrow> time_Now rt;
            (failed, created) \<leftarrow> enqueue_all s now (map2 (\<lambda>old new. case new of Some n \<Rightarrow> n | None \<Rightarrow> old) ms stored);
            bu \<leftarrow> br_UpdateStatus (s_batches s)
                   (b_ID (b\<lparr>b_Status := (if 0 < failed then BatchStatusPartialFailure else BatchStatusCompleted)\<rparr>))
                   (b_Status (b\<lparr>b_Status := (if 0 < failed then BatchStatusPartialFailure else BatchStatusCompleted)\<rparr>));
            State_Monad.return (case bu of
                Some err \<Rightarrow> (None, [], Some err)
              | None \<Rightarrow> if 0 < failed
                  then (Some (b\<lparr>b_Status := (if 0 < failed then BatchStatusPartialFailure else BatchStatusCompleted)\<rparr>),
                        created, Some (ErrorString (msg failed created)))
                  else (Some (b\<lparr>b_Status := (if 0 < failed then BatchStatusPartialFailure else BatchStatusCompleted)\<rparr>),
                        created, None))
          })
     }) (batch_post ns w) v"
proof -
  have max: "MaxRetries m \<noteq> 0" if "m \<in> set ms" for m
    using that prep by (auto simp: list_all2_conv_all_nth in_set_conv_nth prepared_def split: if_splits)
  show ?thesis
  proof (rule wp_bindI, rule framed [OF CreateBatch_law CreateBatch_frame], erule max, goal_cases)
    case (1 nc v1)
    show ?case
    proof (cases nc)
      case (Inl e)
      with 1 obtain j ms' where "n_inserted_all (rows v) (take j ms) ms' (rows v1)" and e: "foreign_error e"
        by auto
      note ins = inserted_all_rows [OF this(1)]
      have old: "rows v1 k = rows w k" if "rows w k \<noteq> None" for k
      proof -
        have "k \<notin> ID ` set ms'" using that ins(3) v(1) by auto
        with ins(4) v(1) show ?thesis by simp
      qed
      show ?thesis
        unfolding Inl sum.case
        by (rule wp_bindI, rule wp_mono [OF batch_Update_law], unfold wp_return, rule batch_failed)
           (use 1 v e old in \<open>simp_all add: foreign_error_def\<close>)
    next
      case (Inr rs)
      with 1 obtain ms' where rs: "rs = map Some ms'" and ins: "n_inserted_all (rows w) ms ms' (rows v1)"
        using v(1) by auto
      have "map2 (\<lambda>old new. case new of Some n \<Rightarrow> n | None \<Rightarrow> old) ms rs = ms'"
        using inserted_all_length [OF ins] unfolding rs by (auto intro: nth_equalityI)
      then show ?thesis
        unfolding Inr sum.case
        using close_batch_wp [OF ns prep ins b, where msg = msg] 1 v by (simp add: Let_def cong: if_cong)
    qed
  qed
qed

lemma CreateBatch_wp: "wp (service_CreateBatch s rt ns) (batch_post ns w) w"
proof (cases "1 \<le> length ns \<and> length ns \<le> 1000")
  case False
  then have "length ns = 0 \<or> maxBatchSize < length ns" unfolding maxBatchSize_def by linarith
  then show ?thesis
    by (auto simp: service_CreateBatch_def batch_spec_def)
next
  case True
  let ?b = "\<lambda>bid. \<lparr>b_ID = bid, b_TotalCount = int (length ns), b_Status = BatchStatusProcessing,
      b_CreatedAt = zero_time, b_UpdatedAt = zero_time\<rparr>"
  have size: "\<not> length ns = 0" "\<not> maxBatchSize < length ns" using True by (auto simp: maxBatchSize_def)
  show ?thesis
    unfolding service_CreateBatch_def if_not_P [OF size(1)] if_not_P [OF size(2)] Let_def
  proof (rule wp_bindI, rule quiet [OF uuid_frame], rule wp_bindI, rule wp_mono [OF prepare_batch_wp], goal_cases)
    case (1 bid v prep v1)
    then have v1: "rows v1 = rows w" "same_but_rows w v1" by simp_all
    show ?case
    proof (cases prep)
      case (Inl e)
      with 1 show ?thesis by (auto simp: batch_spec_def)
    next
      case (Inr ms)
      with 1 have prep: "list_all2 (prepared (Some bid)) ns ms" by simp
      show ?thesis
        unfolding Inr sum.case
      proof (rule wp_bindI, rule wp_mono [OF batch_Create_law], goal_cases)
        case (1 bc v2)
        then have v2: "rows v2 = rows w" "published v2 = published w" using v1 by simp_all
        show ?case
        proof (cases bc)
          case (Inl e)
          then show ?thesis
            unfolding Inl sum.case wp_return
            by (intro batch_failed) (use 1 Inl v2 in \<open>simp_all add: foreign_error_def\<close>)
        next
          case (Inr ob)
          with 1 obtain b where b: "ob = Some b" "batch_stored (?b bid) b" "batches v2 = (batches w)(bid \<mapsto> b)"
            using v1 by (auto split: option.splits)
          show ?thesis
            unfolding Inr sum.case b(1) option.case
            by (rule store_batch_wp [OF _ _ prep])
               (use True b v2 in \<open>auto simp: batch_stored_def\<close>)
        qed
      qed
    qed
  qed
qed

end


text \<open>
  C9: a second \<open>Create\<close> with an idempotency key that is already stored creates no row and
  publishes no message, and when it answers with a notification it is the stored one.
\<close>

theorem Create_idempotent:
  assumes "service_env s rows rt published batches"
    and x: "rows w k = Some x" "IdempotencyKey x = Some key"
    and n: "normalizeOptionalString (IdempotencyKey n) = Some key"
  shows "wp (service_Create s rt (Some n)) (\<lambda>r w'. rows w' = rows w \<and> published w' = published w
     \<and> (case r of Inr y \<Rightarrow> y = x | Inl e \<Rightarrow> True)) w"
proof (rule wp_mono [OF service_env.Create_wp [OF assms(1)]], elim exE conjE)
  fix r w' l
  assume l: "published w' = published w @ l" and spec: "create_spec n (rows w) (rows w') l r"
  note laws = service_env.axioms(1) [OF assms(1)]
  have clash: False if y: "rows w' = (rows w)(i \<mapsto> y)" "rows w i = None" "IdempotencyKey y = Some key" for i y
  proof -
    have "k \<noteq> i" using x y by auto
    moreover have "rows w' k = Some x" "rows w' i = Some y" using x y \<open>k \<noteq> i\<close> by simp_all
    ultimately show False
      using notification_repository_laws.rows_unique [OF laws _ _ x(2) y(3)] by blast
  qed
  have key: "IdempotencyKey m = Some key" if "prepared b n m" for b m
    using that n by (simp add: prepared_def)
  show "rows w' = rows w \<and> published w' = published w \<and> (case r of Inr y \<Rightarrow> y = x | Inl e \<Rightarrow> True)"
  proof (cases r)
    case (Inl e)
    with spec l show ?thesis
      by (auto simp: create_spec_def split: if_splits dest!: key dest: clash)
  next
    case (Inr y)
    have "y = x" if "rows w (ID y) = Some y" "IdempotencyKey y = Some key"
      using notification_repository_laws.rows_unique [OF laws that(1) x(1) that(2) x(2)] that(1) x(1) by simp
    with Inr spec l n show ?thesis
      by (auto simp: create_spec_def inserted_def n_stamped_sel dest!: key dest: clash n_stamped_sel(2))
  qed
qed


end
