(* ===== verification/System.thy ===== *)
theory System
  imports Wiring Service_Correctness
begin

text \<open>
  The wired program. The locale \<open>system_env\<close> states what the program relies on of its
  surroundings: the laws of the three tables, of the AMQP client, of the HTTP client, of the
  Prometheus gauges, and that none of these clients touches the state of another. From these laws
  alone, the services that \<open>wireDependencies\<close> builds satisfy the contracts under which they were
  verified: the sublocale declarations below are the refinement of the component contracts by the
  composed program.
\<close>

lemma keeps_weaken: "keeps obs m \<Longrightarrow> (\<And>v w. obs v = obs w \<Longrightarrow> obs' v = obs' w) \<Longrightarrow> keeps obs' m"
  unfolding keeps_def by blast

definition attempt_to_domain :: "attempt_model \<Rightarrow> notification_attempt" where
  "attempt_to_domain m = the (attemptModelToDomain (Some m))"

text \<open>
  The world is seen through six observations: the three tables (\<open>tbl\<close>, \<open>batch_tbl\<close> and the log of
  attempts \<open>attempt_log\<close>), the messages the broker received (\<open>posted\<close>), the requests the HTTP
  peer received (\<open>posts\<close>) and the gauges.
\<close>

locale system_env =
  notif: gorm_notifications "x_notifications X" tbl "x_rt X" +
  notif_frame: notification_frame "x_notifications X"
    "\<lambda>w. (batch_tbl w, attempt_log w, posted w, posts w, gauge w)" "x_rt X" +
  batch: gorm_batches "x_batches X" batch_tbl +
  batch_frame: table_frame "x_batches X" "\<lambda>w. (tbl w, attempt_log w, posted w, posts w, gauge w)" +
  attempt_frame: table_frame "x_attempts X" "\<lambda>w. (tbl w, batch_tbl w, posted w, posts w, gauge w)" +
  broker: broker_publisher "x_amqp X" "x_rt X" posted
    "\<lambda>w. (tbl w, batch_tbl w, attempt_log w, posts w, gauge w)"
    "x_get_conn X" "x_put_conn X"
  for X :: "('w, 'c, 'h) externals" and tbl batch_tbl
    and attempt_log :: "'w \<Rightarrow> attempt_model list"
    and posted :: "'w \<Rightarrow> (string \<times> publishing) list"
    and posts :: "'w \<Rightarrow> (string \<times> webhook_request) list"
    and gauge :: "'w \<Rightarrow> string \<Rightarrow> string list \<Rightarrow> int" +
  fixes cfg :: config and d :: "'w app_dependencies"
  assumes wired: "wireDependencies cfg X = Inr d"
    and attempt_create: "wp (g_Create (x_attempts X) (Some m)) (\<lambda>r w'. case r of
          Inr _ \<Rightarrow> \<exists>c. attempt_log w' = attempt_log w @ [m\<lparr>am_CreatedAt := c\<rparr>]
        | Inl e \<Rightarrow> attempt_log w' = attempt_log w \<or> (\<exists>c. attempt_log w' = attempt_log w @ [m\<lparr>am_CreatedAt := c\<rparr>])) w"
    and uuid_frame: "keeps (\<lambda>w. (tbl w, batch_tbl w, attempt_log w, posted w, posts w, gauge w)) (uuid_NewString (x_rt X))"
    and rand_frame: "keeps (\<lambda>w. (tbl w, batch_tbl w, attempt_log w, posted w, posts w, gauge w)) (rand_Intn (x_rt X) k)"
    and rand_range: "0 < k \<Longrightarrow> wp (rand_Intn (x_rt X) k) (\<lambda>i _. 0 \<le> i \<and> i < k) w"
    and redis_frame: "x_redis X = Some client \<Longrightarrow>
          keeps (\<lambda>w. (tbl w, batch_tbl w, attempt_log w, posted w, posts w, gauge w)) (client key window)"
    and fired_frame: "keeps (\<lambda>w. (tbl w, batch_tbl w, attempt_log w, posted w, posts w, gauge w)) (x_fired X dur)"
    and Post_law: "wp (rc_Post (x_resty_New X) url req) (\<lambda>_ w'. tbl w' = tbl w \<and> batch_tbl w' = batch_tbl w
          \<and> attempt_log w' = attempt_log w \<and> posted w' = posted w \<and> gauge w' = gauge w
          \<and> (\<exists>l. posts w' = posts w @ l \<and> length l \<le> 1)) w"
    and counter_frame: "x_metrics X = Some p \<Longrightarrow>
          keeps (\<lambda>w. (tbl w, batch_tbl w, attempt_log w, posted w, posts w, gauge w)) (pm_CounterInc p name labels)"
    and observe_frame: "x_metrics X = Some p \<Longrightarrow>
          keeps (\<lambda>w. (tbl w, batch_tbl w, attempt_log w, posted w, posts w, gauge w)) (pm_Observe p name labels dur)"
    and gauge_frame: "x_metrics X = Some p \<Longrightarrow>
          keeps (\<lambda>w. (tbl w, batch_tbl w, attempt_log w, posted w, posts w)) (pm_GaugeInc p name labels)"
      "x_metrics X = Some p \<Longrightarrow>
          keeps (\<lambda>w. (tbl w, batch_tbl w, attempt_log w, posted w, posts w)) (pm_GaugeDec p name labels)"
    and gauge_inc: "x_metrics X = Some p \<Longrightarrow> wp (pm_GaugeInc p name labels) (\<lambda>_ w'.
          gauge w' = (gauge w)(name := (gauge w name)(labels := gauge w name labels + 1))) w"
    and gauge_dec: "x_metrics X = Some p \<Longrightarrow> wp (pm_GaugeDec p name labels) (\<lambda>_ w'.
          gauge w' = (gauge w)(name := (gauge w name)(labels := gauge w name labels - 1))) w"
begin

abbreviation sys_rows :: "'w \<Rightarrow> (string \<rightharpoonup> notification)" where
  "sys_rows w \<equiv> domain_rows (tbl w)"

abbreviation sys_batches :: "'w \<Rightarrow> (string \<rightharpoonup> batch)" where
  "sys_batches w \<equiv> domain_batches (batch_tbl w)"

abbreviation sys_attempts :: "'w \<Rightarrow> notification_attempt list" where
  "sys_attempts w \<equiv> map attempt_to_domain (attempt_log w)"

abbreviation sys_published :: "'w \<Rightarrow> (string \<times> notification_message) list" where
  "sys_published w \<equiv> map (map_prod id published_message) (posted w)"

abbreviation everything where
  "everything w \<equiv> (tbl w, batch_tbl w, attempt_log w, posted w, posts w, gauge w)"

lemma everything_sub: "keeps everything m \<Longrightarrow> keeps (\<lambda>w. f (everything w)) m"
  by (erule keeps_weaken) simp

lemma now_frame: "keeps everything (time_Now (x_rt X))"
proof -
  have "tbl (snd (run_state (time_Now (x_rt X)) w)) = tbl w" for w
    using notif.clock_keeps_tbl by (simp add: keeps_def)
  with notif_frame.clock_frame show ?thesis by (simp add: keeps_def)
qed

lemmas service_fields = wireDependencies_fields [OF wired]

lemma sys_publish_wp:
  "wp (pub_Publish (NewRabbitMQPublisher (x_amqp X) (x_rt X) (x_get_conn X) (x_put_conn X) client) q m)
     (\<lambda>r w'. sys_rows w' = sys_rows w \<and> sys_batches w' = sys_batches w \<and> sys_attempts w' = sys_attempts w
        \<and> posts w' = posts w \<and> gauge w' = gauge w \<and>
        (case r of None \<Rightarrow> sys_published w' = sys_published w @ [(q, m)]
         | Some e \<Rightarrow> foreign_error e \<and> (sys_published w' = sys_published w
             \<or> sys_published w' = sys_published w @ [(q, m)]))) w"
  by (rule wp_mono [OF broker.publisher_wp]) auto

end

sublocale system_env \<subseteq> service: service_env "notificationService d" sys_rows "x_rt X" sys_published sys_batches
proof -
  have repo: "notification_repository_laws (s_notifications (notificationService d)) sys_rows"
    unfolding service_fields(1) notification_service.simps
    by (rule notif.gorm_repo.notification_repository_laws_axioms)
  show "service_env (notificationService d) sys_rows (x_rt X) sys_published sys_batches"
  proof (intro service_env.intro repo service_env_axioms.intro, unfold service_fields(1) notification_service.simps, goal_cases)
    case (1 q m w)
    show ?case by (rule wp_mono [OF sys_publish_wp]) auto
  next
    case 2
    show ?case by (rule keeps_weaken [OF uuid_frame]) simp
  next
    case 3
    show ?case by (rule keeps_weaken [OF now_frame]) simp
  next
    case (4 on)
    show ?case by (rule keeps_weaken [OF notif_frame.nr_frames(1)]) simp
  next
    case (5 ons)
    show ?case by (rule keeps_weaken [OF notif_frame.nr_frames(2)]) simp
  next
    case (6 key)
    show ?case by (rule keeps_weaken [OF notif_frame.nr_frames(4)]) simp
  next
    case (7 nid st)
    show ?case by (rule keeps_weaken [OF notif_frame.nr_frames(6)]) simp
  next
    case (8 b w)
    show ?case
      by (rule wp_mono [OF wp_conj [OF batch.batch_Create_law
              batch_frames(1) [OF batch_frame.table_frame_axioms, unfolded keeps_wp, rule_format]]])
         (auto split: sum.splits option.splits)
  next
    case (9 k st w)
    show ?case
      by (rule wp_mono [OF wp_conj [OF batch.batch_Update_law
              batch_frames(3) [OF batch_frame.table_frame_axioms, unfolded keeps_wp, rule_format]]])
         (auto simp: Let_def foreign_error_def errors_Is_no_fiber split: option.splits if_splits dest: errors_Is_unique)
  next
    case (10 k w)
    show ?case
      by (rule wp_mono [OF wp_conj [OF batch.batch_GetByID_law
              batch_frames(2) [OF batch_frame.table_frame_axioms, unfolded keeps_wp, rule_format]]])
         auto
  next
    case (11 nid)
    show ?case by (rule keeps_weaken [OF notif_frame.nr_frames(3)]) simp
  next
    case (12 params)
    show ?case by (rule keeps_weaken [OF notif_frame.nr_frames(5)]) simp
  next
    case (13 bid)
    show ?case by (rule keeps_weaken [OF notif_frame.nr_frames(15)]) simp
  next
    case (14 nid)
    show ?case by (rule keeps_weaken [OF notif_frame.nr_frames(9)]) simp
  qed
qed

context system_env
begin

lemma scanner_contract:
  assumes "sc_notifications s = NewGormNotificationRepo (x_rt X) (x_notifications X)"
    and "sc_publisher s = NewRabbitMQPublisher (x_amqp X) (x_rt X) (x_get_conn X) (x_put_conn X) client"
  shows "scanner_env s sys_rows sys_published"
proof (intro scanner_env.intro scanner_env_axioms.intro, unfold assms, goal_cases)
  case 1
  show ?case by (rule notif.gorm_repo.notification_repository_laws_axioms)
next
  case (2 q m w)
  show ?case by (rule wp_mono [OF sys_publish_wp]) (auto split: option.splits)
next
  case (3 limit)
  show ?case by (rule keeps_weaken [OF notif_frame.nr_frames(12)]) simp
next
  case (4 limit)
  show ?case by (rule keeps_weaken [OF notif_frame.nr_frames(11)]) simp
next
  case (5 k)
  show ?case by (rule keeps_weaken [OF notif_frame.nr_frames(13)]) simp
next
  case (6 k)
  show ?case by (rule keeps_weaken [OF notif_frame.nr_frames(7)]) simp
qed

end

sublocale system_env \<subseteq> retry: scanner_env "retryScanner d" sys_rows sys_published
  using NewRetryScanner_fields [OF service_fields(2)] by (blast intro: scanner_contract)

sublocale system_env \<subseteq> schedule: scanner_env "app_scheduler d" sys_rows sys_published
  using NewScheduler_fields [OF service_fields(3)] by (blast intro: scanner_contract)

section \<open>The worker\<close>

context system_env
begin

lemma webhook_client:
  assumes "NewWebhookSiteProvider (x_ParseRequestURI X) (x_resty_New X) url = Inr p"
  obtains c where "ws_client p = Some c" and "rc_Post c = rc_Post (x_resty_New X)"
  using assms
  by (auto simp: NewWebhookSiteProvider_def NewWebhookSiteProviderWithClient_def Let_def
      split: if_splits option.splits)

lemma Send_wp:
  assumes "NewWebhookSiteProvider (x_ParseRequestURI X) (x_resty_New X) url = Inr p"
  shows "wp (webhook_Send (Some p) n) (\<lambda>_ w'. tbl w' = tbl w \<and> batch_tbl w' = batch_tbl w
     \<and> attempt_log w' = attempt_log w \<and> posted w' = posted w \<and> gauge w' = gauge w
     \<and> (\<exists>l. posts w' = posts w @ l \<and> length l \<le> 1)) w"
proof -
  obtain c where c: "ws_client p = Some c" "rc_Post c = rc_Post (x_resty_New X)"
    by (rule webhook_client [OF assms])
  show ?thesis
    by (auto simp: webhook_Send_def c Let_def split: option.split sum.split
        intro!: wp_mono [OF Post_law])
qed

lemma limiter_frame:
  assumes "NewRedisRateLimiter (time_Now (x_rt X)) (sleepWithContext (x_fired X)) (x_redis X) limit = Inr r"
  shows "keeps everything (rl_Wait (redis_limiter r) ch)"
proof -
  have r: "r_now r = time_Now (x_rt X)" "r_sleep r = sleepWithContext (x_fired X)" "r_client r = x_redis X"
    using assms by (auto simp: NewRedisRateLimiter_def newRedisRateLimiter_def split: option.splits)
  show ?thesis
    by (intro redis_limiter_Wait_frame limiter_Allow_frame)
       (auto simp: r sleepWithContext_def intro: now_frame redis_frame fired_frame)
qed

lemma attempt_wp:
  "wp (ar_Create (NewGormAttemptRepo (x_attempts X)) (Some a)) (\<lambda>r w'. case r of
       Inr _ \<Rightarrow> \<exists>c. sys_attempts w' = sys_attempts w @ [a\<lparr>a_CreatedAt := c\<rparr>]
     | Inl _ \<Rightarrow> sys_attempts w' = sys_attempts w \<or> (\<exists>c. sys_attempts w' = sys_attempts w @ [a\<lparr>a_CreatedAt := c\<rparr>])) w"
proof -
  obtain m where m: "attemptModelFromDomain (Some a) = Some m"
    and undo: "\<And>c. attempt_to_domain (m\<lparr>am_CreatedAt := c\<rparr>) = a\<lparr>a_CreatedAt := c\<rparr>"
    by (simp add: attemptModelFromDomain_def attempt_to_domain_def attemptModelToDomain_def)
  show ?thesis
    unfolding NewGormAttemptRepo_def attempt_repository.simps gorm_attempt_Create_def wp_bind wp_return m
    by (rule wp_mono [OF attempt_create]) (auto simp: undo split: sum.splits)
qed

end

sublocale system_env \<subseteq> worker: worker_env "workerService d" sys_rows "x_rt X" posts sys_attempts gauge
proof -
  obtain p r where
    p: "NewWebhookSiteProvider (x_ParseRequestURI X) (x_resty_New X) (WebhookSiteURL cfg) = Inr p"
    and r: "NewRedisRateLimiter (time_Now (x_rt X)) (sleepWithContext (x_fired X)) (x_redis X) (RateLimitPerSec cfg) = Inr r"
    and wp_: "w_provider (workerService d) = webhook_provider p" "w_rateLimiter (workerService d) = redis_limiter r"
    by (rule wireDependencies_Inr [OF wired])
  note fields = service_fields(4-8) wp_
  have gauges: "wp m (\<lambda>_ w'. sys_rows w' = sys_rows w \<and> posts w' = posts w \<and> sys_attempts w' = sys_attempts w
      \<and> gauge w' = g) w"
    if "keeps (\<lambda>w. (tbl w, batch_tbl w, attempt_log w, posted w, posts w)) m" "wp m (\<lambda>_ w'. gauge w' = g) w"
    for m :: "('w, unit) state" and w g
    by (rule wp_mono [OF wp_conj [OF that(2) that(1) [unfolded keeps_wp, rule_format]]]) auto
  show "worker_env (workerService d) sys_rows (x_rt X) posts sys_attempts gauge"
  proof (intro worker_env.intro worker_env_axioms.intro, unfold fields, goal_cases)
    case 1
    show ?case by (rule notif.gorm_repo.notification_repository_laws_axioms)
  next
    case (2 nid)
    show ?case by (rule keeps_weaken [OF notif_frame.nr_frames(10)]) simp
  next
    case (3 nid st)
    show ?case by (rule keeps_weaken [OF notif_frame.nr_frames(6)]) simp
  next
    case (4 nid st at)
    show ?case by (rule keeps_weaken [OF notif_frame.nr_frames(8)]) simp
  next
    case (5 nid pmid)
    show ?case by (rule keeps_weaken [OF notif_frame.nr_frames(14)]) simp
  next
    case (6 ch)
    show ?case by (rule keeps_weaken [OF limiter_frame [OF r]]) simp
  next
    case 7
    show ?case by (rule keeps_weaken [OF now_frame]) simp
  next
    case 8
    show ?case by (rule keeps_weaken [OF uuid_frame]) simp
  next
    case (9 f k)
    then show ?case by (auto intro: keeps_weaken [OF rand_frame])
  next
    case (10 f k w)
    then show ?case by (auto intro: rand_range)
  next
    case (11 n w)
    show ?case
      by (simp add: webhook_provider_def, rule wp_mono [OF Send_wp [OF p]]) auto
  next
    case (12 a w)
    show ?case
      by (rule wp_mono [OF wp_conj [OF attempt_wp
              attempt_frames(1) [OF attempt_frame.table_frame_axioms, unfolded keeps_wp, rule_format]]])
         (auto split: sum.splits)
  next
    case (13 p name labels)
    then show ?case by (auto intro: keeps_weaken [OF counter_frame])
  next
    case (14 p name labels dur)
    then show ?case by (auto intro: keeps_weaken [OF observe_frame])
  next
    case (15 p name labels w)
    then show ?case by (intro gauges gauge_frame gauge_inc)
  next
    case (16 p name labels w)
    then show ?case by (intro gauges gauge_frame gauge_dec)
  qed
qed

section \<open>The rate limiter\<close>

locale system_redis = system_env X tbl batch_tbl attempt_log posted posts gauge cfg d
  for X :: "('w, 'c, 'h) externals" and tbl batch_tbl attempt_log posted posts gauge cfg d +
  fixes client :: "'w redis_client" and counter :: "'w \<Rightarrow> string \<Rightarrow> int"
    and expiry :: "'w \<Rightarrow> string \<Rightarrow> go_time" and time :: "'w \<Rightarrow> go_time"
  assumes redis: "x_redis X = Some client"
    and counter_nonneg: "0 \<le> counter w k"
    and clock_law: "wp (time_Now (x_rt X)) (\<lambda>n w'. time w \<le> n \<and> n \<le> time w'
          \<and> counter w' = counter w \<and> expiry w' = expiry w) w"
    and redis_law: "wp (client key window) (\<lambda>res w'. time w \<le> time w' \<and>
        (case res of
           Inr (Some v) \<Rightarrow> (\<exists>t. time w \<le> t \<and> t \<le> time w'
             \<and> incr_at (counter w) (expiry w) (counter w') (expiry w') t key window) \<and> v = counter w' key
         | _ \<Rightarrow> counter w' = counter w \<and> expiry w' = expiry w
             \<or> (\<exists>t. time w \<le> t \<and> t \<le> time w'
                  \<and> incr_at (counter w) (expiry w) (counter w') (expiry w') t key window))) w"
begin

abbreviation sys_limiter :: "'w redis_rate_limiter" where
  "sys_limiter \<equiv> \<lparr>r_client = Some client,
     r_limitPerSec = (if RateLimitPerSec cfg \<le> 0 then defaultLimitPerSec else RateLimitPerSec cfg),
     r_now = time_Now (x_rt X), r_sleep = sleepWithContext (x_fired X)\<rparr>"

lemma sys_limiter: "app_rateLimiter d = redis_limiter sys_limiter"
  by (rule wireDependencies_Inr [OF wired]) (auto simp: NewRedisRateLimiter_def newRedisRateLimiter_def redis)

end

sublocale system_redis \<subseteq> limiter: limiter_env sys_limiter client counter expiry time
  by unfold_locales (simp_all add: counter_nonneg clock_law redis_law)

section \<open>The wired program refines the contracts of its components\<close>

context system_env
begin

lemmas contracts = service.service_env_axioms worker.worker_env_axioms retry.scanner_env_axioms schedule.scanner_env_axioms

end

text \<open>
  C5: composition. Whenever the start-up wires the program and the tables, the broker, the HTTP
  client, Redis and the metrics keep the laws of \<open>system_env\<close>, each service of the wired program
  finds the surroundings it was verified in: the notification service, the worker, the retry
  scanner and the scheduler, over the same tables, messages, attempts and gauges.
\<close>

theorem system_refines_contracts:
  assumes "system_env X tbl batch_tbl attempt_log posted posts gauge cfg d"
  shows "wireDependencies cfg X = Inr d
    \<and> service_env (notificationService d) (\<lambda>w. domain_rows (tbl w)) (x_rt X)
        (\<lambda>w. map (map_prod id published_message) (posted w)) (\<lambda>w. domain_batches (batch_tbl w))
    \<and> worker_env (workerService d) (\<lambda>w. domain_rows (tbl w)) (x_rt X) posts
        (\<lambda>w. map attempt_to_domain (attempt_log w)) gauge
    \<and> scanner_env (retryScanner d) (\<lambda>w. domain_rows (tbl w)) (\<lambda>w. map (map_prod id published_message) (posted w))
    \<and> scanner_env (app_scheduler d) (\<lambda>w. domain_rows (tbl w)) (\<lambda>w. map (map_prod id published_message) (posted w))"
  using system_env.wired [OF assms] system_env.contracts [OF assms] by blast

end
