(* ===== verification/Memory_Table.thy ===== *)
theory Memory_Table
  imports Table_Frame
begin

text \<open>
  A table kept in memory, with every statement the repositories issue: a model of the laws of
  \<open>gorm_table_laws\<close>, which shows that they can hold together and gives the services something to
  run on. The rows are a list in some field of the world (\<open>get\<close>, \<open>put\<close>); a row that violates the
  primary key or the unique index of a later row is ignored, so the laws hold in every world.
\<close>

section \<open>Rows without conflicts\<close>

definition clash :: "('m \<Rightarrow> string) \<Rightarrow> ('m \<Rightarrow> string option) \<Rightarrow> 'm \<Rightarrow> 'm list \<Rightarrow> bool" where
  "clash key uniq m ms \<longleftrightarrow> list_ex (\<lambda>x. key x = key m \<or> uniq m \<noteq> None \<and> uniq x = uniq m) ms"

fun valid_rows :: "('m \<Rightarrow> string) \<Rightarrow> ('m \<Rightarrow> string option) \<Rightarrow> 'm list \<Rightarrow> 'm list" where
  "valid_rows key uniq [] = []"
| "valid_rows key uniq (m # ms) =
     (let rest = valid_rows key uniq ms in if clash key uniq m rest then rest else m # rest)"

fun conflict_free :: "('m \<Rightarrow> string) \<Rightarrow> ('m \<Rightarrow> string option) \<Rightarrow> 'm list \<Rightarrow> bool" where
  "conflict_free key uniq [] = True"
| "conflict_free key uniq (m # ms) \<longleftrightarrow> \<not> clash key uniq m ms \<and> conflict_free key uniq ms"

definition rows_map :: "('m \<Rightarrow> string) \<Rightarrow> 'm list \<Rightarrow> (string \<rightharpoonup> 'm)" where
  "rows_map key ms = map_of (map (\<lambda>m. (key m, m)) ms)"

section \<open>The statements\<close>

fun insert_rows ::
  "('m \<Rightarrow> string) \<Rightarrow> ('m \<Rightarrow> string option) \<Rightarrow> 'm list \<Rightarrow> 'm list \<Rightarrow> 'm list option" where
  "insert_rows key uniq rows [] = Some rows"
| "insert_rows key uniq rows (m # ms) =
     (if clash key uniq m rows then None else insert_rows key uniq (m # rows) ms)"

fun order_rows :: "'m sort_order \<Rightarrow> 'm list \<Rightarrow> 'm list" where
  "order_rows (ASC f) ms = sort_key f ms"
| "order_rows (DESC f) ms = sort_key (\<lambda>m. - f m) ms"

definition mem_table ::
  "('w \<Rightarrow> 'm list) \<Rightarrow> ('m list \<Rightarrow> 'w \<Rightarrow> 'w) \<Rightarrow> ('w \<Rightarrow> go_time) \<Rightarrow> ('m \<Rightarrow> string) \<Rightarrow> ('m \<Rightarrow> string option)
     \<Rightarrow> (go_time \<Rightarrow> 'm \<Rightarrow> 'm) \<Rightarrow> (go_time \<Rightarrow> 'm \<Rightarrow> 'm) \<Rightarrow> ('w, 'm) gorm_table" where
  "mem_table get put clock key uniq touch stamp =
     (let rows = (\<lambda>w. valid_rows key uniq (get w)) in
      \<lparr>g_Create = (\<lambda>m. State (\<lambda>w. case m of
           None \<Rightarrow> (Inl (ErrorString ''invalid value''), w)
         | Some m \<Rightarrow> if clash key uniq m (rows w) then (Inl (Sentinel GormErrDuplicatedKey), w)
             else (Inr (Some (stamp (clock w) m)), put (stamp (clock w) m # rows w) w))),
       g_CreateInBatches = (\<lambda>ms chunk. State (\<lambda>w.
         case insert_rows key uniq (rows w) (map (stamp (clock w)) ms) of
           None \<Rightarrow> (Inl (Sentinel GormErrDuplicatedKey), w)
         | Some rs \<Rightarrow> (Inr (map (stamp (clock w)) ms), put rs w))),
       g_First = (\<lambda>p. State (\<lambda>w. case filter p (rows w) of
           [] \<Rightarrow> (Inl (Sentinel GormErrRecordNotFound), w)
         | m # _ \<Rightarrow> (Inr m, w))),
       g_Update = (\<lambda>p f. State (\<lambda>w.
         let g = touch (clock w) \<circ> f in
         (Inr (map g (filter p (rows w))), put (map (\<lambda>m. if p m then g m else m) (rows w)) w))),
       g_Count = (\<lambda>p. State (\<lambda>w. (Inr (int (length (filter p (rows w)))), w))),
       g_Find = (\<lambda>p ord off lim. State (\<lambda>w. (Inr (page_of off lim (order_rows ord (filter p (rows w)))), w))),
       g_GroupCount = (\<lambda>p col. State (\<lambda>w.
         (Inr (map (\<lambda>v. (v, int (length (filter (\<lambda>m. p m \<and> col m = v) (rows w)))))
                 (remdups (map col (filter p (rows w))))), w)))\<rparr>)"

section \<open>Lemmas on rows\<close>

lemma valid_rows_conflict_free [simp]: "conflict_free key uniq (valid_rows key uniq ms)"
  by (induction ms) (auto simp: Let_def)

lemma valid_rows_id [simp]: "conflict_free key uniq ms \<Longrightarrow> valid_rows key uniq ms = ms"
  by (induction ms) (auto simp: Let_def)

lemma conflict_free_distinct: "conflict_free key uniq ms \<Longrightarrow> distinct (map key ms)"
  by (induction ms) (auto simp: clash_def list_ex_iff)

lemma conflict_free_unique:
  "conflict_free key uniq ms \<Longrightarrow> m \<in> set ms \<Longrightarrow> m' \<in> set ms \<Longrightarrow> uniq m = Some u \<Longrightarrow> uniq m' = Some u \<Longrightarrow> m = m'"
  by (induction ms) (auto simp: clash_def list_ex_iff)

lemma rows_map_Some:
  "distinct (map key ms) \<Longrightarrow> rows_map key ms k = Some m \<longleftrightarrow> m \<in> set ms \<and> key m = k"
  by (auto simp: rows_map_def map_of_eq_Some_iff comp_def)

lemma rows_map_None: "rows_map key ms k = None \<longleftrightarrow> k \<notin> key ` set ms"
  by (auto simp: rows_map_def map_of_eq_None_iff image_image)

lemma rows_map_Cons: "rows_map key (m # ms) = (rows_map key ms)(key m \<mapsto> m)"
  by (simp add: rows_map_def)

lemma clash_conflicts:
  assumes "conflict_free key uniq ms"
  shows "clash key uniq m ms \<longleftrightarrow> conflicts key uniq (rows_map key ms) m"
proof -
  have d: "distinct (map key ms)" using assms by (rule conflict_free_distinct)
  have "rows_map key ms (key m) \<noteq> None \<longleftrightarrow> (\<exists>x\<in>set ms. key x = key m)"
    by (auto simp: rows_map_None image_iff) (metis+)
  then show ?thesis
    by (auto simp: clash_def list_ex_iff conflicts_def rows_map_Some [OF d])
qed

lemma clash_map:
  assumes "\<And>m. key (g m) = key m" and "\<And>m. uniq (g m) = uniq m"
  shows "clash key uniq (g m) (map g ms) = clash key uniq m ms"
  by (simp add: clash_def list_ex_iff assms)

lemma conflict_free_map:
  assumes "\<And>m. key (g m) = key m" and "\<And>m. uniq (g m) = uniq m"
  shows "conflict_free key uniq (map g ms) = conflict_free key uniq ms"
  by (induction ms) (simp_all add: clash_map assms)

lemma rows_map_map:
  assumes "\<And>m. key (g m) = key m"
  shows "rows_map key (map g ms) = (\<lambda>k. map_option g (rows_map key ms k))"
  by (induction ms) (auto simp: rows_map_def assms)

lemma row_keys_rows_map:
  assumes "conflict_free key uniq ms"
  shows "row_keys (rows_map key ms) p = key ` set (filter p ms)"
  using conflict_free_distinct [OF assms] by (auto simp: row_keys_def rows_map_Some)

lemma distinct_keys_filter:
  "conflict_free key uniq ms \<Longrightarrow> distinct (map key (filter p ms))"
  by (simp add: conflict_free_distinct distinct_map_filter)

lemma listing_rows_map:
  assumes "conflict_free key uniq ms" and "set xs \<subseteq> set ms" and "distinct (map key xs)"
  shows "listing (rows_map key ms) (key ` set xs) xs"
proof -
  have "the (rows_map key ms (key x)) = x" if "x \<in> set xs" for x
    using that assms(2) rows_map_Some [OF conflict_free_distinct [OF assms(1)], of "key x" x] by auto
  then have "map (\<lambda>k. the (rows_map key ms k)) (map key xs) = xs"
    by (auto intro: map_idI)
  then show ?thesis
    using assms(3) unfolding listing_def by (intro exI [of _ "map key xs"]) simp
qed

lemma order_rows_set [simp]: "set (order_rows ord ms) = set ms"
  by (cases ord) auto

lemma order_rows_distinct: "distinct (map key ms) \<Longrightarrow> distinct (map key (order_rows ord ms))"
  by (cases ord) (simp_all add: distinct_map inj_on_def)

lemma order_rows_sorted: "sorted_wrt (sort_le ord) (order_rows ord ms)"
proof (cases ord)
  case (ASC f)
  have "sorted_wrt (\<lambda>x y. f x \<le> f y) (sort_key f ms)"
    using sorted_sort_key [of f ms] by (simp add: sorted_wrt_map)
  moreover have "sort_le (ASC f) = (\<lambda>x y. f x \<le> f y)" by (simp add: fun_eq_iff)
  ultimately show ?thesis by (simp add: ASC)
next
  case (DESC f)
  have "sorted_wrt (\<lambda>x y. - f x \<le> - f y) (sort_key (\<lambda>m. - f m) ms)"
    using sorted_sort_key [of "\<lambda>m. - f m" ms] by (simp only: sorted_wrt_map)
  moreover have "sort_le (DESC f) = (\<lambda>x y. - f x \<le> - f y)" by (simp add: fun_eq_iff)
  ultimately show ?thesis by (simp add: DESC)
qed

lemma insert_rows_inserted:
  assumes "conflict_free key uniq rows" and "insert_rows key uniq rows (map g ms) = Some rs"
    and "\<And>m. key (g m) = key m" and "\<And>m. stamped m (g m)"
  shows "conflict_free key uniq rs
    \<and> inserted_all key stamped (rows_map key rows) ms (map g ms) (rows_map key rs)"
  using assms(1,2)
proof (induction ms arbitrary: rows)
  case Nil
  then show ?case by simp
next
  case (Cons m ms)
  then have no: "\<not> clash key uniq (g m) rows" and rest: "insert_rows key uniq (g m # rows) (map g ms) = Some rs"
    by (auto split: if_splits)
  have "rows_map key rows (key m) = None"
    using no assms(3) by (auto simp: rows_map_None clash_def list_ex_iff)
  then have "inserted key stamped (rows_map key rows) m (g m) (rows_map key (g m # rows))"
    using assms(3,4) by (simp add: inserted_def rows_map_Cons)
  with Cons.IH [OF _ rest] Cons.prems no show ?case by auto
qed

section \<open>The laws hold\<close>

locale mem_lens =
  fixes get :: "'w \<Rightarrow> 'm list" and put :: "'m list \<Rightarrow> 'w \<Rightarrow> 'w" and clock :: "'w \<Rightarrow> go_time"
    and key :: "'m \<Rightarrow> string" and uniq :: "'m \<Rightarrow> string option"
    and touch :: "go_time \<Rightarrow> 'm \<Rightarrow> 'm" and stamp :: "go_time \<Rightarrow> 'm \<Rightarrow> 'm" and stamped :: "'m \<Rightarrow> 'm \<Rightarrow> bool"
  assumes get_put: "get (put ms w) = ms"
    and touch_key: "key (touch t m) = key m" and touch_uniq: "uniq (touch t m) = uniq m"
    and stamp_key: "key (stamp t m) = key m" and stamp_uniq: "uniq (stamp t m) = uniq m"
    and stamp_stamped: "stamped m (stamp t m)"
begin

abbreviation mem_tbl :: "'w \<Rightarrow> (string \<rightharpoonup> 'm)" where
  "mem_tbl w \<equiv> rows_map key (valid_rows key uniq (get w))"

lemma clash_stamp: "clash key uniq (stamp t m) ms = clash key uniq m ms"
  by (simp add: clash_def stamp_key stamp_uniq)

lemma not_duplicate: "foreign_error (Sentinel GormErrDuplicatedKey) \<and> duplicate_error (Sentinel GormErrDuplicatedKey)"
    "foreign_error (Sentinel GormErrRecordNotFound)"
  by (simp_all add: foreign_error_def duplicate_error_def)

lemma mem_keys: "row_keys (mem_tbl w) p = key ` set (filter p (valid_rows key uniq (get w)))"
  by (rule row_keys_rows_map [OF valid_rows_conflict_free])

lemma mem_row: "mem_tbl w k = Some m \<longleftrightarrow> m \<in> set (valid_rows key uniq (get w)) \<and> key m = k"
  by (rule rows_map_Some [OF conflict_free_distinct [OF valid_rows_conflict_free]])

lemma mem_distinct: "distinct (map key (filter p (valid_rows key uniq (get w))))"
  by (rule distinct_keys_filter [OF valid_rows_conflict_free])

lemma mem_update:
  assumes "\<And>m. key (f m) = key m" and "\<And>m. uniq (f m) = uniq m"
  shows "conflict_free key uniq (map (\<lambda>m. if p m then (touch t \<circ> f) m else m) (valid_rows key uniq (get w)))"
    and "rows_map key (map (\<lambda>m. if p m then (touch t \<circ> f) m else m) (valid_rows key uniq (get w)))
       = update_rows p (touch t \<circ> f) (mem_tbl w)"
  by (simp_all add: conflict_free_map rows_map_map update_rows_def touch_key touch_uniq assms)

end

sublocale mem_lens \<subseteq> mem: gorm_table_laws "mem_table get put clock key uniq touch stamp" mem_tbl key uniq touch stamped
proof (unfold_locales, goal_cases)
  case (1 w k m)
  then show ?case by (simp add: mem_row)
next
  case (2 w)
  then show ?case by (simp add: rows_map_def finite_dom_map_of)
next
  case (3 w k m k' m' u)
  then show ?case
    using conflict_free_unique [OF valid_rows_conflict_free, of m key uniq "get w" m' u]
    by (auto simp: mem_row)
next
  case (4 m w)
  have "rows_map key (valid_rows key uniq (get w)) (key m) = None" if "\<not> clash key uniq m (valid_rows key uniq (get w))"
    using that by (auto simp: rows_map_None clash_def list_ex_iff)
  then show ?case
    using clash_conflicts [of key uniq "valid_rows key uniq (get w)" m]
    by (auto simp: mem_table_def wp_def not_duplicate inserted_def get_put clash_stamp rows_map_Cons stamp_key stamp_stamped)
next
  case (5 chunk ms w)
  have ok: "conflict_free key uniq rs \<and> inserted_all key stamped (mem_tbl w) ms (map (stamp (clock w)) ms) (rows_map key rs)"
    if "insert_rows key uniq (valid_rows key uniq (get w)) (map (stamp (clock w)) ms) = Some rs" for rs
    by (rule insert_rows_inserted [where g = "stamp (clock w)"])
       (use that in \<open>simp_all add: stamp_key stamp_stamped\<close>)
  have none: "\<exists>j ms'. inserted_all key stamped T (take j ms) ms' T" for T
    by (rule exI [of _ 0], rule exI [of _ "[]"]) simp
  show ?case
    by (auto simp: mem_table_def wp_def not_duplicate get_put none split: option.splits dest: ok)
next
  case (6 p w)
  show ?case
    by (auto simp: mem_table_def wp_def not_duplicate mem_keys mem_row split: list.splits dest: filter_eq_ConsD)
next
  case (7 f p w)
  let ?rows = "valid_rows key uniq (get w)" and ?g = "touch (clock w) \<circ> f"
  let ?h = "\<lambda>m. if p m then ?g m else m"
  note upd = mem_update [OF 7, of p "clock w" w]
  have eq: "map ?g (filter p ?rows) = map ?h (filter p ?rows)" by simp
  have sub: "set (map ?h (filter p ?rows)) \<subseteq> set (map ?h ?rows)" by auto
  have dist: "distinct (map key (map ?h (filter p ?rows)))"
  proof -
    have "key (?h m) = key m" for m by (simp add: touch_key 7)
    then show ?thesis using mem_distinct [of p w] by (simp add: comp_def)
  qed
  have keys: "key ` set (map ?h (filter p ?rows)) = row_keys (mem_tbl w) p"
    by (auto simp: mem_keys touch_key 7 image_iff)
  have "listing (rows_map key (map ?h ?rows)) (row_keys (mem_tbl w) p) (map ?g (filter p ?rows))"
    unfolding eq keys [symmetric] by (rule listing_rows_map [OF upd(1) sub dist])
  then show ?case
    using upd by (auto simp: mem_table_def wp_def Let_def get_put intro: exI [of _ "clock w"])
next
  case (8 p w)
  have "card (key ` set (filter p (valid_rows key uniq (get w)))) = length (filter p (valid_rows key uniq (get w)))"
    using mem_distinct [of p w]
    by (metis distinct_card length_map set_map)
  then show ?case by (simp add: mem_table_def wp_def mem_keys)
next
  case (9 p ord offset limit w)
  let ?ms = "filter p (valid_rows key uniq (get w))"
  have "listing (mem_tbl w) (key ` set (order_rows ord ?ms)) (order_rows ord ?ms)"
    by (rule listing_rows_map [OF valid_rows_conflict_free]) (auto intro: order_rows_distinct mem_distinct)
  then show ?case
    by (auto simp: mem_table_def wp_def mem_keys intro!: exI [of _ "order_rows ord ?ms"] order_rows_sorted)
next
  case (10 p col w)
  let ?rows = "valid_rows key uniq (get w)"
  have card: "card (row_keys (mem_tbl w) q) = length (filter q ?rows)" for q
    using mem_distinct [of q w]
    by (metis distinct_card length_map set_map mem_keys)
  have ne: "row_keys (mem_tbl w) (\<lambda>m. p m \<and> col m = v) \<noteq> {} \<longleftrightarrow> v \<in> col ` set (filter p ?rows)" for v
    by (auto simp: mem_keys)
  show ?case
    by (auto simp: mem_table_def wp_def card ne comp_def)
qed

lemma mem_table_frame:
  assumes "\<And>ms w. obs (put ms w) = obs w"
  shows "table_frame (mem_table get put clock key uniq touch stamp) obs"
  using assms by unfold_locales (auto simp: keeps_def mem_table_def Let_def split: option.split list.split)

end
