(* ===== verification/Go_Time.thy ===== *)
theory Go_Time
  imports Go_Strings
begin

text \<open>
  \<open>time.Parse(time.RFC3339, s)\<close> of Go's \<open>time\<close> package, as a parser of byte strings to instants.
  It follows the layout \<open>2006-01-02T15:04:05Z07:00\<close> chunk by chunk: four digits of year, two of
  month and day, one or two of hour, two of minute and second, an optional fraction after a point
  or comma of which nine digits count, then \<open>Z\<close> or a signed offset of at most 24:60. \<open>None\<close> is an
  error; the program never looks at its text.
\<close>

section \<open>Calendar\<close>

definition is_leap :: "int \<Rightarrow> bool" where
  "is_leap y \<longleftrightarrow> y mod 4 = 0 \<and> (y mod 100 \<noteq> 0 \<or> y mod 400 = 0)"

definition days_in :: "int \<Rightarrow> int \<Rightarrow> int" where
  "days_in month year =
     (if month = 2 then (if is_leap year then 29 else 28)
      else if month \<in> {4, 6, 9, 11} then 30 else 31)"

text \<open>Days from 1 January of year 0 to 1 January of year \<open>y\<close>, and to the first of a month.\<close>

definition days_before_year :: "int \<Rightarrow> int" where
  "days_before_year y = 365 * y + (y + 3) div 4 - (y + 99) div 100 + (y + 399) div 400"

definition days_before_month :: "int \<Rightarrow> int \<Rightarrow> int" where
  "days_before_month month year =
     sum_list (map (\<lambda>m. days_in m year) (filter (\<lambda>m. m < month) [1, 2, 3, 4, 5, 6, 7, 8, 9, 10, 11, 12]))"

definition instant :: "int \<Rightarrow> int \<Rightarrow> int \<Rightarrow> int \<Rightarrow> int \<Rightarrow> int \<Rightarrow> int \<Rightarrow> go_time" where
  "instant year month day hour mins sec nsec =
     (((days_before_year year + days_before_month month year + (day - 1) - days_before_year 1970) * 24 + hour)
        * 60 + mins) * 60 * 10 ^ 9 + sec * 10 ^ 9 + nsec"

section \<open>Scanning\<close>

definition is_digit :: "char \<Rightarrow> bool" where
  "is_digit c \<longleftrightarrow> 48 \<le> (of_char c :: nat) \<and> (of_char c :: nat) \<le> 57"

definition digit_value :: "char \<Rightarrow> int" where
  "digit_value c = of_char c - 48"

text \<open>\<open>getnum\<close>: one or two digits, exactly two when \<open>fixed\<close>.\<close>

fun getnum :: "bool \<Rightarrow> string \<Rightarrow> (int \<times> string) option" where
  "getnum fixed (a # b # s) =
     (if \<not> is_digit a then None
      else if is_digit b then Some (digit_value a * 10 + digit_value b, s)
      else if fixed then None else Some (digit_value a, b # s))"
| "getnum fixed [a] = (if is_digit a \<and> \<not> fixed then Some (digit_value a, []) else None)"
| "getnum fixed [] = None"

fun skip :: "char \<Rightarrow> string \<Rightarrow> string option" where
  "skip c (a # s) = (if a = c then Some s else None)"
| "skip c [] = None"

fun get_year :: "string \<Rightarrow> (int \<times> string) option" where
  "get_year (a # b # c # d # s) =
     (if is_digit a \<and> is_digit b \<and> is_digit c \<and> is_digit d
      then Some (((digit_value a * 10 + digit_value b) * 10 + digit_value c) * 10 + digit_value d, s) else None)"
| "get_year s = None"

definition ranged :: "int \<Rightarrow> int \<Rightarrow> (int \<times> string) option \<Rightarrow> (int \<times> string) option" where
  "ranged lo hi r = (case r of None \<Rightarrow> None | Some (x, s) \<Rightarrow> if lo \<le> x \<and> x \<le> hi then Some (x, s) else None)"

text \<open>\<open>parseNanoseconds\<close>: the first nine digits, as nanoseconds.\<close>

fun nanoseconds :: "nat \<Rightarrow> string \<Rightarrow> int" where
  "nanoseconds 0 ds = 0"
| "nanoseconds (Suc k) [] = 0"
| "nanoseconds (Suc k) (d # ds) = digit_value d * 10 ^ k + nanoseconds k ds"

definition get_fraction :: "string \<Rightarrow> int \<times> string" where
  "get_fraction s =
     (case s of
        a # b # r \<Rightarrow>
          if (a = CHR ''.'' \<or> a = CHR '','') \<and> is_digit b
          then (nanoseconds 9 (takeWhile is_digit (b # r)), dropWhile is_digit (b # r))
          else (0, s)
      | _ \<Rightarrow> (0, s))"

text \<open>The offset in seconds and the rest.\<close>

definition get_zone :: "string \<Rightarrow> (int \<times> string) option" where
  "get_zone s =
     (case s of
        c # r \<Rightarrow>
          if c = CHR ''Z'' then Some (0, r)
          else (case r of
            h1 # h2 # colon # m1 # m2 # rest \<Rightarrow>
              if colon \<noteq> CHR '':'' then None
              else (case (ranged 0 24 (getnum True [h1, h2]), ranged 0 60 (getnum True [m1, m2])) of
                 (Some (hr, _), Some (mm, _)) \<Rightarrow>
                   if c = CHR ''+'' then Some ((hr * 60 + mm) * 60, rest)
                   else if c = CHR ''-'' then Some (- ((hr * 60 + mm) * 60), rest) else None
               | _ \<Rightarrow> None)
          | _ \<Rightarrow> None)
      | [] \<Rightarrow> None)"

definition time_Parse_RFC3339 :: "string \<Rightarrow> go_time option" where
  "time_Parse_RFC3339 s = do {
     (year, s) \<leftarrow> get_year s;
     s \<leftarrow> skip (CHR ''-'') s;
     (month, s) \<leftarrow> ranged 1 12 (getnum True s);
     s \<leftarrow> skip (CHR ''-'') s;
     (day, s) \<leftarrow> getnum True s;
     s \<leftarrow> skip (CHR ''T'') s;
     (hour, s) \<leftarrow> ranged 0 23 (getnum False s);
     s \<leftarrow> skip (CHR '':'') s;
     (mins, s) \<leftarrow> ranged 0 59 (getnum True s);
     s \<leftarrow> skip (CHR '':'') s;
     (sec, s) \<leftarrow> ranged 0 59 (getnum True s);
     (let (nsec, s) = get_fraction s in do {
        (zone, s) \<leftarrow> get_zone s;
        (if s \<noteq> [] then None
         else if day < 1 \<or> days_in month year < day then None
         else Some (instant year month day hour mins sec nsec - zone * 10 ^ 9))
      })
   }"

section \<open>Formatting\<close>

text \<open>The canonical UTC form of a date and time in whole seconds.\<close>

definition two_digits :: "int \<Rightarrow> string" where
  "two_digits i = [char_of (nat (48 + i div 10)), char_of (nat (48 + i mod 10))]"

definition format_RFC3339 :: "int \<Rightarrow> int \<Rightarrow> int \<Rightarrow> int \<Rightarrow> int \<Rightarrow> int \<Rightarrow> string" where
  "format_RFC3339 year month day hour mins sec =
     two_digits (year div 100) @ two_digits (year mod 100) @ ''-'' @ two_digits month @ ''-'' @ two_digits day
     @ ''T'' @ two_digits hour @ '':'' @ two_digits mins @ '':'' @ two_digits sec @ ''Z''"

definition valid_date_time :: "int \<Rightarrow> int \<Rightarrow> int \<Rightarrow> int \<Rightarrow> int \<Rightarrow> int \<Rightarrow> bool" where
  "valid_date_time year month day hour mins sec \<longleftrightarrow>
     0 \<le> year \<and> year \<le> 9999 \<and> 1 \<le> month \<and> month \<le> 12 \<and> 1 \<le> day \<and> day \<le> days_in month year
     \<and> 0 \<le> hour \<and> hour \<le> 23 \<and> 0 \<le> mins \<and> mins \<le> 59 \<and> 0 \<le> sec \<and> sec \<le> 59"

lemma digit_char:
  assumes "0 \<le> i" and "i \<le> 9"
  shows "is_digit (char_of (nat (48 + i)))" and "digit_value (char_of (nat (48 + i))) = i"
proof -
  have n: "nat (48 + i) < 256" using assms by simp
  have c: "(of_char (char_of (nat (48 + i)) :: char) :: nat) = nat (48 + i)"
    using n by simp
  moreover have "(of_char (char_of (nat (48 + i)) :: char) :: int) = of_nat (of_char (char_of (nat (48 + i)) :: char))"
    by (rule of_nat_of_char [symmetric])
  then have "(of_char (char_of (nat (48 + i)) :: char) :: int) = 48 + i"
    unfolding c using assms by simp
  ultimately show "is_digit (char_of (nat (48 + i)))" "digit_value (char_of (nat (48 + i))) = i"
    using assms by (auto simp: is_digit_def digit_value_def le_nat_iff nat_le_iff)
qed

lemma two_digits_getnum:
  assumes "0 \<le> i" and "i \<le> 99"
  shows "getnum fixed (two_digits i @ s) = Some (i, s)"
proof -
  have "0 \<le> i div 10" "i div 10 \<le> 9" "0 \<le> i mod 10" "i mod 10 \<le> 9" using assms by auto
  note d = digit_char [OF this(1,2)] digit_char [OF this(3,4)]
  show ?thesis by (simp add: two_digits_def d)
qed

lemma two_digits_year:
  assumes "0 \<le> y" and "y \<le> 9999"
  shows "get_year (two_digits (y div 100) @ two_digits (y mod 100) @ s) = Some (y, s)"
proof -
  let ?q = "y div 100" and ?r = "y mod 100"
  have "0 \<le> ?q" "?q \<le> 99" "0 \<le> ?r" "?r \<le> 99" using assms by auto
  then have b: "0 \<le> ?q div 10" "?q div 10 \<le> 9" "0 \<le> ?q mod 10" "?q mod 10 \<le> 9"
    "0 \<le> ?r div 10" "?r div 10 \<le> 9" "0 \<le> ?r mod 10" "?r mod 10 \<le> 9" by auto
  note d = digit_char [OF b(1,2)] digit_char [OF b(3,4)] digit_char [OF b(5,6)] digit_char [OF b(7,8)]
  have e: "?q div 10 * 10 + ?q mod 10 = ?q" "?r div 10 * 10 + ?r mod 10 = ?r" "?q * 100 + ?r = y"
    by (rule div_mult_mod_eq)+
  have "((?q div 10 * 10 + ?q mod 10) * 10 + ?r div 10) * 10 + ?r mod 10
      = ?q * 100 + (?r div 10 * 10 + ?r mod 10)" unfolding e(1) by simp
  then have "((?q div 10 * 10 + ?q mod 10) * 10 + ?r div 10) * 10 + ?r mod 10 = y" unfolding e(2,3) .
  then show ?thesis
    by (simp only: two_digits_def append.simps get_year.simps d simp_thms if_True)
qed

lemma time_Parse_format:
  assumes "valid_date_time year month day hour mins sec"
  shows "time_Parse_RFC3339 (format_RFC3339 year month day hour mins sec)
    = Some (instant year month day hour mins sec 0)"
proof -
  have "day \<le> 99" using assms by (auto simp: valid_date_time_def days_in_def split: if_splits)
  then show ?thesis
    using assms
    by (simp add: valid_date_time_def time_Parse_RFC3339_def format_RFC3339_def two_digits_year
        two_digits_getnum ranged_def get_fraction_def get_zone_def)
qed

end
