(* ===== verification/Handler.thy ===== *)
theory Handler
  imports Service_Correctness Go_Time Observability
begin

text \<open>
  Package \<open>internal/handler\<close>: the six endpoints of \<open>notification_handler.go\<close>, the error handler and
  the health endpoints. Of the fiber context a handler reads the body, the path parameters, the
  query, one header and one local value (\<open>fiber_ctx\<close>); \<open>BodyParser\<close> of fiber is a parameter. A
  handler returns an error, which the application hands to \<open>ErrorHandler\<close>, or a response: a status
  code and the Go value that is encoded as its body.
\<close>

section \<open>Requests and responses\<close>

definition defaultPage :: int where "defaultPage = 1"
definition defaultPageSize :: int where "defaultPageSize = 50"
definition maxPageSize :: int where "maxPageSize = 100"

text \<open>\<open>c_QueryInt key default\<close> is fiber's integer query parameter; a missing query or header value is
  the empty string.\<close>

record fiber_ctx =
  c_Body :: string
  c_Params :: "string \<Rightarrow> string"
  c_Query :: "string \<Rightarrow> string"
  c_QueryInt :: "string \<Rightarrow> int \<Rightarrow> int"
  c_Get :: "string \<Rightarrow> string"
  c_Locals :: "string \<Rightarrow> string option"

record create_notification_request =
  cr_CorrelationID :: string
  cr_IdempotencyKey :: "string option"
  cr_Channel :: string
  cr_Priority :: string
  cr_Recipient :: string
  cr_Content :: string
  cr_MaxRetries :: "int option"
  cr_ScheduledAt :: "string option"

record create_batch_request =
  cb_Notifications :: "create_notification_request list"

record notification_response =
  re_ID :: string
  re_CorrelationID :: string
  re_IdempotencyKey :: "string option"
  re_BatchID :: "string option"
  re_Channel :: string
  re_Priority :: string
  re_Recipient :: string
  re_Content :: string
  re_Status :: string
  re_ProviderMessageID :: "string option"
  re_AttemptCount :: int
  re_MaxRetries :: int
  re_ScheduledAt :: "go_time option"
  re_NextRetryAt :: "go_time option"
  re_CreatedAt :: go_time
  re_UpdatedAt :: go_time

record create_batch_response =
  cbr_BatchID :: string
  cbr_Status :: string
  cbr_TotalCount :: int
  cbr_Notifications :: "notification_response list"
  cbr_Warning :: string

record list_meta =
  lm_Page :: int
  lm_PageSize :: int
  lm_Total :: int

record list_notifications_response =
  ln_Data :: "notification_response list"
  ln_Meta :: list_meta

record batch_status_count_item =
  bi_Status :: string
  bi_Count :: int

record batch_summary_response =
  bsr_BatchID :: string
  bsr_TotalCount :: int
  bsr_Status :: string
  bsr_Counts :: "batch_status_count_item list"

datatype http_body =
    NotificationBody notification_response
  | BatchBody create_batch_response
  | ListBody list_notifications_response
  | SummaryBody batch_summary_response
  | MapBody "(string \<times> string) list"
  | NestedBody "(string \<times> string) list" "(string \<times> (string \<times> string) list) list"

record http_reply =
  h_Status :: int
  h_Body :: http_body

section \<open>Conversions\<close>

definition toNotificationResponse :: "notification option \<Rightarrow> notification_response" where
  "toNotificationResponse n =
     (case n of
        None \<Rightarrow>
          \<lparr>re_ID = [], re_CorrelationID = [], re_IdempotencyKey = None, re_BatchID = None, re_Channel = [],
           re_Priority = [], re_Recipient = [], re_Content = [], re_Status = [], re_ProviderMessageID = None,
           re_AttemptCount = 0, re_MaxRetries = 0, re_ScheduledAt = None, re_NextRetryAt = None,
           re_CreatedAt = zero_time, re_UpdatedAt = zero_time\<rparr>
      | Some n \<Rightarrow>
          \<lparr>re_ID = ID n, re_CorrelationID = CorrelationID n, re_IdempotencyKey = IdempotencyKey n,
           re_BatchID = BatchID n, re_Channel = Channel n, re_Priority = Priority n,
           re_Recipient = Recipient n, re_Content = Content n, re_Status = Status n,
           re_ProviderMessageID = ProviderMessageID n, re_AttemptCount = AttemptCount n,
           re_MaxRetries = MaxRetries n, re_ScheduledAt = ScheduledAt n, re_NextRetryAt = NextRetryAt n,
           re_CreatedAt = CreatedAt n, re_UpdatedAt = UpdatedAt n\<rparr>)"

definition toNotificationResponses :: "notification list \<Rightarrow> notification_response list" where
  "toNotificationResponses notifications = map (\<lambda>n. toNotificationResponse (Some n)) notifications"

definition toHTTPError :: "go_error \<Rightarrow> go_error" where
  "toHTTPError err =
     (if errors_Is err ErrValidation then FiberError 400 (Error err)
      else if errors_Is err ErrNotFound then FiberError 404 (Error err)
      else if errors_Is err ErrConflict then FiberError 409 (Error err)
      else err)"

definition requestCorrelationID :: "fiber_ctx \<Rightarrow> string" where
  "requestCorrelationID c =
     (let value = TrimSpace (c_Get c ''X-Request-ID'') in
      if value \<noteq> [] then value
      else case c_Locals c ''requestid'' of
        Some value \<Rightarrow> TrimSpace value
      | None \<Rightarrow> [])"

definition parseRFC3339Query :: "string \<Rightarrow> string \<Rightarrow> go_error + go_time option" where
  "parseRFC3339Query value field =
     (let trimmed = TrimSpace value in
      if trimmed = [] then Inr None
      else case time_Parse_RFC3339 trimmed of
        None \<Rightarrow> Inl (validation_error (field @ '' must be RFC3339''))
      | Some t \<Rightarrow> Inr (Some t))"

definition parseOptionalRFC3339 :: "string option \<Rightarrow> string \<Rightarrow> go_error + go_time option" where
  "parseOptionalRFC3339 value field =
     (case value of
        None \<Rightarrow> Inr None
      | Some v \<Rightarrow>
          let trimmed = TrimSpace v in
          if trimmed = [] then Inr None
          else case time_Parse_RFC3339 trimmed of
            None \<Rightarrow> Inl (validation_error (field @ '' must be RFC3339''))
          | Some t \<Rightarrow> Inr (Some t))"

definition zero_notification :: notification where
  "zero_notification =
     \<lparr>ID = [], CorrelationID = [], IdempotencyKey = None, BatchID = None, Channel = [], Priority = [],
      Recipient = [], Content = [], Status = [], ProviderMessageID = None, AttemptCount = 0,
      MaxRetries = 0, ScheduledAt = None, NextRetryAt = None, CreatedAt = zero_time, UpdatedAt = zero_time\<rparr>"

definition requestToDomainNotification ::
  "create_notification_request \<Rightarrow> string \<Rightarrow> go_error + notification" where
  "requestToDomainNotification req fallbackCorrelationID =
     (case ParseChannelFromString (cr_Channel req) of
        Inl err \<Rightarrow> Inl err
      | Inr channel \<Rightarrow>
     (case ParsePriorityFromString (cr_Priority req) of
        Inl err \<Rightarrow> Inl err
      | Inr priority \<Rightarrow>
     (case parseOptionalRFC3339 (cr_ScheduledAt req) ''scheduledAt'' of
        Inl err \<Rightarrow> Inl err
      | Inr scheduledAt \<Rightarrow>
          let n = zero_notification\<lparr>
                CorrelationID := TrimSpace (cr_CorrelationID req),
                IdempotencyKey := cr_IdempotencyKey req,
                Channel := channel,
                Priority := priority,
                Recipient := TrimSpace (cr_Recipient req),
                Content := TrimSpace (cr_Content req),
                ScheduledAt := scheduledAt\<rparr>;
              n = (if CorrelationID n = [] then n\<lparr>CorrelationID := TrimSpace fallbackCorrelationID\<rparr> else n);
              n = (case cr_MaxRetries req of Some r \<Rightarrow> n\<lparr>MaxRetries := r\<rparr> | None \<Rightarrow> n)
          in Inr n)))"

definition parseListParams :: "fiber_ctx \<Rightarrow> go_error + list_params" where
  "parseListParams c =
     (let page = c_QueryInt c ''page'' defaultPage;
          pageSize = c_QueryInt c ''pageSize'' defaultPageSize
      in if page < 1 then Inl (validation_error ''page must be >= 1'')
         else if pageSize < 1 \<or> maxPageSize < pageSize
         then Inl (validation_error (''pageSize must be between 1 and '' @ Itoa maxPageSize))
         else
           (let rawStatus = TrimSpace (c_Query c ''status'') in
            case (if rawStatus \<noteq> [] then map_sum id Some (ParseStatusFromString rawStatus) else Inr None) of
              Inl err \<Rightarrow> Inl err
            | Inr status \<Rightarrow>
           (let rawChannel = TrimSpace (c_Query c ''channel'') in
            case (if rawChannel \<noteq> [] then map_sum id Some (ParseChannelFromString rawChannel) else Inr None) of
              Inl err \<Rightarrow> Inl err
            | Inr channel \<Rightarrow>
           (case parseRFC3339Query (c_Query c ''from'') ''from'' of
              Inl err \<Rightarrow> Inl err
            | Inr from_time \<Rightarrow>
           (case parseRFC3339Query (c_Query c ''to'') ''to'' of
              Inl err \<Rightarrow> Inl err
            | Inr to_time \<Rightarrow>
                if (case (from_time, to_time) of (Some f, Some t) \<Rightarrow> t < f | _ \<Rightarrow> False)
                then Inl (validation_error ''from must be <= to'')
                else Inr \<lparr>lp_Status = status, lp_Channel = channel, lp_From = from_time, lp_To = to_time,
                          lp_Page = page, lp_PageSize = pageSize\<rparr>)))))"

section \<open>The endpoints\<close>

text \<open>The \<open>NotificationService\<close> interface the handlers call, and the service behind it.\<close>

record 'w notification_api =
  api_Create :: "notification option \<Rightarrow> ('w, go_error + notification) state"
  api_CreateBatch :: "notification list \<Rightarrow> ('w, batch option \<times> notification list \<times> go_error option) state"
  api_GetByID :: "string \<Rightarrow> ('w, go_error + notification) state"
  api_GetBatchSummary :: "string \<Rightarrow> ('w, go_error + batch_summary) state"
  api_Cancel :: "string \<Rightarrow> ('w, go_error option) state"
  api_List :: "list_params \<Rightarrow> ('w, go_error + notification list \<times> int) state"

definition service_api :: "'w notification_service \<Rightarrow> 'w runtime \<Rightarrow> 'w notification_api" where
  "service_api s rt =
     \<lparr>api_Create = service_Create s rt, api_CreateBatch = service_CreateBatch s rt,
      api_GetByID = service_GetByID s, api_GetBatchSummary = service_GetBatchSummary s,
      api_Cancel = service_Cancel s, api_List = service_List s\<rparr>"

record 'w notification_handler =
  nh_service :: "'w notification_api"

definition NewNotificationHandler :: "'w notification_api \<Rightarrow> go_error + 'w notification_handler" where
  "NewNotificationHandler service = Inr \<lparr>nh_service = service\<rparr>"

type_synonym 'req body_parser = "string \<Rightarrow> go_error + 'req"

definition CreateNotification ::
  "create_notification_request body_parser \<Rightarrow> 'w notification_handler \<Rightarrow> fiber_ctx \<Rightarrow> ('w, go_error + http_reply) state" where
  "CreateNotification BodyParser h c =
     (case BodyParser (c_Body c) of
        Inl _ \<Rightarrow> State_Monad.return (Inl (FiberError 400 ''invalid request body''))
      | Inr req \<Rightarrow>
     (case requestToDomainNotification req (requestCorrelationID c) of
        Inl err \<Rightarrow> State_Monad.return (Inl (toHTTPError err))
      | Inr notification \<Rightarrow> do {
          r \<leftarrow> api_Create (nh_service h) (Some notification);
          State_Monad.return (case r of
              Inl err \<Rightarrow> Inl (toHTTPError err)
            | Inr created \<Rightarrow> Inr \<lparr>h_Status = 202, h_Body = NotificationBody (toNotificationResponse (Some created))\<rparr>)
        }))"

text \<open>The loop over the items stops at the first error.\<close>

fun requests_to_domain ::
  "string \<Rightarrow> create_notification_request list \<Rightarrow> go_error + notification list" where
  "requests_to_domain correlationID [] = Inr []"
| "requests_to_domain correlationID (item # items) =
     (case requestToDomainNotification item correlationID of
        Inl err \<Rightarrow> Inl err
      | Inr n \<Rightarrow>
          (case requests_to_domain correlationID items of
             Inl err \<Rightarrow> Inl err
           | Inr ns \<Rightarrow> Inr (n # ns)))"

definition batch_reply :: "batch \<Rightarrow> notification list \<Rightarrow> string \<Rightarrow> http_reply" where
  "batch_reply batch created warning =
     \<lparr>h_Status = 202, h_Body = BatchBody \<lparr>cbr_BatchID = b_ID batch, cbr_Status = b_Status batch,
        cbr_TotalCount = b_TotalCount batch, cbr_Notifications = toNotificationResponses created,
        cbr_Warning = warning\<rparr>\<rparr>"

definition handler_CreateBatch ::
  "create_batch_request body_parser \<Rightarrow> 'w notification_handler \<Rightarrow> fiber_ctx \<Rightarrow> ('w, go_error + http_reply) state" where
  "handler_CreateBatch BodyParser h c =
     (case BodyParser (c_Body c) of
        Inl _ \<Rightarrow> State_Monad.return (Inl (FiberError 400 ''invalid request body''))
      | Inr req \<Rightarrow>
          if length (cb_Notifications req) = 0
          then State_Monad.return (Inl (toHTTPError (validation_error ''notifications is required'')))
          else case requests_to_domain (requestCorrelationID c) (cb_Notifications req) of
            Inl err \<Rightarrow> State_Monad.return (Inl (toHTTPError err))
          | Inr notifications \<Rightarrow> do {
              (batch, createdNotifications, err) \<leftarrow> api_CreateBatch (nh_service h) notifications;
              State_Monad.return (case err of
                  Some err \<Rightarrow>
                    if errors_Is err ErrValidation then Inl (toHTTPError err)
                    else (case batch of
                       None \<Rightarrow> Inl err
                     | Some b \<Rightarrow> Inr (batch_reply b createdNotifications (Error err)))
                | None \<Rightarrow>
                    (case batch of
                       Some b \<Rightarrow> Inr (batch_reply b createdNotifications [])
                     | None \<Rightarrow> Inl (ErrorString ''runtime error: invalid memory address or nil pointer dereference'')))
            })"

definition GetNotification :: "'w notification_handler \<Rightarrow> fiber_ctx \<Rightarrow> ('w, go_error + http_reply) state" where
  "GetNotification h c = do {
     r \<leftarrow> api_GetByID (nh_service h) (TrimSpace (c_Params c ''id''));
     State_Monad.return (case r of
         Inl err \<Rightarrow> Inl (toHTTPError err)
       | Inr notification \<Rightarrow>
           Inr \<lparr>h_Status = 200, h_Body = NotificationBody (toNotificationResponse (Some notification))\<rparr>)
   }"

definition CancelNotification :: "'w notification_handler \<Rightarrow> fiber_ctx \<Rightarrow> ('w, go_error + http_reply) state" where
  "CancelNotification h c = do {
     let nid = TrimSpace (c_Params c ''id'');
     r \<leftarrow> api_Cancel (nh_service h) nid;
     State_Monad.return (case r of
         Some err \<Rightarrow> Inl (toHTTPError err)
       | None \<Rightarrow> Inr \<lparr>h_Status = 200, h_Body = MapBody [(''notificationId'', nid), (''status'', StatusCanceled)]\<rparr>)
   }"

definition ListNotifications :: "'w notification_handler \<Rightarrow> fiber_ctx \<Rightarrow> ('w, go_error + http_reply) state" where
  "ListNotifications h c =
     (case parseListParams c of
        Inl err \<Rightarrow> State_Monad.return (Inl (toHTTPError err))
      | Inr params \<Rightarrow> do {
          r \<leftarrow> api_List (nh_service h) params;
          State_Monad.return (case r of
              Inl err \<Rightarrow> Inl (toHTTPError err)
            | Inr (notifications, cnt) \<Rightarrow>
                Inr \<lparr>h_Status = 200, h_Body = ListBody \<lparr>ln_Data = toNotificationResponses notifications,
                   ln_Meta = \<lparr>lm_Page = lp_Page params, lm_PageSize = lp_PageSize params, lm_Total = cnt\<rparr>\<rparr>\<rparr>)
        })"

definition handler_GetBatchSummary :: "'w notification_handler \<Rightarrow> fiber_ctx \<Rightarrow> ('w, go_error + http_reply) state" where
  "handler_GetBatchSummary h c = do {
     r \<leftarrow> api_GetBatchSummary (nh_service h) (TrimSpace (c_Params c ''batchId''));
     State_Monad.return (case r of
         Inl err \<Rightarrow> Inl (toHTTPError err)
       | Inr summary \<Rightarrow>
           Inr \<lparr>h_Status = 200, h_Body = SummaryBody \<lparr>bsr_BatchID = bs_BatchID summary,
              bsr_TotalCount = bs_TotalCount summary, bsr_Status = bs_Status summary,
              bsr_Counts = map (\<lambda>x. \<lparr>bi_Status = sc_Status x, bi_Count = sc_Count x\<rparr>) (bs_Counts summary)\<rparr>\<rparr>)
   }"

section \<open>Error handler and health\<close>

definition ErrorHandler :: "go_error \<Rightarrow> http_reply" where
  "ErrorHandler err =
     (let code = (case err of FiberError code _ \<Rightarrow> code | _ \<Rightarrow> 500)
      in \<lparr>h_Status = code, h_Body = MapBody [(''error'', Error err)]\<rparr>)"

text \<open>What the application answers: the reply of the handler, or of the error handler.\<close>

definition reply_of :: "go_error + http_reply \<Rightarrow> http_reply" where
  "reply_of r = (case r of Inl err \<Rightarrow> ErrorHandler err | Inr reply \<Rightarrow> reply)"

definition respond :: "('w, go_error + http_reply) state \<Rightarrow> ('w, http_reply) state" where
  "respond m = do { r \<leftarrow> m; State_Monad.return (reply_of r) }"

definition LivezHandler :: "go_error + http_reply" where
  "LivezHandler = Inr \<lparr>h_Status = 200, h_Body = MapBody [(''status'', ''ok'')]\<rparr>"

text \<open>\<open>pgPing\<close> and \<open>redisPing\<close> ping the database and Redis with the readiness timeout.\<close>

definition ReadyzHandler ::
  "('w, go_error option) state \<Rightarrow> ('w, go_error option) state \<Rightarrow> ('w, go_error + http_reply) state" where
  "ReadyzHandler pgPing redisPing = do {
     pgErr \<leftarrow> pgPing;
     redisErr \<leftarrow> redisPing;
     let pgStatus = (if pgErr \<noteq> None then ''down'' else ''ok'');
     let redisStatus = (if redisErr \<noteq> None then ''down'' else ''ok'');
     let (status, statusCode) =
       (if pgErr \<noteq> None \<or> redisErr \<noteq> None then (''not_ready'', 503) else (''ready'', 200));
     State_Monad.return (Inr \<lparr>h_Status = statusCode, h_Body = NestedBody [(''status'', status)]
       [(''checks'', [(''postgres'', pgStatus), (''redis'', redisStatus)])]\<rparr>)
   }"

text \<open>\<open>HTTPMiddleware\<close> around the rest of the chain: \<open>next\<close> yields the error the chain returned and
  the status code of the response so far.\<close>

definition HTTPMiddleware ::
  "'w runtime \<Rightarrow> 'w metrics \<Rightarrow> string \<Rightarrow> string option option \<Rightarrow> ('w, go_error option \<times> int) state
     \<Rightarrow> ('w, go_error option) state" where
  "HTTPMiddleware rt m method route next_handler = do {
     start \<leftarrow> time_Now rt;
     (err, status) \<leftarrow> next_handler;
     let path = routePath route;
     (if path = ''/metrics'' then State_Monad.return err
      else do {
        now \<leftarrow> time_Now rt;
        recordHTTPRequest m method path (statusFromResult (Some status) err) (Time_Sub now start);
        State_Monad.return err
      })
   }"

section \<open>Routes\<close>

text \<open>
  The part of fiber that registers routes. \<open>fb_Group app prefix f\<close> is the router after the
  registrations \<open>f\<close> through its group with that prefix. \<open>CreateNotification\<close> and \<open>CreateBatch\<close>
  take the decoder of their request bodies.
\<close>

type_synonym 'w fiber_handler = "fiber_ctx \<Rightarrow> ('w, go_error + http_reply) state"

record ('w, 'app) fiber_router =
  fb_Get :: "'app \<Rightarrow> string \<Rightarrow> 'w fiber_handler \<Rightarrow> 'app"
  fb_Post :: "'app \<Rightarrow> string \<Rightarrow> 'w fiber_handler \<Rightarrow> 'app"
  fb_Group :: "'app \<Rightarrow> string \<Rightarrow> ('app \<Rightarrow> 'app) \<Rightarrow> 'app"

definition RegisterHealthRoutes ::
  "('w, 'app, 'z) fiber_router_scheme \<Rightarrow> 'app \<Rightarrow> ('w, go_error option) state \<Rightarrow> ('w, go_error option) state \<Rightarrow> 'app" where
  "RegisterHealthRoutes F app pgPing redisPing =
     (let app = fb_Get F app ''/livez'' (\<lambda>c. State_Monad.return LivezHandler)
      in fb_Get F app ''/readyz'' (\<lambda>c. ReadyzHandler pgPing redisPing))"

definition RegisterNotificationRoutes ::
  "('w, 'app, 'z) fiber_router_scheme \<Rightarrow> create_notification_request body_parser \<Rightarrow> create_batch_request body_parser
     \<Rightarrow> 'app \<Rightarrow> 'w notification_api \<Rightarrow> go_error + 'app" where
  "RegisterNotificationRoutes F BodyParser BatchParser router service =
     (case NewNotificationHandler service of
        Inl err \<Rightarrow> Inl err
      | Inr h \<Rightarrow> Inr (fb_Group F router ''/v1'' (\<lambda>v1.
          let v1 = fb_Post F v1 ''/notifications'' (CreateNotification BodyParser h);
              v1 = fb_Post F v1 ''/notifications/batch'' (handler_CreateBatch BatchParser h);
              v1 = fb_Get F v1 ''/notifications/:id'' (GetNotification h);
              v1 = fb_Post F v1 ''/notifications/:id/cancel'' (CancelNotification h);
              v1 = fb_Get F v1 ''/notifications'' (ListNotifications h);
              v1 = fb_Get F v1 ''/batches/:batchId'' (handler_GetBatchSummary h)
          in v1)))"

end
