(* ===== verification/Storage_Setup.thy ===== *)
theory Storage_Setup
  imports Repository
begin

text \<open>
  \<open>internal/infra\<close>: connecting to PostgreSQL and Redis, the schema migrations, and the columns that
  the persistence models declare in their tags (\<open>repository/models.go\<close>). GORM, its migrator,
  gormigrate and the drivers are parameters. The SQL statements are the strings of the source; what
  they do is stated over the abstract syntax \<open>ddl\<close> that \<open>ddl_sql\<close> prints as those strings.
\<close>

section \<open>Columns\<close>

datatype sql_type = Uuid | Varchar nat | TextType | IntType | BigIntType | TimestampTz

record column =
  col_Name :: string
  col_Type :: sql_type
  col_NotNull :: bool

abbreviation col :: "string \<Rightarrow> sql_type \<Rightarrow> bool \<Rightarrow> column" where
  "col name ty nn \<equiv> \<lparr>col_Name = name, col_Type = ty, col_NotNull = nn\<rparr>"

definition notification_TableName :: string where "notification_TableName = ''notifications''"
definition attempt_TableName :: string where "attempt_TableName = ''notification_attempts''"
definition batch_TableName :: string where "batch_TableName = ''batches''"

text \<open>A field without a \<open>type\<close> tag gets the type of its Go type; a primary key is not null.\<close>

definition notification_columns :: "column list" where
  "notification_columns =
     [col ''id'' Uuid True, col ''correlation_id'' (Varchar 36) True, col ''idempotency_key'' (Varchar 255) False,
      col ''batch_id'' Uuid False, col ''channel'' (Varchar 10) True, col ''priority'' (Varchar 10) True,
      col ''recipient'' (Varchar 255) True, col ''content'' TextType True, col ''status'' (Varchar 20) True,
      col ''provider_message_id'' (Varchar 255) False, col ''attempt_count'' BigIntType True,
      col ''max_retries'' BigIntType True, col ''scheduled_at'' TimestampTz False,
      col ''next_retry_at'' TimestampTz False, col ''created_at'' TimestampTz False,
      col ''updated_at'' TimestampTz False]"

definition attempt_columns :: "column list" where
  "attempt_columns =
     [col ''id'' Uuid True, col ''notification_id'' Uuid True, col ''attempt_number'' BigIntType True,
      col ''status_code'' IntType False, col ''response_body'' TextType False, col ''error'' TextType False,
      col ''created_at'' TimestampTz False]"

definition batch_columns :: "column list" where
  "batch_columns =
     [col ''id'' Uuid True, col ''total_count'' BigIntType True, col ''status'' (Varchar 20) True,
      col ''created_at'' TimestampTz False, col ''updated_at'' TimestampTz False]"

section \<open>Migrations\<close>

record 'w gorm_tx =
  tx_AutoMigrate :: "string \<Rightarrow> column list \<Rightarrow> ('w, go_error option) state"
  tx_Exec :: "string \<Rightarrow> ('w, go_error option) state"
  tx_DropTable :: "string \<Rightarrow> ('w, go_error option) state"

record 'w migration =
  mg_ID :: string
  mg_Migrate :: "'w gorm_tx \<Rightarrow> ('w, go_error option) state"
  mg_Rollback :: "'w gorm_tx \<Rightarrow> ('w, go_error option) state"

text \<open>The loop over SQL statements stops at the first error.\<close>

fun exec_all :: "'w gorm_tx \<Rightarrow> string list \<Rightarrow> ('w, go_error option) state" where
  "exec_all tx [] = State_Monad.return None"
| "exec_all tx (sql # sqls) = do {
     r \<leftarrow> tx_Exec tx sql;
     (case r of Some err \<Rightarrow> State_Monad.return (Some err) | None \<Rightarrow> exec_all tx sqls)
   }"

abbreviation sql_quoted :: "string \<Rightarrow> string" where
  "sql_quoted s \<equiv> CHR 0x27 # s @ [CHR 0x27]"

definition notification_indexes :: "string list" where
  "notification_indexes =
     [''CREATE INDEX IF NOT EXISTS idx_notifications_status_channel_created ON notifications (status, channel, created_at)'',
      ''CREATE INDEX IF NOT EXISTS idx_notifications_batch_id ON notifications (batch_id) WHERE batch_id IS NOT NULL'',
      ''CREATE UNIQUE INDEX IF NOT EXISTS idx_notifications_idempotency_key ON notifications (idempotency_key) WHERE idempotency_key IS NOT NULL'',
      ''CREATE INDEX IF NOT EXISTS idx_notifications_retry ON notifications (next_retry_at) WHERE status = '' @ sql_quoted ''QUEUED'',
      ''CREATE INDEX IF NOT EXISTS idx_notifications_correlation_id ON notifications (correlation_id)'']"

definition createNotificationsTable :: "'w migration" where
  "createNotificationsTable =
     \<lparr>mg_ID = ''000001_create_notifications'',
      mg_Migrate = (\<lambda>tx. do {
        r \<leftarrow> tx_AutoMigrate tx notification_TableName notification_columns;
        (case r of
           Some err \<Rightarrow> State_Monad.return (Some err)
         | None \<Rightarrow> exec_all tx notification_indexes)
      }),
      mg_Rollback = (\<lambda>tx. tx_DropTable tx notification_TableName)\<rparr>"

definition createNotificationsAttemptsTable :: "'w migration" where
  "createNotificationsAttemptsTable =
     \<lparr>mg_ID = ''000002_create_notification_attempts'',
      mg_Migrate = (\<lambda>tx. do {
        r \<leftarrow> tx_AutoMigrate tx attempt_TableName attempt_columns;
        (case r of
           Some err \<Rightarrow> State_Monad.return (Some err)
         | None \<Rightarrow> tx_Exec tx ''CREATE INDEX IF NOT EXISTS idx_attempts_notification_id ON notification_attempts (notification_id)'')
      }),
      mg_Rollback = (\<lambda>tx. tx_DropTable tx attempt_TableName)\<rparr>"

definition createBatchesTable :: "'w migration" where
  "createBatchesTable =
     \<lparr>mg_ID = ''000003_create_batches'',
      mg_Migrate = (\<lambda>tx. tx_AutoMigrate tx batch_TableName batch_columns),
      mg_Rollback = (\<lambda>tx. tx_DropTable tx batch_TableName)\<rparr>"

definition scheduled_at_statements :: "string list" where
  "scheduled_at_statements =
     [''ALTER TABLE notifications ADD COLUMN IF NOT EXISTS scheduled_at TIMESTAMPTZ'',
      ''CREATE INDEX IF NOT EXISTS idx_notifications_scheduled_due ON notifications (scheduled_at) WHERE status = ''
        @ sql_quoted ''ACCEPTED'' @ '' AND scheduled_at IS NOT NULL'']"

definition scheduled_at_rollback :: "string list" where
  "scheduled_at_rollback =
     [''DROP INDEX IF EXISTS idx_notifications_scheduled_due'',
      ''ALTER TABLE notifications DROP COLUMN IF EXISTS scheduled_at'']"

definition addNotificationsScheduledAtColumn :: "'w migration" where
  "addNotificationsScheduledAtColumn =
     \<lparr>mg_ID = ''000004_add_notifications_scheduled_at'',
      mg_Migrate = (\<lambda>tx. exec_all tx scheduled_at_statements),
      mg_Rollback = (\<lambda>tx. exec_all tx scheduled_at_rollback)\<rparr>"

definition Migrations :: "'w migration list" where
  "Migrations = [createNotificationsTable, createNotificationsAttemptsTable, createBatchesTable,
     addNotificationsScheduledAtColumn]"

text \<open>\<open>gormigrate_Migrate\<close> is \<open>Migrate\<close> of a gormigrate with default options on the database.\<close>

definition migrations_Run :: "('w migration list \<Rightarrow> ('w, go_error option) state) \<Rightarrow> ('w, go_error option) state" where
  "migrations_Run gormigrate_Migrate = gormigrate_Migrate Migrations"

section \<open>Connections\<close>

record ('w, 'db, 'sql) gorm_driver =
  gd_Open :: "string \<Rightarrow> bool \<Rightarrow> ('w, go_error + 'db) state"
  gd_DB :: "'db \<Rightarrow> ('w, go_error + 'sql) state"
  gd_SetMaxOpenConns :: "'sql \<Rightarrow> int \<Rightarrow> ('w, unit) state"
  gd_SetMaxIdleConns :: "'sql \<Rightarrow> int \<Rightarrow> ('w, unit) state"
  gd_SetConnMaxLifetime :: "'sql \<Rightarrow> duration \<Rightarrow> ('w, unit) state"
  gd_Ping :: "'sql \<Rightarrow> ('w, go_error option) state"
  gd_Close :: "'sql \<Rightarrow> ('w, go_error option) state"

text \<open>The second argument of \<open>Open\<close> is \<open>SkipDefaultTransaction\<close>.\<close>

definition NewPostgres :: "('w, 'db, 'sql) gorm_driver \<Rightarrow> string \<Rightarrow> ('w, go_error + 'db) state" where
  "NewPostgres drv dsn = do {
     opened \<leftarrow> gd_Open drv dsn True;
     (case opened of
        Inl err \<Rightarrow> State_Monad.return (Inl (Wrap ''failed to connect postgres: '' err []))
      | Inr db \<Rightarrow> do {
          underlying \<leftarrow> gd_DB drv db;
          (case underlying of
             Inl err \<Rightarrow> State_Monad.return (Inl (Wrap ''failed to get underlying sql.DB: '' err []))
           | Inr sqlDB \<Rightarrow> do {
               gd_SetMaxOpenConns drv sqlDB 25;
               gd_SetMaxIdleConns drv sqlDB 5;
               gd_SetConnMaxLifetime drv sqlDB (3600 * 10 ^ 9);
               pinged \<leftarrow> gd_Ping drv sqlDB;
               State_Monad.return (case pinged of
                   Some err \<Rightarrow> Inl (Wrap ''failed to ping postgres: '' err [])
                 | None \<Rightarrow> Inr db)
             })
        })
   }"

record ('w, 'opts, 'rdb) redis_driver =
  rd_ParseURL :: "string \<Rightarrow> go_error + 'opts"
  rd_NewClient :: "'opts \<Rightarrow> 'rdb"
  rd_Ping :: "'rdb \<Rightarrow> ('w, go_error option) state"
  rd_Close :: "'rdb \<Rightarrow> ('w, go_error option) state"

definition NewRedis :: "('w, 'opts, 'rdb) redis_driver \<Rightarrow> string \<Rightarrow> ('w, go_error + 'rdb) state" where
  "NewRedis drv url =
     (case rd_ParseURL drv url of
        Inl err \<Rightarrow> State_Monad.return (Inl (Wrap ''failed to parse redis url: '' err []))
      | Inr opts \<Rightarrow> do {
          let client = rd_NewClient drv opts;
          pinged \<leftarrow> rd_Ping drv client;
          State_Monad.return (case pinged of
              Some err \<Rightarrow> Inl (Wrap ''failed to ping redis: '' err [])
            | None \<Rightarrow> Inr client)
        })"

section \<open>What the statements do\<close>

datatype ddl =
    CreateIndex bool string string "string list" "string option"
  | AddColumn string string string
  | DropIndex string
  | DropColumn string string

fun ddl_sql :: "ddl \<Rightarrow> string" where
  "ddl_sql (CreateIndex uniq name table cols cond) =
     ''CREATE '' @ (if uniq then ''UNIQUE '' else []) @ ''INDEX IF NOT EXISTS '' @ name @ '' ON '' @ table
       @ '' ('' @ Join cols '', '' @ '')'' @ (case cond of None \<Rightarrow> [] | Some c \<Rightarrow> '' WHERE '' @ c)"
| "ddl_sql (AddColumn table name ty) = ''ALTER TABLE '' @ table @ '' ADD COLUMN IF NOT EXISTS '' @ name @ '' '' @ ty"
| "ddl_sql (DropIndex name) = ''DROP INDEX IF EXISTS '' @ name"
| "ddl_sql (DropColumn table name) = ''ALTER TABLE '' @ table @ '' DROP COLUMN IF EXISTS '' @ name"

record index =
  ix_Unique :: bool
  ix_Name :: string
  ix_Table :: string
  ix_Columns :: "string list"
  ix_Where :: "string option"

record schema =
  sch_Tables :: "string \<rightharpoonup> string list"
  sch_Indexes :: "index list"

text \<open>Dropping a column drops the indexes on it.\<close>

fun apply_ddl :: "ddl \<Rightarrow> schema \<Rightarrow> schema" where
  "apply_ddl (CreateIndex uniq name table cols cond) S =
     (if name \<in> set (map ix_Name (sch_Indexes S)) then S
      else S\<lparr>sch_Indexes := sch_Indexes S @
             [\<lparr>ix_Unique = uniq, ix_Name = name, ix_Table = table, ix_Columns = cols, ix_Where = cond\<rparr>]\<rparr>)"
| "apply_ddl (AddColumn table name ty) S =
     S\<lparr>sch_Tables := (sch_Tables S)(table := map_option (\<lambda>cs. if name \<in> set cs then cs else cs @ [name]) (sch_Tables S table))\<rparr>"
| "apply_ddl (DropIndex name) S = S\<lparr>sch_Indexes := filter (\<lambda>i. ix_Name i \<noteq> name) (sch_Indexes S)\<rparr>"
| "apply_ddl (DropColumn table name) S =
     S\<lparr>sch_Tables := (sch_Tables S)(table := map_option (filter (\<lambda>c. c \<noteq> name)) (sch_Tables S table)),
       sch_Indexes := filter (\<lambda>i. \<not> (ix_Table i = table \<and> name \<in> set (ix_Columns i))) (sch_Indexes S)\<rparr>"

definition auto_migrate :: "string \<Rightarrow> column list \<Rightarrow> schema \<Rightarrow> schema" where
  "auto_migrate table cols S =
     S\<lparr>sch_Tables := (sch_Tables S)(table \<mapsto>
        (case sch_Tables S table of
           None \<Rightarrow> map col_Name cols
         | Some cs \<Rightarrow> cs @ filter (\<lambda>c. c \<notin> set cs) (map col_Name cols)))\<rparr>"

definition notification_ddl :: "ddl list" where
  "notification_ddl =
     [CreateIndex False ''idx_notifications_status_channel_created'' ''notifications'' [''status'', ''channel'', ''created_at''] None,
      CreateIndex False ''idx_notifications_batch_id'' ''notifications'' [''batch_id''] (Some ''batch_id IS NOT NULL''),
      CreateIndex True ''idx_notifications_idempotency_key'' ''notifications'' [''idempotency_key''] (Some ''idempotency_key IS NOT NULL''),
      CreateIndex False ''idx_notifications_retry'' ''notifications'' [''next_retry_at''] (Some (''status = '' @ sql_quoted ''QUEUED'')),
      CreateIndex False ''idx_notifications_correlation_id'' ''notifications'' [''correlation_id''] None]"

definition attempt_ddl :: ddl where
  "attempt_ddl = CreateIndex False ''idx_attempts_notification_id'' ''notification_attempts'' [''notification_id''] None"

definition scheduled_ddl :: "ddl list" where
  "scheduled_ddl =
     [AddColumn ''notifications'' ''scheduled_at'' ''TIMESTAMPTZ'',
      CreateIndex False ''idx_notifications_scheduled_due'' ''notifications'' [''scheduled_at'']
        (Some (''status = '' @ sql_quoted ''ACCEPTED'' @ '' AND scheduled_at IS NOT NULL''))]"

definition unscheduled_ddl :: "ddl list" where
  "unscheduled_ddl = [DropIndex ''idx_notifications_scheduled_due'', DropColumn ''notifications'' ''scheduled_at'']"

definition program_ddl :: "ddl list" where
  "program_ddl = notification_ddl @ [attempt_ddl] @ scheduled_ddl @ unscheduled_ddl"

text \<open>The statements of the source are these, printed.\<close>

lemma statements_printed:
  "notification_indexes = map ddl_sql notification_ddl" "scheduled_at_statements = map ddl_sql scheduled_ddl"
  "scheduled_at_rollback = map ddl_sql unscheduled_ddl"
  "''CREATE INDEX IF NOT EXISTS idx_attempts_notification_id ON notification_attempts (notification_id)'' = ddl_sql attempt_ddl"
  by (simp_all add: notification_indexes_def notification_ddl_def scheduled_at_statements_def scheduled_ddl_def
      scheduled_at_rollback_def unscheduled_ddl_def attempt_ddl_def)

section \<open>What the start-up relies on\<close>

text \<open>
  How gormigrate proceeds: the migrations in order, without those already recorded, up to the first
  that fails. A statement that reports an error may have been executed or not.
\<close>

fun run_pending :: "'w gorm_tx \<Rightarrow> string set \<Rightarrow> 'w migration list \<Rightarrow> ('w, go_error option) state" where
  "run_pending tx applied [] = State_Monad.return None"
| "run_pending tx applied (m # ms) =
     (if mg_ID m \<in> applied then run_pending tx applied ms
      else do {
        r \<leftarrow> mg_Migrate m tx;
        (case r of Some err \<Rightarrow> State_Monad.return (Some err) | None \<Rightarrow> run_pending tx applied ms)
      })"

locale schema_laws =
  fixes tx :: "'w gorm_tx" and schema :: "'w \<Rightarrow> schema"
  assumes Exec_law: "d \<in> set program_ddl \<Longrightarrow> wp (tx_Exec tx (ddl_sql d)) (\<lambda>r w'. case r of
          None \<Rightarrow> schema w' = apply_ddl d (schema w)
        | Some e \<Rightarrow> schema w' \<in> {schema w, apply_ddl d (schema w)}) w"
    and AutoMigrate_law: "wp (tx_AutoMigrate tx table cols) (\<lambda>r w'. case r of
          None \<Rightarrow> schema w' = auto_migrate table cols (schema w)
        | Some e \<Rightarrow> True) w"
begin

lemma exec_all_wp:
  assumes "set ds \<subseteq> set program_ddl"
  shows "wp (exec_all tx (map ddl_sql ds)) (\<lambda>r w'. case r of
      None \<Rightarrow> schema w' = fold apply_ddl ds (schema w) | Some e \<Rightarrow> True) w"
  using assms
proof (induction ds arbitrary: w)
  case Nil
  show ?case by simp
next
  case (Cons d ds)
  then have d: "d \<in> set program_ddl" and ds: "set ds \<subseteq> set program_ddl" by auto
  show ?case
    unfolding list.map exec_all.simps wp_bind
    by (rule wp_mono [OF Exec_law [OF d]])
       (auto split: option.splits intro!: wp_mono [OF Cons.IH [OF ds]])
qed

lemma in_program: "set notification_ddl \<subseteq> set program_ddl" "attempt_ddl \<in> set program_ddl"
  "set scheduled_ddl \<subseteq> set program_ddl" "set unscheduled_ddl \<subseteq> set program_ddl"
  by (auto simp: program_ddl_def)

lemmas statements_wp = exec_all_wp [OF in_program(1), folded statements_printed]
  Exec_law [OF in_program(2), folded statements_printed(4)]
  exec_all_wp [OF in_program(3), folded statements_printed] exec_all_wp [OF in_program(4), folded statements_printed]

lemma migrations_wp:
  "wp (mg_Migrate createNotificationsTable tx) (\<lambda>r w'. case r of None \<Rightarrow>
     schema w' = fold apply_ddl notification_ddl (auto_migrate notification_TableName notification_columns (schema w)) | Some e \<Rightarrow> True) w"
  "wp (mg_Migrate createNotificationsAttemptsTable tx) (\<lambda>r w'. case r of None \<Rightarrow>
     schema w' = apply_ddl attempt_ddl (auto_migrate attempt_TableName attempt_columns (schema w)) | Some e \<Rightarrow> True) w"
  "wp (mg_Migrate createBatchesTable tx) (\<lambda>r w'. case r of None \<Rightarrow>
     schema w' = auto_migrate batch_TableName batch_columns (schema w) | Some e \<Rightarrow> True) w"
  "wp (mg_Migrate addNotificationsScheduledAtColumn tx) (\<lambda>r w'. case r of None \<Rightarrow>
     schema w' = fold apply_ddl scheduled_ddl (schema w) | Some e \<Rightarrow> True) w"
  "wp (mg_Rollback addNotificationsScheduledAtColumn tx) (\<lambda>r w'. case r of None \<Rightarrow>
     schema w' = fold apply_ddl unscheduled_ddl (schema w) | Some e \<Rightarrow> True) w"
  unfolding createNotificationsTable_def createNotificationsAttemptsTable_def createBatchesTable_def
    addNotificationsScheduledAtColumn_def migration.simps
proof goal_cases
  case 1
  show ?case
    unfolding wp_bind
    by (rule wp_mono [OF AutoMigrate_law]) (auto split: option.splits intro!: wp_mono [OF statements_wp(1)])
next
  case 2
  show ?case
    unfolding wp_bind
    by (rule wp_mono [OF AutoMigrate_law]) (auto split: option.splits intro!: wp_mono [OF statements_wp(2)])
next
  case 3
  show ?case by (rule AutoMigrate_law)
next
  case 4
  show ?case by (rule statements_wp)
next
  case 5
  show ?case by (rule statements_wp)
qed

end

text \<open>The schema after all migrations, and after the last one is rolled back.\<close>

definition migrated :: "schema \<Rightarrow> schema" where
  "migrated S = fold apply_ddl scheduled_ddl (auto_migrate batch_TableName batch_columns
     (apply_ddl attempt_ddl (auto_migrate attempt_TableName attempt_columns
       (fold apply_ddl notification_ddl (auto_migrate notification_TableName notification_columns S)))))"

locale migration_env = schema_laws tx schema
  for tx :: "'w gorm_tx" and schema :: "'w \<Rightarrow> schema" +
  fixes gormigrate_Migrate :: "'w migration list \<Rightarrow> ('w, go_error option) state" and applied :: "'w \<Rightarrow> string set"
  assumes gormigrate_law: "wp (run_pending tx (applied w) ms) (\<lambda>r w'. P r (schema w')) w \<Longrightarrow>
      wp (gormigrate_Migrate ms) (\<lambda>r w'. P r (schema w')) w"
begin

lemma Run_wp:
  assumes "applied w = {}"
  shows "wp (migrations_Run gormigrate_Migrate) (\<lambda>r w'. case r of None \<Rightarrow> schema w' = migrated (schema w) | Some e \<Rightarrow> True) w"
proof -
  have "wp (run_pending tx (applied w) Migrations)
      (\<lambda>r w'. case r of None \<Rightarrow> schema w' = migrated (schema w) | Some e \<Rightarrow> True) w"
    unfolding Migrations_def assms
    by (auto simp: migrated_def split: option.splits intro!: wp_mono [OF migrations_wp(1)]
        wp_mono [OF migrations_wp(2)] wp_mono [OF migrations_wp(3)] wp_mono [OF migrations_wp(4)])
  then show ?thesis
    unfolding migrations_Run_def
    by (rule gormigrate_law [where P = "\<lambda>r S. case r of None \<Rightarrow> S = migrated (schema w) | Some e \<Rightarrow> True"])
qed

end

section \<open>The migrated schema\<close>

text \<open>The indexes of the program.\<close>

definition program_indexes :: "index list" where
  "program_indexes = sch_Indexes (fold apply_ddl (notification_ddl @ [attempt_ddl] @ scheduled_ddl)
     \<lparr>sch_Tables = Map.empty, sch_Indexes = []\<rparr>)"

text \<open>An interrupted start may have left some of them behind, and no other index has their names.\<close>

definition no_name_clash :: "schema \<Rightarrow> bool" where
  "no_name_clash S \<longleftrightarrow> (\<forall>i\<in>set (sch_Indexes S). ix_Name i \<in> set (map ix_Name program_indexes) \<longrightarrow> i \<in> set program_indexes)"

definition has_columns :: "schema \<Rightarrow> string \<Rightarrow> column list \<Rightarrow> bool" where
  "has_columns S table cols \<longleftrightarrow>
     (case sch_Tables S table of None \<Rightarrow> False | Some cs \<Rightarrow> set (map col_Name cols) \<subseteq> set cs)"

fun index_of :: "ddl \<Rightarrow> index option" where
  "index_of (CreateIndex u n t cs c) = Some \<lparr>ix_Unique = u, ix_Name = n, ix_Table = t, ix_Columns = cs, ix_Where = c\<rparr>"
| "index_of d = None"

fun creates :: "ddl \<Rightarrow> bool" where
  "creates (CreateIndex u n t cs c) = True"
| "creates (AddColumn t c ty) = True"
| "creates d = False"

lemma program_index_names: "distinct (map ix_Name program_indexes)"
  by code_simp

definition ours :: "ddl \<Rightarrow> bool" where
  "ours d \<longleftrightarrow> creates d \<and> (case index_of d of None \<Rightarrow> True | Some i \<Rightarrow> i \<in> set program_indexes)"

lemma apply_ours:
  assumes "no_name_clash S" and "ours d"
  shows "no_name_clash (apply_ddl d S)" and "set (sch_Indexes S) \<subseteq> set (sch_Indexes (apply_ddl d S))"
    and "index_of d = Some i \<Longrightarrow> i \<in> set (sch_Indexes (apply_ddl d S))"
proof -
  have same: "i = j" if "i \<in> set program_indexes" "j \<in> set program_indexes" "ix_Name i = ix_Name j" for i j
    using that program_index_names by (auto simp: distinct_map inj_on_def)
  have grown: "set (sch_Indexes (apply_ddl d S)) \<subseteq> set (sch_Indexes S) \<union> {i. index_of d = Some i}"
    using assms(2) by (cases d) (auto simp: ours_def)
  moreover have "i \<in> set program_indexes" if "index_of d = Some i" for i
    using assms(2) that by (simp add: ours_def)
  ultimately show "no_name_clash (apply_ddl d S)"
    using assms(1) unfolding no_name_clash_def by blast
  show "set (sch_Indexes S) \<subseteq> set (sch_Indexes (apply_ddl d S))"
    using assms(2) by (cases d) (auto simp: ours_def)
  show "i \<in> set (sch_Indexes (apply_ddl d S))" if i: "index_of d = Some i"
  proof (cases d)
    case (CreateIndex u n t cs c)
    show ?thesis
    proof (cases "n \<in> set (map ix_Name (sch_Indexes S))")
      case True
      then obtain j where j: "j \<in> set (sch_Indexes S)" "ix_Name j = n" by auto
      have "ix_Name i = n" "i \<in> set program_indexes" using i CreateIndex assms(2) by (auto simp: ours_def)
      moreover from this j have "ix_Name j \<in> set (map ix_Name program_indexes)" by force
      ultimately have "j = i" using j assms(1) by (intro same) (auto simp: no_name_clash_def)
      with j True CreateIndex show ?thesis by simp
    qed (use i CreateIndex in auto)
  qed (use i in auto)
qed

lemma fold_ours:
  assumes "no_name_clash S" and "list_all ours ds"
  shows "no_name_clash (fold apply_ddl ds S) \<and> set (sch_Indexes S) \<subseteq> set (sch_Indexes (fold apply_ddl ds S))
    \<and> (\<forall>d i. d \<in> set ds \<longrightarrow> index_of d = Some i \<longrightarrow> i \<in> set (sch_Indexes (fold apply_ddl ds S)))"
  using assms
proof (induction ds arbitrary: S)
  case (Cons d ds)
  then have d: "ours d" and ds: "list_all ours ds" by simp_all
  note one = apply_ours [OF Cons.prems(1) d]
  note rest = Cons.IH [OF one(1) ds]
  show ?case using one(2,3) rest by (simp, blast)
qed simp

lemma auto_migrate_indexes [simp]: "sch_Indexes (auto_migrate t cs S) = sch_Indexes S"
  by (simp add: auto_migrate_def)

lemma no_name_clash_auto [simp]: "no_name_clash (auto_migrate t cs S) = no_name_clash S"
  by (simp add: no_name_clash_def)

lemma program_ours: "list_all ours notification_ddl" "ours attempt_ddl" "list_all ours scheduled_ddl"
  by (code_simp)+

lemma set_map_filter_iff: "set (List.map_filter f xs) = {y. \<exists>x\<in>set xs. f x = Some y}"
  by (induction xs) (auto simp: List.map_filter_simps split: option.splits)

lemma program_indexes_from:
  "set program_indexes = {i. \<exists>d\<in>set (notification_ddl @ [attempt_ddl] @ scheduled_ddl). index_of d = Some i}"
proof -
  have "program_indexes = List.map_filter index_of (notification_ddl @ [attempt_ddl] @ scheduled_ddl)" by code_simp
  then show ?thesis using set_map_filter_iff by metis
qed

lemma migrated_indexes:
  assumes "no_name_clash S"
  shows "set program_indexes \<subseteq> set (sch_Indexes (migrated S))"
proof -
  let ?S1 = "fold apply_ddl notification_ddl (auto_migrate notification_TableName notification_columns S)"
  let ?S2 = "apply_ddl attempt_ddl (auto_migrate attempt_TableName attempt_columns ?S1)"
  have "no_name_clash (auto_migrate notification_TableName notification_columns S)" using assms by simp
  note 1 = fold_ours [OF this program_ours(1)]
  then have "no_name_clash (auto_migrate attempt_TableName attempt_columns ?S1)" by simp
  note 2 = apply_ours [OF this program_ours(2)]
  then have "no_name_clash (auto_migrate batch_TableName batch_columns ?S2)" by simp
  note 3 = fold_ours [OF this program_ours(3), folded migrated_def]
  show ?thesis
  proof
    fix i assume "i \<in> set program_indexes"
    then obtain d where d: "index_of d = Some i" "d \<in> set notification_ddl \<or> d = attempt_ddl \<or> d \<in> set scheduled_ddl"
      unfolding program_indexes_from by auto
    have "i \<in> set (sch_Indexes ?S1) \<Longrightarrow> i \<in> set (sch_Indexes ?S2)" using 2(2) by auto
    moreover have "i \<in> set (sch_Indexes ?S2) \<Longrightarrow> i \<in> set (sch_Indexes (migrated S))" using 3 by auto
    ultimately show "i \<in> set (sch_Indexes (migrated S))" using d 1 2(3) 3 by metis
  qed
qed

lemma fold_index_tables: "list_all (\<lambda>d. index_of d \<noteq> None) ds \<Longrightarrow> sch_Tables (fold apply_ddl ds S) = sch_Tables S"
proof (induction ds arbitrary: S)
  case (Cons d ds)
  then show ?case by (cases d) auto
qed simp

lemma migrated_columns:
  "has_columns (migrated S) notification_TableName notification_columns"
  "has_columns (migrated S) attempt_TableName attempt_columns"
  "has_columns (migrated S) batch_TableName batch_columns"
proof -
  have n: "sch_Tables (fold apply_ddl notification_ddl T) = sch_Tables T" for T
    by (rule fold_index_tables) (simp add: notification_ddl_def)
  have a: "sch_Tables (apply_ddl attempt_ddl T) = sch_Tables T" for T by (simp add: attempt_ddl_def)
  have s: "sch_Tables (fold apply_ddl scheduled_ddl T) = (sch_Tables T)(''notifications'' :=
      map_option (\<lambda>cs. if ''scheduled_at'' \<in> set cs then cs else cs @ [''scheduled_at'']) (sch_Tables T ''notifications''))" for T
    by (simp add: scheduled_ddl_def)
  show "has_columns (migrated S) notification_TableName notification_columns"
    "has_columns (migrated S) attempt_TableName attempt_columns"
    "has_columns (migrated S) batch_TableName batch_columns"
    by (auto simp: has_columns_def migrated_def n a s auto_migrate_def notification_TableName_def attempt_TableName_def
        batch_TableName_def split: option.splits)
qed

text \<open>
  C35: a start on a database on which no migration is recorded, even one that an interrupted start
  has partly migrated, ends with an error or with the tables of all three models with all their
  columns and with every index of the program, among them the unique index on the idempotency keys
  that are not null.
\<close>

theorem migrations_establish_schema:
  assumes "migration_env tx schema gormigrate_Migrate applied" and "applied w = {}" and "no_name_clash (schema w)"
  shows "wp (migrations_Run gormigrate_Migrate) (\<lambda>r w'. case r of
       Some e \<Rightarrow> True
     | None \<Rightarrow> has_columns (schema w') notification_TableName notification_columns
         \<and> has_columns (schema w') attempt_TableName attempt_columns
         \<and> has_columns (schema w') batch_TableName batch_columns
         \<and> set program_indexes \<subseteq> set (sch_Indexes (schema w'))
         \<and> \<lparr>ix_Unique = True, ix_Name = ''idx_notifications_idempotency_key'', ix_Table = ''notifications'',
             ix_Columns = [''idempotency_key''], ix_Where = Some ''idempotency_key IS NOT NULL''\<rparr>
             \<in> set (sch_Indexes (schema w'))) w"
proof (rule wp_mono [OF migration_env.Run_wp [OF assms(1,2)]], goal_cases)
  case (1 r w')
  have "\<lparr>ix_Unique = True, ix_Name = ''idx_notifications_idempotency_key'', ix_Table = ''notifications'',
      ix_Columns = [''idempotency_key''], ix_Where = Some ''idempotency_key IS NOT NULL''\<rparr> \<in> set program_indexes"
    by code_simp
  with 1 migrated_columns migrated_indexes [OF assms(3)] show ?case by (auto split: option.splits)
qed

text \<open>
  Rolling back the last migration does not restore what was there before it. The first migration
  creates the column \<open>scheduled_at\<close> from the model, so the last one only adds an index, but its
  rollback drops the column.
\<close>

theorem rollback_loses_column:
  assumes "schema_laws tx schema"
  shows "wp (mg_Migrate createNotificationsTable tx) (\<lambda>r w'. case r of
        None \<Rightarrow> (case sch_Tables (schema w') ''notifications'' of None \<Rightarrow> False | Some cs \<Rightarrow> ''scheduled_at'' \<in> set cs)
      | Some e \<Rightarrow> True) w
    \<and> wp (do { a \<leftarrow> mg_Migrate addNotificationsScheduledAtColumn tx;
               b \<leftarrow> mg_Rollback addNotificationsScheduledAtColumn tx;
               State_Monad.return (a, b) })
        (\<lambda>(a, b) w'. if a = None \<and> b = None
           then (case sch_Tables (schema w') ''notifications'' of None \<Rightarrow> True | Some cs \<Rightarrow> \<not> ''scheduled_at'' \<in> set cs)
           else True) v"
proof
  have n: "sch_Tables (fold apply_ddl notification_ddl T) = sch_Tables T" for T
    by (rule fold_index_tables) (simp add: notification_ddl_def)
  have made: "has_columns (fold apply_ddl notification_ddl (auto_migrate notification_TableName notification_columns S))
      notification_TableName notification_columns" for S
    by (auto simp: has_columns_def n auto_migrate_def split: option.splits)
  have "''scheduled_at'' \<in> set (map col_Name notification_columns)" by code_simp
  then have created: "case sch_Tables S ''notifications'' of None \<Rightarrow> False | Some cs \<Rightarrow> ''scheduled_at'' \<in> set cs"
    if "has_columns S notification_TableName notification_columns" for S
    using that by (auto simp: has_columns_def notification_TableName_def split: option.splits)
  show "wp (mg_Migrate createNotificationsTable tx) (\<lambda>r w'. case r of
        None \<Rightarrow> (case sch_Tables (schema w') ''notifications'' of None \<Rightarrow> False | Some cs \<Rightarrow> ''scheduled_at'' \<in> set cs)
      | Some e \<Rightarrow> True) w"
    by (rule wp_mono [OF schema_laws.migrations_wp(1) [OF assms]]) (use created [OF made] in \<open>simp split: option.split_asm option.split\<close>)
  have dropped: "sch_Tables (fold apply_ddl unscheduled_ddl T) ''notifications''
      = map_option (filter (\<lambda>c. c \<noteq> ''scheduled_at'')) (sch_Tables T ''notifications'')" for T
    by (simp add: unscheduled_ddl_def)
  have gone: "case map_option (filter (\<lambda>c. c \<noteq> x)) y of None \<Rightarrow> True | Some cs \<Rightarrow> \<not> x \<in> set cs" for x :: string and y
    by (cases y) simp_all
  have back_out: "wp (mg_Rollback addNotificationsScheduledAtColumn tx) (\<lambda>b w'. if b = None
      then (case sch_Tables (schema w') ''notifications'' of None \<Rightarrow> True | Some cs \<Rightarrow> \<not> ''scheduled_at'' \<in> set cs) else True) u" for u
    by (rule wp_mono [OF schema_laws.migrations_wp(5) [OF assms]]) (auto simp: dropped split: option.splits)
  show "wp (do { a \<leftarrow> mg_Migrate addNotificationsScheduledAtColumn tx;
               b \<leftarrow> mg_Rollback addNotificationsScheduledAtColumn tx;
               State_Monad.return (a, b) })
        (\<lambda>(a, b) w'. if a = None \<and> b = None
           then (case sch_Tables (schema w') ''notifications'' of None \<Rightarrow> True | Some cs \<Rightarrow> \<not> ''scheduled_at'' \<in> set cs)
           else True) v"
    unfolding wp_bind wp_return prod.case
    by (rule wp_mono [OF schema_laws.migrations_wp(4) [OF assms]], rule wp_mono [OF back_out]) simp
qed

section \<open>Column widths and validation\<close>

text \<open>The values of the text columns, and whether they fit.\<close>

definition text_values :: "notification \<Rightarrow> (string \<times> string option) list" where
  "text_values n =
     [(''correlation_id'', Some (CorrelationID n)), (''idempotency_key'', IdempotencyKey n),
      (''channel'', Some (Channel n)), (''priority'', Some (Priority n)), (''recipient'', Some (Recipient n)),
      (''content'', Some (Content n)), (''status'', Some (Status n)), (''provider_message_id'', ProviderMessageID n)]"

fun fits_type :: "sql_type \<Rightarrow> string \<Rightarrow> bool" where
  "fits_type (Varchar width) v = (rune_count v \<le> width)"
| "fits_type t v = True"

definition storable :: "notification \<Rightarrow> bool" where
  "storable n = list_all (\<lambda>c. case map_of (text_values n) (col_Name c) of
       Some (Some v) \<Rightarrow> fits_type (col_Type c) v | _ \<Rightarrow> True) notification_columns"


end
