(* ===== verification/Startup.thy ===== *)
theory Startup
  imports Handler Wiring Storage_Setup
begin

text \<open>
  \<open>main\<close> of \<open>cmd/api/main.go\<close>: the start-up sequence with its fatal exits, the four goroutines, the
  \<open>select\<close> that waits for a signal or for the first of them to end, and the shutdown. The libraries
  it calls are the fields of \<open>process\<close>.
\<close>

section \<open>The libraries\<close>

record 'w zap_logger =
  log_Info :: "string \<Rightarrow> (string \<times> string) list \<Rightarrow> ('w, unit) state"
  log_Error :: "string \<Rightarrow> (string \<times> string) list \<Rightarrow> go_error \<Rightarrow> ('w, unit) state"
  log_Sync :: "('w, unit) state"

text \<open>The middlewares: three of fiber's own and that of the metrics, applied to the method, the
  matched route and the rest of the chain.\<close>

datatype 'w middleware =
    Recover
  | RequestID
  | Cors
  | Metrics "string \<Rightarrow> string option option \<Rightarrow> ('w, go_error option \<times> int) state \<Rightarrow> ('w, go_error option) state"

record ('w, 'app) fiber_lib = "('w, 'app) fiber_router" +
  fb_New :: "string \<Rightarrow> (go_error \<Rightarrow> http_reply) \<Rightarrow> 'app"
  fb_Use :: "'app \<Rightarrow> 'w middleware \<Rightarrow> 'app"
  fb_Listen :: "'app \<Rightarrow> string \<Rightarrow> 'w \<Rightarrow> (go_error option \<times> 'w) option"
  fb_ShutdownWithTimeout :: "'app \<Rightarrow> duration \<Rightarrow> ('w, go_error option) state"

text \<open>The buffered channels on which the goroutines report, and what the \<open>select\<close> received.\<close>

datatype result_chan = WorkerErrCh | RetryScannerErrCh | SchedulerErrCh | ListenErrCh

datatype selected = SignalDone | Received result_chan "go_error option"

text \<open>\<open>p_X\<close> holds what does not depend on a connection; the tables are those of the database
  and \<open>p_Run\<close> is the pipeline of the Redis client that were opened. \<open>p_go ch f\<close> is the \<open>go\<close> statement whose
  function sends the result of \<open>f\<close> on \<open>ch\<close>.\<close>

record ('w, 'c, 'h, 'db, 'sql, 'opts, 'rdb, 'r, 'k, 'app, 'level) process =
  p_UnmarshalFromEnviron :: "go_error + config"
  p_UnmarshalText :: "string \<Rightarrow> go_error + 'level"
  p_NewProductionConfig :: "'level zap_config"
  p_Build :: "'level zap_config \<Rightarrow> go_error + 'w zap_logger"
  p_gorm :: "('w, 'db, 'sql) gorm_driver"
  p_Migrate :: "'db \<Rightarrow> 'w migration list \<Rightarrow> ('w, go_error option) state"
  p_redis :: "('w, 'opts, 'rdb) redis_driver"
  p_X :: "('w, 'c, 'h) externals"
  p_notifications :: "'db \<Rightarrow> ('w, notification_model) gorm_table"
  p_batches :: "'db \<Rightarrow> ('w, batch_model) gorm_table"
  p_attempts :: "'db \<Rightarrow> ('w, attempt_model) gorm_table"
  p_Run :: "'rdb \<Rightarrow> 'w redis_client"
  p_prometheus :: "('w, 'r, 'k) prometheus_lib"
  p_promhttp_Handler :: "'w fiber_handler"
  p_promhttp_HandlerFor :: "'r \<Rightarrow> 'w fiber_handler"
  p_fiber :: "('w, 'app) fiber_lib"
  p_BodyParser :: "create_notification_request body_parser"
  p_BatchParser :: "create_batch_request body_parser"
  p_errgroup :: "'w errgroup"
  p_retryTicker :: "'w ticker"
  p_schedulerTicker :: "'w ticker"
  p_NotifyContext :: "('w, unit) state"
  p_stop :: "('w, unit) state"
  p_go :: "result_chan \<Rightarrow> ('w \<Rightarrow> (go_error option \<times> 'w) option) \<Rightarrow> ('w, unit) state"
  p_select :: "('w, selected) state"

section \<open>The process\<close>

datatype main_exit = Fatal string go_error | Panicked | Stopped

definition shutdownTimeout :: duration where "shutdownTimeout = 15 * 10 ^ 9"

text \<open>Up to the Redis client.\<close>

definition main_storage ::
  "('w, 'c, 'h, 'db, 'sql, 'opts, 'rdb, 'r, 'k, 'app, 'level) process
     \<Rightarrow> ('w, main_exit + config \<times> 'w zap_logger \<times> 'db \<times> 'sql \<times> 'rdb) state" where
  "main_storage P =
     (case config_Load (p_UnmarshalFromEnviron P) of
        Inl err \<Rightarrow> State_Monad.return (Inl (Fatal ''failed to load config'' err))
      | Inr cfg \<Rightarrow>
     (case NewLogger (p_UnmarshalText P) (p_NewProductionConfig P) (p_Build P) (LogLevel cfg) of
        Inl err \<Rightarrow> State_Monad.return (Inl (Fatal ''failed to initialize logger'' err))
      | Inr logger \<Rightarrow> do {
          opened \<leftarrow> NewPostgres (p_gorm P) (DatabaseDSN cfg);
          (case opened of
             Inl err \<Rightarrow> State_Monad.return (Inl (Fatal ''postgres initialization failed'' err))
           | Inr db \<Rightarrow> do {
               ran \<leftarrow> migrations_Run (p_Migrate P db);
               (case ran of
                  Some err \<Rightarrow> State_Monad.return (Inl (Fatal ''database migrations failed'' err))
                | None \<Rightarrow> do {
                    underlying \<leftarrow> gd_DB (p_gorm P) db;
                    (case underlying of
                       Inl err \<Rightarrow> State_Monad.return (Inl (Fatal ''postgres underlying db init failed'' err))
                     | Inr sqlDB \<Rightarrow> do {
                         client \<leftarrow> NewRedis (p_redis P) (RedisURL cfg);
                         State_Monad.return (case client of
                             Inl err \<Rightarrow> Inl (Fatal ''redis initialization failed'' err)
                           | Inr rdb \<Rightarrow> Inr (cfg, logger, db, sqlDB, rdb))
                       })
                  })
             })
        }))"

definition main_externals ::
  "('w, 'c, 'h, 'db, 'sql, 'opts, 'rdb, 'r, 'k, 'app, 'level) process \<Rightarrow> 'db \<Rightarrow> 'rdb \<Rightarrow> 'w prometheus
     \<Rightarrow> ('w, 'c, 'h) externals" where
  "main_externals P db rdb metrics =
     (p_X P)\<lparr>x_notifications := p_notifications P db, x_batches := p_batches P db, x_attempts := p_attempts P db,
       x_redis := Some (p_Run P rdb), x_metrics := Some metrics\<rparr>"

text \<open>The HTTP application and the dependencies.\<close>

definition main_build ::
  "('w, 'c, 'h, 'db, 'sql, 'opts, 'rdb, 'r, 'k, 'app, 'level) process
     \<Rightarrow> config \<Rightarrow> 'db \<Rightarrow> 'sql \<Rightarrow> 'rdb \<Rightarrow> ('w, main_exit + 'app \<times> 'w app_dependencies) state" where
  "main_build P cfg db sqlDB rdb = do {
     let F = p_fiber P;
     let app = fb_New F ''dispatch-engine'' ErrorHandler;
     created \<leftarrow> NewMetrics (p_prometheus P);
     State_Monad.return (case created of
         None \<Rightarrow> Inl Panicked
       | Some (registry, metrics) \<Rightarrow>
           let app = fb_Use F app Recover;
               app = fb_Use F app RequestID;
               app = fb_Use F app Cors;
               app = fb_Use F app (Metrics (HTTPMiddleware (x_rt (p_X P)) (Some metrics)));
               app = fb_Get F app ''/metrics''
                 (metrics_Handler (p_promhttp_Handler P) (p_promhttp_HandlerFor P) (Some (Some registry)));
               app = RegisterHealthRoutes F app (gd_Ping (p_gorm P) sqlDB) (rd_Ping (p_redis P) rdb)
           in case wireDependencies cfg (main_externals P db rdb metrics) of
                Inl err \<Rightarrow> Inl (Fatal ''dependency wiring failed'' err)
              | Inr deps \<Rightarrow>
                  (case RegisterNotificationRoutes F (p_BodyParser P) (p_BatchParser P) app
                          (service_api (notificationService deps) (x_rt (p_X P))) of
                     Inl err \<Rightarrow> Inl (Fatal ''notification route registration failed'' err)
                   | Inr app \<Rightarrow> Inr (app, deps)))
   }"

definition closeWithLog ::
  "'w zap_logger \<Rightarrow> string \<Rightarrow> ('w, go_error option) state option \<Rightarrow> ('w, unit) state" where
  "closeWithLog logger component closeFn =
     (case closeFn of
        None \<Rightarrow> State_Monad.return ()
      | Some f \<Rightarrow> do {
          r \<leftarrow> f;
          (case r of
             None \<Rightarrow> State_Monad.return ()
           | Some err \<Rightarrow> log_Error logger ''failed to close component'' [(''component'', component)] err)
        })"

text \<open>The branches of the \<open>select\<close>.\<close>

definition main_selected ::
  "('w, unit) state \<Rightarrow> 'w zap_logger \<Rightarrow> selected \<Rightarrow> ('w, unit) state" where
  "main_selected stop logger ev =
     (let stopped = (\<lambda>what err. do {
            (case err of
               None \<Rightarrow> State_Monad.return ()
             | Some e \<Rightarrow> if errors_Is e ContextCanceled then State_Monad.return ()
                         else log_Error logger (what @ '' stopped with error'') [] e);
            stop })
      in case ev of
           SignalDone \<Rightarrow> log_Info logger ''shutdown signal received'' []
         | Received ListenErrCh err \<Rightarrow> do {
             (case err of None \<Rightarrow> State_Monad.return () | Some e \<Rightarrow> log_Error logger ''fiber listen failed'' [] e);
             stop }
         | Received WorkerErrCh err \<Rightarrow> stopped ''worker'' err
         | Received RetryScannerErrCh err \<Rightarrow> stopped ''retry scanner'' err
         | Received SchedulerErrCh err \<Rightarrow> stopped ''scheduler'' err)"

text \<open>The rest of \<open>main\<close>; the deferred calls run at its end, the last one first.\<close>

definition main_run ::
  "('w, 'c, 'h, 'db, 'sql, 'opts, 'rdb, 'r, 'k, 'app, 'level) process
     \<Rightarrow> config \<Rightarrow> 'w zap_logger \<Rightarrow> 'sql \<Rightarrow> 'rdb \<Rightarrow> 'app \<Rightarrow> 'w app_dependencies \<Rightarrow> ('w, main_exit) state" where
  "main_run P cfg logger sqlDB rdb app deps = do {
     let X = p_X P;
     p_NotifyContext P;
     p_go P WorkerErrCh (\<lambda>w. Some (run_state (worker_Start (workerService deps) (x_rt X) (p_errgroup P)) w));
     p_go P RetryScannerErrCh (retry_Start (retryScanner deps) (p_retryTicker P));
     p_go P SchedulerErrCh (schedule_Start (app_scheduler deps) (p_schedulerTicker P));
     p_go P ListenErrCh (\<lambda>w.
       let addr = '':'' @ Itoa (APIPort cfg)
       in fb_Listen (p_fiber P) app addr (snd (run_state (log_Info logger ''dispatch-engine api started'' [(''port'', Itoa (APIPort cfg))]) w)));
     ev \<leftarrow> p_select P;
     main_selected (p_stop P) logger ev;
     p_stop P;
     log_Info logger ''shutting down server'' [];
     down \<leftarrow> fb_ShutdownWithTimeout (p_fiber P) app shutdownTimeout;
     (case down of None \<Rightarrow> State_Monad.return () | Some err \<Rightarrow> log_Error logger ''server forced shutdown'' [] err);
     closeWithLog logger ''rabbitmq'' (Some (State (\<lambda>w.
       case rabbitmq_Close (x_amqp X) (x_get_conn X w) w of (r, conn, w') \<Rightarrow> (r, x_put_conn X conn w'))));
     closeWithLog logger ''redis'' (Some (rd_Close (p_redis P) rdb));
     closeWithLog logger ''postgres'' (Some (gd_Close (p_gorm P) sqlDB));
     log_Info logger ''server stopped'' [];
     p_stop P;
     log_Sync logger;
     State_Monad.return Stopped
   }"

definition main :: "('w, 'c, 'h, 'db, 'sql, 'opts, 'rdb, 'r, 'k, 'app, 'level) process \<Rightarrow> 'w \<Rightarrow> (main_exit \<times> 'w) option" where
  "main P w =
     (case run_state (main_storage P) w of
        (Inl e, w1) \<Rightarrow> Some (e, w1)
      | (Inr (cfg, logger, db, sqlDB, rdb), w1) \<Rightarrow>
          (case NewRabbitMQ (x_amqp (p_X P)) (RabbitMQURL cfg) w1 of
             None \<Rightarrow> None
           | Some (Inl err, conn, w2) \<Rightarrow> Some (Fatal ''rabbitmq initialization failed'' err, w2)
           | Some (Inr url, conn, w2) \<Rightarrow>
               Some (run_state (do {
                 built \<leftarrow> main_build P cfg db sqlDB rdb;
                 (case built of
                    Inl e \<Rightarrow> State_Monad.return e
                  | Inr (app, deps) \<Rightarrow> main_run P cfg logger sqlDB rdb app deps)
               }) (x_put_conn (p_X P) conn w2))))"

section \<open>Start-up and shutdown\<close>

definition schema_ready :: "schema \<Rightarrow> bool" where
  "schema_ready S \<longleftrightarrow> has_columns S notification_TableName notification_columns
     \<and> has_columns S attempt_TableName attempt_columns \<and> has_columns S batch_TableName batch_columns
     \<and> set program_indexes \<subseteq> set (sch_Indexes S)"

text \<open>
  What of the world the properties of \<open>main\<close> observe: the schema of the database, the broker
  connection and these events in the order in which they happen. The goroutines run while \<open>main\<close>
  waits; they touch the connection, not the schema, and they start and close nothing of this.
\<close>

datatype main_event = Started result_chan | ContextStopped | ServerShutdown duration | RedisClosed | PostgresClosed

locale main_laws =
  fixes P :: "('w, 'c, 'h, 'db, 'sql, 'opts, 'rdb, 'r, 'k, 'app, 'level) process"
    and posted :: "'w \<Rightarrow> (string \<times> publishing) list" and events :: "'w \<Rightarrow> main_event list"
    and schema :: "'w \<Rightarrow> schema" and applied :: "'w \<Rightarrow> string set" and tx :: "'db \<Rightarrow> 'w gorm_tx"
  assumes broker: "broker_laws (x_amqp (p_X P)) (x_rt (p_X P)) posted (\<lambda>w. (events w, schema w, applied w))"
    and put_conn: "x_get_conn (p_X P) (x_put_conn (p_X P) c w) = c"
      "events (x_put_conn (p_X P) c w) = events w" "schema (x_put_conn (p_X P) c w) = schema w"
    and logger: "p_Build P zc = Inr l \<Longrightarrow> keeps (\<lambda>w. (events w, schema w, x_get_conn (p_X P) w)) (log_Info l m fs)"
      "p_Build P zc = Inr l \<Longrightarrow> keeps (\<lambda>w. (events w, schema w, x_get_conn (p_X P) w)) (log_Error l m fs e)"
      "p_Build P zc = Inr l \<Longrightarrow> keeps (\<lambda>w. (events w, schema w, x_get_conn (p_X P) w)) (log_Sync l)"
    and gorm: "keeps (\<lambda>w. (events w, schema w, applied w)) (gd_Open (p_gorm P) dsn sk)"
      "keeps (\<lambda>w. (events w, schema w, applied w)) (gd_DB (p_gorm P) db)"
      "keeps (\<lambda>w. (events w, schema w, applied w)) (gd_SetMaxOpenConns (p_gorm P) sql i)"
      "keeps (\<lambda>w. (events w, schema w, applied w)) (gd_SetMaxIdleConns (p_gorm P) sql i)"
      "keeps (\<lambda>w. (events w, schema w, applied w)) (gd_SetConnMaxLifetime (p_gorm P) sql i)"
      "keeps (\<lambda>w. (events w, schema w, applied w)) (gd_Ping (p_gorm P) sql)"
    and migrate: "keeps events (p_Migrate P db Migrations)" "migration_env (tx db) schema (p_Migrate P db) applied"
    and redis: "keeps (\<lambda>w. (events w, schema w, applied w)) (rd_Ping (p_redis P) rdb)"
    and prometheus: "keeps (\<lambda>w. (events w, schema w, applied w)) (pl_NewRegistry (p_prometheus P))"
      "keeps (\<lambda>w. (events w, schema w, applied w)) (pl_MustRegister (p_prometheus P) reg ks)"
    and process: "keeps (\<lambda>w. (events w, schema w)) (p_NotifyContext P)"
      "wp (p_go P ch f) (\<lambda>_ w'. events w' = events w @ [Started ch] \<and> schema w' = schema w) w"
      "keeps (\<lambda>w. (events w, schema w)) (p_select P)"
    and stop: "wp (p_stop P) (\<lambda>_ w'. events w' = events w @ [ContextStopped] \<and> schema w' = schema w
        \<and> x_get_conn (p_X P) w' = x_get_conn (p_X P) w) w"
    and shutdown: "wp (fb_ShutdownWithTimeout (p_fiber P) app dur)
        (\<lambda>_ w'. events w' = events w @ [ServerShutdown dur] \<and> schema w' = schema w) w"
    and closing: "wp (rd_Close (p_redis P) rdb) (\<lambda>_ w'. events w' = events w @ [RedisClosed] \<and> schema w' = schema w
        \<and> x_get_conn (p_X P) w' = x_get_conn (p_X P) w) w"
      "wp (gd_Close (p_gorm P) sql) (\<lambda>_ w'. events w' = events w @ [PostgresClosed] \<and> schema w' = schema w
        \<and> x_get_conn (p_X P) w' = x_get_conn (p_X P) w) w"
begin

abbreviation steady :: "('w, 'a) state \<Rightarrow> bool" where
  "steady \<equiv> keeps (\<lambda>w. (events w, schema w, applied w))"

lemma steady_NewPostgres: "steady (NewPostgres (p_gorm P) dsn)"
  unfolding NewPostgres_def by (auto intro!: keeps_bind gorm split: sum.split)

lemma steady_NewRedis: "steady (NewRedis (p_redis P) url)"
  unfolding NewRedis_def Let_def by (auto intro!: keeps_bind redis split: sum.split)

lemma steady_NewMetrics: "steady (NewMetrics (p_prometheus P))"
  unfolding NewMetrics_def by (intro keeps_bind prometheus keeps_return)

lemma steady_NewRabbitMQ:
  "NewRabbitMQ (x_amqp (p_X P)) url w = Some (r, conn, w') \<Longrightarrow> events w' = events w \<and> schema w' = schema w"
  by (auto simp: NewRabbitMQ_def split: if_splits option.splits prod.splits dest!: broker_laws.ensure_still [OF broker])

lemma migrations_wp:
  assumes "applied w = {}" and "no_name_clash (schema w)"
  shows "wp (migrations_Run (p_Migrate P db)) (\<lambda>r w'. events w' = events w \<and> (r = None \<longrightarrow> schema_ready (schema w'))) w"
proof (rule wp_conj)
  show "wp (migrations_Run (p_Migrate P db)) (\<lambda>r w'. events w' = events w) w"
    using migrate(1) by (simp add: migrations_Run_def keeps_wp)
  show "wp (migrations_Run (p_Migrate P db)) (\<lambda>r w'. r = None \<longrightarrow> schema_ready (schema w')) w"
    by (rule wp_mono [OF migration_env.Run_wp [OF migrate(2) assms(1)]])
       (auto simp: schema_ready_def migrated_columns dest: subsetD [OF migrated_indexes [OF assms(2)]])
qed

lemma storage_wp:
  assumes "applied w = {}" and "no_name_clash (schema w)"
  shows "wp (main_storage P) (\<lambda>r w'. events w' = events w \<and> (case r of
      Inl e \<Rightarrow> e \<noteq> Stopped
    | Inr (cfg, l, _) \<Rightarrow> config_Load (p_UnmarshalFromEnviron P) = Inr cfg \<and> (\<exists>zc. p_Build P zc = Inr l) \<and> schema_ready (schema w'))) w"
proof (cases "config_Load (p_UnmarshalFromEnviron P)")
  case (Inr cfg)
  then show ?thesis
  proof (cases "NewLogger (p_UnmarshalText P) (p_NewProductionConfig P) (p_Build P) (LogLevel cfg)")
    case l: (Inr l)
    then have b: "\<exists>zc. p_Build P zc = Inr l" by (auto simp: NewLogger_def Let_def split: sum.splits)
    have opened: "wp (migrations_Run (p_Migrate P db)) (\<lambda>r v'. events v' = events w \<and> (r = None \<longrightarrow> schema_ready (schema v'))) v"
      if "events v = events w \<and> schema v = schema w \<and> applied v = applied w" for db v
      by (rule wp_mono [OF migrations_wp]) (use assms that in simp_all)
    show ?thesis
      unfolding main_storage_def Inr l sum.case wp_bind
    proof (rule keeps_wpI [OF steady_NewPostgres], goal_cases)
      case (1 r w1)
      then show ?case
        by (cases r) (auto intro!: wp_mono [OF opened] keeps_wpI [OF gorm(2)] keeps_wpI [OF steady_NewRedis] b
            split: option.splits sum.split)
    qed
  qed (simp add: main_storage_def)
qed (simp add: main_storage_def)

lemma build_wp:
  "wp (main_build P cfg db sqlDB rdb) (\<lambda>r w'. events w' = events w \<and> schema w' = schema w
     \<and> (case r of Inl e \<Rightarrow> e \<noteq> Stopped | Inr x \<Rightarrow> True)) w"
  unfolding main_build_def Let_def wp_bind
  by (rule keeps_wpI [OF steady_NewMetrics]) (simp split: option.split prod.split sum.split)

text \<open>\<open>m\<close> logs the events \<open>es\<close> and leaves the schema alone; in the last phase also the connection.\<close>

abbreviation logs :: "main_event list \<Rightarrow> ('w, 'a) state \<Rightarrow> bool" where
  "logs es m \<equiv> \<forall>w. wp m (\<lambda>_ w'. events w' = events w @ es \<and> schema w' = schema w
     \<and> x_get_conn (p_X P) w' = x_get_conn (p_X P) w) w"

lemma logs_logger:
  assumes "p_Build P zc = Inr l"
  shows "logs [] (log_Info l m fs)" "logs [] (log_Error l m fs e)" "logs [] (log_Sync l)"
  using logger [OF assms] by (simp_all add: keeps_wp)

lemma report_keeps:
  assumes "p_Build P zc = Inr l"
  shows "keeps (\<lambda>w. (events w, schema w, x_get_conn (p_X P) w)) (case r of
      None \<Rightarrow> State_Monad.return () | Some err \<Rightarrow> log_Error l m fs err)"
  by (auto intro: logger(2) [OF assms] split: option.split)

lemma logs_close:
  assumes "p_Build P zc = Inr l" and "logs es f"
  shows "logs es (closeWithLog l component (Some f))"
  unfolding closeWithLog_def option.case wp_bind
  by (intro allI, rule wp_mono [OF spec [OF assms(2)]], rule keeps_wpI [OF report_keeps [OF assms(1)]]) simp

lemma selected_wp:
  assumes "p_Build P zc = Inr l"
  shows "wp (main_selected (p_stop P) l ev) (\<lambda>_ w'. schema w' = schema w
     \<and> (events w' = events w \<or> events w' = events w @ [ContextStopped])) w"
proof -
  note quiet = logger [OF assms, THEN keeps_wpI]
  have s: "wp (p_stop P) (\<lambda>_ w'. schema w' = schema w
     \<and> (events w' = events w \<or> events w' = events w @ [ContextStopped])) v"
    if "events v = events w \<and> schema v = schema w" for v
    by (rule wp_mono [OF stop]) (use that in simp)
  show ?thesis
    by (auto simp: main_selected_def intro!: quiet s split: selected.split result_chan.split option.split)
qed

lemma close_broker:
  assumes "p_Build P zc = Inr l"
  shows "wp (closeWithLog l c (Some (State (\<lambda>w. case rabbitmq_Close (x_amqp (p_X P)) (x_get_conn (p_X P) w) w of
      (r, conn, w') \<Rightarrow> (r, x_put_conn (p_X P) conn w'))))) (\<lambda>_ w'. events w' = events w \<and> schema w' = schema w
        \<and> x_get_conn (p_X P) w' = None) w"
proof -
  obtain r conn w' where c: "rabbitmq_Close (x_amqp (p_X P)) (x_get_conn (p_X P) w) w = (r, conn, w')"
    by (cases "rabbitmq_Close (x_amqp (p_X P)) (x_get_conn (p_X P) w) w") auto
  then have "events w' = events w \<and> schema w' = schema w \<and> conn = None"
    by (auto simp: rabbitmq_Close_def split: prod.splits if_splits
        dest!: broker_laws.run_still [OF broker broker_laws.open_law [OF broker]]
          broker_laws.run_still [OF broker broker_laws.ConnClose_law [OF broker]])
  with c have "wp (State (\<lambda>w. case rabbitmq_Close (x_amqp (p_X P)) (x_get_conn (p_X P) w) w of
      (r, conn, w') \<Rightarrow> (r, x_put_conn (p_X P) conn w'))) (\<lambda>_ w'. events w' = events w \<and> schema w' = schema w
        \<and> x_get_conn (p_X P) w' = None) w"
    by (simp add: wp_def put_conn)
  then show ?thesis
    unfolding closeWithLog_def option.case wp_bind
    by (rule wp_mono) (rule keeps_wpI [OF report_keeps [OF assms]], simp)
qed

lemma closing_phase:
  assumes "p_Build P zc = Inr l"
  shows "wp (do {
     closeWithLog l ''rabbitmq'' (Some (State (\<lambda>w. case rabbitmq_Close (x_amqp (p_X P)) (x_get_conn (p_X P) w) w of
       (r, conn, w') \<Rightarrow> (r, x_put_conn (p_X P) conn w'))));
     closeWithLog l ''redis'' (Some (rd_Close (p_redis P) rdb));
     closeWithLog l ''postgres'' (Some (gd_Close (p_gorm P) sqlDB));
     log_Info l ''server stopped'' [];
     p_stop P;
     log_Sync l;
     State_Monad.return Stopped
   }) (\<lambda>r w'. r = Stopped \<and> events w' = events w @ [RedisClosed, PostgresClosed, ContextStopped] \<and> schema w' = schema w
      \<and> x_get_conn (p_X P) w' = None) w"
proof -
  have "logs [RedisClosed] (rd_Close (p_redis P) rdb)" "logs [PostgresClosed] (gd_Close (p_gorm P) sqlDB)"
    using closing by simp_all
  note closed = this [THEN logs_close [OF assms], THEN spec]
  show ?thesis
    unfolding wp_bind wp_return
    by (rule wp_mono [OF close_broker [OF assms]], rule wp_mono [OF closed(1)], rule wp_mono [OF closed(2)],
        rule wp_mono [OF spec [OF logs_logger(1) [OF assms]]], rule wp_mono [OF stop],
        rule wp_mono [OF spec [OF logs_logger(3) [OF assms]]]) simp
qed

abbreviation launches :: "main_event list" where
  "launches \<equiv> [Started WorkerErrCh, Started RetryScannerErrCh, Started SchedulerErrCh, Started ListenErrCh]"

lemma run_wp:
  assumes "p_Build P zc = Inr l"
  shows "wp (main_run P cfg l sqlDB rdb app deps) (\<lambda>r w'. r = Stopped \<and> schema w' = schema w
     \<and> x_get_conn (p_X P) w' = None
     \<and> (\<exists>stops. stops \<noteq> [] \<and> set stops = {ContextStopped} \<and> events w' = events w @ launches @ stops
          @ [ServerShutdown shutdownTimeout, RedisClosed, PostgresClosed, ContextStopped])) w"
proof -
  define E where "E es w' \<longleftrightarrow> events w' = events w @ es \<and> schema w' = schema w" for es w'
  define stops where "stops ss \<longleftrightarrow> ss \<noteq> [] \<and> set ss = {ContextStopped}" for ss
  have launch: "wp (p_go P ch f) Q v" if "E es v" "\<And>v. E (es @ [Started ch]) v \<Longrightarrow> Q () v" for ch f es v Q
    by (rule wp_mono [OF process(2)]) (use that in \<open>auto simp: E_def\<close>)
  have signalled: "wp (main_selected (p_stop P) l ev) (\<lambda>_ w'. E launches w' \<or> E (launches @ [ContextStopped]) w') v"
    if "E launches v" for ev v
    by (rule wp_mono [OF selected_wp [OF assms]]) (use that in \<open>auto simp: E_def\<close>)
  have stopped: "wp (p_stop P) (\<lambda>_ w'. \<exists>ss. stops ss \<and> E (launches @ ss) w') v"
    if "E launches v \<or> E (launches @ [ContextStopped]) v" for v
    by (rule wp_mono [OF stop])
       (use that in \<open>auto simp: E_def stops_def intro: exI [of _ "[ContextStopped]"] exI [of _ "[ContextStopped, ContextStopped]"]\<close>)
  have down: "wp (fb_ShutdownWithTimeout (p_fiber P) app shutdownTimeout)
      (\<lambda>_ w'. \<exists>ss. stops ss \<and> E (launches @ ss @ [ServerShutdown shutdownTimeout]) w') v"
    if "\<exists>ss. stops ss \<and> E (launches @ ss) v" for v
    by (rule wp_mono [OF shutdown]) (use that in \<open>auto simp: E_def\<close>)
  let ?Post = "\<lambda>r w'. r = Stopped \<and> schema w' = schema w \<and> x_get_conn (p_X P) w' = None
     \<and> (\<exists>ss. stops ss \<and> events w' = events w @ launches @ ss
           @ [ServerShutdown shutdownTimeout, RedisClosed, PostgresClosed, ContextStopped])"
  have "wp (main_run P cfg l sqlDB rdb app deps) ?Post w"
    unfolding main_run_def Let_def
    apply (rule wp_bindI, rule keeps_wpI [OF process(1)])
    apply (rule wp_bindI, rule launch [of "[]"], simp add: E_def)
    apply (rule wp_bindI, rule launch, assumption)+
    apply (rule wp_bindI, rule keeps_wpI [OF process(3)])
    apply (rule wp_bindI, rule wp_mono [OF signalled], simp add: E_def)
    apply (rule wp_bindI, rule wp_mono [OF stopped], assumption)
    apply (rule wp_bindI, rule keeps_wpI [OF logger(1) [OF assms]])
    apply (rule wp_bindI, rule wp_mono [OF down], simp add: E_def)
    apply (rule wp_bindI, rule keeps_wpI [OF report_keeps [OF assms]])
    apply (rule wp_mono [OF closing_phase [OF assms]], auto simp: E_def)
    done
  then show ?thesis by (rule wp_mono) (auto simp: stops_def)
qed

lemma main_cases:
  assumes "applied w = {}" and "no_name_clash (schema w)"
  shows "case main P w of
      None \<Rightarrow> \<exists>cfg w1. config_Load (p_UnmarshalFromEnviron P) = Inr cfg
        \<and> NewRabbitMQ (x_amqp (p_X P)) (RabbitMQURL cfg) w1 = None
    | Some (e, w') \<Rightarrow>
        if e = Stopped
        then schema_ready (schema w') \<and> x_get_conn (p_X P) w' = None
          \<and> (\<exists>stops. stops \<noteq> [] \<and> set stops = {ContextStopped} \<and> events w' = events w @ launches @ stops
               @ [ServerShutdown shutdownTimeout, RedisClosed, PostgresClosed, ContextStopped])
        else events w' = events w"
proof (cases "run_state (main_storage P) w")
  case (Pair r w1)
  note storage = wpD [OF storage_wp [OF assms] Pair]
  show ?thesis
  proof (cases r)
    case (Inl e)
    with Pair storage show ?thesis by (auto simp: main_def)
  next
    case (Inr x)
    then obtain cfg l db sqlDB rdb where x: "r = Inr (cfg, l, db, sqlDB, rdb)" by (cases x) auto
    obtain zc where s: "events w1 = events w" "schema_ready (schema w1)" "p_Build P zc = Inr l"
      "config_Load (p_UnmarshalFromEnviron P) = Inr cfg"
      using storage x by auto
    show ?thesis
    proof (cases "NewRabbitMQ (x_amqp (p_X P)) (RabbitMQURL cfg) w1")
      case None
      with Pair x s(4) show ?thesis by (auto simp: main_def)
    next
      case (Some y)
      then obtain c conn w2 where y: "NewRabbitMQ (x_amqp (p_X P)) (RabbitMQURL cfg) w1 = Some (c, conn, w2)"
        by (cases y) auto
      define v where "v = x_put_conn (p_X P) conn w2"
      have v: "events v = events w" "schema v = schema w1"
        using steady_NewRabbitMQ [OF y] s(1) by (simp_all add: v_def put_conn)
      have go: "wp (do {
           built \<leftarrow> main_build P cfg db sqlDB rdb;
           (case built of
              Inl e \<Rightarrow> State_Monad.return e
            | Inr (app, deps) \<Rightarrow> main_run P cfg l sqlDB rdb app deps)
         }) (\<lambda>e w'. if e = Stopped
        then schema_ready (schema w') \<and> x_get_conn (p_X P) w' = None
          \<and> (\<exists>stops. stops \<noteq> [] \<and> set stops = {ContextStopped} \<and> events w' = events w @ launches @ stops
               @ [ServerShutdown shutdownTimeout, RedisClosed, PostgresClosed, ContextStopped])
        else events w' = events w) v"
      proof (rule wp_bindI, rule wp_mono [OF build_wp], goal_cases)
        case (1 b v')
        show ?case
        proof (cases b)
          case (Inr y)
          obtain app deps where "y = (app, deps)" by (cases y)
          then show ?thesis
            using 1 v s(2) Inr by (simp, intro wp_mono [OF run_wp [OF s(3)]]) simp
        qed (use 1 v in simp)
      qed
      show ?thesis
        using steady_NewRabbitMQ [OF y] s(1) wpD [OF go]
        by (cases c) (auto simp: main_def Pair x y simp flip: v_def split: prod.split)
    qed
  qed
qed

end


section \<open>Routes\<close>

text \<open>The endpoints below the prefix of the API.\<close>

definition api_routes :: "create_notification_request body_parser \<Rightarrow> create_batch_request body_parser
    \<Rightarrow> 'w notification_handler \<Rightarrow> (string \<times> string \<times> 'w fiber_handler) list" where
  "api_routes bp bbp h =
     [(''POST'', ''/notifications'', CreateNotification bp h), (''POST'', ''/notifications/batch'', handler_CreateBatch bbp h),
      (''GET'', ''/notifications/:id'', GetNotification h), (''POST'', ''/notifications/:id/cancel'', CancelNotification h),
      (''GET'', ''/notifications'', ListNotifications h), (''GET'', ''/batches/:batchId'', handler_GetBatchSummary h)]"

locale fiber_laws =
  fixes F :: "('w, 'app) fiber_lib" and routes :: "'app \<Rightarrow> (string \<times> string \<times> 'w fiber_handler) list"
  assumes New_law: "routes (fb_New F name eh) = []"
    and Use_law: "routes (fb_Use F app mw) = routes app"
    and Get_law: "routes (fb_Get F app path h) = routes app @ [(''GET'', path, h)]"
    and Post_law: "routes (fb_Post F app path h) = routes app @ [(''POST'', path, h)]"
    and Group_law: "(\<And>a. routes (f a) = routes a @ rs) \<Longrightarrow>
      routes (fb_Group F app pre f) = routes app @ map (\<lambda>(m, p, h). (m, pre @ p, h)) rs"
begin

lemma notification_routes:
  "\<exists>app'. RegisterNotificationRoutes F bp bbp app api = Inr app' \<and>
     routes app' = routes app @ map (\<lambda>(m, p, h). (m, ''/v1'' @ p, h)) (api_routes bp bbp \<lparr>nh_service = api\<rparr>)"
  unfolding RegisterNotificationRoutes_def NewNotificationHandler_def sum.case
  by (intro exI conjI, rule refl, rule Group_law) (simp add: Get_law Post_law api_routes_def)

end

text \<open>
  C36: the routes of the application. When \<open>main\<close> has built it, the metrics are served by the handler of
  the registry that was created, the probes and the six endpoints of the API are registered, each
  under its method and path, and the endpoints act on the service that \<open>wireDependencies\<close> composed on
  the opened database, Redis client and metrics.
\<close>

theorem main_build_routes:
  assumes "fiber_laws (p_fiber P) routes" and "run_state (main_build P cfg db sqlDB rdb) w = (Inr (app, deps), w')"
  shows "\<exists>registry metrics h. wireDependencies cfg (main_externals P db rdb metrics) = Inr deps
     \<and> h = \<lparr>nh_service = service_api (notificationService deps) (x_rt (p_X P))\<rparr>
     \<and> routes app =
        [(''GET'', ''/metrics'', p_promhttp_HandlerFor P registry),
         (''GET'', ''/livez'', \<lambda>c. State_Monad.return LivezHandler),
         (''GET'', ''/readyz'', \<lambda>c. ReadyzHandler (gd_Ping (p_gorm P) sqlDB) (rd_Ping (p_redis P) rdb)),
         (''POST'', ''/v1/notifications'', CreateNotification (p_BodyParser P) h),
         (''POST'', ''/v1/notifications/batch'', handler_CreateBatch (p_BatchParser P) h),
         (''GET'', ''/v1/notifications/:id'', GetNotification h),
         (''POST'', ''/v1/notifications/:id/cancel'', CancelNotification h),
         (''GET'', ''/v1/notifications'', ListNotifications h),
         (''GET'', ''/v1/batches/:batchId'', handler_GetBatchSummary h)]"
proof -
  note laws = fiber_laws.New_law [OF assms(1)] fiber_laws.Use_law [OF assms(1)] fiber_laws.Get_law [OF assms(1)]
  obtain registry metrics where m: "run_state (NewMetrics (p_prometheus P)) w = (Some (registry, metrics), w')"
    using assms(2) unfolding main_build_def Let_def by (auto split: prod.splits option.splits)
  define app1 where "app1 = RegisterHealthRoutes (p_fiber P) (fb_Get (p_fiber P)
      (fb_Use (p_fiber P) (fb_Use (p_fiber P) (fb_Use (p_fiber P) (fb_Use (p_fiber P)
        (fb_New (p_fiber P) ''dispatch-engine'' ErrorHandler) Recover) RequestID) Cors)
        (Metrics (HTTPMiddleware (x_rt (p_X P)) (Some metrics))))
      ''/metrics'' (p_promhttp_HandlerFor P registry)) (gd_Ping (p_gorm P) sqlDB) (rd_Ping (p_redis P) rdb)"
  have probes: "routes app1 = [(''GET'', ''/metrics'', p_promhttp_HandlerFor P registry),
         (''GET'', ''/livez'', \<lambda>c. State_Monad.return LivezHandler),
         (''GET'', ''/readyz'', \<lambda>c. ReadyzHandler (gd_Ping (p_gorm P) sqlDB) (rd_Ping (p_redis P) rdb))]"
    by (simp add: app1_def RegisterHealthRoutes_def laws)
  have wired: "wireDependencies cfg (main_externals P db rdb metrics) = Inr deps"
    and registered: "RegisterNotificationRoutes (p_fiber P) (p_BodyParser P) (p_BatchParser P) app1
       (service_api (notificationService deps) (x_rt (p_X P))) = Inr app"
    using assms(2) unfolding main_build_def Let_def
    by (auto simp: m metrics_Handler_def app1_def split: sum.splits)
  obtain app' where "RegisterNotificationRoutes (p_fiber P) (p_BodyParser P) (p_BatchParser P) app1
       (service_api (notificationService deps) (x_rt (p_X P))) = Inr app'"
    "routes app' = routes app1 @ map (\<lambda>(m, p, h). (m, ''/v1'' @ p, h)) (api_routes (p_BodyParser P) (p_BatchParser P)
       \<lparr>nh_service = service_api (notificationService deps) (x_rt (p_X P))\<rparr>)"
    using fiber_laws.notification_routes [OF assms(1)] by blast
  then have all: "routes app = routes app1 @ map (\<lambda>(m, p, h). (m, ''/v1'' @ p, h)) (api_routes (p_BodyParser P) (p_BatchParser P)
       \<lparr>nh_service = service_api (notificationService deps) (x_rt (p_X P))\<rparr>)"
    using registered by simp
  show ?thesis
    by (intro exI [of _ registry] exI [of _ metrics] exI conjI, rule wired, rule refl)
       (simp add: all probes api_routes_def)
qed

end
