(* ===== verification/Reference_World.thy ===== *)
theory Reference_World
  imports System Memory_Table Startup
begin

text \<open>
  A world in which the whole program runs: the tables of \<open>Memory_Table\<close>, a broker that logs what
  it is sent and delivers what is in its inbox, an HTTP peer that gives scripted answers, a Redis
  that counts and expires, a clock. The interpretation \<open>ref\<close> of \<open>system_redis\<close> discharges every
  law the program relies on for the program as \<open>wireDependencies\<close> composes it; the witnesses of
  the properties run there.
\<close>

section \<open>The world\<close>

record ref_world =
  rw_notifications :: "notification_model list"
  rw_batches :: "batch_model list"
  rw_attempts :: "attempt_model list"
  rw_conn :: "unit option"
  rw_declared :: "amqp_declaration list"
  rw_log :: "(string \<times> publishing) list"
  rw_inbox :: "delivery list"
  rw_settled :: "settlement list"
  rw_posts :: "(string \<times> webhook_request) list"
  rw_answers :: "(go_error + http_response option) list"
  rw_gauge :: "string \<Rightarrow> string list \<Rightarrow> int"
  rw_counter :: "string \<Rightarrow> nat"
  rw_expiry :: "string \<Rightarrow> go_time"
  rw_time :: go_time
  rw_fresh :: nat
  rw_schema :: schema
  rw_applied :: "string list"
  rw_launched :: "(int \<times> string) list"
  rw_events :: "main_event list"

definition ref_start :: ref_world where
  "ref_start = \<lparr>rw_notifications = [], rw_batches = [], rw_attempts = [], rw_conn = None, rw_declared = [],
     rw_log = [], rw_inbox = [], rw_settled = [], rw_posts = [], rw_answers = [], rw_gauge = (\<lambda>_ _. 0),
     rw_counter = (\<lambda>_. 0), rw_expiry = (\<lambda>_. 0), rw_time = 10 ^ 9, rw_fresh = 0,
     rw_schema = \<lparr>sch_Tables = Map.empty, sch_Indexes = []\<rparr>, rw_applied = [], rw_launched = [], rw_events = []\<rparr>"

definition ref_rt :: "ref_world runtime" where
  "ref_rt = \<lparr>time_Now = State (\<lambda>w. (rw_time w, w)),
     uuid_NewString = State (\<lambda>w. (''id-'' @ Itoa (int (rw_fresh w)), w\<lparr>rw_fresh := Suc (rw_fresh w)\<rparr>)),
     rand_Intn = (\<lambda>k. State_Monad.return 0)\<rparr>"

section \<open>Tables\<close>

text \<open>GORM sets the timestamps that are zero, and the column default of \<open>max_retries\<close>.\<close>

definition stamp_time :: "go_time \<Rightarrow> go_time \<Rightarrow> go_time" where
  "stamp_time now t = (if t = zero_time then now else t)"

definition stamp_notification :: "go_time \<Rightarrow> notification_model \<Rightarrow> notification_model" where
  "stamp_notification now m = m\<lparr>m_CreatedAt := stamp_time now (m_CreatedAt m),
     m_UpdatedAt := stamp_time now (m_UpdatedAt m),
     m_MaxRetries := (if m_MaxRetries m = 0 then 5 else m_MaxRetries m)\<rparr>"

definition stamp_batch :: "go_time \<Rightarrow> batch_model \<Rightarrow> batch_model" where
  "stamp_batch now m = m\<lparr>bm_CreatedAt := stamp_time now (bm_CreatedAt m), bm_UpdatedAt := stamp_time now (bm_UpdatedAt m)\<rparr>"

definition stamp_attempt :: "go_time \<Rightarrow> attempt_model \<Rightarrow> attempt_model" where
  "stamp_attempt now m = m\<lparr>am_CreatedAt := stamp_time now (am_CreatedAt m)\<rparr>"

definition ref_notifications :: "(ref_world, notification_model) gorm_table" where
  "ref_notifications = mem_table rw_notifications (\<lambda>ms w. w\<lparr>rw_notifications := ms\<rparr>) rw_time
     m_ID m_IdempotencyKey touch_notification stamp_notification"

definition ref_batches :: "(ref_world, batch_model) gorm_table" where
  "ref_batches = mem_table rw_batches (\<lambda>ms w. w\<lparr>rw_batches := ms\<rparr>) rw_time
     bm_ID (\<lambda>_. None) touch_batch stamp_batch"

definition ref_attempts :: "(ref_world, attempt_model) gorm_table" where
  "ref_attempts = mem_table rw_attempts (\<lambda>ms w. w\<lparr>rw_attempts := ms\<rparr>) rw_time
     am_ID (\<lambda>_. None) (\<lambda>_ m. m) stamp_attempt"

abbreviation ref_tbl :: "ref_world \<Rightarrow> (string \<rightharpoonup> notification_model)" where
  "ref_tbl w \<equiv> rows_map m_ID (valid_rows m_ID m_IdempotencyKey (rw_notifications w))"

abbreviation ref_batch_tbl :: "ref_world \<Rightarrow> (string \<rightharpoonup> batch_model)" where
  "ref_batch_tbl w \<equiv> rows_map bm_ID (valid_rows bm_ID (\<lambda>_. None) (rw_batches w))"

abbreviation ref_attempt_log :: "ref_world \<Rightarrow> attempt_model list" where
  "ref_attempt_log w \<equiv> rev (valid_rows am_ID (\<lambda>_. None) (rw_attempts w))"

section \<open>Clients\<close>

definition ref_ack :: "ref_world acknowledger" where
  "ref_ack = \<lparr>d_Ack = (\<lambda>b. State (\<lambda>w. (None, w\<lparr>rw_settled := rw_settled w @ [Acked b]\<rparr>))),
     d_Nack = (\<lambda>b r. State (\<lambda>w. (None, w\<lparr>rw_settled := rw_settled w @ [Nacked b r]\<rparr>))),
     d_Reject = (\<lambda>r. State (\<lambda>w. (None, w\<lparr>rw_settled := rw_settled w @ [Rejected r]\<rparr>)))\<rparr>"

definition ref_declare :: "amqp_declaration \<Rightarrow> (ref_world, go_error option) state" where
  "ref_declare x = State (\<lambda>w. (None, w\<lparr>rw_declared := rw_declared w @ [x]\<rparr>))"

definition ref_amqp :: "(ref_world, unit, unit) amqp" where
  "ref_amqp = \<lparr>q_Dial = (\<lambda>url. State_Monad.return (Inr ())),
     q_IsClosed = (\<lambda>c. State_Monad.return False),
     q_ConnClose = (\<lambda>c. State_Monad.return None),
     q_Channel = (\<lambda>c. State_Monad.return (Inr ())),
     q_ChClose = (\<lambda>ch. State_Monad.return None),
     q_ExchangeDeclare = (\<lambda>ch name kind d a i n. ref_declare (DExchange name kind d a i n)),
     q_QueueDeclare = (\<lambda>ch name d a e n args. ref_declare (DQueue name d a e n args)),
     q_QueueBind = (\<lambda>ch name key x n. ref_declare (DBinding name key x n)),
     q_Publish = (\<lambda>ch x key m i p. State (\<lambda>w. (None, w\<lparr>rw_log := rw_log w @ [(key, p)]\<rparr>))),
     q_Qos = (\<lambda>ch a b c. State_Monad.return None),
     q_Consume = (\<lambda>ch q. State_Monad.return None),
     q_recv = (\<lambda>ch. State (\<lambda>w. case rw_inbox w of
        [] \<Rightarrow> (RDone, w) | d # ds \<Rightarrow> (RDelivery d ref_ack, w\<lparr>rw_inbox := ds\<rparr>))),
     q_after = (\<lambda>d. State_Monad.return None),
     q_ctxErr = State_Monad.return (Some (Sentinel ContextCanceled))\<rparr>"

definition ref_redis :: "ref_world redis_client" where
  "ref_redis key window = State (\<lambda>w.
     let c = (if rw_time w < rw_expiry w key then rw_counter w key else 0) + 1
     in (Inr (Some (int c)),
         w\<lparr>rw_counter := (rw_counter w)(key := c), rw_expiry := (rw_expiry w)(key := rw_time w + window)\<rparr>))"

definition ref_answer :: http_response where
  "ref_answer = \<lparr>hr_StatusCode = 200, hr_Body = ''ok'', hr_Header = (\<lambda>_. [])\<rparr>"

definition ref_resty :: "ref_world resty_client" where
  "ref_resty = \<lparr>rc_Timeout = 0, rc_RetryCount = 0,
     rc_Post = (\<lambda>url req. State (\<lambda>w. case rw_answers w of
        [] \<Rightarrow> (Inr (Some ref_answer), w\<lparr>rw_posts := rw_posts w @ [(url, req)]\<rparr>)
      | a # as \<Rightarrow> (a, w\<lparr>rw_posts := rw_posts w @ [(url, req)], rw_answers := as\<rparr>)))\<rparr>"

definition ref_gauge_add :: "int \<Rightarrow> string \<Rightarrow> string list \<Rightarrow> (ref_world, unit) state" where
  "ref_gauge_add i name labels = State (\<lambda>w. ((), w\<lparr>rw_gauge :=
     (rw_gauge w)(name := (rw_gauge w name)(labels := rw_gauge w name labels + i))\<rparr>))"

definition ref_prometheus :: "ref_world prometheus" where
  "ref_prometheus = \<lparr>pm_CounterInc = (\<lambda>name labels. State_Monad.return ()),
     pm_GaugeInc = ref_gauge_add 1, pm_GaugeDec = ref_gauge_add (- 1),
     pm_Observe = (\<lambda>name labels d. State_Monad.return ())\<rparr>"

definition ref_X :: "(ref_world, unit, unit) externals" where
  "ref_X = \<lparr>x_rt = ref_rt, x_notifications = ref_notifications, x_batches = ref_batches,
     x_attempts = ref_attempts, x_amqp = ref_amqp, x_get_conn = rw_conn,
     x_put_conn = (\<lambda>c w. w\<lparr>rw_conn := c\<rparr>),
     x_ParseRequestURI = (\<lambda>_. None), x_resty_New = ref_resty, x_redis = Some ref_redis,
     x_fired = (\<lambda>d. State (\<lambda>w. (None, w\<lparr>rw_time := rw_time w + \<bar>d\<bar>\<rparr>))), x_metrics = Some ref_prometheus\<rparr>"

definition ref_cfg :: config where
  "ref_cfg = \<lparr>DatabaseDSN = ''dsn'', RabbitMQURL = ''amqp://broker'', RedisURL = ''redis://cache'',
     WebhookSiteURL = ''http://peer'', RateLimitPerSec = 100, WorkerConcurrency = 16,
     RetryScanInterval = 5 * 10 ^ 9, RetryScanLimit = 100, SchedulerScanInterval = 5 * 10 ^ 9,
     SchedulerScanLimit = 100, APIPort = 8080, LogLevel = ''info''\<rparr>"

definition ref_deps :: "ref_world app_dependencies" where
  "ref_deps = projr (wireDependencies ref_cfg ref_X)"

section \<open>The laws hold\<close>

interpretation ref_n: mem_lens rw_notifications "\<lambda>ms w. w\<lparr>rw_notifications := ms\<rparr>" rw_time
  m_ID m_IdempotencyKey touch_notification stamp_notification stamped_notification
  by unfold_locales
     (auto simp: touch_notification_def stamp_notification_def stamped_notification_def)

interpretation ref_b: mem_lens rw_batches "\<lambda>ms w. w\<lparr>rw_batches := ms\<rparr>" rw_time
  bm_ID "\<lambda>_. None" touch_batch stamp_batch stamped_batch
  by unfold_locales (auto simp: touch_batch_def stamp_batch_def stamped_batch_def)

interpretation ref_a: mem_lens rw_attempts "\<lambda>ms w. w\<lparr>rw_attempts := ms\<rparr>" rw_time
  am_ID "\<lambda>_. None" "\<lambda>_ m. m" stamp_attempt "\<lambda>m m'. \<exists>c. m' = m\<lparr>am_CreatedAt := c\<rparr>"
  by unfold_locales (auto simp: stamp_attempt_def)

interpretation ref_settle: acknowledger_laws ref_ack rw_settled
  by unfold_locales (auto simp: ref_ack_def wp_def)

interpretation ref_topology: topology_laws ref_amqp rw_declared
  by unfold_locales (auto simp: ref_amqp_def ref_declare_def wp_def may_append_def)

lemma ref_wired: "wireDependencies ref_cfg ref_X = Inr ref_deps"
proof -
  have "TrimSpace ''http://peer'' = ''http://peer''" by code_simp
  then have "\<exists>d. wireDependencies ref_cfg ref_X = Inr d"
    by (simp add: wireDependencies_def Let_def NewNotificationService_def NewWebhookSiteProvider_def
        NewWebhookSiteProviderWithClient_def NewRedisRateLimiter_def newRedisRateLimiter_def
        NewWorkerService_def NewRetryScanner_def NewScheduler_def ref_cfg_def ref_X_def)
  then show ?thesis by (auto simp: ref_deps_def)
qed

lemmas ref_X_simps = ref_X_def externals.simps

lemma ref_attempt_create:
  "wp (g_Create ref_attempts (Some m)) (\<lambda>r w'. case r of
       Inr _ \<Rightarrow> \<exists>c. ref_attempt_log w' = ref_attempt_log w @ [m\<lparr>am_CreatedAt := c\<rparr>]
     | Inl e \<Rightarrow> ref_attempt_log w' = ref_attempt_log w
         \<or> (\<exists>c. ref_attempt_log w' = ref_attempt_log w @ [m\<lparr>am_CreatedAt := c\<rparr>])) w"
  by (auto simp: ref_attempts_def mem_table_def wp_def stamp_attempt_def clash_def Let_def)

lemma ref_notification_frame:
  "notification_frame ref_notifications (\<lambda>w. (ref_batch_tbl w, ref_attempt_log w, rw_log w, rw_posts w, rw_gauge w)) ref_rt"
  unfolding notification_frame_def notification_frame_axioms_def ref_notifications_def
  by (auto intro!: mem_table_frame simp: ref_rt_def keeps_def)

lemma ref_batch_frame:
  "table_frame ref_batches (\<lambda>w. (ref_tbl w, ref_attempt_log w, rw_log w, rw_posts w, rw_gauge w))"
  unfolding ref_batches_def by (rule mem_table_frame) simp

lemma ref_attempt_frame:
  "table_frame ref_attempts (\<lambda>w. (ref_tbl w, ref_batch_tbl w, rw_log w, rw_posts w, rw_gauge w))"
  unfolding ref_attempts_def by (rule mem_table_frame) simp

lemma ref_broker_laws:
  "broker_laws ref_amqp ref_rt rw_log (\<lambda>w. (ref_tbl w, ref_batch_tbl w, ref_attempt_log w, rw_posts w, rw_gauge w))"
  by unfold_locales
     (auto simp: ref_amqp_def ref_declare_def ref_rt_def keeps_def tame_def wp_def may_append_def)

lemma ref_broker:
  "broker_publisher ref_amqp ref_rt rw_log (\<lambda>w. (ref_tbl w, ref_batch_tbl w, ref_attempt_log w, rw_posts w, rw_gauge w))
     (\<lambda>c w. w\<lparr>rw_conn := c\<rparr>)"
  unfolding broker_publisher_def broker_publisher_axioms_def
  by (auto simp: ref_broker_laws)

interpretation ref: system_redis ref_X ref_tbl ref_batch_tbl ref_attempt_log rw_log rw_posts rw_gauge
  ref_cfg ref_deps ref_redis "\<lambda>w k. int (rw_counter w k)" rw_expiry rw_time
proof (intro system_redis.intro system_env.intro system_env_axioms.intro system_redis_axioms.intro,
    unfold ref_X_simps, goal_cases)
  case 1
  show ?case
    using ref_n.mem.gorm_table_laws_axioms
    by (auto simp: gorm_notifications_def gorm_notifications_axioms_def ref_notifications_def ref_rt_def keeps_def)
next
  case 2
  show ?case by (rule ref_notification_frame)
next
  case 3
  show ?case
    using ref_b.mem.gorm_table_laws_axioms by (simp add: gorm_batches_def ref_batches_def)
next
  case 4
  show ?case by (rule ref_batch_frame)
next
  case 5
  show ?case by (rule ref_attempt_frame)
next
  case 6
  show ?case by (rule ref_broker)
next
  case 7
  show ?case using ref_wired by (simp add: ref_X_def)
next
  case (8 m w)
  show ?case by (rule ref_attempt_create)
next
  case 9
  show ?case by (simp add: ref_rt_def keeps_def)
next
  case (10 k)
  show ?case by (simp add: ref_rt_def)
next
  case (11 k w)
  then show ?case by (simp add: ref_rt_def)
next
  case (12 client key window)
  then show ?case by (auto simp: ref_redis_def keeps_def Let_def)
next
  case (13 dur)
  show ?case by (simp add: keeps_def)
next
  case (14 url req w)
  show ?case by (simp add: ref_resty_def wp_def split: list.split)
next
  case (15 p name labels)
  then show ?case by (auto simp: ref_prometheus_def)
next
  case (16 p name labels dur)
  then show ?case by (auto simp: ref_prometheus_def)
next
  case (17 p name labels)
  then show ?case by (auto simp: ref_prometheus_def ref_gauge_add_def keeps_def)
next
  case (18 p name labels)
  then show ?case by (auto simp: ref_prometheus_def ref_gauge_add_def keeps_def)
next
  case (19 p name labels w)
  then show ?case by (auto simp: ref_prometheus_def ref_gauge_add_def wp_def)
next
  case (20 p name labels w)
  then show ?case by (auto simp: ref_prometheus_def ref_gauge_add_def wp_def)
next
  case 21
  show ?case by simp
next
  case (22 w k)
  show ?case by simp
next
  case (23 w)
  show ?case by (simp add: ref_rt_def wp_def)
next
  case (24 key window w)
  show ?case
    by (simp add: ref_redis_def wp_def incr_at_def Let_def fun_eq_iff)
       (blast intro: exI [of _ "rw_time w"] order_refl)
qed

end
