(* ===== verification/Reference_Process.thy ===== *)
theory Reference_Process
  imports Reference_World
begin

text \<open>
  The libraries around \<open>main\<close> over the world of \<open>Reference_World\<close>: a database whose schema the
  migrations change, a gormigrate that records what it has run, a router that keeps the list of its
  routes, goroutines that are recorded when they are launched. The interpretations discharge the
  laws of the start-up for them.
\<close>

section \<open>Migrations\<close>

definition ref_tx :: "ref_world gorm_tx" where
  "ref_tx = \<lparr>tx_AutoMigrate = (\<lambda>table cols. State (\<lambda>w. (None, w\<lparr>rw_schema := auto_migrate table cols (rw_schema w)\<rparr>))),
     tx_Exec = (\<lambda>sql. State (\<lambda>w. case find (\<lambda>d. ddl_sql d = sql) program_ddl of
         None \<Rightarrow> (Some (ErrorString ''syntax error''), w)
       | Some d \<Rightarrow> (None, w\<lparr>rw_schema := apply_ddl d (rw_schema w)\<rparr>))),
     tx_DropTable = (\<lambda>table. State (\<lambda>w.
       (None, w\<lparr>rw_schema := (rw_schema w)\<lparr>sch_Tables := (sch_Tables (rw_schema w))(table := None)\<rparr>\<rparr>)))\<rparr>"

definition ref_Migrate :: "ref_world migration list \<Rightarrow> (ref_world, go_error option) state" where
  "ref_Migrate ms = State (\<lambda>w. case run_state (run_pending ref_tx (set (rw_applied w)) ms) w of
     (r, w') \<Rightarrow> (r, if r = None then w'\<lparr>rw_applied := map mg_ID ms\<rparr> else w'))"

lemma program_ddl_printed: "distinct (map ddl_sql program_ddl)"
  by code_simp

lemma find_by_key: "distinct (map f xs) \<Longrightarrow> x \<in> set xs \<Longrightarrow> find (\<lambda>y. f y = f x) xs = Some x"
  by (induction xs) (auto simp: image_iff)

lemmas find_printed = find_by_key [OF program_ddl_printed]

interpretation ref_schema: schema_laws ref_tx rw_schema
  by unfold_locales (auto simp: ref_tx_def wp_def find_printed)

interpretation ref_migration: migration_env ref_tx rw_schema ref_Migrate "\<lambda>w. set (rw_applied w)"
  by unfold_locales (auto simp: ref_Migrate_def wp_def split: prod.splits)

section \<open>The process\<close>

definition ref_logger :: "ref_world zap_logger" where
  "ref_logger = \<lparr>log_Info = (\<lambda>m fs. State_Monad.return ()), log_Error = (\<lambda>m fs e. State_Monad.return ()),
     log_Sync = State_Monad.return ()\<rparr>"

definition ref_event :: "main_event \<Rightarrow> 'a \<Rightarrow> (ref_world, 'a) state" where
  "ref_event e r = State (\<lambda>w. (r, w\<lparr>rw_events := rw_events w @ [e]\<rparr>))"

definition ref_gorm :: "(ref_world, unit, unit) gorm_driver" where
  "ref_gorm = \<lparr>gd_Open = (\<lambda>dsn skip. State_Monad.return (Inr ())), gd_DB = (\<lambda>db. State_Monad.return (Inr ())),
     gd_SetMaxOpenConns = (\<lambda>sql n. State_Monad.return ()), gd_SetMaxIdleConns = (\<lambda>sql n. State_Monad.return ()),
     gd_SetConnMaxLifetime = (\<lambda>sql d. State_Monad.return ()), gd_Ping = (\<lambda>sql. State_Monad.return None),
     gd_Close = (\<lambda>sql. ref_event PostgresClosed None)\<rparr>"

definition ref_redis_driver :: "(ref_world, string, unit) redis_driver" where
  "ref_redis_driver = \<lparr>rd_ParseURL = Inr, rd_NewClient = (\<lambda>_. ()), rd_Ping = (\<lambda>rdb. State_Monad.return None),
     rd_Close = (\<lambda>rdb. ref_event RedisClosed None)\<rparr>"

definition ref_prometheus_lib :: "(ref_world, unit, string) prometheus_lib" where
  "ref_prometheus_lib = \<lparr>pl_NewRegistry = State_Monad.return (), pl_NewGoCollector = ''go'',
     pl_NewProcessCollector = ''process'', pl_Vec = md_Name,
     pl_MustRegister = (\<lambda>r ks. State_Monad.return (if distinct ks then Some () else None)),
     pl_ops = (\<lambda>_. ref_prometheus)\<rparr>"

text \<open>An application is the list of its routes.\<close>

type_synonym ref_app = "(string \<times> string \<times> ref_world fiber_handler) list"

definition ref_fiber :: "(ref_world, ref_app) fiber_lib" where
  "ref_fiber = \<lparr>fb_Get = (\<lambda>app path h. app @ [(''GET'', path, h)]), fb_Post = (\<lambda>app path h. app @ [(''POST'', path, h)]),
     fb_Group = (\<lambda>app pre f. app @ map (\<lambda>(m, p, h). (m, pre @ p, h)) (f [])),
     fb_New = (\<lambda>name eh. []), fb_Use = (\<lambda>app mw. app),
     fb_Listen = (\<lambda>app addr w. Some (None, w)),
     fb_ShutdownWithTimeout = (\<lambda>app d. ref_event (ServerShutdown d) None)\<rparr>"

definition ref_errgroup :: "ref_world errgroup" where
  "ref_errgroup = \<lparr>eg_Go = (\<lambda>i q body. State (\<lambda>w. ((), w\<lparr>rw_launched := rw_launched w @ [(i, q)]\<rparr>))),
     eg_Wait = State_Monad.return None\<rparr>"

definition ref_ticker :: "ref_world ticker" where
  "ref_ticker = \<lparr>t_Done = State_Monad.return True, t_Err = State_Monad.return True\<rparr>"

definition ref_process :: "(ref_world, unit, unit, unit, unit, string, unit, unit, string, ref_app, string) process" where
  "ref_process = \<lparr>p_UnmarshalFromEnviron = Inr ref_cfg, p_UnmarshalText = Inr,
     p_NewProductionConfig = \<lparr>zc_Level = ''info'', zc_TimeKey = ''ts'', zc_EncodeTime = ''EpochTimeEncoder'', zc_DisableStacktrace = False\<rparr>,
     p_Build = (\<lambda>_. Inr ref_logger), p_gorm = ref_gorm, p_Migrate = (\<lambda>_. ref_Migrate), p_redis = ref_redis_driver,
     p_X = ref_X, p_notifications = (\<lambda>_. ref_notifications), p_batches = (\<lambda>_. ref_batches),
     p_attempts = (\<lambda>_. ref_attempts), p_Run = (\<lambda>_. ref_redis), p_prometheus = ref_prometheus_lib,
     p_promhttp_Handler = (\<lambda>c. State_Monad.return LivezHandler),
     p_promhttp_HandlerFor = (\<lambda>r c. State_Monad.return LivezHandler), p_fiber = ref_fiber,
     p_BodyParser = (\<lambda>_. Inl (ErrorString ''unexpected end of JSON input'')),
     p_BatchParser = (\<lambda>_. Inl (ErrorString ''unexpected end of JSON input'')),
     p_errgroup = ref_errgroup, p_retryTicker = ref_ticker, p_schedulerTicker = ref_ticker,
     p_NotifyContext = State_Monad.return (), p_stop = ref_event ContextStopped (),
     p_go = (\<lambda>ch f. ref_event (Started ch) ()), p_select = State_Monad.return SignalDone\<rparr>"

interpretation ref_fiber: fiber_laws ref_fiber "\<lambda>app. app"
  by unfold_locales (auto simp: ref_fiber_def)

lemma exec_all_events:
  "keeps rw_events (tx_Exec ref_tx sql)" "keeps rw_events (exec_all ref_tx sqls)" "keeps rw_events (tx_AutoMigrate ref_tx t cs)"
proof -
  show exec: "keeps rw_events (tx_Exec ref_tx sql)" for sql
    by (auto simp: keeps_def ref_tx_def split: option.split)
  show "keeps rw_events (exec_all ref_tx sqls)"
    by (induction sqls) (auto intro!: keeps_bind exec split: option.split)
  show "keeps rw_events (tx_AutoMigrate ref_tx t cs)" by (simp add: keeps_def ref_tx_def)
qed

lemma ref_Migrate_events: "keeps rw_events (ref_Migrate Migrations)"
proof -
  have "keeps rw_events (run_pending ref_tx done Migrations)" for "done"
    by (auto simp: Migrations_def createNotificationsTable_def createNotificationsAttemptsTable_def createBatchesTable_def
        addNotificationsScheduledAtColumn_def intro!: keeps_bind exec_all_events split: option.split)
  then show ?thesis by (auto simp: keeps_def ref_Migrate_def split: prod.split) (metis snd_conv)+
qed

lemma ref_main_broker:
  "broker_laws ref_amqp ref_rt rw_log (\<lambda>w. (rw_events w, rw_schema w, set (rw_applied w)))"
  by unfold_locales
     (auto simp: ref_amqp_def ref_declare_def ref_rt_def keeps_def tame_def wp_def may_append_def)

interpretation ref_main: main_laws ref_process rw_log rw_events rw_schema "\<lambda>w. set (rw_applied w)" "\<lambda>_. ref_tx"
  by (rule main_laws.intro)
     (auto simp: ref_process_def ref_X_def ref_main_broker ref_Migrate_events [unfolded keeps_def] ref_migration.migration_env_axioms
       ref_logger_def ref_gorm_def ref_redis_driver_def ref_prometheus_lib_def ref_fiber_def ref_event_def keeps_def wp_def)

end
