(* ===== verification/Handler_Correctness.thy ===== *)
theory Handler_Correctness
  imports Handler
begin

text \<open>
  Properties of the HTTP layer: the parameters of a listing, the status codes, the conversions, and
  what each endpoint does to the notifications together with the service and the repository behind
  it.
\<close>

section \<open>Parameters and conversions\<close>

lemma parse_errors [simp]:
  "ParseStatusFromString x = Inl e \<Longrightarrow> errors_Is e ErrValidation"
  "ParseChannelFromString x = Inl e \<Longrightarrow> errors_Is e ErrValidation"
  "ParsePriorityFromString x = Inl e \<Longrightarrow> errors_Is e ErrValidation"
  by (auto simp: parse_defs Let_def split: if_splits)

lemma parse_valid:
  "ParseStatusFromString x = Inr s \<Longrightarrow> Status_IsValid s"
  "ParseChannelFromString x = Inr c \<Longrightarrow> Channel_IsValid c"
  "ParsePriorityFromString x = Inr p \<Longrightarrow> Priority_IsValid p"
  by (auto simp: parse_defs Let_def split: if_splits)

lemma parseRFC3339Query_error: "parseRFC3339Query x f = Inl e \<Longrightarrow> errors_Is e ErrValidation"
  by (auto simp: parseRFC3339Query_def Let_def split: if_splits option.splits)

lemma parseOptionalRFC3339_error: "parseOptionalRFC3339 x f = Inl e \<Longrightarrow> errors_Is e ErrValidation"
  by (auto simp: parseOptionalRFC3339_def Let_def split: if_splits option.splits)

text \<open>Sequences of steps that return at the first error.\<close>

lemma early_Inr:
  "(case x of Inl e \<Rightarrow> Inl e | Inr y \<Rightarrow> f y) = Inr p \<longleftrightarrow> (\<exists>y. x = Inr y \<and> f y = Inr p)"
  "(if b then Inl e else z) = Inr p \<longleftrightarrow> \<not> b \<and> z = Inr p"
  by (auto split: sum.split)

lemma early_Inl:
  "(case x of Inl e \<Rightarrow> Inl e | Inr y \<Rightarrow> f y) = Inl e' \<longleftrightarrow> x = Inl e' \<or> (\<exists>y. x = Inr y \<and> f y = Inl e')"
  "(if b then Inl e else z) = Inl e' \<longleftrightarrow> b \<and> e = e' \<or> \<not> b \<and> z = Inl e'"
  by (auto split: sum.split)

lemma optional_query:
  "(if x \<noteq> [] then map_sum id Some (f x) else Inr None) = Inl e \<longleftrightarrow> x \<noteq> [] \<and> f x = Inl e"
  "(if x \<noteq> [] then map_sum id Some (f x) else Inr None) = Inr r \<longleftrightarrow>
     (case r of None \<Rightarrow> x = [] | Some y \<Rightarrow> x \<noteq> [] \<and> f x = Inr y)"
  by (cases "f x"; auto split: option.split)+

lemma parseListParams_Inl: "parseListParams c = Inl e \<Longrightarrow> errors_Is e ErrValidation"
  unfolding parseListParams_def Let_def early_Inl optional_query
  by (elim disjE exE conjE) (auto dest: parse_errors parseRFC3339Query_error)

lemma parseListParams_Inr:
  assumes "parseListParams c = Inr p"
  shows "1 \<le> lp_Page p" "1 \<le> lp_PageSize p" "lp_PageSize p \<le> maxPageSize"
    and "case lp_Status p of None \<Rightarrow> True | Some s \<Rightarrow> Status_IsValid s"
    and "case lp_Channel p of None \<Rightarrow> True | Some ch \<Rightarrow> Channel_IsValid ch"
    and "case (lp_From p, lp_To p) of (Some f, Some t) \<Rightarrow> f \<le> t | _ \<Rightarrow> True"
  using assms unfolding parseListParams_def Let_def early_Inr optional_query sum.inject
  by (elim exE conjE; auto split: option.splits dest: parse_valid)+




definition response_to_notification :: "notification_response \<Rightarrow> notification" where
  "response_to_notification r =
     \<lparr>ID = re_ID r, CorrelationID = re_CorrelationID r, IdempotencyKey = re_IdempotencyKey r,
      BatchID = re_BatchID r, Channel = re_Channel r, Priority = re_Priority r, Recipient = re_Recipient r,
      Content = re_Content r, Status = re_Status r, ProviderMessageID = re_ProviderMessageID r,
      AttemptCount = re_AttemptCount r, MaxRetries = re_MaxRetries r, ScheduledAt = re_ScheduledAt r,
      NextRetryAt = re_NextRetryAt r, CreatedAt = re_CreatedAt r, UpdatedAt = re_UpdatedAt r\<rparr>"

text \<open>
  A notification survives both of its conversions: to the persistence model and back, and to the
  response and back, with no field lost or exchanged.
\<close>

theorem conversions_roundtrip:
  "notificationModelToDomain (notificationModelFromDomain n) = n
   \<and> notificationModelFromDomain (notificationModelToDomain m) = m
   \<and> batchModelToDomain (batchModelFromDomain b) = b
   \<and> attemptModelToDomain (attemptModelFromDomain a) = a
   \<and> response_to_notification (toNotificationResponse (Some x)) = x"
  by (auto simp: notificationModelToDomain_def notificationModelFromDomain_def notification_to_model_def
      model_to_notification_def batchModelToDomain_def batchModelFromDomain_def attemptModelToDomain_def
      attemptModelFromDomain_def response_to_notification_def toNotificationResponse_def split: option.splits)

lemma TrimSpace_format:
  assumes "0 \<le> y" and "y \<le> 9999"
  shows "TrimSpace (format_RFC3339 y mo d h mi s) = format_RFC3339 y mo d h mi s"
proof (rule TrimSpace_graph)
  have "0 \<le> y div 100 div 10" "y div 100 div 10 \<le> 9" using assms by auto
  from digit_char [OF this] show "in_range 0x21 0x7E (hd (format_RFC3339 y mo d h mi s))"
    by (simp add: format_RFC3339_def two_digits_def is_digit_def in_range_def)
qed (simp_all add: format_RFC3339_def two_digits_def in_range_def)

text \<open>
  C31: every valid date and time in whole seconds, written in the canonical UTC form, is accepted as
  \<open>scheduledAt\<close> and as \<open>from\<close> or \<open>to\<close>, and read as that instant.
\<close>

theorem RFC3339_roundtrip:
  assumes "valid_date_time year month day hour mins sec"
  shows "parseOptionalRFC3339 (Some (format_RFC3339 year month day hour mins sec)) field
       = Inr (Some (instant year month day hour mins sec 0))
    \<and> parseRFC3339Query (format_RFC3339 year month day hour mins sec) field
       = Inr (Some (instant year month day hour mins sec 0))"
proof -
  have year: "0 \<le> year" "year \<le> 9999" using assms by (simp_all add: valid_date_time_def)
  have "format_RFC3339 year month day hour mins sec \<noteq> []" by (simp add: format_RFC3339_def two_digits_def)
  then show ?thesis
    by (simp add: parseOptionalRFC3339_def parseRFC3339Query_def TrimSpace_format time_Parse_format [OF assms] year)
qed

section \<open>The endpoints over the service\<close>

text \<open>An error that holds no error of the framework is reported with the status of its sentinel, or
  with 500.\<close>

lemma http_status [simp]:
  "\<not> has_fiber e \<Longrightarrow> h_Status (ErrorHandler (toHTTPError e)) =
     (if errors_Is e ErrValidation then 400 else if errors_Is e ErrNotFound then 404
      else if errors_Is e ErrConflict then 409 else 500)"
  "h_Status (ErrorHandler (FiberError code m)) = code"
  by (auto simp: toHTTPError_def ErrorHandler_def split: go_error.split)

lemma http_body [simp]: "h_Body (ErrorHandler (toHTTPError e)) = MapBody [(''error'', Error e)]"
  "h_Body (ErrorHandler (FiberError code m)) = MapBody [(''error'', m)]"
  by (simp_all add: toHTTPError_def ErrorHandler_def)

lemma reply_of_simps [simp]: "reply_of (Inl e) = ErrorHandler e" "reply_of (Inr x) = x"
  by (simp_all add: reply_of_def)

lemma requestToDomain_error: "requestToDomainNotification req f = Inl e \<Longrightarrow> errors_Is e ErrValidation"
  unfolding requestToDomainNotification_def Let_def early_Inl
  by (auto dest: parse_errors parseOptionalRFC3339_error)

lemma requests_to_domain_error: "requests_to_domain f reqs = Inl e \<Longrightarrow> errors_Is e ErrValidation"
  by (induction reqs) (auto dest: requestToDomain_error split: sum.splits)

text \<open>What \<open>Create\<close> can fail with.\<close>

definition create_error :: "go_error \<Rightarrow> bool" where
  "create_error e \<longleftrightarrow> \<not> has_fiber e \<and> \<not> errors_Is e ErrConflict"

lemma create_errorI:
  "foreign_error e \<Longrightarrow> create_error e" "errors_Is e ErrValidation \<Longrightarrow> create_error e"
  "errors_Is e ErrNotFound \<Longrightarrow> create_error e"
  by (auto simp: create_error_def foreign_error_def errors_Is_no_fiber dest: errors_Is_unique)

lemma create_error_Wrap [simp]: "create_error (Wrap pre e post) = create_error e"
  by (simp add: create_error_def)

context service_env
begin

abbreviation create_fails :: "go_error + 'x \<Rightarrow> 'w \<Rightarrow> bool" where
  "create_fails r w' \<equiv> case r of Inl e \<Rightarrow> create_error e | Inr _ \<Rightarrow> True"

lemma enqueue_created_errors: "wp (enqueue_created s rt n) create_fails w"
proof -
  have upd: "wp (nr_UpdateStatus (s_notifications s) k st) (\<lambda>r _. case r of None \<Rightarrow> True | Some e \<Rightarrow> create_error e) v" for k st v
    by (rule wp_mono [OF UpdateStatus_law])
       (auto simp: set_spec_def split: option.splits if_splits intro: create_errorI)
  have pub: "wp (pub_Publish (s_publisher s) q m) (\<lambda>r _. case r of None \<Rightarrow> True | Some e \<Rightarrow> create_error e) v" for q m v
    by (rule wp_mono [OF Publish_law]) (auto split: option.splits intro: create_errorI)
  show ?thesis
    unfolding enqueue_created_def
    by (rule wp_bindI, rule quiet [OF now_frame])
       (auto split: option.split intro!: wp_mono [OF pub] wp_mono [OF upd])
qed

lemma Create_errors: "wp (service_Create s rt (Some n)) create_fails w"
  unfolding service_Create_def
proof (rule wp_bindI, rule wp_mono [OF prepare_wp], goal_cases)
  case (1 prep v)
  show ?case
  proof (cases prep)
    case (Inl e)
    with 1 show ?thesis by (simp add: create_errorI)
  next
    case (Inr m)
    with 1 have m: "prepared None n m" by simp
    then have max: "MaxRetries m \<noteq> 0" by (auto simp: prepared_def split: if_splits)
    have resolve: "wp (resolveIdempotencyConflict s e (IdempotencyKey m)) create_fails v1" for e v1
      by (auto simp: resolveIdempotencyConflict_def split: option.split sum.splits if_splits
          intro!: wp_mono [OF GetByIdempotencyKey_law] intro: create_errorI)
    show ?thesis
      unfolding Inr sum.case
      by (rule wp_bindI, rule wp_mono [OF Create_law [OF max]])
         (auto split: sum.split option.split intro!: enqueue_created_errors wp_mono [OF resolve] intro: create_errorI)
  qed
qed

end



text \<open>
  Reading one notification changes nothing. An answer 200 shows exactly the stored row, an
  answer 404 means that there is none.
\<close>

theorem GetNotification_endpoint:
  assumes "service_env s rows rt published batches"
  shows "wp (respond (GetNotification \<lparr>nh_service = service_api s rt\<rparr> c)) (\<lambda>reply w'.
     let nid = TrimSpace (c_Params c ''id'')
     in rows w' = rows w \<and> published w' = published w \<and> batches w' = batches w
        \<and> (if nid = [] then h_Status reply = 400
           else if h_Status reply = 200
           then \<exists>n. rows w nid = Some n \<and> h_Body reply = NotificationBody (toNotificationResponse (Some n))
           else if h_Status reply = 404 then rows w nid = None
           else h_Status reply = 500)) w"
proof (cases "TrimSpace (c_Params c ''id'') = []")
  case True
  then show ?thesis
    by (simp add: respond_def GetNotification_def service_api_def service_GetByID_def TrimSpace_idem errors_Is_no_fiber)
next
  case False
  then have api: "api_GetByID (service_api s rt) (TrimSpace (c_Params c ''id''))
      = nr_GetByID (s_notifications s) (TrimSpace (c_Params c ''id''))"
    by (simp add: service_api_def service_GetByID_def TrimSpace_idem)
  note laws = service_env.axioms(1) [OF assms, THEN notification_repository_laws.GetByID_law]
  show ?thesis
    unfolding respond_def GetNotification_def Let_def notification_handler.simps api wp_bind wp_return
    by (rule service_env.framed [OF assms laws service_env.read_frames(1) [OF assms]])
       (use False in \<open>auto simp: foreign_error_def errors_Is_no_fiber
          split: sum.splits if_splits dest: errors_Is_unique\<close>)
qed

lemma rbs_eta: "\<lparr>rbs_Status = rbs_Status x, rbs_Count = rbs_Count x\<rparr> = x"
  by (cases x) simp

lemma group_counts:
  assumes fin: "finite (dom R)" and d: "distinct (map rbs_Status gs)"
    and gs: "\<forall>s c. \<lparr>rbs_Status = s, rbs_Count = c\<rparr> \<in> set gs \<longleftrightarrow>
        row_keys R (\<lambda>n. P n \<and> Status n = s) \<noteq> {} \<and> c = int (card (row_keys R (\<lambda>n. P n \<and> Status n = s)))"
  shows "sum_list (map rbs_Count gs) = int (card (row_keys R P))"
proof -
  let ?K = "\<lambda>s. row_keys R (\<lambda>n. P n \<and> Status n = s)"
  have g: "rbs_Count x = int (card (?K (rbs_Status x)))" if "x \<in> set gs" for x
    using gs [rule_format, of "rbs_Status x" "rbs_Count x"] that by (simp add: rbs_eta)
  have parts: "row_keys R P = (\<Union>s\<in>rbs_Status ` set gs. ?K s)"
  proof
    show "row_keys R P \<subseteq> (\<Union>s\<in>rbs_Status ` set gs. ?K s)"
    proof
      fix k assume "k \<in> row_keys R P"
      then obtain n where "R k = Some n" "P n" by (auto simp: row_keys_def)
      then have n: "k \<in> ?K (Status n)" by (simp add: row_keys_def)
      then have "\<lparr>rbs_Status = Status n, rbs_Count = int (card (?K (Status n)))\<rparr> \<in> set gs" using gs by blast
      from imageI [OF this, of rbs_Status] n show "k \<in> (\<Union>s\<in>rbs_Status ` set gs. ?K s)" by auto
    qed
  qed (auto simp: row_keys_def)
  have fin': "finite (?K s)" for s by (rule finite_subset [OF row_keys_subset fin])
  have "sum_list (map rbs_Count gs) = sum_list (map (\<lambda>s. int (card (?K s))) (map rbs_Status gs))"
    using g by (simp add: comp_def cong: map_cong)
  also have "\<dots> = (\<Sum>s\<in>set (map rbs_Status gs). int (card (?K s)))"
    using d by (rule sum_list_distinct_conv_sum_set)
  also have "\<dots> = int (card (row_keys R P))"
    unfolding parts using fin' by (subst card_UN_disjoint) (auto simp: row_keys_def)
  finally show ?thesis .
qed

text \<open>
  C30: the summary of a batch changes nothing. An answer 200 shows the stored batch, with one count
  per status that occurs among its notifications, and the counts add up to the number of
  notifications that belong to the batch; an answer 404 means that there is no such batch.
\<close>

theorem GetBatchSummary_endpoint:
  assumes "service_env s rows rt published batches"
  shows "wp (respond (handler_GetBatchSummary \<lparr>nh_service = service_api s rt\<rparr> c)) (\<lambda>reply w'.
     let bid = TrimSpace (c_Params c ''batchId'');
         members = (\<lambda>p. row_keys (rows w) (\<lambda>n. BatchID n = Some bid \<and> p n))
     in rows w' = rows w \<and> published w' = published w \<and> batches w' = batches w
        \<and> (if bid = [] then h_Status reply = 400
           else if h_Status reply = 200
           then \<exists>b counts. batches w bid = Some b
             \<and> h_Body reply = SummaryBody \<lparr>bsr_BatchID = b_ID b, bsr_TotalCount = b_TotalCount b,
                  bsr_Status = b_Status b, bsr_Counts = counts\<rparr>
             \<and> distinct (map bi_Status counts)
             \<and> list_all (\<lambda>x. 0 < bi_Count x \<and> bi_Count x = int (card (members (\<lambda>n. Status n = bi_Status x)))) counts
             \<and> sum_list (map bi_Count counts) = int (card (members (\<lambda>_. True)))
           else if h_Status reply = 404 then batches w bid = None
           else h_Status reply = 500)) w"
proof (cases "TrimSpace (c_Params c ''batchId'') = []")
  case True
  then show ?thesis
    by (simp add: respond_def handler_GetBatchSummary_def service_api_def service_GetBatchSummary_def TrimSpace_idem
        errors_Is_no_fiber)
next
  case False
  let ?bid = "TrimSpace (c_Params c ''batchId'')"
  let ?members = "\<lambda>p. row_keys (rows w) (\<lambda>n. BatchID n = Some ?bid \<and> p n)"
  note repo = service_env.axioms(1) [OF assms]
  note fin = notification_repository_laws.rows_finite [OF repo]
  have counts: "distinct (map bi_Status counts)
      \<and> list_all (\<lambda>x. 0 < bi_Count x \<and> bi_Count x = int (card (?members (\<lambda>n. Status n = bi_Status x)))) counts
      \<and> sum_list (map bi_Count counts) = int (card (?members (\<lambda>_. True)))"
    if "counts = map (\<lambda>x. \<lparr>bi_Status = rbs_Status x, bi_Count = rbs_Count x\<rparr>) gs" "distinct (map rbs_Status gs)"
      and gs: "\<forall>s c. \<lparr>rbs_Status = s, rbs_Count = c\<rparr> \<in> set gs \<longleftrightarrow> ?members (\<lambda>n. Status n = s) \<noteq> {}
           \<and> c = int (card (?members (\<lambda>n. Status n = s)))" for counts gs
  proof -
    have "0 < rbs_Count x \<and> rbs_Count x = int (card (?members (\<lambda>n. Status n = rbs_Status x)))" if "x \<in> set gs" for x
      using gs [rule_format, of "rbs_Status x" "rbs_Count x"] that finite_subset [OF row_keys_subset fin]
      by (auto simp: card_gt_0_iff rbs_eta)
    then show ?thesis
      using group_counts [OF fin that(2) gs] that(1,2) by (fastforce simp: comp_def list_all_iff)
  qed
  show ?thesis
    unfolding respond_def handler_GetBatchSummary_def service_api_def service_GetBatchSummary_def Let_def
      notification_handler.simps notification_api.simps TrimSpace_idem if_not_P [OF False] wp_bind wp_return
  proof (rule wp_mono [OF service_env.batch_Get_law [OF assms]], goal_cases)
    case (1 b v)
    show ?case
    proof (cases b)
      case (Inl e)
      with 1 False show ?thesis
        by (auto simp: foreign_error_def errors_Is_no_fiber split: if_splits dest: errors_Is_unique)
    next
      case (Inr x)
      show ?thesis
        unfolding Inr sum.case wp_bind wp_return
      proof (rule service_env.framed [OF assms notification_repository_laws.GetBatchSummary_law [OF repo]
            service_env.read_frames(3) [OF assms]], goal_cases)
        case (1 r w')
        with \<open>rows v = rows w \<and> _\<close> False counts show ?case
          by (cases r) (auto simp: Inr foreign_error_def comp_def)
      qed
    qed
  qed
qed


context service_env
begin

lemma CreateBatch_errors:
  "wp (service_CreateBatch s rt ns) (\<lambda>(b, cs, err) _. case err of None \<Rightarrow> True
     | Some e \<Rightarrow> \<not> has_fiber e \<and> (b \<noteq> None \<longrightarrow> \<not> errors_Is e ErrValidation)) w"
proof (cases "length ns = 0 \<or> maxBatchSize < length ns")
  case True
  then show ?thesis by (auto simp: service_CreateBatch_def errors_Is_no_fiber)
next
  case False
  have any: "wp (time_Now rt) (\<lambda>_ _. True) v" "wp (enqueue_all s now xs) (\<lambda>_ _. True) v" for v now xs
    by (simp_all add: wp_run)
  have max: "n \<in> set ms \<Longrightarrow> MaxRetries n \<noteq> 0" if "list_all2 (prepared (Some bid)) ns ms" for bid ms n
    using that by (auto simp: list_all2_conv_all_nth in_set_conv_nth prepared_def split: if_splits)
  have upd: "wp (br_UpdateStatus (s_batches s) k st) (\<lambda>r _. case r of None \<Rightarrow> True | Some e \<Rightarrow> \<not> has_fiber e) v" for k st v
    by (rule wp_mono [OF batch_Update_law]) (auto split: option.splits)
  show ?thesis
    unfolding service_CreateBatch_def
  proof (use False in \<open>simp add: Let_def split_beta del: wp_bind\<close>, rule wp_bindI, rule quiet [OF uuid_frame],
      rule wp_bindI, rule wp_mono [OF prepare_batch_wp], goal_cases)
    case (1 bid v prep v1)
    show ?case
    proof (cases prep)
      case (Inl e)
      with 1 show ?thesis by (auto dest: errors_Is_no_fiber)
    next
      case (Inr ms)
      with 1 have "list_all2 (prepared (Some bid)) ns ms" by simp
      note store = CreateBatch_law [OF max [OF this]]
      show ?thesis
        unfolding Inr sum.case
      proof (rule wp_bindI, rule wp_mono [OF batch_Create_law], goal_cases)
        case (1 bc v2)
        show ?case
        proof (cases bc)
          case (Inr ob)
          show ?thesis
            unfolding Inr sum.case
            by (rule wp_bindI, rule wp_mono [OF store])
               (auto simp: foreign_error_def split: sum.split option.splits intro!: wp_mono [OF upd] wp_mono [OF any(1)] wp_mono [OF any(2)])
        qed (use 1 in \<open>simp add: foreign_error_def\<close>)
      qed
    qed
  qed
qed

end


end
