(* ===== verification/Lifecycle.thy ===== *)
theory Lifecycle
  imports System
begin

text \<open>
  The life of a notification under concurrency. The processes of the program (requests, workers,
  scanners) share the notifications table, and each call of the repository is one statement on it,
  so every execution is an interleaving of such calls. \<open>db_step\<close> lists the calls the program makes,
  with the arguments it makes them with; \<open>trace\<close> is a sequence of them, whoever makes them. The
  operations of the wired program are such sequences, and what holds of every trace holds of every
  interleaving of them.
\<close>

section \<open>Calls and traces\<close>

datatype db_call =
    CallCreate notification
  | CallCreateBatch "notification list"
  | CallUpdateStatus string status
  | CallMarkQueued string
  | CallRetry string go_time
  | CallCancel string
  | CallLock string bool
  | CallClearRetry string
  | CallSetMessageID string string
  | CallRead
  | CallNone

text \<open>A row as \<open>prepareNotificationForCreate\<close> hands it to the repository.\<close>

definition new_row :: "notification \<Rightarrow> bool" where
  "new_row n \<longleftrightarrow> Status n = StatusAccepted \<and> AttemptCount n = 0 \<and> 0 < MaxRetries n
     \<and> NextRetryAt n = None \<and> ProviderMessageID n = None \<and> well_formed n"

definition is_claim :: "go_error + notification option \<Rightarrow> bool" where
  "is_claim r = (case r of Inr (Some _) \<Rightarrow> True | _ \<Rightarrow> False)"

inductive db_step ::
  "'w notification_repository \<Rightarrow> ('w \<Rightarrow> (string \<rightharpoonup> notification)) \<Rightarrow> db_call \<Rightarrow> 'w \<Rightarrow> 'w \<Rightarrow> bool"
  for repo rows where
  create: "new_row m \<Longrightarrow> run_state (nr_Create repo (Some m)) w = (r, w') \<Longrightarrow> db_step repo rows (CallCreate m) w w'"
| create_batch: "\<forall>m\<in>set ms. new_row m \<Longrightarrow> run_state (nr_CreateBatch repo (map Some ms)) w = (rs, w') \<Longrightarrow>
    db_step repo rows (CallCreateBatch ms) w w'"
| update_status: "st \<in> {StatusQueued, StatusFailed, StatusSent} \<Longrightarrow>
    run_state (nr_UpdateStatus repo k st) w = (e, w') \<Longrightarrow> db_step repo rows (CallUpdateStatus k st) w w'"
| mark_queued: "run_state (nr_MarkQueuedIfAccepted repo k) w = (b, w') \<Longrightarrow> db_step repo rows (CallMarkQueued k) w w'"
| retry: "run_state (nr_UpdateStatusWithRetry repo k StatusQueued at) w = (e, w') \<Longrightarrow>
    db_step repo rows (CallRetry k at) w w'"
| cancel: "run_state (nr_Cancel repo k) w = (e, w') \<Longrightarrow> db_step repo rows (CallCancel k) w w'"
| lock: "run_state (nr_LockForSending repo k) w = (l, w') \<Longrightarrow> db_step repo rows (CallLock k (is_claim l)) w w'"
| clear_retry: "run_state (nr_ClearNextRetryAt repo k) w = (e, w') \<Longrightarrow> db_step repo rows (CallClearRetry k) w w'"
| set_message_id: "run_state (nr_SetProviderMessageID repo k mid) w = (e, w') \<Longrightarrow>
    db_step repo rows (CallSetMessageID k mid) w w'"
| get_by_id: "run_state (nr_GetByID repo k) w = (g, w') \<Longrightarrow> db_step repo rows CallRead w w'"
| get_by_key: "run_state (nr_GetByIdempotencyKey repo k) w = (g, w') \<Longrightarrow> db_step repo rows CallRead w w'"
| list_rows: "run_state (nr_List repo params) w = (p, w') \<Longrightarrow> db_step repo rows CallRead w w'"
| due_schedule: "run_state (nr_GetDueForSchedule repo limit) w = (ds, w') \<Longrightarrow> db_step repo rows CallRead w w'"
| due_retry: "run_state (nr_GetDueForRetry repo limit) w = (ds, w') \<Longrightarrow> db_step repo rows CallRead w w'"
| batch_counts: "run_state (nr_GetBatchSummary repo k) w = (gs, w') \<Longrightarrow> db_step repo rows CallRead w w'"
| elsewhere: "rows w' = rows w \<Longrightarrow> db_step repo rows CallNone w w'"

inductive trace ::
  "'w notification_repository \<Rightarrow> ('w \<Rightarrow> (string \<rightharpoonup> notification)) \<Rightarrow> db_call list \<Rightarrow> 'w \<Rightarrow> 'w \<Rightarrow> bool"
  for repo rows where
  stop: "trace repo rows [] w w"
| step: "db_step repo rows c w v \<Longrightarrow> trace repo rows cs v w' \<Longrightarrow> trace repo rows (c # cs) w w'"

inductive_cases trace_NilE: "trace repo rows [] w w'"
inductive_cases trace_ConsE: "trace repo rows (c # cs) w w'"
inductive_cases db_step_lockE: "db_step repo rows (CallLock k b) w w'"

lemma trace_single: "db_step repo rows c w w' \<Longrightarrow> trace repo rows [c] w w'"
  by (rule trace.step [OF _ trace.stop])

lemma trace_append_iff:
  "trace repo rows (cs @ ds) w w' \<longleftrightarrow> (\<exists>v. trace repo rows cs w v \<and> trace repo rows ds v w')"
proof
  show "trace repo rows (cs @ ds) w w' \<Longrightarrow> \<exists>v. trace repo rows cs w v \<and> trace repo rows ds v w'"
    by (induction cs arbitrary: w) (auto intro: trace.intros elim: trace_ConsE, metis trace.step trace_ConsE)
  have "trace repo rows cs w v \<Longrightarrow> trace repo rows ds v w' \<Longrightarrow> trace repo rows (cs @ ds) w w'" for v
    by (induction rule: trace.induct) (auto intro: trace.step)
  then show "\<exists>v. trace repo rows cs w v \<and> trace repo rows ds v w' \<Longrightarrow> trace repo rows (cs @ ds) w w'" by blast
qed

lemma trace_append: "trace repo rows cs w v \<Longrightarrow> trace repo rows ds v w' \<Longrightarrow> trace repo rows (cs @ ds) w w'"
  unfolding trace_append_iff by blast

section \<open>What one call does to a row\<close>

text \<open>The fields of the request never change.\<close>

definition same_request :: "notification \<Rightarrow> notification \<Rightarrow> bool" where
  "same_request n n' \<longleftrightarrow> ID n' = ID n \<and> CorrelationID n' = CorrelationID n \<and> IdempotencyKey n' = IdempotencyKey n
     \<and> BatchID n' = BatchID n \<and> Channel n' = Channel n \<and> Priority n' = Priority n \<and> Recipient n' = Recipient n
     \<and> Content n' = Content n \<and> MaxRetries n' = MaxRetries n \<and> ScheduledAt n' = ScheduledAt n
     \<and> CreatedAt n' = CreatedAt n"

fun status_move :: "db_call \<Rightarrow> string \<Rightarrow> status \<Rightarrow> status \<Rightarrow> bool" where
  "status_move (CallUpdateStatus j st) k s s' = (j = k \<and> s' = st)"
| "status_move (CallMarkQueued j) k s s' = (j = k \<and> s = StatusAccepted \<and> s' = StatusQueued)"
| "status_move (CallRetry j at) k s s' = (j = k \<and> s' = StatusQueued)"
| "status_move (CallCancel j) k s s' = (j = k \<and> s \<in> {StatusAccepted, StatusQueued} \<and> s' = StatusCanceled)"
| "status_move (CallLock j b) k s s' = (j = k \<and> s \<in> {StatusAccepted, StatusQueued} \<and> s' = StatusSending)"
| "status_move c k s s' = False"

definition row_move :: "db_call \<Rightarrow> string \<Rightarrow> notification \<Rightarrow> notification \<Rightarrow> bool" where
  "row_move c k n n' \<longleftrightarrow> same_request n n' \<and> AttemptCount n \<le> AttemptCount n'
     \<and> (Status n' = Status n \<or> status_move c k (Status n) (Status n'))"

definition moves :: "db_call \<Rightarrow> (string \<rightharpoonup> notification) \<Rightarrow> (string \<rightharpoonup> notification) \<Rightarrow> bool" where
  "moves c R R' \<longleftrightarrow>
     (\<forall>k n. R k = Some n \<longrightarrow> (\<exists>n'. R' k = Some n' \<and> row_move c k n n'))
   \<and> (\<forall>k n'. R k = None \<longrightarrow> R' k = Some n' \<longrightarrow> new_row n')"

lemma row_move_refl [simp]: "row_move c k n n"
  by (simp add: row_move_def same_request_def)

lemma moves_refl [simp]: "moves c R R"
  by (auto simp: moves_def)

lemma movesE:
  assumes "moves c R R'" and "R k = Some n"
  obtains n' where "R' k = Some n'" and "row_move c k n n'"
  using assms unfolding moves_def by blast

lemma moves_new: "moves c R R' \<Longrightarrow> R k = None \<Longrightarrow> R' k = Some n' \<Longrightarrow> new_row n'"
  unfolding moves_def by blast

lemma moves_updated:
  assumes "updated_row R R' k f" and "\<And>n u. R k = Some n \<Longrightarrow> row_move c k n ((f n)\<lparr>UpdatedAt := u\<rparr>)"
  shows "moves c R R'"
  using assms by (auto simp: moves_def updated_row_def split: if_splits)

lemma moves_guarded:
  assumes "R' = R \<or> (\<exists>n. R k = Some n \<and> P n) \<and> updated_row R R' k f"
    and "\<And>n u. P n \<Longrightarrow> row_move c k n ((f n)\<lparr>UpdatedAt := u\<rparr>)"
  shows "moves c R R'"
  using assms(1)
proof
  assume "(\<exists>n. R k = Some n \<and> P n) \<and> updated_row R R' k f"
  with assms(2) show ?thesis by (intro moves_updated [of R R' k f]) auto
qed simp

lemma moves_inserted: "n_inserted R m m' R' \<Longrightarrow> new_row m \<Longrightarrow> moves c R R'"
  by (auto simp: moves_def inserted_def n_stamped_def new_row_def well_formed_def)

lemma moves_inserted_all:
  assumes "n_inserted_all R ms ms' R'" and "\<And>m. m \<in> set ms \<Longrightarrow> new_row m"
  shows "moves c R R'"
proof -
  note ins = inserted_all_rows [OF assms(1)]
  have new: "new_row m'" if "m' \<in> set ms'" for m'
  proof -
    from that ins(1) obtain m where "m \<in> set ms" "n_stamped m m'"
      by (metis in_set_conv_nth list_all2_conv_all_nth)
    with assms(2) show ?thesis by (auto simp: n_stamped_def new_row_def well_formed_def)
  qed
  have "row_move c k n n" "R' k = Some n" if "R k = Some n" for k n
  proof -
    have "k \<notin> ID ` set ms'" using that ins(3) by auto
    with ins(4) that show "R' k = Some n" by simp
  qed simp
  moreover have "new_row n'" if "R k = None" "R' k = Some n'" for k n'
  proof -
    have "k \<in> ID ` set ms'" using that ins(4) [of k] by force
    with ins(3) that(2) new show ?thesis by auto
  qed
  ultimately show ?thesis unfolding moves_def by blast
qed

context notification_repository_laws
begin

lemma update_moves:
  assumes "set_spec (rows w) (rows w') k f r" and "\<And>n u. row_move c k n ((f n)\<lparr>UpdatedAt := u\<rparr>)"
  shows "moves c (rows w) (rows w')"
  using assms moves_updated [of "rows w" "rows w'" k f c]
  by (auto simp: set_spec_def split: option.splits if_splits)

lemma db_step_moves: "db_step repo rows c w w' \<Longrightarrow> moves c (rows w) (rows w')"
proof (induction rule: db_step.induct)
  case (create m w r w')
  then have "MaxRetries m \<noteq> 0" by (simp add: new_row_def)
  from wpD [OF Create_law [OF this] create(2)] create(1) show ?case
    by (auto split: sum.splits option.splits if_splits intro: moves_inserted)
next
  case (create_batch ms w rs w')
  then have "MaxRetries m \<noteq> 0" if "m \<in> set ms" for m using that by (auto simp: new_row_def)
  from wpD [OF CreateBatch_law [OF this] create_batch(2)] create_batch(1) show ?case
    by (auto split: sum.splits intro: moves_inserted_all dest: in_set_takeD)
next
  case (update_status st k w e w')
  show ?case
    by (rule update_moves [OF wpD [OF UpdateStatus_law update_status(2)]]) (simp add: row_move_def same_request_def)
next
  case (mark_queued k w b w')
  from wpD [OF MarkQueuedIfAccepted_law mark_queued] have "rows w' = rows w
      \<or> (\<exists>n. rows w k = Some n \<and> Status n = StatusAccepted) \<and> updated_row (rows w) (rows w') k (\<lambda>n. n\<lparr>Status := StatusQueued\<rparr>)"
    by (auto simp: Let_def split: sum.splits if_splits)
  then show ?case by (rule moves_guarded) (simp add: row_move_def same_request_def)
next
  case (retry k at w e w')
  show ?case
    by (rule update_moves [OF wpD [OF UpdateStatusWithRetry_law retry]]) (simp add: row_move_def same_request_def)
next
  case (cancel k w e w')
  from wpD [OF Cancel_law cancel] have "rows w' = rows w
      \<or> (\<exists>n. rows w k = Some n \<and> claimable n) \<and> updated_row (rows w) (rows w') k (\<lambda>n. n\<lparr>Status := StatusCanceled\<rparr>)"
    by (auto simp: Let_def split: option.splits if_splits)
  then show ?case by (rule moves_guarded) (auto simp: row_move_def same_request_def claimable_def)
next
  case (lock k w l w')
  from wpD [OF LockForSending_law lock] have "rows w' = rows w
      \<or> (\<exists>n. rows w k = Some n \<and> claimable n) \<and> updated_row (rows w) (rows w') k (\<lambda>n. n\<lparr>Status := StatusSending\<rparr>)"
    by (auto simp: Let_def split: sum.splits option.splits if_splits)
  then show ?case by (rule moves_guarded) (auto simp: row_move_def same_request_def claimable_def)
next
  case (clear_retry k w e w')
  show ?case
    by (rule update_moves [OF wpD [OF ClearNextRetryAt_law clear_retry]]) (simp add: row_move_def same_request_def)
next
  case (set_message_id k mid w e w')
  show ?case
    by (rule update_moves [OF wpD [OF SetProviderMessageID_law set_message_id]]) (simp add: row_move_def same_request_def)
qed (auto dest!: wpD [OF GetByID_law] wpD [OF GetByIdempotencyKey_law] wpD [OF List_law]
    wpD [OF GetDueForSchedule_law] wpD [OF GetDueForRetry_law] wpD [OF GetBatchSummary_law])

lemma claim_effect:
  assumes "db_step repo rows (CallLock k True) w w'"
  obtains n n' where "rows w k = Some n" "Status n \<in> {StatusAccepted, StatusQueued}"
    "rows w' k = Some n'" "Status n' = StatusSending"
proof -
  from assms obtain l where l: "run_state (nr_LockForSending repo k) w = (l, w')" "is_claim l"
    by (auto elim: db_step_lockE)
  with wpD [OF LockForSending_law l(1)] that show ?thesis
    by (auto simp: Let_def is_claim_def claimable_def updated_row_def split: sum.splits option.splits)
qed

end

section \<open>Invariants of every interleaving\<close>

text \<open>Every stored notification is valid, in a known status, with a positive number of retries.\<close>

definition sound_rows :: "(string \<rightharpoonup> notification) \<Rightarrow> bool" where
  "sound_rows R \<longleftrightarrow> (\<forall>k n. R k = Some n \<longrightarrow> Validate n = None \<and> Status_IsValid (Status n)
     \<and> 0 < MaxRetries n \<and> 0 \<le> AttemptCount n)"

lemma sound_moves:
  assumes "moves c R R'" and "sound_rows R"
    and c: "\<And>k s s'. status_move c k s s' \<Longrightarrow> Status_IsValid s'"
  shows "sound_rows R'"
  unfolding sound_rows_def Validate_None
proof (intro allI impI)
  fix k n' assume n': "R' k = Some n'"
  show "well_formed n' \<and> Status_IsValid (Status n') \<and> 0 < MaxRetries n' \<and> 0 \<le> AttemptCount n'"
  proof (cases "R k")
    case None
    from moves_new [OF assms(1) this n'] show ?thesis by (simp add: new_row_def Status_IsValid_def)
  next
    case (Some n)
    with n' have m: "row_move c k n n'" by (auto elim: movesE [OF assms(1)])
    from Some assms(2) have n: "well_formed n" "Status_IsValid (Status n)" "0 < MaxRetries n" "0 \<le> AttemptCount n"
      by (auto simp: sound_rows_def Validate_None)
    with m c show ?thesis
      by (auto simp: row_move_def same_request_def well_formed_def)
  qed
qed

lemma db_step_status: "db_step repo rows c w w' \<Longrightarrow> status_move c k s s' \<Longrightarrow> Status_IsValid s'"
  by (induction rule: db_step.induct) (auto simp: Status_IsValid_def)

definition older :: "notification \<Rightarrow> notification \<Rightarrow> bool" where
  "older n n' \<longleftrightarrow> same_request n n' \<and> AttemptCount n \<le> AttemptCount n'"

lemma older_trans: "older n n' \<Longrightarrow> older n' n'' \<Longrightarrow> older n n''"
  by (auto simp: older_def same_request_def)

lemma trace_invariant:
  assumes "notification_repository_laws repo rows" and "trace repo rows cs w w'" and "sound_rows (rows w)"
  shows "sound_rows (rows w')
    \<and> (\<forall>k n. rows w k = Some n \<longrightarrow> (\<exists>n'. rows w' k = Some n' \<and> older n n'))"
  using assms(2,3)
proof (induction rule: trace.induct)
  case (stop w)
  then show ?case by (auto simp: older_def same_request_def)
next
  case (step c w v cs w')
  have m: "moves c (rows w) (rows v)"
    using notification_repository_laws.db_step_moves [OF assms(1)] step.hyps(1) .
  then have sound: "sound_rows (rows v)"
    by (rule sound_moves) (use step.prems db_step_status [OF step.hyps(1)] in auto)
  have "\<exists>n'. rows w' k = Some n' \<and> older n n'" if "rows w k = Some n" for k n
  proof -
    from m that obtain n1 where "rows v k = Some n1" "older n n1" by (auto simp: row_move_def older_def elim: movesE)
    with step.IH sound show ?thesis by (blast intro: older_trans)
  qed
  with step.IH sound show ?case by blast
qed

text \<open>
  C3: whatever processes run and however their statements interleave, the table only ever holds
  valid notifications in known statuses; no notification is lost, the fields of its request never
  change, and its attempt count never decreases.
\<close>

theorem lifecycle_invariant:
  assumes "gorm_notifications db tbl rt"
    and "trace (NewGormNotificationRepo rt db) (\<lambda>w. domain_rows (tbl w)) cs w w'" and "sound_rows (domain_rows (tbl w))"
  shows "sound_rows (domain_rows (tbl w'))
    \<and> (\<forall>k n. domain_rows (tbl w) k = Some n \<longrightarrow> (\<exists>n'. domain_rows (tbl w') k = Some n' \<and> older n n'))"
  using trace_invariant [OF gorm_notifications.repo_contract [OF assms(1)] assms(2,3)] .

text \<open>The calls that put a notification back to QUEUED.\<close>

fun requeues :: "string \<Rightarrow> db_call \<Rightarrow> bool" where
  "requeues k (CallUpdateStatus j st) = (j = k \<and> st = StatusQueued)"
| "requeues k (CallRetry j at) = (j = k)"
| "requeues k c = False"

lemma stays_claimed:
  assumes "notification_repository_laws repo rows" and "trace repo rows cs w w'"
    and "rows w k = Some n" "Status n \<notin> {StatusAccepted, StatusQueued}" and "\<not> (\<exists>c\<in>set cs. requeues k c)"
  shows "\<exists>n'. rows w' k = Some n' \<and> Status n' \<notin> {StatusAccepted, StatusQueued}"
  using assms(2-)
proof (induction arbitrary: n rule: trace.induct)
  case (stop w)
  then show ?case by simp
next
  case (step c w v cs w')
  have m: "moves c (rows w) (rows v)"
    using notification_repository_laws.db_step_moves [OF assms(1)] step.hyps(1) .
  from m step.prems(1) obtain n1 where n1: "rows v k = Some n1" "row_move c k n n1" by (rule movesE)
  have "st \<noteq> StatusAccepted" if "c = CallUpdateStatus j st" for j st
    using step.hyps(1) that by (auto elim: db_step.cases)
  then have "Status n1 \<notin> {StatusAccepted, StatusQueued}"
    using n1(2) step.prems(2,3) by (cases c) (auto simp: row_move_def)
  with step n1(1) show ?case by simp
qed

lemma trace_exclusive:
  assumes "notification_repository_laws repo rows"
    and "trace repo rows (CallLock k True # cs @ [CallLock k True]) w w'"
  shows "\<exists>c\<in>set cs. requeues k c"
proof (rule ccontr)
  assume none: "\<not> (\<exists>c\<in>set cs. requeues k c)"
  from assms(2) obtain v1 v2 where first: "db_step repo rows (CallLock k True) w v1"
    and mid: "trace repo rows cs v1 v2" and last: "trace repo rows [CallLock k True] v2 w'"
    by (elim trace_ConsE) (auto simp: trace_append_iff)
  obtain n' where n': "rows v1 k = Some n'" "Status n' = StatusSending"
    by (rule notification_repository_laws.claim_effect [OF assms(1) first])
  obtain m where m: "rows v2 k = Some m" "Status m \<notin> {StatusAccepted, StatusQueued}"
    using stays_claimed [OF assms(1) mid n'(1) _ none] n'(2) by auto
  from last have "db_step repo rows (CallLock k True) v2 w'" by (auto elim: trace_ConsE trace_NilE)
  from notification_repository_laws.claim_effect [OF assms(1) this] m show False by (metis option.sel)
qed

text \<open>
  C4: mutual exclusion across any number of concurrent workers. Between two successful claims of
  the same notification some process put it back to QUEUED.
\<close>

theorem claims_exclusive:
  assumes "gorm_notifications db tbl rt"
    and "trace (NewGormNotificationRepo rt db) (\<lambda>w. domain_rows (tbl w)) (CallLock k True # cs @ [CallLock k True]) w w'"
  shows "\<exists>c\<in>set cs. requeues k c"
  using trace_exclusive [OF gorm_notifications.repo_contract [OF assms(1)] assms(2)] .

section \<open>The operations of the program are traces\<close>

definition traced ::
  "'w notification_repository \<Rightarrow> ('w \<Rightarrow> (string \<rightharpoonup> notification)) \<Rightarrow> ('w, 'a) state \<Rightarrow> bool" where
  "traced repo rows m \<longleftrightarrow> (\<forall>w. wp m (\<lambda>_ w'. \<exists>cs. trace repo rows cs w w') w)"

lemma traced_run: "traced repo rows m \<longleftrightarrow> (\<forall>w a w'. run_state m w = (a, w') \<longrightarrow> (\<exists>cs. trace repo rows cs w w'))"
  by (simp add: traced_def wp_run)

lemma traced_return [simp]: "traced repo rows (State_Monad.return a)"
  unfolding traced_def by (auto intro: trace.stop)

lemma traced_bind:
  assumes "traced repo rows m" and "\<And>a. traced repo rows (f a)"
  shows "traced repo rows (State_Monad.bind m f)"
  unfolding traced_def wp_bind
proof (intro allI wpI)
  fix w a v b w'
  assume "run_state m w = (a, v)" and "run_state (f a) v = (b, w')"
  with assms obtain cs ds where "trace repo rows cs w v" "trace repo rows ds v w'"
    unfolding traced_run by blast
  then show "\<exists>cs. trace repo rows cs w w'" by (blast intro: trace_append)
qed

lemma quiet_trace: "rows w' = rows w \<Longrightarrow> \<exists>cs. trace repo rows cs w w'"
  by (blast intro: trace_single db_step.elsewhere)

lemma traced_keeps: "keeps rows m \<Longrightarrow> traced repo rows m"
  unfolding traced_run by (auto dest: keepsD intro: quiet_trace)

lemma traced_then:
  assumes m: "\<And>w. wp m (\<lambda>a w'. P a \<and> rows w' = rows w) w" and f: "\<And>a. P a \<Longrightarrow> traced repo rows (f a)"
  shows "traced repo rows (State_Monad.bind m f)"
  unfolding traced_def wp_bind
proof (intro allI wpI)
  fix w a v b w'
  assume run: "run_state m w = (a, v)" and run': "run_state (f a) v = (b, w')"
  from wpD [OF m run] have a: "P a" and v: "rows v = rows w" by auto
  from f [OF a] run' obtain ds where "trace repo rows ds v w'" unfolding traced_run by blast
  moreover obtain cs where "trace repo rows cs w v" using quiet_trace [of rows v w repo, OF v] by blast
  ultimately show "\<exists>cs. trace repo rows cs w w'" by (blast intro: trace_append)
qed

lemma traced_for_each: "(\<And>x. traced repo rows (f x)) \<Longrightarrow> traced repo rows (for_each f xs)"
  by (induction xs) (auto intro: traced_bind)

lemma traced_calls:
  "new_row m \<Longrightarrow> traced repo rows (nr_Create repo (Some m))"
  "\<forall>m\<in>set ms. new_row m \<Longrightarrow> traced repo rows (nr_CreateBatch repo (map Some ms))"
  "st \<in> {StatusQueued, StatusFailed, StatusSent} \<Longrightarrow> traced repo rows (nr_UpdateStatus repo k st)"
  "traced repo rows (nr_MarkQueuedIfAccepted repo k)"
  "traced repo rows (nr_UpdateStatusWithRetry repo k StatusQueued at)"
  "traced repo rows (nr_Cancel repo k)"
  "traced repo rows (nr_LockForSending repo k)"
  "traced repo rows (nr_ClearNextRetryAt repo k)"
  "traced repo rows (nr_SetProviderMessageID repo k mid)"
  "traced repo rows (nr_GetByID repo k)"
  "traced repo rows (nr_GetByIdempotencyKey repo k)"
  "traced repo rows (nr_List repo params)"
  "traced repo rows (nr_GetDueForSchedule repo limit)"
  "traced repo rows (nr_GetDueForRetry repo limit)"
  "traced repo rows (nr_GetBatchSummary repo k)"
  unfolding traced_run by (blast intro: trace_single db_step.intros)+

lemma prepared_new_row: "prepared b n m \<Longrightarrow> new_row m"
  by (auto simp: prepared_def new_row_def split: if_splits)

lemma list_all2_new_row: "list_all2 (prepared b) ns ms \<Longrightarrow> m \<in> set ms \<Longrightarrow> new_row m"
  by (induction rule: list_all2_induct) (auto dest: prepared_new_row)

text \<open>The notification service.\<close>

context service_env
begin

abbreviation svc_traced :: "('w, 'a) state \<Rightarrow> bool" where
  "svc_traced \<equiv> traced (s_notifications s) rows"

lemma svc_quiet:
  "svc_traced (time_Now rt)" "svc_traced (uuid_NewString rt)" "svc_traced (pub_Publish (s_publisher s) q m)"
  "svc_traced (br_Create (s_batches s) (Some b))" "svc_traced (br_UpdateStatus (s_batches s) k bst)"
  "svc_traced (br_GetByID (s_batches s) k)"
proof -
  note f = now_frame uuid_frame
  show "svc_traced (time_Now rt)" "svc_traced (uuid_NewString rt)"
    using f by (auto simp: keeps_def intro!: traced_keeps)
  show "svc_traced (pub_Publish (s_publisher s) q m)" "svc_traced (br_Create (s_batches s) (Some b))"
    "svc_traced (br_UpdateStatus (s_batches s) k bst)" "svc_traced (br_GetByID (s_batches s) k)"
    unfolding keeps_wp
    by (rule traced_keeps, simp add: keeps_wp, rule allI,
        rule wp_mono [OF Publish_law] wp_mono [OF batch_Create_law] wp_mono [OF batch_Update_law] wp_mono [OF batch_Get_law],
        simp)+
qed

lemma traced_enqueue_created: "svc_traced (enqueue_created s rt n)"
  unfolding enqueue_created_def
  by (auto intro!: traced_bind svc_quiet traced_calls split: option.split)

lemma traced_service_Create: "svc_traced (service_Create s rt (Some n))"
proof -
  have resolve: "svc_traced (resolveIdempotencyConflict s e key)" for e key
    unfolding resolveIdempotencyConflict_def
    by (auto intro!: traced_bind traced_calls split: option.split)
  show ?thesis
    unfolding service_Create_def
  proof (rule traced_then [where P = "\<lambda>r. \<forall>m. r = Inr m \<longrightarrow> prepared None n m"], goal_cases)
    case (1 w)
    show ?case by (rule wp_mono [OF prepare_wp]) auto
  next
    case (2 r)
    then show ?case
      by (auto intro!: traced_bind traced_calls traced_enqueue_created resolve prepared_new_row split: sum.split)
  qed
qed

lemma traced_enqueue_all: "svc_traced (enqueue_all s now ms)"
  by (induction ms)
     (auto simp: enqueue_one_def intro!: traced_bind svc_quiet traced_calls split: option.split)

lemma traced_service_CreateBatch: "svc_traced (service_CreateBatch s rt ns)"
proof (cases "length ns = 0 \<or> maxBatchSize < length ns")
  case False
  have prep: "wp (prepare_batch rt bid ns) (\<lambda>r w'. (\<forall>ms. r = Inr ms \<longrightarrow> (\<forall>m\<in>set ms. new_row m)) \<and> rows w' = rows w) w" for bid w
    by (rule wp_mono [OF prepare_batch_wp])
       (auto dest!: list_all2_new_row)
  show ?thesis
    unfolding service_CreateBatch_def
    using False
    by (auto simp: Let_def split_beta split: sum.split option.split
        intro!: traced_bind [OF svc_quiet(2)] traced_then [OF prep] traced_bind svc_quiet traced_calls traced_enqueue_all)
qed (auto simp: service_CreateBatch_def)

lemma traced_service_reads:
  "svc_traced (service_GetByID s k)" "svc_traced (service_GetBatchSummary s k)" "svc_traced (service_List s params)"
  "svc_traced (service_Cancel s k)"
  unfolding service_GetByID_def service_GetBatchSummary_def service_List_def service_Cancel_def
  by (auto intro!: traced_bind traced_calls svc_quiet split: sum.split)

end

text \<open>The worker and the scanners.\<close>

context worker_env
begin

abbreviation wrk_traced :: "('w, 'a) state \<Rightarrow> bool" where
  "wrk_traced \<equiv> traced (w_notifications s) rows"

lemma wrk_quiet: "keeps obs m \<Longrightarrow> wrk_traced m"
  by (rule traced_keeps) (simp add: keeps_def)

lemma wrk_frames:
  "wrk_traced (rl_Wait (w_rateLimiter s) ch)" "wrk_traced (w_now s)" "wrk_traced (uuid_NewString rt)"
  "wrk_traced (p_Send (w_provider s) n)" "wrk_traced (ar_Create (w_attempts s) (Some a))"
proof -
  show "wrk_traced (rl_Wait (w_rateLimiter s) ch)" "wrk_traced (w_now s)" "wrk_traced (uuid_NewString rt)"
    by (intro wrk_quiet Wait_frame now_frame uuid_frame)+
  show "wrk_traced (p_Send (w_provider s) n)" "wrk_traced (ar_Create (w_attempts s) (Some a))"
    by (rule traced_keeps, simp add: keeps_wp, rule allI,
        rule wp_mono [OF Send_law] wp_mono [OF attempt_law], simp)+
qed

lemma wrk_metrics:
  "wrk_traced (IncNotificationSent (w_metrics s) ch)" "wrk_traced (IncNotificationFailed (w_metrics s) ch reason)"
  "wrk_traced (ObserveNotificationSendDuration (w_metrics s) ch dur)" "wrk_traced (IncRetryScheduled (w_metrics s) ch)"
  unfolding IncNotificationSent_def IncNotificationFailed_def ObserveNotificationSendDuration_def IncRetryScheduled_def
  by (auto simp: Let_def split: option.split intro!: wrk_quiet counter_frame observe_frame)

lemma wrk_gauges: "wrk_traced (IncWorkerInFlight (w_metrics s) ch)" "wrk_traced (DecWorkerInFlight (w_metrics s) ch)"
proof -
  have "keeps rows (pm_GaugeInc p name labels)" "keeps rows (pm_GaugeDec p name labels)" if "w_metrics s = Some p" for p name labels
    unfolding keeps_wp
    by (rule allI, rule wp_mono [OF inc_law [OF that]] wp_mono [OF dec_law [OF that]], simp)+
  then show "wrk_traced (IncWorkerInFlight (w_metrics s) ch)" "wrk_traced (DecWorkerInFlight (w_metrics s) ch)"
    unfolding IncWorkerInFlight_def DecWorkerInFlight_def by (auto split: option.split intro!: traced_keeps)
qed

lemma traced_computeRetryDelay: "wrk_traced (computeRetryDelay s k)"
proof -
  have "wrk_traced (f j)" if "w_randIntn s = Some f" for f j
    by (rule wrk_quiet [OF rand_frame [OF that]])
  then show ?thesis
    unfolding computeRetryDelay_def Let_def by (intro traced_bind) (auto split: option.split)
qed

lemma traced_processMessage: "wrk_traced (processMessage s rt msg)"
  unfolding processMessage_def deliver_def settle_sent_def settle_error_def recordAttempt_def Let_def split_beta
  by (auto split: sum.split option.split
      intro!: traced_bind wrk_frames wrk_metrics wrk_gauges traced_computeRetryDelay traced_calls)

end

context scanner_env
begin

lemma traced_scans:
  "traced (sc_notifications s) rows (retry_scanDue s)" "traced (sc_notifications s) rows (schedule_scanDue s)"
proof -
  have pub: "traced (sc_notifications s) rows (pub_Publish (sc_publisher s) q m)" for q m
    by (rule traced_keeps, simp add: keeps_wp, rule allI, rule wp_mono [OF Publish_law], simp)
  show "traced (sc_notifications s) rows (retry_scanDue s)" "traced (sc_notifications s) rows (schedule_scanDue s)"
    unfolding retry_scanDue_def schedule_scanDue_def retry_one_def schedule_one_def Let_def
    by (auto split: sum.split option.split intro!: traced_bind traced_calls traced_for_each pub)
qed

end

context system_env
begin

lemma shared_repo:
  "s_notifications (notificationService d) = notificationRepo d" "w_notifications (workerService d) = notificationRepo d"
  "sc_notifications (retryScanner d) = notificationRepo d" "sc_notifications (app_scheduler d) = notificationRepo d"
proof -
  have "notificationRepo d = NewGormNotificationRepo (x_rt X) (x_notifications X)"
    using wired unfolding wireDependencies_def Let_def by (auto split: sum.splits)
  with service_fields(1,4) NewRetryScanner_fields [OF service_fields(2)] NewScheduler_fields [OF service_fields(3)]
  show "s_notifications (notificationService d) = notificationRepo d" "w_notifications (workerService d) = notificationRepo d"
    "sc_notifications (retryScanner d) = notificationRepo d" "sc_notifications (app_scheduler d) = notificationRepo d"
    by simp_all
qed

lemmas sys_traced =
  service.traced_service_Create [unfolded shared_repo] service.traced_service_CreateBatch [unfolded shared_repo]
  service.traced_service_reads [unfolded shared_repo] worker.traced_processMessage [unfolded shared_repo]
  retry.traced_scans(1) [unfolded shared_repo] schedule.traced_scans(2) [unfolded shared_repo]

end

text \<open>
  C7: every operation of the wired program, whatever its arguments and however its collaborators
  answer, changes the notifications table only by the calls of \<open>db_step\<close>: each of its runs is a
  trace of the one repository that the services share.
\<close>

theorem operations_traced:
  assumes "system_env X tbl batch_tbl attempt_log posted posts gauge cfg d"
  shows "let repo = notificationRepo d; rows = (\<lambda>w. domain_rows (tbl w)) in
      traced repo rows (service_Create (notificationService d) (x_rt X) (Some n))
    \<and> traced repo rows (service_CreateBatch (notificationService d) (x_rt X) ns)
    \<and> traced repo rows (service_Cancel (notificationService d) k)
    \<and> traced repo rows (service_GetByID (notificationService d) k)
    \<and> traced repo rows (service_GetBatchSummary (notificationService d) k)
    \<and> traced repo rows (service_List (notificationService d) params)
    \<and> traced repo rows (processMessage (workerService d) (x_rt X) msg)
    \<and> traced repo rows (retry_scanDue (retryScanner d))
    \<and> traced repo rows (schedule_scanDue (app_scheduler d))"
  unfolding Let_def by (intro conjI system_env.sys_traced [OF assms])

section \<open>A claimed notification is out of reach\<close>

context system_env
begin

lemma untouched_update:
  assumes "R k = Some n" "\<not> claimable n" and "R' = R \<or> (\<exists>x. R j = Some x \<and> claimable x) \<and> updated_row R R' j f"
  shows "R' k = Some n"
  using assms by (auto simp: updated_row_def)

lemma Cancel_untouched:
  assumes n: "sys_rows w k = Some n" "\<not> claimable n"
  shows "wp (service_Cancel (notificationService d) j) (\<lambda>_ w'. sys_rows w' k = Some n) w"
proof (cases "TrimSpace j = []")
  case False
  then show ?thesis
    unfolding service_Cancel_def
    by (simp, intro wp_mono [OF service.Cancel_law])
       (rule untouched_update [where R = "sys_rows w", OF n], auto simp: Let_def split: option.splits if_splits)
qed (simp add: service_Cancel_def n)

lemma scans_untouched:
  assumes n: "sys_rows w k = Some n" "Status n = StatusSending"
  shows "wp (retry_scanDue (retryScanner d)) (\<lambda>_ w'. sys_rows w' k = Some n) w"
    and "wp (schedule_scanDue (app_scheduler d)) (\<lambda>_ w'. sys_rows w' k = Some n) w"
proof -
  have idle: "sys_rows w' k = Some n"
    if "due_batch P le lim (sys_rows w) due" "handed_over f due l (sys_rows w) (sys_rows w')" "\<not> P n" for w' P le lim due l f
    using that n(1) unfolding due_batch_def handed_over_def by (metis option.sel)
  have limits: "0 \<le> sc_limit (retryScanner d)" "0 \<le> sc_limit (app_scheduler d)"
    using NewRetryScanner_limit [OF service_fields(2)] NewScheduler_limit [OF service_fields(3)] by simp_all
  have not_due: "\<not> retry_due now n" "\<not> schedule_due now n" for now
    using n(2) by (simp_all add: retry_due_def schedule_due_def)
  show "wp (retry_scanDue (retryScanner d)) (\<lambda>_ w'. sys_rows w' k = Some n) w"
    by (rule wp_mono [OF retry.retry_scan_wp [OF limits(1)]])
       (use n not_due in \<open>auto split: option.splits intro: idle\<close>)
  show "wp (schedule_scanDue (app_scheduler d)) (\<lambda>_ w'. sys_rows w' k = Some n) w"
    by (rule wp_mono [OF schedule.schedule_scan_wp [OF limits(2)]])
       (use n not_due in \<open>auto split: option.splits intro: idle\<close>)
qed

lemma delivery_untouched:
  assumes n: "sys_rows w k = Some n" "\<not> claimable n"
  shows "wp (processMessage (workerService d) (x_rt X) msg) (\<lambda>r w'. sys_rows w' k = Some n
     \<and> (if msg_NotificationID msg = k then posts w' = posts w else True)) w"
proof (rule wp_mono [OF worker.processMessage_wp], goal_cases)
  case (1 r w')
  show ?case
  proof (cases "msg_NotificationID msg = k")
    case False
    have "sys_rows w' k = sys_rows w k"
      if "delivery_spec (w_provider (workerService d)) (m\<lparr>Status := StatusSending, UpdatedAt := u\<rparr>) (sys_rows w) A
            (sys_rows w') A' r" "sys_rows w (msg_NotificationID msg) = Some m" for m u A A'
      using delivery_spec_frame [OF that(1)] worker.rows_keyed [OF that(2)] False by auto
    with 1 False n show ?thesis by (auto split: option.splits if_splits)
  qed (use 1 n in simp)
qed

lemma Create_untouched:
  assumes n: "sys_rows w k = Some n"
  shows "wp (service_Create (notificationService d) (x_rt X) (Some m)) (\<lambda>_ w'. sys_rows w' k = Some n) w"
    and "wp (service_CreateBatch (notificationService d) (x_rt X) ms) (\<lambda>_ w'. sys_rows w' k = Some n) w"
proof -
  have "R' k = Some n" if "create_spec m R R' l r" "R k = Some n" for R R' l r
    using that by (auto simp: create_spec_def inserted_def split: sum.splits if_splits)
  then show "wp (service_Create (notificationService d) (x_rt X) (Some m)) (\<lambda>_ w'. sys_rows w' k = Some n) w"
    using n by (intro wp_mono [OF service.Create_wp]) blast
  show "wp (service_CreateBatch (notificationService d) (x_rt X) ms) (\<lambda>_ w'. sys_rows w' k = Some n) w"
    by (rule wp_mono [OF service.CreateBatch_wp]) (use n in \<open>auto simp: batch_spec_def\<close>)
qed

end


end
