(* ===== verification/Witnesses.thy ===== *)
theory Witnesses
  imports Reference_Process Handler_Correctness Lifecycle
begin

text \<open>
  The properties of the components applied in the world of \<open>Reference_World\<close>, to the program as it
  is wired there: each hypothesis is discharged for concrete definitions.
\<close>

section \<open>Inputs\<close>

definition ref_request :: notification where
  "ref_request = \<lparr>ID = ''n1'', CorrelationID = ''c1'', IdempotencyKey = Some ''k1'', BatchID = None,
     Channel = ChannelSMS, Priority = PriorityHigh, Recipient = ''bob'', Content = ''hi'',
     Status = [], ProviderMessageID = None, AttemptCount = 0, MaxRetries = 0, ScheduledAt = None,
     NextRetryAt = None, CreatedAt = zero_time, UpdatedAt = zero_time\<rparr>"

definition ref_stored :: notification where
  "ref_stored = ref_request\<lparr>Status := StatusQueued, MaxRetries := 5, NextRetryAt := Some 0,
     CreatedAt := 0, UpdatedAt := 0\<rparr>"

definition ref_busy :: ref_world where
  "ref_busy = ref_start\<lparr>rw_notifications := [notification_to_model ref_stored]\<rparr>"

lemma ref_busy_rows: "domain_rows (ref_tbl ref_busy) = [''n1'' \<mapsto> ref_stored]"
  by (simp add: fun_eq_iff domain_rows_def ref_busy_def ref_stored_def ref_request_def rows_map_def clash_def
      notification_to_model_def model_to_notification_def Let_def)

lemma ref_stored_simps [simp]:
  "Status ref_stored = StatusQueued" "msg_NotificationID (message_of ref_stored) = ''n1''"
  "IdempotencyKey ref_stored = Some ''k1''" "ID ref_stored = ''n1''"
  by (simp_all add: message_of_def ref_stored_def ref_request_def)

lemma ref_published: "map (map_prod id published_message) (rw_log ref_start) = []"
  by (simp add: ref_start_def)

lemmas ref_env [unfolded ref_X_simps] =
  ref.service.service_env_axioms ref.worker.worker_env_axioms ref.retry.scanner_env_axioms
  ref.schedule.scanner_env_axioms ref.notif.gorm_notifications_axioms ref.limiter.limiter_env_axioms

lemmas ref_fields [unfolded ref_X_simps] = ref.service_fields

section \<open>Service\<close>


theorem Create_idempotent_witness:
  "wp (service_Create (notificationService ref_deps) ref_rt (Some ref_request)) (\<lambda>r w'.
     domain_rows (ref_tbl w') = [''n1'' \<mapsto> ref_stored]
     \<and> map (map_prod id published_message) (rw_log w') = map (map_prod id published_message) (rw_log ref_busy)
     \<and> (case r of Inr y \<Rightarrow> y = ref_stored | Inl e \<Rightarrow> True)) ref_busy"
proof -
  have "normalizeOptionalString (IdempotencyKey ref_request) = Some ''k1''" by code_simp
  then show ?thesis
    using Create_idempotent [OF ref_env(1), of ref_busy "''n1''" ref_stored "''k1''" ref_request]
    by (simp add: ref_busy_rows)
qed


section \<open>Worker\<close>

theorem processMessage_settles_witness:
  "wp (processMessage (workerService ref_deps) ref_rt (message_of ref_stored)) (\<lambda>r w'.
     if r = None
     then settled_delivery (w_provider (workerService ref_deps)) ref_stored [''n1'' \<mapsto> ref_stored]
       (map attempt_to_domain (ref_attempt_log ref_busy)) (domain_rows (ref_tbl w'))
       (map attempt_to_domain (ref_attempt_log w'))
     else True) ref_busy"
  using processMessage_settles [OF ref_env(2), of "message_of ref_stored" ref_busy]
  by (simp only: ref_busy_rows) simp

theorem processMessage_safe_witness:
  "wp (processMessage (workerService ref_deps) ref_rt (message_of ref_stored)) (\<lambda>r w'.
     length (rw_posts w') \<le> 1 \<and> rw_gauge w' = rw_gauge ref_busy) ref_busy"
  using processMessage_safe [OF ref_env(2), of "message_of ref_stored" ref_busy]
  by (elim wp_mono) (auto simp: ref_busy_def ref_start_def)

theorem computeRetryDelay_bounds_witness:
  "wp (computeRetryDelay (workerService ref_deps) 3) (\<lambda>delay _. \<exists>jitter. 0 \<le> jitter \<and> jitter \<le> 250 \<and>
     delay = 4 * 10 ^ 9 + jitter * 10 ^ 6) ref_start"
proof -
  have "wp (f 251) (\<lambda>i _. 0 \<le> i \<and> i < 251) w" if "w_randIntn (workerService ref_deps) = Some f" for f w
    using that ref_fields(8) by (auto simp: ref_rt_def)
  then show ?thesis
    using computeRetryDelay_bounds [of "workerService ref_deps" 3 ref_start] by simp
qed

section \<open>Scanners\<close>



section \<open>Repository\<close>

definition ref_params :: list_params where
  "ref_params = \<lparr>lp_Status = Some StatusQueued, lp_Channel = None, lp_From = None, lp_To = None, lp_Page = 1, lp_PageSize = 10\<rparr>"

section \<open>Provider, queue, rate limiter\<close>

definition ref_webhook :: "ref_world webhook_site_provider" where
  "ref_webhook = \<lparr>ws_client = Some ref_resty, ws_endpoint = ''http://peer''\<rparr>"

theorem Send_classification_witness:
  "\<exists>resp err w1. run_state (webhook_Send (Some ref_webhook) ref_stored) ref_start = ((resp, err), w1)
     \<and> err = None \<and> resp \<noteq> None \<and> \<not> IsTransient err"
proof -
  have "Validate ref_stored = None" by code_simp
  from Send_classification [OF this, of ref_webhook ref_resty ref_start "Inr (Some ref_answer)"]
  show ?thesis
    by (auto simp: ref_webhook_def ref_resty_def ref_start_def ref_answer_def)
qed

lemma ref_message_valid: "message_Validate (message_of ref_stored) = None"
  "valid_utf8 (msg_NotificationID (message_of ref_stored))" "valid_utf8 (msg_CorrelationID (message_of ref_stored))"
  by code_simp+

theorem message_roundtrip_witness:
  "\<exists>payload. message_Marshal (message_of ref_stored) = Inr payload
     \<and> message_Unmarshal (pub_Body (make_publishing (message_of ref_stored) 0 payload)) = Inr (message_of ref_stored)"
  using message_roundtrip [OF ref_message_valid, of 0] by blast

theorem handleDelivery_settles_once_witness:
  "wp (handleDelivery ref_ack \<lparr>d_Body = projr (message_Marshal (message_of ref_stored)), d_RoutingKey = ''sms''\<rparr>
        (\<lambda>_. State_Monad.return None))
     (\<lambda>r w'. rw_settled w' = [Acked False]) ref_start"
proof -
  have "message_Unmarshal (projr (message_Marshal (message_of ref_stored))) = Inr (message_of ref_stored)"
    using message_roundtrip_valid [OF ref_message_valid(1)] ref_message_valid
    by (simp add: message_Marshal_def sanitize_valid)
  with ref_message_valid(1) show ?thesis
    using handleDelivery_settles_once [OF ref_settle.acknowledger_laws_axioms,
        of "\<lparr>d_Body = projr (message_Marshal (message_of ref_stored)), d_RoutingKey = ''sms''\<rparr>"
        "\<lambda>_. State_Monad.return None" ref_start]
    by (simp add: ref_start_def)
qed

theorem declareTopology_complete_witness:
  "wp (declareTopology ref_amqp ()) (\<lambda>r w'. \<exists>post. topology = rw_declared w' @ post) ref_start"
proof -
  have "rw_declared ref_start = []" by (simp add: ref_start_def)
  from declareTopology_complete [OF ref_topology.topology_laws_axioms this] show ?thesis
    by (rule wp_mono) blast
qed

definition ref_publication :: "(go_error option \<times> unit option \<times> ref_world) option" where
  "ref_publication = rabbit_Publish ref_amqp ref_rt (Some ''amqp://broker'') ''sms''
     (message_of ref_stored) None ref_start"

theorem Publish_at_most_once_witness:
  "case ref_publication of
     Some (r, conn, w') \<Rightarrow> r = None \<and> rw_posts w' = rw_posts ref_start \<and> length (rw_log w') = 1
   | None \<Rightarrow> False"
proof -
  have "case ref_publication of Some (r, conn, w') \<Rightarrow> r = None | None \<Rightarrow> False" by code_simp
  then obtain conn w' where run: "ref_publication = Some (None, conn, w')"
    by (auto split: option.splits)
  from Publish_at_most_once [OF ref_broker_laws run [unfolded ref_publication_def]]
  show ?thesis by (auto simp: run ref_start_def)
qed

theorem Allow_respects_limit_witness:
  "wp (allow_many ref.sys_limiter ''sms'' 300) (\<lambda>rs w'.
     if rw_time w' div 10 ^ 9 = rw_time ref_start div 10 ^ 9 then allowed_count rs \<le> 100 else True) ref_start"
proof -
  have "ToLower (TrimSpace ''sms'') \<noteq> []" by code_simp
  from Allow_respects_limit [OF ref.limiter.limiter_env_axioms this, of 300 ref_start]
  show ?thesis by (simp add: ref_cfg_def)
qed

section \<open>Endpoints\<close>

definition ref_handler :: "ref_world notification_handler" where
  "ref_handler = \<lparr>nh_service = service_api (notificationService ref_deps) ref_rt\<rparr>"

definition ref_ctx :: fiber_ctx where
  "ref_ctx = \<lparr>c_Body = [], c_Params = (\<lambda>k. if k = ''id'' then '' n1 '' else ''b1''), c_Query = (\<lambda>_. []),
     c_QueryInt = (\<lambda>_ d. d), c_Get = (\<lambda>_. []), c_Locals = (\<lambda>_. None)\<rparr>"

definition ref_body :: "create_notification_request" where
  "ref_body = \<lparr>cr_CorrelationID = [], cr_IdempotencyKey = None, cr_Channel = ''sms'', cr_Priority = ''high'',
     cr_Recipient = ''bob'', cr_Content = ''hi'', cr_MaxRetries = None, cr_ScheduledAt = Some ''soon''\<rparr>"

lemma ref_ctx_ids: "TrimSpace (c_Params ref_ctx ''id'') = ''n1''" "TrimSpace (c_Params ref_ctx ''batchId'') = ''b1''"
  by (code_simp)+




theorem GetBatchSummary_endpoint_witness:
  "wp (respond (handler_GetBatchSummary ref_handler ref_ctx)) (\<lambda>reply w'.
     domain_rows (ref_tbl w') = [''n1'' \<mapsto> ref_stored] \<and> h_Status reply \<in> {404, 500}) ref_busy"
proof -
  have "domain_batches (ref_batch_tbl ref_busy) ''b1'' = None"
    by (simp add: domain_batches_def ref_busy_def ref_start_def rows_map_def)
  then show ?thesis
    unfolding ref_handler_def
    by (intro wp_mono [OF GetBatchSummary_endpoint [OF ref_env(1)]])
       (auto simp: ref_ctx_ids ref_busy_rows Let_def split: if_splits)
qed


theorem RFC3339_roundtrip_witness:
  "parseOptionalRFC3339 (Some ''2024-02-29T23:59:59Z'') ''scheduledAt'' = Inr (Some (instant 2024 2 29 23 59 59 0))
   \<and> parseRFC3339Query ''2024-02-29T23:59:59Z'' ''from'' = Inr (Some (instant 2024 2 29 23 59 59 0))"
proof -
  have canon: "format_RFC3339 2024 2 29 23 59 59 = ''2024-02-29T23:59:59Z''"
    and valid: "valid_date_time 2024 2 29 23 59 59" by (code_simp)+
  from RFC3339_roundtrip [OF valid] show ?thesis by (simp only: canon simp_thms)
qed

section \<open>Lifecycle and composition\<close>

abbreviation ref_repo :: "ref_world notification_repository" where
  "ref_repo \<equiv> NewGormNotificationRepo ref_rt ref_notifications"

abbreviation ref_rows :: "ref_world \<Rightarrow> (string \<rightharpoonup> notification)" where
  "ref_rows w \<equiv> domain_rows (ref_tbl w)"

lemmas ref_system [unfolded ref_X_simps] = ref.system_env_axioms

definition ref_claimed :: ref_world where
  "ref_claimed = snd (run_state (nr_LockForSending ref_repo ''n1'') ref_busy)"

lemma ref_claim_trace: "trace ref_repo ref_rows [CallLock ''n1'' True] ref_busy ref_claimed"
proof -
  have "is_claim (fst (run_state (nr_LockForSending ref_repo ''n1'') ref_busy))" by code_simp
  then show ?thesis
    using db_step.lock [of ref_repo "''n1''" ref_busy "fst (run_state (nr_LockForSending ref_repo ''n1'') ref_busy)" ref_claimed ref_rows]
    by (simp add: ref_claimed_def trace_single)
qed

theorem lifecycle_invariant_witness:
  "sound_rows (ref_rows ref_claimed) \<and> (\<exists>n'. ref_rows ref_claimed ''n1'' = Some n' \<and> older ref_stored n')"
proof -
  have "Validate ref_stored = None" by code_simp
  moreover have "0 < MaxRetries ref_stored" "AttemptCount ref_stored = 0" by (simp_all add: ref_stored_def ref_request_def)
  ultimately have "sound_rows (ref_rows ref_busy)"
    by (simp add: sound_rows_def ref_busy_rows Status_IsValid_def)
  from lifecycle_invariant [OF ref_env(5) ref_claim_trace this] show ?thesis
    by (simp add: ref_busy_rows)
qed

definition ref_requeued :: ref_world where
  "ref_requeued = snd (run_state (nr_UpdateStatusWithRetry ref_repo ''n1'' StatusQueued 5) ref_claimed)"

definition ref_reclaimed :: ref_world where
  "ref_reclaimed = snd (run_state (nr_LockForSending ref_repo ''n1'') ref_requeued)"

theorem claims_exclusive_witness:
  "trace ref_repo ref_rows (CallLock ''n1'' True # [CallRetry ''n1'' 5] @ [CallLock ''n1'' True]) ref_busy ref_reclaimed
   \<and> (\<exists>c\<in>set [CallRetry ''n1'' 5]. requeues ''n1'' c)"
proof -
  have claim: "is_claim (fst (run_state (nr_LockForSending ref_repo ''n1'') ref_requeued))" by code_simp
  have requeued: "trace ref_repo ref_rows [CallRetry ''n1'' 5] ref_claimed ref_requeued"
    by (rule trace_single, rule db_step.retry, unfold ref_requeued_def, rule prod.collapse [symmetric])
  have again: "trace ref_repo ref_rows [CallLock ''n1'' True] ref_requeued ref_reclaimed"
    using claim db_step.lock [of ref_repo "''n1''" ref_requeued "fst (run_state (nr_LockForSending ref_repo ''n1'') ref_requeued)" ref_reclaimed ref_rows]
    by (simp add: ref_reclaimed_def trace_single)
  have run: "trace ref_repo ref_rows (CallLock ''n1'' True # [CallRetry ''n1'' 5] @ [CallLock ''n1'' True]) ref_busy ref_reclaimed"
    using trace_append [OF trace_append [OF ref_claim_trace requeued] again] by simp
  from run claims_exclusive [OF ref_env(5) run] show ?thesis by blast
qed

theorem operations_traced_witness:
  "traced (notificationRepo ref_deps) ref_rows (processMessage (workerService ref_deps) ref_rt (message_of ref_stored))"
  using operations_traced [OF ref_system] by (simp add: Let_def)

theorem gorm_refines_contract_witness: "notification_repository_laws ref_repo ref_rows"
  by (rule gorm_refines_contract [OF ref_env(5)])

theorem system_refines_contracts_witness:
  "wireDependencies ref_cfg ref_X = Inr ref_deps
   \<and> worker_env (workerService ref_deps) ref_rows ref_rt rw_posts (\<lambda>w. map attempt_to_domain (ref_attempt_log w)) rw_gauge"
  using system_refines_contracts [OF ref.system_env_axioms] by (simp add: ref_X_simps)

definition ref_sending :: ref_world where
  "ref_sending = ref_start\<lparr>rw_notifications := [notification_to_model (ref_stored\<lparr>Status := StatusSending\<rparr>)]\<rparr>"

lemma ref_sending_row: "ref_rows ref_sending ''n1'' = Some (ref_stored\<lparr>Status := StatusSending\<rparr>)"
  by (simp add: domain_rows_def ref_sending_def rows_map_def clash_def Let_def)


section \<open>Start-up\<close>

definition ref_worker :: "ref_world worker_service" where
  "ref_worker = workerService ref_deps"

lemma ref_worker_concurrency: "w_concurrency ref_worker = 16"
  using wireDependencies_fields(9) [OF ref_wired] by (simp add: ref_worker_def ref_cfg_def)


lemma ref_schema_new: "set (rw_applied ref_start) = {}" "no_name_clash (rw_schema ref_start)"
  by (simp_all add: ref_start_def no_name_clash_def)

theorem migrations_establish_schema_witness:
  "wp (migrations_Run ref_Migrate) (\<lambda>r w'. case r of
       Some e \<Rightarrow> True
     | None \<Rightarrow> has_columns (rw_schema w') notification_TableName notification_columns
         \<and> has_columns (rw_schema w') attempt_TableName attempt_columns
         \<and> has_columns (rw_schema w') batch_TableName batch_columns
         \<and> set program_indexes \<subseteq> set (sch_Indexes (rw_schema w'))
         \<and> \<lparr>ix_Unique = True, ix_Name = ''idx_notifications_idempotency_key'', ix_Table = ''notifications'',
             ix_Columns = [''idempotency_key''], ix_Where = Some ''idempotency_key IS NOT NULL''\<rparr>
             \<in> set (sch_Indexes (rw_schema w'))) ref_start"
  by (rule migrations_establish_schema [OF ref_migration.migration_env_axioms ref_schema_new])

theorem rollback_loses_column_witness:
  "wp (mg_Migrate createNotificationsTable ref_tx) (\<lambda>r w'. case r of
        None \<Rightarrow> (case sch_Tables (rw_schema w') ''notifications'' of None \<Rightarrow> False | Some cs \<Rightarrow> ''scheduled_at'' \<in> set cs)
      | Some e \<Rightarrow> True) ref_start
   \<and> wp (do { a \<leftarrow> mg_Migrate addNotificationsScheduledAtColumn ref_tx;
              b \<leftarrow> mg_Rollback addNotificationsScheduledAtColumn ref_tx;
              State_Monad.return (a, b) })
        (\<lambda>(a, b) w'. if a = None \<and> b = None
           then (case sch_Tables (rw_schema w') ''notifications'' of None \<Rightarrow> True | Some cs \<Rightarrow> \<not> ''scheduled_at'' \<in> set cs)
           else True) ref_start"
  by (rule rollback_loses_column [OF ref_schema.schema_laws_axioms])

definition ref_long :: notification where
  "ref_long = ref_stored\<lparr>CorrelationID := replicate 37 (CHR ''a'')\<rparr>"

lemma ref_long_valid: "Validate ref_long = None" "Status_IsValid (Status ref_long)" "rune_count (CorrelationID ref_long) = 37"
  by code_simp+


lemma exec_ok: "d \<in> set program_ddl \<Longrightarrow> wp (tx_Exec ref_tx (ddl_sql d)) (\<lambda>r _. r = None) w"
  by (simp add: ref_tx_def wp_def find_printed)

lemma exec_all_ok: "set ds \<subseteq> set program_ddl \<Longrightarrow> wp (exec_all ref_tx (map ddl_sql ds)) (\<lambda>r _. r = None) w"
proof (induction ds arbitrary: w)
  case (Cons d ds)
  then have "d \<in> set program_ddl" "set ds \<subseteq> set program_ddl" by simp_all
  then show ?case
    unfolding list.map exec_all.simps wp_bind
    by (intro wp_mono [OF exec_ok]) (auto intro: Cons.IH)
qed simp

lemma automigrate_ok: "wp (tx_AutoMigrate ref_tx t cs) (\<lambda>r _. r = None) w"
  by (simp add: ref_tx_def wp_def)

lemma ref_migrates: "wp (ref_Migrate Migrations) (\<lambda>r _. r = None) ref_start"
proof -
  have "wp (run_pending ref_tx {} Migrations) (\<lambda>r _. r = None) ref_start"
    by (auto simp: Migrations_def createNotificationsTable_def createNotificationsAttemptsTable_def createBatchesTable_def
        addNotificationsScheduledAtColumn_def statements_printed
        intro!: wp_mono [OF automigrate_ok] wp_mono [OF exec_all_ok] wp_mono [OF exec_ok] ref_schema.in_program)
  then show ?thesis by (auto simp: ref_Migrate_def wp_def ref_start_def split: prod.splits)
qed

lemma ref_connects: "\<exists>conn w'. NewRabbitMQ ref_amqp ''amqp://broker'' w = Some (Inr ''amqp://broker'', conn, w')"
proof -
  have "TrimSpace ''amqp://broker'' = ''amqp://broker''" by code_simp
  then show ?thesis
    by (simp add: NewRabbitMQ_def ensureConnected_def reconnectWithBackoff_def is_open_def reconnect_loop.simps
        ref_amqp_def close_old_def)
qed

lemma ref_built: "\<exists>app. run_state (main_build ref_process ref_cfg () () ()) w = (Inr (app, ref_deps), w)"
proof -
  have "main_externals ref_process () () ref_prometheus = ref_X"
    by (simp add: main_externals_def ref_process_def ref_X_def)
  moreover have "run_state (NewMetrics ref_prometheus_lib) w = (Some ((), ref_prometheus), w)"
    by (simp add: NewMetrics_def ref_prometheus_lib_def metric_vectors_def)
  ultimately show ?thesis
    by (simp add: main_build_def Let_def ref_wired RegisterNotificationRoutes_def NewNotificationHandler_def
        ref_process_def split: prod.split)
qed

lemma ref_main_returns: "\<exists>w'. main ref_process ref_start = Some (Stopped, w')"
proof -
  obtain w1 where w1: "run_state (migrations_Run ref_Migrate) ref_start = (None, w1)"
    using ref_migrates by (auto simp: wp_def migrations_Run_def split: prod.splits)
  have s: "run_state (main_storage ref_process) ref_start = (Inr (ref_cfg, ref_logger, (), (), ()), w1)"
    by (simp add: main_storage_def ref_process_def config_Load_def NewLogger_def parseLevel_def NewPostgres_def NewRedis_def
        ref_gorm_def ref_redis_driver_def Let_def w1)
  obtain conn w2 where w2: "NewRabbitMQ ref_amqp ''amqp://broker'' w1 = Some (Inr ''amqp://broker'', conn, w2)"
    using ref_connects by blast
  have built: "p_Build ref_process zc = Inr ref_logger" for zc by (simp add: ref_process_def)
  obtain app where app: "run_state (main_build ref_process ref_cfg () () ()) (x_put_conn ref_X conn w2) = (Inr (app, ref_deps), x_put_conn ref_X conn w2)"
    using ref_built by blast
  obtain r w3 where r: "run_state (main_run ref_process ref_cfg ref_logger () () app ref_deps) (x_put_conn ref_X conn w2) = (r, w3)"
    by fastforce
  with wpD [OF ref_main.run_wp [OF built]] have "r = Stopped" by blast
  moreover have "x_amqp (p_X ref_process) = ref_amqp" "RabbitMQURL ref_cfg = ''amqp://broker''" "p_X ref_process = ref_X"
    by (simp_all add: ref_process_def ref_X_def ref_cfg_def)
  ultimately show ?thesis
    using r app by (simp add: main_def s w2)
qed


theorem main_build_routes_witness:
  "\<exists>app w registry metrics h. wireDependencies ref_cfg (main_externals ref_process () () metrics) = Inr ref_deps
     \<and> h = \<lparr>nh_service = service_api (notificationService ref_deps) (x_rt (p_X ref_process))\<rparr>
     \<and> run_state (main_build ref_process ref_cfg () () ()) ref_start = (Inr (app, ref_deps), w)
     \<and> app =
        [(''GET'', ''/metrics'', p_promhttp_HandlerFor ref_process registry),
         (''GET'', ''/livez'', \<lambda>c. State_Monad.return LivezHandler),
         (''GET'', ''/readyz'', \<lambda>c. ReadyzHandler (gd_Ping (p_gorm ref_process) ()) (rd_Ping (p_redis ref_process) ())),
         (''POST'', ''/v1/notifications'', CreateNotification (p_BodyParser ref_process) h),
         (''POST'', ''/v1/notifications/batch'', handler_CreateBatch (p_BatchParser ref_process) h),
         (''GET'', ''/v1/notifications/:id'', GetNotification h),
         (''POST'', ''/v1/notifications/:id/cancel'', CancelNotification h),
         (''GET'', ''/v1/notifications'', ListNotifications h),
         (''GET'', ''/v1/batches/:batchId'', handler_GetBatchSummary h)]"
proof -
  obtain app where app: "run_state (main_build ref_process ref_cfg () () ()) ref_start = (Inr (app, ref_deps), ref_start)"
    using ref_built by blast
  have "fiber_laws (p_fiber ref_process) (\<lambda>app. app)" using ref_fiber.fiber_laws_axioms by (simp add: ref_process_def)
  from main_build_routes [OF this app] app show ?thesis by blast
qed

end
