(* ===== verification/Races.thy ===== *)
theory Races
  imports Witnesses
begin

text \<open>
  Two interleavings, run in the world of \<open>Reference_World\<close>, in which the program does not do what
  it means to. Each splits an operation at a point between two of its statements (the operation is
  the composition of the two halves) and lets another process run there.
\<close>

section \<open>Cancelling between publishing and marking\<close>

text \<open>\<open>Create\<close> up to and including \<open>Publish\<close>: a final result, or the stored notification and the
  result of publishing it; and the rest of \<open>Create\<close>.\<close>

definition create_begin ::
  "'w notification_service \<Rightarrow> 'w runtime \<Rightarrow> notification option
     \<Rightarrow> ('w, (go_error + notification) + notification \<times> go_error option) state" where
  "create_begin s rt n = do {
     prepared \<leftarrow> prepareNotificationForCreate rt n None;
     (case prepared of
        Inl err \<Rightarrow> State_Monad.return (Inl (Inl err))
      | Inr notification \<Rightarrow> do {
          r \<leftarrow> nr_Create (s_notifications s) (Some notification);
          (case r of
             Inl err \<Rightarrow> do {
               resolution \<leftarrow> resolveIdempotencyConflict s err (IdempotencyKey notification);
               State_Monad.return (Inl (case resolution of
                   Inl resolveErr \<Rightarrow> Inl resolveErr
                 | Inr (Some existing) \<Rightarrow> Inr existing
                 | Inr None \<Rightarrow> Inl err))
             }
           | Inr stored \<Rightarrow> do {
               let notification = (case stored of Some n' \<Rightarrow> n' | None \<Rightarrow> notification);
               now \<leftarrow> time_Now rt;
               (if \<not> shouldEnqueueImmediately (ScheduledAt notification) now
                then State_Monad.return (Inl (Inr notification))
                else do {
                  published \<leftarrow> pub_Publish (s_publisher s) (QueueName (Channel notification)) (message_of notification);
                  State_Monad.return (Inr (notification, published))
                })
             })
        })
   }"

definition create_finish ::
  "'w notification_service \<Rightarrow> (go_error + notification) + notification \<times> go_error option
     \<Rightarrow> ('w, go_error + notification) state" where
  "create_finish s x =
     (case x of
        Inl r \<Rightarrow> State_Monad.return r
      | Inr (notification, Some err) \<Rightarrow> do {
          updated \<leftarrow> nr_UpdateStatus (s_notifications s) (ID notification) StatusFailed;
          State_Monad.return (case updated of
              Some updateErr \<Rightarrow>
                Inl (Wrap ''failed to publish notification: '' err
                       ('' (failed to mark as failed: '' @ Error updateErr @ '')''))
            | None \<Rightarrow> Inl (Wrap ''failed to publish notification: '' err []))
        }
      | Inr (notification, None) \<Rightarrow> do {
          updated \<leftarrow> nr_UpdateStatus (s_notifications s) (ID notification) StatusQueued;
          State_Monad.return (case updated of
              Some err \<Rightarrow> Inl (Wrap ''failed to update notification status to queued: '' err [])
            | None \<Rightarrow> Inr (notification\<lparr>Status := StatusQueued\<rparr>))
        })"

lemma bind_eqI: "(\<And>a. f a = g a) \<Longrightarrow> State_Monad.bind m f = State_Monad.bind m g"
  by presburger

lemma Create_split: "service_Create s rt n = State_Monad.bind (create_begin s rt n) (create_finish s)"
  unfolding service_Create_def create_begin_def enqueue_created_def Let_def bind_assoc
  by (auto simp: create_finish_def split: sum.split option.split intro!: bind_eqI)

definition race_cancel ::
  "(ref_world, go_error option \<times> (go_error + notification) \<times> go_error option) state" where
  "race_cancel = do {
     x \<leftarrow> create_begin (notificationService ref_deps) ref_rt (Some ref_request);
     canceled \<leftarrow> service_Cancel (notificationService ref_deps) ''n1'';
     created \<leftarrow> create_finish (notificationService ref_deps) x;
     delivered \<leftarrow> processMessage (workerService ref_deps) ref_rt (message_of ref_request);
     State_Monad.return (canceled, created, delivered)
   }"


section \<open>Failing again between publishing and clearing\<close>

text \<open>\<open>retry_one\<close> after its \<open>Publish\<close>.\<close>

definition retry_finish :: "'w scanner \<Rightarrow> notification \<Rightarrow> go_error option \<Rightarrow> ('w, unit) state" where
  "retry_finish s notification published =
     (case published of
        Some err \<Rightarrow> State_Monad.return ()
      | None \<Rightarrow> do {
          _ \<leftarrow> nr_ClearNextRetryAt (sc_notifications s) (ID notification);
          State_Monad.return ()
        })"

lemma retry_split:
  "retry_one s n = State_Monad.bind (pub_Publish (sc_publisher s) (QueueName (Channel n)) (message_of n)) (retry_finish s n)"
  unfolding retry_one_def retry_finish_def message_of_def Let_def by (rule bind_eqI) simp

text \<open>The peer answers once with 503.\<close>

definition ref_unavailable :: ref_world where
  "ref_unavailable = ref_busy\<lparr>rw_answers := [Inr (Some (ref_answer\<lparr>hr_StatusCode := 503\<rparr>))]\<rparr>"

definition race_retry :: "(ref_world, go_error option \<times> go_error option) state" where
  "race_retry = do {
     published \<leftarrow> pub_Publish (sc_publisher (retryScanner ref_deps)) (QueueName (Channel ref_stored)) (message_of ref_stored);
     delivered \<leftarrow> processMessage (workerService ref_deps) ref_rt (message_of ref_stored);
     retry_finish (retryScanner ref_deps) ref_stored published;
     State_Monad.return (published, delivered)
   }"

lemma never_due: "Status n = StatusQueued \<Longrightarrow> NextRetryAt n = None \<Longrightarrow> \<not> retry_due now n \<and> \<not> schedule_due now n"
  by (simp add: retry_due_def schedule_due_def)

lemma race_retry_run:
  "case run_state race_retry ref_unavailable of ((published, delivered), w') \<Rightarrow>
     published = None \<and> delivered = None
     \<and> map (\<lambda>m. (m_ID m, m_Status m, m_NextRetryAt m, m_AttemptCount m)) (rw_notifications w') = [(''n1'', StatusQueued, None, 1)]"
  by code_simp


end
